(* ===== verification/Pack_Prelude.thy ===== *)
theory Pack_Prelude
  imports Main "HOL-Library.Word" "HOL-Library.Monad_Syntax"
begin

unbundle bit_operations_syntax

section \<open>Shared prelude\<close>

text \<open>
  What the components share: names for the C integer types, \<open>memcmp\<close> on byte lists and the
  big-endian byte image of an integer (the code compares identifiers with \<open>memcmp\<close>),
  option-valued iteration for the \<open>FOREACH\<close> loops, and generic facts about them.
\<close>

type_synonym u8 = "8 word"
type_synonym u16 = "16 word"
type_synonym u32 = "32 word"

named_theorems state_simps \<open>reading a store after an update of it\<close>

subsection \<open>memcmp and big-endian byte images\<close>

text \<open>
  The C library's \<open>memcmp\<close> over two byte arrays of one length. C fixes only the sign of the
  result; the model returns -1, 0 or 1.
\<close>

fun memcmp :: "u8 list \<Rightarrow> u8 list \<Rightarrow> int" where
  "memcmp (x # xs) (y # ys) = (if x = y then memcmp xs ys else if x < y then -1 else 1)"
| "memcmp _ _ = 0"

text \<open>The bytes of a natural number, most significant first, and their value.\<close>

fun nat_bytes :: "nat \<Rightarrow> nat \<Rightarrow> u8 list" where
  "nat_bytes 0 x = []"
| "nat_bytes (Suc n) x = nat_bytes n (x div 256) @ [of_nat x]"

fun be_val :: "u8 list \<Rightarrow> nat" where
  "be_val [] = 0"
| "be_val (b # bs) = unat b * 256 ^ length bs + be_val bs"

definition be_bytes :: "nat \<Rightarrow> 'a::len word \<Rightarrow> u8 list" where
  "be_bytes n w = nat_bytes n (unat w)"

subsection \<open>Loops that may fault\<close>

text \<open>A loop over a list whose body may have no result stops with no result.\<close>

fun ofold :: "('a \<Rightarrow> 's \<Rightarrow> 's option) \<Rightarrow> 'a list \<Rightarrow> 's \<Rightarrow> 's option" where
  "ofold f [] s = Some s"
| "ofold f (x # xs) s = Option.bind (f x s) (ofold f xs)"

subsection \<open>Lemmas\<close>

lemma length_nat_bytes [simp]: "length (nat_bytes n x) = n"
  by (induction n arbitrary: x) auto

lemma length_be_bytes [simp]: "length (be_bytes n w) = n"
  by (simp add: be_bytes_def)

lemma be_val_append: "be_val (xs @ ys) = be_val xs * 256 ^ length ys + be_val ys"
  by (induction xs) (auto simp: power_add algebra_simps)

lemma be_val_nat_bytes: "be_val (nat_bytes n x) = x mod 256 ^ n"
proof (induction n arbitrary: x)
  case 0
  then show ?case by simp
next
  case (Suc n)
  have "unat (of_nat x :: u8) = x mod 256"
    by (simp add: unat_of_nat)
  then have "be_val (nat_bytes (Suc n) x) = (x div 256) mod 256 ^ n * 256 + x mod 256"
    using Suc.IH by (simp add: be_val_append)
  also have "\<dots> = x mod (256 * 256 ^ n)"
    by (simp add: mod_mult2_eq)
  finally show ?case by simp
qed

lemma be_val_bound: "be_val xs < 256 ^ length xs"
proof (induction xs)
  case Nil
  then show ?case by simp
next
  case (Cons x xs)
  have "unat x < 256" using unsigned_less [of x] by simp
  then have "Suc (unat x) * 256 ^ length xs \<le> 256 * 256 ^ length xs"
    by (intro mult_le_mono1) simp
  then have "unat x * 256 ^ length xs + 256 ^ length xs \<le> 256 * 256 ^ length xs"
    by simp
  with Cons.IH have "unat x * 256 ^ length xs + be_val xs < 256 * 256 ^ length xs"
    by linarith
  then show ?case by simp
qed

lemma memcmp_be_val:
  "length xs = length ys \<Longrightarrow>
     (memcmp xs ys < 0 \<longleftrightarrow> be_val xs < be_val ys) \<and> (memcmp xs ys = 0 \<longleftrightarrow> be_val xs = be_val ys)"
proof (induction xs ys rule: list_induct2)
  case Nil
  then show ?case by simp
next
  case (Cons x xs y ys)
  have bounds: "be_val xs < 256 ^ length ys" "be_val ys < 256 ^ length ys"
    using be_val_bound [of xs] be_val_bound [of ys] Cons.hyps by simp_all
  have less: "be_val (a # as) < be_val (b # bs)"
    if "a < b" "length as = length bs" "be_val as < 256 ^ length bs" for a b as bs
  proof -
    from that(1) have "Suc (unat a) \<le> unat b" by (simp add: word_less_nat_alt)
    then have "Suc (unat a) * 256 ^ length bs \<le> unat b * 256 ^ length bs"
      by (rule mult_le_mono1)
    with that show ?thesis by simp
  qed
  consider "x = y" | "x < y" | "y < x" by (meson linorder_cases)
  then show ?case
  proof cases
    case 1
    with Cons show ?thesis by simp
  next
    case 2
    then have "x \<noteq> y" by simp
    with 2 less [of x y xs ys] Cons.hyps bounds show ?thesis by simp
  next
    case 3
    then have "x \<noteq> y" "\<not> x < y" by auto
    with 3 less [of y x ys xs] Cons.hyps bounds show ?thesis by simp
  qed
qed

lemma unat_bound: "unat (w :: 'a::len word) < 2 ^ LENGTH('a)"
  by (rule unsigned_less)

lemma unat_inc: "(c :: 'a::len word) < h \<Longrightarrow> unat (c + 1) = Suc (unat c)"
proof -
  assume "c < h"
  then have "unat c < unat h" by (simp add: word_less_nat_alt)
  with unat_bound [of h] have "Suc (unat c) < 2 ^ LENGTH('a)" by linarith
  then show ?thesis by (simp add: unat_word_ariths)
qed

lemma be_val_be_bytes:
  assumes "LENGTH('a) \<le> 8 * n"
  shows "be_val (be_bytes n (w :: 'a::len word)) = unat w"
proof -
  have "(2::nat) ^ LENGTH('a) \<le> 2 ^ (8 * n)" using assms by simp
  also have "\<dots> = 256 ^ n" by (simp add: power_mult)
  finally have "unat w < 256 ^ n" using unat_bound [of w] by linarith
  then show ?thesis by (simp add: be_bytes_def be_val_nat_bytes)
qed

lemma memcmp_range: "memcmp xs ys = -1 \<or> memcmp xs ys = 0 \<or> memcmp xs ys = 1"
  by (induction xs ys rule: memcmp.induct) auto

lemma ofold_append: "ofold f (xs @ ys) s = Option.bind (ofold f xs s) (ofold f ys)"
  by (induction xs arbitrary: s) (auto simp: Option.bind_eq_Some_conv split: Option.bind_splits)

lemma ofold_total:
  assumes "\<And>x s. x \<in> set xs \<Longrightarrow> I s \<Longrightarrow> \<exists>s'. f x s = Some s' \<and> I s'" and "I s"
  shows "\<exists>s'. ofold f xs s = Some s' \<and> I s'"
  using assms
proof (induction xs arbitrary: s)
  case Nil
  then show ?case by simp
next
  case (Cons x xs)
  from Cons.prems(1) [of x s] Cons.prems(2) obtain s' where "f x s = Some s'" "I s'" by auto
  moreover have "\<exists>s''. ofold f xs s' = Some s'' \<and> I s''"
    using Cons.IH [of s'] Cons.prems(1) \<open>I s'\<close> by auto
  ultimately show ?case by simp
qed

lemma ofold_inv:
  assumes "\<And>x s s'. x \<in> set xs \<Longrightarrow> I s \<Longrightarrow> f x s = Some s' \<Longrightarrow> I s'"
    and "ofold f xs s = Some s'" and "I s"
  shows "I s'"
  using assms
proof (induction xs arbitrary: s)
  case Nil
  then show ?case by simp
next
  case (Cons x xs)
  then obtain s1 where "f x s = Some s1" "ofold f xs s1 = Some s'"
    by (auto simp: Option.bind_eq_Some_conv)
  with Cons.prems(1) [of x s s1] Cons.prems(3) have "I s1" by auto
  with Cons.IH [of s1] Cons.prems(1) \<open>ofold f xs s1 = Some s'\<close> show ?case by auto
qed

lemma fold_inv:
  assumes "\<And>x s. x \<in> set xs \<Longrightarrow> I s \<Longrightarrow> I (f x s)" and "I s"
  shows "I (fold f xs s)"
  using assms by (induction xs arbitrary: s) auto

text \<open>
  A loop whose body for \<open>q\<close> writes only the row of \<open>q\<close> and keeps the context \<open>C\<close>: the row of
  \<open>p\<close> after the loop is the one its own iteration gives it.
\<close>

lemma fold_row_other:
  assumes "\<And>q s. q \<noteq> p \<Longrightarrow> R (g q s) = R s" and "p \<notin> set ps"
  shows "R (fold g ps s) = R s"
  using assms by (induction ps arbitrary: s) auto

lemma fold_row:
  assumes other: "\<And>q s. q \<noteq> p \<Longrightarrow> R (g q s) = R s" and ctx: "\<And>q s. C (g q s) = C s"
    and own: "\<And>s'. R s' = R s \<Longrightarrow> C s' = C s \<Longrightarrow> R (g p s') = R (g p s)"
    and "distinct ps" "p \<in> set ps"
  shows "R (fold g ps s) = R (g p s)"
proof -
  from \<open>p \<in> set ps\<close> obtain as bs where ps: "ps = as @ p # bs" by (auto dest: split_list)
  with \<open>distinct ps\<close> have notin: "p \<notin> set as" "p \<notin> set bs" by auto
  have "R (fold g as s) = R s" using fold_row_other [of p R g as s] other notin by blast
  moreover have "C (fold g as s) = C s" using ctx by (induction as arbitrary: s) auto
  ultimately have "R (g p (fold g as s)) = R (g p s)" by (rule own)
  with fold_row_other [of p R g bs "g p (fold g as s)"] other notin ps show ?thesis by simp
qed

text \<open>A loop that establishes a property for each element in turn and destroys it for none.\<close>

lemma fold_establish:
  assumes "\<And>x s. I s \<Longrightarrow> I (F x s)" "\<And>x s. I s \<Longrightarrow> Q x (F x s)"
    and "\<And>x y s. I s \<Longrightarrow> Q y s \<Longrightarrow> Q y (F x s)"
  shows "I s \<Longrightarrow> I (fold F xs s) \<and> (\<forall>y. y \<in> set xs \<or> Q y s \<longrightarrow> Q y (fold F xs s))"
proof (induction xs arbitrary: s)
  case Nil
  then show ?case by simp
next
  case (Cons x xs)
  from Cons.IH [OF assms(1) [OF Cons.prems]] assms(2,3) [OF Cons.prems] show ?case by auto
qed

end
