(* ===== verification/Hw_Regs.thy ===== *)
theory Hw_Regs
  imports Pack_Prelude
begin

unbundle bit_operations_syntax

section \<open>Hardware daemon: registers and their events\<close>

text \<open>
  \<open>i2c_module.c\<close> and \<open>events_handlers.c\<close> of \<open>tf_hwsys\<close>: a microcontroller delivers registers as a dump of type, length
  and value; every three seconds each register with a handler is looked at, and what has changed or left its range is
  logged. The static variable of a handler is an argument and a result of it. \<open>None\<close> stands for what C leaves undefined:
  a read past the dump, a function that returns no value.
\<close>

subsection \<open>Types and limits\<close>

datatype event_t = I2C_OVER_MAX | I2C_LESS_MIN | I2C_LONG_PRESSED | I2C_CHANGED_TO_VAC | I2C_CHANGED_TO_BAT
  | I2C_CHANGED_TO_OPEN | I2C_CHANGED_TO_CLOSE | I2C_ERR_CHANGE_VALUE | I2C_ERR_OK

definition STABLE_VALUE :: u16 where "STABLE_VALUE = 10"
definition REG_ADC_CH1_max :: u32 where "REG_ADC_CH1_max = 3500"
definition REG_ADC_CH1_min :: u32 where "REG_ADC_CH1_min = 3000"
definition REG_ADC_CH2_max :: u32 where "REG_ADC_CH2_max = 1700"
definition REG_ADC_CH2_min :: u32 where "REG_ADC_CH2_min = 1300"
definition REG_ADC_CH3_max :: u32 where "REG_ADC_CH3_max = 1300"
definition REG_ADC_CH3_min :: u32 where "REG_ADC_CH3_min = 1000"
definition REG_TAMPER_open :: u32 where "REG_TAMPER_open = 0"
definition REG_TAMPER_close :: u32 where "REG_TAMPER_close = 1"
definition REG_DEFAULT_LONG_PRESSED_reset :: u32 where "REG_DEFAULT_LONG_PRESSED_reset = 0x475D"
definition REG_RPS_VAC_vac :: u32 where "REG_RPS_VAC_vac = 1"
definition REG_RPS_VAC_battary :: u32 where "REG_RPS_VAC_battary = 0"
definition REG_RPS_BAT_VOLTAGE_max :: u32 where "REG_RPS_BAT_VOLTAGE_max = 30000"
definition REG_RPS_BAT_VOLTAGE_min :: u32 where "REG_RPS_BAT_VOLTAGE_min = 20500"
definition REG_RPS_CHRG_VOLTAGE_max :: u32 where "REG_RPS_CHRG_VOLTAGE_max = 30000"
definition REG_RPS_CHRG_VOLTAGE_min :: u32 where "REG_RPS_CHRG_VOLTAGE_min = 20500"
definition REG_RPS_TEMPER_max :: u32 where "REG_RPS_TEMPER_max = 85"
definition REG_RPS_TEMPER_min :: u32 where "REG_RPS_TEMPER_min = -60"
definition REG_SHT_CONNECTED_yes :: u32 where "REG_SHT_CONNECTED_yes = 1"
definition REG_SHT_CONNECTED_no :: u32 where "REG_SHT_CONNECTED_no = 0"
definition REG_SHT_TEMPERATURE_max :: u32 where "REG_SHT_TEMPERATURE_max = 500"
definition REG_SHT_TEMPERATURE_min :: u32 where "REG_SHT_TEMPERATURE_min = -600"
definition REG_SHT_HUMIDITY_max :: u32 where "REG_SHT_HUMIDITY_max = 98"
definition REG_SHT_HUMIDITY_min :: u32 where "REG_SHT_HUMIDITY_min = 0"
definition REG_SFP_PRESENT_yes :: u32 where "REG_SFP_PRESENT_yes = 1"
definition REG_SFP_PRESENT_no :: u32 where "REG_SFP_PRESENT_no = 0"
definition REG_SFP_LOS_yes :: u32 where "REG_SFP_LOS_yes = 1"
definition REG_SFP_LOS_no :: u32 where "REG_SFP_LOS_no = 0"
definition REG_SFP_TEMPER_max :: u32 where "REG_SFP_TEMPER_max = 50"
definition REG_SFP_TEMPER_min :: u32 where "REG_SFP_TEMPER_min = 20"
definition REG_SFP_VOLTAGE_max :: u32 where "REG_SFP_VOLTAGE_max = 3600"
definition REG_SFP_VOLTAGE_min :: u32 where "REG_SFP_VOLTAGE_min = 3000"
definition REG_SFP_TX_POWER_max :: u32 where "REG_SFP_TX_POWER_max = 65"
definition REG_SFP_TX_POWER_min :: u32 where "REG_SFP_TX_POWER_min = 55"
definition REG_SFP_RX_POWER_max :: u32 where "REG_SFP_RX_POWER_max = 65"
definition REG_SFP_RX_POWER_min :: u32 where "REG_SFP_RX_POWER_min = 55"

subsection \<open>Checks\<close>

text \<open>The difference is held in 16 bits.\<close>

definition check_out_of_range :: "u32 \<Rightarrow> u32 \<Rightarrow> u32 \<Rightarrow> u32 \<Rightarrow> event_t" where
  "check_out_of_range value prevValue mx mn =
     (let dif = ucast (if value \<ge> prevValue then value - prevValue else prevValue - value) :: u16
      in if dif > STABLE_VALUE then
           if prevValue \<noteq> 0xFFFF then
             if value > mx then I2C_OVER_MAX else if value < mn then I2C_LESS_MIN else I2C_ERR_CHANGE_VALUE
           else I2C_ERR_CHANGE_VALUE
         else I2C_ERR_OK)"

definition check_changed_state :: "u32 \<Rightarrow> u32 \<Rightarrow> u32 \<Rightarrow> u32 \<Rightarrow> event_t" where
  "check_changed_state value preValue state_1 state_2 =
     (if value = state_1 \<and> preValue = state_2 then I2C_CHANGED_TO_CLOSE
      else if value = state_2 \<and> preValue = state_1 then I2C_CHANGED_TO_OPEN
      else I2C_ERR_OK)"

text \<open>The octets of a value, low octet first, as a \<open>uint16_t\<close> and as a single octet.\<close>

definition get_16bitValue :: "u8 list \<Rightarrow> u16" where
  "get_16bitValue v = ucast (v ! 0) OR push_bit 8 (ucast (v ! 1))"

definition value16 :: "u8 list \<Rightarrow> u32" where "value16 v = ucast (get_16bitValue v)"
definition value8 :: "u8 list \<Rightarrow> u32" where "value8 v = ucast (v ! 0)"

subsection \<open>Handlers\<close>

text \<open>
  A handler gives the event, the new value of its static variable and the lines it logs, each with the number it prints.
  \<open>i2c_getData\<close> is called with the length of the value but copies that many octets of the struct, whose value comes last:
  the octets a handler then reads were never written. They are the record \<open>uninit\<close>.
\<close>

record uninit =
  ui_flag :: u8
  ui_power :: u16

type_synonym log_line = "string \<times> int"
type_synonym handler = "uninit \<Rightarrow> u8 list \<Rightarrow> u32 \<Rightarrow> event_t \<times> u32 \<times> log_line list"

text \<open>The pattern of the handlers that check a range: \<open>msg\<close> is what they log for an event, if anything; then, and with
  \<open>keep\<close> also when the value has just changed, the value is remembered.\<close>

definition range_handler ::
    "bool \<Rightarrow> (event_t \<Rightarrow> string option) \<Rightarrow> u32 \<Rightarrow> u32 \<Rightarrow> u32 \<Rightarrow> u32 \<Rightarrow> event_t \<times> u32 \<times> log_line list" where
  "range_handler keep msg mx mn value prevValue =
     (let event = check_out_of_range value prevValue mx mn
      in case msg event of
           Some m \<Rightarrow> (event, value, [(m, sint value)])
         | None \<Rightarrow> (event, if event = I2C_ERR_CHANGE_VALUE \<and> keep then value else prevValue, []))"

definition out_msg :: "string \<Rightarrow> event_t \<Rightarrow> string option" where
  "out_msg m event = (if event = I2C_OVER_MAX \<or> event = I2C_LESS_MIN then Some m else None)"

definition over_msg :: "string \<Rightarrow> event_t \<Rightarrow> string option" where
  "over_msg m event = (if event = I2C_OVER_MAX then Some m else None)"

definition two_msg :: "string \<Rightarrow> string \<Rightarrow> event_t \<Rightarrow> string option" where
  "two_msg high low event =
     (if event = I2C_OVER_MAX then Some high else if event = I2C_LESS_MIN then Some low else None)"

text \<open>The pattern of the handlers that watch a switch with two states; the first value is only remembered.\<close>

definition switch_event :: "u32 \<Rightarrow> u32 \<Rightarrow> u32 \<Rightarrow> u32 \<Rightarrow> u32 \<Rightarrow> event_t" where
  "switch_event none state_1 state_2 value prevValue =
     (if value \<noteq> prevValue \<and> prevValue \<noteq> none then check_changed_state value prevValue state_1 state_2 else I2C_ERR_OK)"

definition switch_handler ::
    "string \<Rightarrow> string \<Rightarrow> u32 \<Rightarrow> u32 \<Rightarrow> u32 \<Rightarrow> u32 \<Rightarrow> event_t \<times> u32 \<times> log_line list" where
  "switch_handler close_msg open_msg state_1 state_2 value prevValue =
     (let event = switch_event 0xFF state_1 state_2 value prevValue
      in (event, value,
          if event = I2C_CHANGED_TO_CLOSE then [(close_msg, 0)] else if event = I2C_CHANGED_TO_OPEN then [(open_msg, 0)] else []))"

text \<open>The handlers of values that are there only with their module read the flag of the module first.\<close>

definition guarded :: "u32 \<Rightarrow> (u32 \<Rightarrow> event_t \<times> u32 \<times> log_line list) \<Rightarrow> uninit \<Rightarrow> u32 \<Rightarrow> event_t \<times> u32 \<times> log_line list" where
  "guarded yes f u prevValue = (if ucast (ui_flag u) = yes then f prevValue else (I2C_ERR_OK, prevValue, []))"

definition handler_ADC_CH1 :: handler where
  "handler_ADC_CH1 u v = range_handler True (out_msg ''ADC CH1 out of range'') REG_ADC_CH1_max REG_ADC_CH1_min (value16 v)"
definition handler_ADC_CH2 :: handler where
  "handler_ADC_CH2 u v = range_handler True (out_msg ''ADC CH2 out of range'') REG_ADC_CH2_max REG_ADC_CH2_min (value16 v)"
definition handler_ADC_CH3 :: handler where
  "handler_ADC_CH3 u v = range_handler True (out_msg ''ADC CH3 out of range'') REG_ADC_CH3_max REG_ADC_CH3_min (value16 v)"

definition handler_TAMPER :: handler where
  "handler_TAMPER u v =
     switch_handler ''TAMPER changed to Close'' ''TAMPER changed to Open'' REG_TAMPER_close REG_TAMPER_open (value8 v)"
definition handler_SENSOR1 :: handler where
  "handler_SENSOR1 u v =
     switch_handler ''SENSOR1 changed to Close'' ''SENSOR1 changed to Open'' REG_TAMPER_close REG_TAMPER_open (value8 v)"
definition handler_SENSOR2 :: handler where
  "handler_SENSOR2 u v =
     switch_handler ''SENSOR2 changed to Close'' ''SENSOR2 changed to Open'' REG_TAMPER_close REG_TAMPER_open (value8 v)"
definition handler_RELAY1 :: handler where
  "handler_RELAY1 u v =
     switch_handler ''RELAY changed to Close'' ''RELAY changed to Open'' REG_TAMPER_close REG_TAMPER_open (value8 v)"

text \<open>The static variable starts with 0xFFFF but is compared with 0xFF.\<close>

definition handler_DEFAULT_LONG_PRESSED :: handler where
  "handler_DEFAULT_LONG_PRESSED u v prevValue =
     (let value = value16 v; event = switch_event 0xFF REG_DEFAULT_LONG_PRESSED_reset 0 value prevValue
      in if event = I2C_CHANGED_TO_CLOSE then (I2C_LONG_PRESSED, value, [(''DEFAULT SETTINGS by DEFAULT BUTTON'', 0)])
         else (I2C_ERR_OK, value, []))"

definition handler_RPS_VAC :: handler where
  "handler_RPS_VAC u v prevValue =
     (let value = value8 v; event = switch_event 0xFF REG_RPS_VAC_vac REG_RPS_VAC_battary value prevValue
      in if event = I2C_ERR_OK then (event, value, [])
         else if event = I2C_CHANGED_TO_CLOSE then (I2C_CHANGED_TO_VAC, value, [(''UPS: power changed to VAC'', 0)])
         else (I2C_CHANGED_TO_BAT, value, [(''UPS: power changed to Battery'', 0)]))"

definition handler_RPS_BAT_VOLTAGE :: handler where
  "handler_RPS_BAT_VOLTAGE u v =
     range_handler True (two_msg ''UPS: Battery voltage reaches max voltage'' ''UPS: Battery voltage is LOW'')
       REG_RPS_BAT_VOLTAGE_max REG_RPS_BAT_VOLTAGE_min (value16 v)"
definition handler_RPS_CHRG_VOLTAGE :: handler where
  "handler_RPS_CHRG_VOLTAGE u v =
     range_handler True (two_msg ''UPS: Charge voltage reaches max voltage'' ''UPS: Charge voltage is LOW'')
       REG_RPS_CHRG_VOLTAGE_max REG_RPS_CHRG_VOLTAGE_min (value16 v)"
definition handler_RPS_BAT_CURRENT :: handler where
  "handler_RPS_BAT_CURRENT u v prevValue = (I2C_ERR_OK, prevValue, [])"
definition handler_RPS_TEMPER :: handler where
  "handler_RPS_TEMPER u v =
     range_handler True (over_msg ''UPS: RPS board overheat'') REG_RPS_TEMPER_max REG_RPS_TEMPER_min (value8 v)"

text \<open>\<open>handler_SHT_TYPE\<close> returns 0, which is no event.\<close>

definition handler_SHT_TYPE :: handler where
  "handler_SHT_TYPE u v prevValue = (I2C_ERR_OK, prevValue, [])"

definition handler_SHT_CONNECTED :: handler where
  "handler_SHT_CONNECTED u v prevValue =
     (let value = value8 v; event = switch_event 0xFF REG_SHT_CONNECTED_yes REG_SHT_CONNECTED_no value prevValue
      in (event, value,
          if event \<noteq> I2C_ERR_OK \<and> value = REG_SHT_CONNECTED_yes then [(''SHT: connection status'', sint value)] else []))"

text \<open>The temperature is signed; its static variable is not, and is not set when the value has just changed.\<close>

definition handler_SHT_TEMPERATURE :: handler where
  "handler_SHT_TEMPERATURE u v =
     guarded REG_SHT_CONNECTED_yes (\<lambda>prevValue.
       let (event, p, l) = range_handler False
             (two_msg ''SHT: temperature is higher than maximum'' ''SHT: temperature is lower than minimum'')
             REG_SHT_TEMPERATURE_max REG_SHT_TEMPERATURE_min (scast (get_16bitValue v)) prevValue
       in (event, p AND 0xFFFF, l)) u"

definition handler_SHT_HUMIDITY :: handler where
  "handler_SHT_HUMIDITY u v =
     guarded REG_SHT_CONNECTED_yes (range_handler True
       (two_msg ''SHT: humidity is higher than maximum'' ''SHT: humidity is lower than minimum'')
       REG_SHT_HUMIDITY_max REG_SHT_HUMIDITY_min (value8 v)) u"

definition handler_SFP1_PRESENT :: handler where
  "handler_SFP1_PRESENT u v =
     switch_handler ''SFP1: in chassis'' ''SFP1: removed from chassis'' REG_SFP_PRESENT_yes REG_SFP_PRESENT_no (value8 v)"
definition handler_SFP2_PRESENT :: handler where
  "handler_SFP2_PRESENT u v =
     switch_handler ''SFP2: in chassis'' ''SFP2: removed from chassis'' REG_SFP_PRESENT_yes REG_SFP_PRESENT_no (value8 v)"

definition los_handler :: "string \<Rightarrow> string \<Rightarrow> handler" where
  "los_handler lost up u v prevValue =
     (let value = value8 v; event = switch_event 0xFF REG_SFP_LOS_no REG_SFP_LOS_yes value prevValue
      in (event, value,
          if event = I2C_ERR_OK then [] else if value \<noteq> 0 then [(lost, 0)] else [(up, uint (ui_power u))]))"

definition handler_SFP1_LOS :: handler where
  "handler_SFP1_LOS = los_handler ''SFP1: lost optical signal'' ''SFP1: optical signal UP''"
definition handler_SFP2_LOS :: handler where
  "handler_SFP2_LOS = los_handler ''SFP2: lost optical signal'' ''SFP2: optical signal UP''"

definition handler_SFP1_TEMPER :: handler where
  "handler_SFP1_TEMPER u v =
     guarded REG_SFP_PRESENT_yes (range_handler True (over_msg ''SFP1: overheating'') REG_SFP_TEMPER_max REG_SFP_TEMPER_min (value16 v)) u"
definition handler_SFP2_TEMPER :: handler where
  "handler_SFP2_TEMPER u v =
     guarded REG_SFP_PRESENT_yes (range_handler True (over_msg ''SFP2: overheating'') REG_SFP_TEMPER_max REG_SFP_TEMPER_min (value16 v)) u"
definition handler_SFP1_VOLTAGE :: handler where
  "handler_SFP1_VOLTAGE u v =
     guarded REG_SFP_PRESENT_yes (range_handler True (out_msg ''SFP1: voltage not in range'') REG_SFP_VOLTAGE_max REG_SFP_VOLTAGE_min (value16 v)) u"
definition handler_SFP2_VOLTAGE :: handler where
  "handler_SFP2_VOLTAGE u v =
     guarded REG_SFP_PRESENT_yes (range_handler True (out_msg ''SFP2: voltage not in range'') REG_SFP_VOLTAGE_max REG_SFP_VOLTAGE_min (value16 v)) u"
definition handler_SFP1_TX_POWER_DB :: handler where
  "handler_SFP1_TX_POWER_DB u v =
     guarded REG_SFP_PRESENT_yes (range_handler True (out_msg ''SFP1: TX power not in range'') REG_SFP_TX_POWER_max REG_SFP_TX_POWER_min (value16 v)) u"
definition handler_SFP2_TX_POWER_DB :: handler where
  "handler_SFP2_TX_POWER_DB u v =
     guarded REG_SFP_PRESENT_yes (range_handler True (out_msg ''SFP2: TX power not in range'') REG_SFP_TX_POWER_max REG_SFP_TX_POWER_min (value16 v)) u"
definition handler_SFP1_RX_POWER_DB :: handler where
  "handler_SFP1_RX_POWER_DB u v =
     guarded REG_SFP_PRESENT_yes (range_handler True (out_msg ''SFP1: RX power not in range'') REG_SFP_RX_POWER_max REG_SFP_RX_POWER_min (value16 v)) u"
definition handler_SFP2_RX_POWER_DB :: handler where
  "handler_SFP2_RX_POWER_DB u v =
     guarded REG_SFP_PRESENT_yes (range_handler True (out_msg ''SFP2: RX power not in range'') REG_SFP_RX_POWER_max REG_SFP_RX_POWER_min (value16 v)) u"

subsection \<open>The table of registers\<close>

text \<open>Address, name, length and handler. The array is longer than its initializer; the rest is zero and has no handler.\<close>

definition registers :: "(nat \<times> string \<times> nat \<times> handler option) list" where
  "registers =
     [(0, ''INTSTAT'', 1, None), (1, ''INTMASK'', 1, None), (2, ''HW_VERS'', 1, None), (3, ''SW_VERS'', 1, None),
      (4, ''ADC_CH1'', 2, Some handler_ADC_CH1), (5, ''ADC_CH2'', 2, Some handler_ADC_CH2),
      (6, ''ADC_CH3'', 2, Some handler_ADC_CH3), (10, ''tamper'', 1, Some handler_TAMPER),
      (11, ''sensor1'', 1, Some handler_SENSOR1), (12, ''sensor2'', 1, Some handler_SENSOR2),
      (13, ''relay'', 1, Some handler_RELAY1), (14, ''DEFAULT_BUTTON'', 1, None), (15, ''DEFAULT_LED'', 1, None),
      (16, ''DEFAULT_LONG_PRESSED'', 2, Some handler_DEFAULT_LONG_PRESSED), (20, ''upsModeAvalible'', 1, None),
      (21, ''RPS_HW_VERS'', 1, None), (22, ''RPS_SW_VERS'', 1, None), (23, ''upsPwrSource'', 1, Some handler_RPS_VAC),
      (24, ''upsBatteryVoltage'', 2, Some handler_RPS_BAT_VOLTAGE),
      (25, ''RPS_CHRG_VOLTAGE'', 2, Some handler_RPS_CHRG_VOLTAGE),
      (26, ''RPS_BAT_CURRENT'', 2, Some handler_RPS_BAT_CURRENT), (27, ''RPS_TEMPER'', 1, Some handler_RPS_TEMPER),
      (28, ''RPS_LED_STATE'', 1, None), (29, ''RPS_BAT_KEY'', 1, None), (30, ''RPS_CHRG_KEY'', 1, None),
      (31, ''RPS_REL_STATE'', 1, None), (32, ''RPS_MIN_VOLTAGE'', 2, None), (33, ''RPS_DISCH_VOLTAGE'', 2, None),
      (34, ''upsBatteryTime'', 2, None), (35, ''RPS_TEST_OK'', 1, None), (36, ''RPS_CPU_ID'', 2, None),
      (37, ''RPS_LTC4151_OK'', 1, None), (38, ''RPS_ADC_BAT_VOLT'', 2, None), (39, ''RPS_ADC_BAT_CURR'', 2, None),
      (40, ''RPS_TEST_MODE'', 1, None), (50, ''sensorConnected'', 1, Some handler_SHT_CONNECTED),
      (51, ''SHT_TYPE'', 10, Some handler_SHT_TYPE), (52, ''sensorTemperature'', 2, Some handler_SHT_TEMPERATURE),
      (53, ''sensorHumidity'', 1, Some handler_SHT_HUMIDITY),
      (60, ''portSfpPresent_1'', 1, Some handler_SFP1_PRESENT),
      (61, ''portSfpSignalDetect_1'', 1, Some handler_SFP1_LOS), (62, ''portSfpVendor_1'', 16, None),
      (63, ''portSfpOui_1'', 3, None), (64, ''portSfpPartNumber_1'', 16, None), (65, ''portSfpRevision_1'', 4, None),
      (66, ''IDENTIFIER_1'', 4, None), (67, ''CONNECTOR_1'', 30, None), (68, ''TYPE_1'', 16, None),
      (69, ''LINK_LEN_1'', 25, None), (70, ''FIBER_TEC_1'', 32, None), (71, ''MEDIA_1'', 32, None),
      (72, ''SPEED_1'', 16, None), (73, ''ENCODING_1'', 16, None), (79, ''LENC_1'', 2, None),
      (74, ''WAVELEN_1'', 2, None), (75, ''NBR_1'', 2, None), (76, ''LEN9_1'', 2, None), (77, ''LEN50_1'', 2, None),
      (78, ''LEN62_1'', 2, None), (80, ''portSfpTemperature_1'', 2, Some handler_SFP1_TEMPER),
      (81, ''portSfpVoltage_1'', 2, Some handler_SFP1_VOLTAGE), (82, ''CURRENT_1'', 2, None),
      (83, ''portSfpBiasCurrent_1'', 2, None), (84, ''portSfpTxOutPowerDb_1'', 2, Some handler_SFP1_TX_POWER_DB),
      (85, ''portSfpRxOutPowerDb_1'', 2, Some handler_SFP1_RX_POWER_DB), (86, ''portSfpTxOutPower_1'', 2, None),
      (87, ''portSfpRxOutPower_1'', 2, None), (90, ''portSfpPresent_2'', 1, Some handler_SFP2_PRESENT),
      (91, ''portSfpSignalDetect_2'', 1, Some handler_SFP2_LOS), (92, ''portSfpVendor_2'', 16, None),
      (93, ''portSfpOui_2'', 3, None), (94, ''portSfpPartNumber_2'', 16, None), (95, ''portSfpRevision_2'', 4, None),
      (96, ''IDENTIFIER_2'', 4, None), (97, ''CONNECTOR_2'', 30, None), (98, ''TYPE_2'', 16, None),
      (99, ''LINK_LEN_2'', 25, None), (100, ''FIBER_TEC_2'', 32, None), (101, ''MEDIA_2'', 32, None),
      (102, ''SPEED_2'', 16, None), (103, ''ENCODING_2'', 16, None), (104, ''WAVELEN_2'', 2, None),
      (105, ''NBR_2'', 2, None), (106, ''LEN9_2'', 2, None), (107, ''LEN50_2'', 2, None), (108, ''LEN62_2'', 2, None),
      (109, ''LENC_2'', 2, None), (110, ''portSfpTemperature_2'', 2, Some handler_SFP2_TEMPER),
      (111, ''portSfpVoltage_2'', 2, Some handler_SFP2_VOLTAGE), (112, ''CURRENT_2'', 2, None),
      (113, ''portSfpBiasCurrent_2'', 2, None), (114, ''portSfpTxOutPowerDb_2'', 2, Some handler_SFP2_TX_POWER_DB),
      (115, ''portSfpRxOutPowerDb_2'', 2, Some handler_SFP2_RX_POWER_DB), (116, ''portSfpTxOutPower_2'', 2, None),
      (117, ''portSfpRxOutPower_2'', 2, None), (120, ''RTC_STATUS'', 1, None), (121, ''RTC_YEAR'', 1, None),
      (122, ''RTC_MONTH'', 1, None), (123, ''RTC_DAY'', 1, None), (124, ''RTC_WEEKDAY'', 1, None),
      (125, ''RTC_HOUR'', 1, None), (126, ''RTC_MINUTE'', 1, None), (127, ''RTC_SECOND'', 1, None),
      (130, ''POE_ID'', 1, None), (131, ''POE_STATE'', 1, None), (132, ''POE_BANK'', 1, None),
      (133, ''POE_MODE'', 1, None)]"

definition reg_addr :: "nat \<times> string \<times> nat \<times> handler option \<Rightarrow> nat" where "reg_addr = fst"

definition MAX_SENSORS :: nat where "MAX_SENSORS = 144"
definition VALUE_LEN :: nat where "VALUE_LEN = 32"

text \<open>The values of the registers by their place in the table, the static variables by the same place, and the lines
  logged, each with the place of the register it is about.\<close>

record hw =
  reg_value :: "nat \<Rightarrow> u8 list"
  reg_prev :: "nat \<Rightarrow> u32"
  hw_log :: "(nat \<times> log_line) list"

text \<open>The place of an address; for an address that is not in the table the function ends without a value.\<close>

fun place :: "nat \<Rightarrow> nat \<Rightarrow> (nat \<times> string \<times> nat \<times> handler option) list \<Rightarrow> nat option" where
  "place a i [] = None"
| "place a i (r # rs) = (if reg_addr r = a then Some i else place a (i + 1) rs)"

definition get_id_by_addr :: "nat \<Rightarrow> nat option" where
  "get_id_by_addr a = place a 0 registers"

fun get_i2c_addr_by_name :: "string \<Rightarrow> (nat \<times> string \<times> nat \<times> handler option) list \<Rightarrow> (nat \<times> nat) option" where
  "get_i2c_addr_by_name n [] = None"
| "get_i2c_addr_by_name n ((a, name, len, h) # rs) = (if n = name then Some (a, len) else get_i2c_addr_by_name n rs)"

subsection \<open>The dump\<close>

text \<open>
  \<open>i2c_parse_tlv\<close> on the array of 1000 octets: \<open>Some (ok, s)\<close> when it returns. \<open>fuel\<close> bounds the number of entries;
  the offset is a \<open>uint16_t\<close>. A value of 32 octets or more is skipped.
\<close>

fun parse_tlv :: "nat \<Rightarrow> u8 list \<Rightarrow> u16 \<Rightarrow> u16 \<Rightarrow> hw \<Rightarrow> (bool \<times> hw) option" where
  "parse_tlv 0 raw len offset s = None"
| "parse_tlv (Suc fuel) raw len offset s =
     (if \<not> offset < len then Some (True, s)
      else if unat offset + 1 \<ge> length raw then None
      else let a = unat (raw ! unat offset); n = unat (raw ! (unat offset + 1))
           in if a > MAX_SENSORS then Some (False, s)
              else case get_id_by_addr a of
                     None \<Rightarrow> None
                   | Some i \<Rightarrow>
                       if n < VALUE_LEN then
                         if unat offset + 2 + n > length raw then None
                         else parse_tlv fuel raw len (offset + of_nat n + 2)
                                (s\<lparr>reg_value := (reg_value s)(i := take n (drop (unat offset + 2) raw) @ drop n (reg_value s i))\<rparr>)
                       else parse_tlv fuel raw len (offset + of_nat n + 2) s)"

definition RAW_SIZE :: nat where "RAW_SIZE = 1000"

definition i2c_parse_tlv :: "u8 list \<Rightarrow> u16 \<Rightarrow> hw \<Rightarrow> (bool \<times> hw) option" where
  "i2c_parse_tlv raw len s = parse_tlv (RAW_SIZE + 1) raw len 0 s"

subsection \<open>The events\<close>

definition run_handler :: "(nat \<Rightarrow> uninit) \<Rightarrow> nat \<Rightarrow> hw \<Rightarrow> hw" where
  "run_handler u i s =
     (case snd (snd (snd (registers ! i))) of
        None \<Rightarrow> s
      | Some h \<Rightarrow> let (event, p, l) = h (u i) (reg_value s i) (reg_prev s i)
                  in s\<lparr>reg_prev := (reg_prev s)(i := p), hw_log := hw_log s @ map (Pair i) l\<rparr>)"

definition i2c_events_handler :: "(nat \<Rightarrow> uninit) \<Rightarrow> hw \<Rightarrow> hw" where
  "i2c_events_handler u s = fold (run_handler u) [0 ..< length registers] s"

text \<open>The static variables at the start: 0xFF where they have eight bits, 0xFFFF where they have sixteen.\<close>

definition narrow :: "nat list" where
  "narrow = [10, 11, 12, 13, 23, 27, 50, 53, 60, 61, 90, 91]"

definition hw_start :: hw where
  "hw_start = \<lparr>reg_value = (\<lambda>i. if get_id_by_addr 27 = Some i then 123 # replicate (VALUE_LEN - 1) 0 else replicate VALUE_LEN 0),
     reg_prev = (\<lambda>i. if i < length registers \<and> reg_addr (registers ! i) \<in> set narrow then 0xFF else 0xFFFF), hw_log = []\<rparr>"

end
