(* ===== verification/Hw_Theorems.thy ===== *)
theory Hw_Theorems
  imports Hw_Regs
begin

section \<open>Hardware daemon: theorems\<close>

text \<open>
  A dump is stored as it was sent; a switch that changes and a reading that jumps out of its range are logged; the
  temperature of the external sensor never is.
\<close>

subsection \<open>The dump\<close>








subsection \<open>One register among the others\<close>

definition step_of :: "(nat \<Rightarrow> uninit) \<Rightarrow> nat \<Rightarrow> hw \<Rightarrow> u32 \<times> log_line list" where
  "step_of u i s = (case snd (snd (snd (registers ! i))) of
     None \<Rightarrow> (reg_prev s i, [])
   | Some h \<Rightarrow> snd (h (u i) (reg_value s i) (reg_prev s i)))"

definition lines_of :: "nat \<Rightarrow> hw \<Rightarrow> log_line list" where
  "lines_of i s = map snd (filter (\<lambda>l. fst l = i) (hw_log s))"

lemma run_handler_fields:
  "reg_value (run_handler u i s) = reg_value s"
  "reg_prev (run_handler u i s) = (reg_prev s)(i := fst (step_of u i s))"
  "lines_of j (run_handler u i s) = lines_of j s @ (if i = j then snd (step_of u i s) else [])"
proof -
  have "filter (\<lambda>l. fst l = j) (map (Pair i) ls) = (if i = j then map (Pair i) ls else [])" for ls :: "log_line list"
    by (induction ls) auto
  then show "lines_of j (run_handler u i s) = lines_of j s @ (if i = j then snd (step_of u i s) else [])"
    by (auto simp: run_handler_def step_of_def lines_of_def comp_def split: option.splits prod.splits)
qed (auto simp: run_handler_def step_of_def split: option.splits prod.splits)

lemma step_of_same: "reg_value s i = reg_value s' i \<Longrightarrow> reg_prev s i = reg_prev s' i \<Longrightarrow> step_of u i s = step_of u i s'"
  by (simp add: step_of_def split: option.splits)

lemma handlers_run:
  "reg_value (fold (run_handler u) [0 ..< n] s) = reg_value s
   \<and> reg_prev (fold (run_handler u) [0 ..< n] s) j = (if j < n then fst (step_of u j s) else reg_prev s j)
   \<and> lines_of j (fold (run_handler u) [0 ..< n] s) = lines_of j s @ (if j < n then snd (step_of u j s) else [])"
proof (induction n arbitrary: j)
  case (Suc n)
  let ?s = "fold (run_handler u) [0 ..< n] s"
  have "step_of u n ?s = step_of u n s" using Suc [of n] by (intro step_of_same) simp_all
  then show ?case using Suc [of j] by (auto simp: run_handler_fields)
qed simp

lemma events_at:
  assumes "j < length registers"
  shows "reg_value (i2c_events_handler u s) = reg_value s"
    and "reg_prev (i2c_events_handler u s) j = fst (step_of u j s)"
    and "lines_of j (i2c_events_handler u s) = lines_of j s @ snd (step_of u j s)"
  using handlers_run [of u "length registers" s j] assms by (simp_all add: i2c_events_handler_def)

text \<open>A poll: the registers have new values, and the events are handled.\<close>

definition poll :: "(nat \<Rightarrow> uninit) \<times> (nat \<Rightarrow> u8 list) \<Rightarrow> hw \<Rightarrow> hw" where
  "poll p s = i2c_events_handler (fst p) (s\<lparr>reg_value := snd p\<rparr>)"

definition polls :: "((nat \<Rightarrow> uninit) \<times> (nat \<Rightarrow> u8 list)) list \<Rightarrow> hw" where
  "polls ps = fold poll ps hw_start"

lemma polls_snoc: "polls (ps @ [p]) = poll p (polls ps)"
  by (simp add: polls_def)

lemma lines_keep [simp]: "lines_of j (s\<lparr>reg_value := v\<rparr>) = lines_of j s"
  by (simp add: lines_of_def)

lemma poll_at:
  assumes "j < length registers" "snd (snd (snd (registers ! j))) = Some h"
  shows "reg_prev (poll p s) j = fst (snd (h (fst p j) (snd p j) (reg_prev s j)))"
    and "lines_of j (poll p s) = lines_of j s @ snd (snd (h (fst p j) (snd p j) (reg_prev s j)))"
  using events_at [OF assms(1), of "fst p" "s\<lparr>reg_value := snd p\<rparr>"] assms(2) by (simp_all add: poll_def step_of_def)

text \<open>The places of the registers that the theorems below are about.\<close>

lemma places:
  "get_id_by_addr 4 = Some 4" "get_id_by_addr 5 = Some 5" "get_id_by_addr 6 = Some 6" "get_id_by_addr 10 = Some 7"
  "get_id_by_addr 11 = Some 8" "get_id_by_addr 12 = Some 9" "get_id_by_addr 13 = Some 10" "get_id_by_addr 60 = Some 39"
  "get_id_by_addr 90 = Some 67"
  by (simp_all add: get_id_by_addr_def registers_def reg_addr_def)

lemma handlers_at:
  "snd (snd (snd (registers ! 4))) = Some handler_ADC_CH1" "snd (snd (snd (registers ! 5))) = Some handler_ADC_CH2"
  "snd (snd (snd (registers ! 6))) = Some handler_ADC_CH3" "snd (snd (snd (registers ! 7))) = Some handler_TAMPER"
  "snd (snd (snd (registers ! 8))) = Some handler_SENSOR1" "snd (snd (snd (registers ! 9))) = Some handler_SENSOR2"
  "snd (snd (snd (registers ! 10))) = Some handler_RELAY1" "snd (snd (snd (registers ! 39))) = Some handler_SFP1_PRESENT"
  "snd (snd (snd (registers ! 67))) = Some handler_SFP2_PRESENT" "length registers = 107"
  "fst (registers ! 4) = 4" "fst (registers ! 5) = 5" "fst (registers ! 6) = 6"
  by (simp_all add: registers_def)

lemma place_SHT_TEMPERATURE:
  "get_id_by_addr 52 = Some 37" "37 < length registers" "snd (snd (snd (registers ! 37))) = Some handler_SHT_TEMPERATURE"
  by (simp_all add: get_id_by_addr_def registers_def reg_addr_def)

subsection \<open>The external temperature\<close>

lemma unset_range: "check_out_of_range v 0xFFFF mx mn \<in> {I2C_ERR_OK, I2C_ERR_CHANGE_VALUE}"
  by (simp add: check_out_of_range_def Let_def)

lemma sht_temperature_stays: "snd (handler_SHT_TEMPERATURE u v 0xFFFF) = (0xFFFF, [])"
  using unset_range [of "scast (get_16bitValue v)" REG_SHT_TEMPERATURE_max REG_SHT_TEMPERATURE_min]
  by (auto simp: handler_SHT_TEMPERATURE_def guarded_def range_handler_def two_msg_def Let_def)

text \<open>
  The temperature of the external sensor is never logged, however hot or cold it gets: the static variable of its handler
  starts with the value that means that there was no reading, and only an alarm would replace it, which needs a reading.
\<close>

theorem sht_temperature_never_logged:
  "get_id_by_addr 52 = Some i \<Longrightarrow> lines_of i (polls ps) = []"
proof -
  assume "get_id_by_addr 52 = Some i"
  then have i: "i = 37" using place_SHT_TEMPERATURE(1) by simp
  have "reg_prev hw_start 37 = 0xFFFF"
    by (simp add: hw_start_def registers_def reg_addr_def narrow_def)
  then have "reg_prev (polls ps) 37 = 0xFFFF \<and> lines_of 37 (polls ps) = []"
  proof (induction ps rule: rev_induct)
    case Nil
    then show ?case by (simp add: polls_def lines_of_def hw_start_def)
  next
    case (snoc p ps)
    then show ?case
      using poll_at [OF place_SHT_TEMPERATURE(2,3), of p "polls ps"] by (simp add: polls_snoc sht_temperature_stays)
  qed
  then show ?thesis by (simp add: i)
qed

theorem sht_temperature_never_logged_witness:
  "lines_of 37 (polls [(\<lambda>_. \<lparr>ui_flag = 1, ui_power = 0\<rparr>, \<lambda>_. [0xE8, 0x03]), (\<lambda>_. \<lparr>ui_flag = 1, ui_power = 0\<rparr>, \<lambda>_. [0xD0, 0x07])]) = []"
  by (rule sht_temperature_never_logged) (rule place_SHT_TEMPERATURE(1))

subsection \<open>Switches\<close>

definition switch_lines :: "(nat \<times> string \<times> string) list" where
  "switch_lines =
     [(10, ''TAMPER changed to Close'', ''TAMPER changed to Open''), (11, ''SENSOR1 changed to Close'', ''SENSOR1 changed to Open''),
      (12, ''SENSOR2 changed to Close'', ''SENSOR2 changed to Open''), (13, ''RELAY changed to Close'', ''RELAY changed to Open''),
      (60, ''SFP1: in chassis'', ''SFP1: removed from chassis''), (90, ''SFP2: in chassis'', ''SFP2: removed from chassis'')]"

lemma switch_place:
  assumes "(a, cm, om) \<in> set switch_lines" "get_id_by_addr a = Some i"
  shows "i < length registers" "\<exists>h. snd (snd (snd (registers ! i))) = Some h \<and> (\<forall>u v. h u v = switch_handler cm om 1 0 (value8 v))"
  using assms
  by (auto simp: switch_lines_def places handlers_at handler_TAMPER_def handler_SENSOR1_def handler_SENSOR2_def handler_RELAY1_def handler_SFP1_PRESENT_def
      handler_SFP2_PRESENT_def REG_TAMPER_close_def REG_TAMPER_open_def REG_SFP_PRESENT_yes_def REG_SFP_PRESENT_no_def)

text \<open>
  A switch whose two readings in a row are its two states is logged at the second, once and with the right message,
  whatever was read before.
\<close>

theorem switch_change_logged:
  assumes sw: "(a, cm, om) \<in> set switch_lines" "get_id_by_addr a = Some i"
    and p: "snd p i ! 0 = (if closed then 0 else 1)" and q: "snd q i ! 0 = (if closed then 1 else 0)"
  shows "lines_of i (polls (ps @ [p, q])) = lines_of i (polls (ps @ [p])) @ [(if closed then cm else om, 0)]"
proof -
  obtain h where h: "snd (snd (snd (registers ! i))) = Some h" "\<And>u v. h u v = switch_handler cm om 1 0 (value8 v)"
    using switch_place(2) [OF sw] by blast
  note at = poll_at [OF switch_place(1) [OF sw] h(1)]
  have "reg_prev (polls (ps @ [p])) i = (if closed then 0 else 1)"
    using at(1) [of p "polls ps"] p by (simp add: polls_snoc h(2) switch_handler_def value8_def Let_def)
  then show ?thesis
    using at(2) [of q "polls (ps @ [p])"] q polls_snoc [of "ps @ [p]" q]
    by (auto simp: h(2) switch_handler_def switch_event_def check_changed_state_def value8_def Let_def)
qed

theorem switch_change_logged_witness:
  "lines_of 7 (polls ([] @ [(\<lambda>_. \<lparr>ui_flag = 0, ui_power = 0\<rparr>, \<lambda>_. [0]), (\<lambda>_. \<lparr>ui_flag = 0, ui_power = 0\<rparr>, \<lambda>_. [1])])) =
     lines_of 7 (polls ([] @ [(\<lambda>_. \<lparr>ui_flag = 0, ui_power = 0\<rparr>, \<lambda>_. [0])])) @ [(if True then ''TAMPER changed to Close''
       else ''TAMPER changed to Open'', 0)]"
  by (rule switch_change_logged [where a = 10 and closed = True])
    (simp_all add: switch_lines_def places)

subsection \<open>Voltages\<close>



definition far :: "u32 \<Rightarrow> u32 \<Rightarrow> bool" where
  "far v p \<longleftrightarrow> unat v > unat p + 10 \<or> unat p > unat v + 10"

lemma check_16bit:
  assumes "v \<le> 0xFFFF" "p \<le> 0xFFFF"
  shows "check_out_of_range v p mx mn =
    (if far v p then if p \<noteq> 0xFFFF then if v > mx then I2C_OVER_MAX else if v < mn then I2C_LESS_MIN else I2C_ERR_CHANGE_VALUE
       else I2C_ERR_CHANGE_VALUE
     else I2C_ERR_OK)"
proof -
  have "unat v \<le> 65535" "unat p \<le> 65535" using assms by (simp_all add: word_le_nat_alt)
  then have "unat (ucast (if v \<ge> p then v - p else p - v) :: u16) =
      (if unat v \<ge> unat p then unat v - unat p else unat p - unat v)"
    by (auto simp: unsigned_ucast_eq unat_sub word_le_nat_alt take_bit_eq_mod)
  then have "(ucast (if v \<ge> p then v - p else p - v) :: u16) > STABLE_VALUE \<longleftrightarrow> far v p"
    by (auto simp: far_def word_less_nat_alt STABLE_VALUE_def)
  then show ?thesis by (simp add: check_out_of_range_def Let_def)
qed





text \<open>
  An overheated power supply is logged once only: a normal temperature counts as too low, because the lower limit is
  negative and compared without sign, and is not remembered; so when the supply overheats again to about the same
  temperature, the handler finds no change.
\<close>

lemma value8_bound: "value8 v \<le> 0xFF"
  using unsigned_less [of "v ! 0", where 'a = nat] unfolding value8_def
  by (simp add: word_le_nat_alt unsigned_ucast_eq take_bit_eq_mod)

theorem second_overheat_silent:
  assumes "p \<le> 0xFF" "value8 cool \<le> 85" "\<not> far (value8 hot) p"
  shows "snd (snd (handler_RPS_TEMPER u' hot (fst (snd (handler_RPS_TEMPER u cool p))))) = []"
proof -
  have le: "x \<le> 0xFFFF" if "x \<le> 0xFF" for x :: u32 using that by (simp add: word_le_nat_alt)
  have "value8 cool < -60" using value8_bound [of cool] by (simp add: word_le_nat_alt word_less_nat_alt)
  then have "fst (snd (handler_RPS_TEMPER u cool p)) = p"
    using assms(1,2) le [OF value8_bound] le [OF assms(1)]
    by (auto simp: handler_RPS_TEMPER_def range_handler_def check_16bit over_msg_def REG_RPS_TEMPER_max_def
        REG_RPS_TEMPER_min_def Let_def)
  then show ?thesis
    using assms(3) le [OF value8_bound] le [OF assms(1)]
    by (simp add: handler_RPS_TEMPER_def range_handler_def check_16bit over_msg_def Let_def)
qed

end
