(* ===== verification/C_Strings.thy ===== *)
theory C_Strings
  imports Pack_Prelude
begin

section \<open>Strings of the C library\<close>

text \<open>
  The functions of the C library on strings that the daemons of the switch use, on lists of characters
  without the terminating zero: \<open>strtoul\<close> and \<open>strtol\<close> (\<open>long\<close> has 32 bits on the switch), the
  conversion \<open>%d\<close> of \<open>sscanf\<close>, \<open>strchr\<close>, \<open>strstr\<close>, \<open>strtok\<close>, and \<open>%u\<close> of \<open>printf\<close>.
\<close>

subsection \<open>Numbers\<close>

definition c_isspace :: "char \<Rightarrow> bool" where
  "c_isspace c \<longleftrightarrow> c = CHR '' '' \<or> (of_char c :: nat) \<in> {9 ..< 14}"

definition digit_val :: "char \<Rightarrow> nat option" where
  "digit_val c =
     (let n = of_char c :: nat
      in if 48 \<le> n \<and> n \<le> 57 then Some (n - 48)
         else if 97 \<le> n \<and> n \<le> 122 then Some (n - 87)
         else if 65 \<le> n \<and> n \<le> 90 then Some (n - 55)
         else None)"

definition is_digit :: "nat \<Rightarrow> char \<Rightarrow> bool" where
  "is_digit b c = (case digit_val c of None \<Rightarrow> False | Some d \<Rightarrow> d < b)"

definition digits_val :: "nat \<Rightarrow> string \<Rightarrow> nat" where
  "digits_val b = foldl (\<lambda>n c. n * b + the (digit_val c)) 0"

definition strip_sign :: "string \<Rightarrow> bool \<times> string" where
  "strip_sign s =
     (case s of [] \<Rightarrow> (False, [])
      | c # cs \<Rightarrow> if c = CHR ''-'' then (True, cs) else if c = CHR ''+'' then (False, cs) else (False, s))"

definition has_hex_prefix :: "string \<Rightarrow> bool" where
  "has_hex_prefix s \<longleftrightarrow> length s \<ge> 3 \<and> s ! 0 = CHR ''0'' \<and> (s ! 1 = CHR ''x'' \<or> s ! 1 = CHR ''X'')
     \<and> is_digit 16 (s ! 2)"

definition strip_base :: "nat \<Rightarrow> string \<Rightarrow> nat \<times> string" where
  "strip_base b s =
     (if (b = 0 \<or> b = 16) \<and> has_hex_prefix s then (16, drop 2 s)
      else if b = 0 then (if s \<noteq> [] \<and> hd s = CHR ''0'' then 8 else 10, s)
      else (b, s))"

text \<open>The value, the rest of the string and whether \<open>errno\<close> is set (the value is out of range).\<close>

definition strtoul :: "string \<Rightarrow> nat \<Rightarrow> u32 \<times> string \<times> bool" where
  "strtoul s b =
     (let (neg, s1) = strip_sign (dropWhile c_isspace s);
          (b, s2) = strip_base b s1;
          ds = takeWhile (is_digit b) s2;
          n = digits_val b ds
      in if ds = [] then (0, s, False)
         else if n \<ge> 2 ^ 32 then (-1, dropWhile (is_digit b) s2, True)
         else (if neg then - of_nat n else of_nat n, dropWhile (is_digit b) s2, False))"

text \<open>\<open>strtol\<close> in base ten, whose value saturates.\<close>

definition strtol10 :: "string \<Rightarrow> int" where
  "strtol10 s =
     (let (neg, s1) = strip_sign (dropWhile c_isspace s);
          n = int (digits_val 10 (takeWhile (is_digit 10) s1))
      in if neg then max (- (2 ^ 31)) (- n) else min (2 ^ 31 - 1) n)"

text \<open>\<open>strtol\<close> with the base taken from the prefix.\<close>

definition strtol0 :: "string \<Rightarrow> int" where
  "strtol0 s =
     (let (neg, s1) = strip_sign (dropWhile c_isspace s);
          (b, s2) = strip_base 0 s1;
          n = int (digits_val b (takeWhile (is_digit b) s2))
      in if neg then max (- (2 ^ 31)) (- n) else min (2 ^ 31 - 1) n)"

text \<open>\<open>%d\<close>: the number and the rest, or no match. The range of \<open>int\<close> is not considered.\<close>

definition scan_d :: "string \<Rightarrow> (int \<times> string) option" where
  "scan_d s =
     (let (neg, s1) = strip_sign (dropWhile c_isspace s);
          ds = takeWhile (is_digit 10) s1;
          n = int (digits_val 10 ds)
      in if ds = [] then None else Some (if neg then - n else n, dropWhile (is_digit 10) s1))"

subsection \<open>Searching\<close>

fun strchr :: "string \<Rightarrow> char \<Rightarrow> string option" where
  "strchr [] c = None"
| "strchr (x # xs) c = (if x = c then Some (x # xs) else strchr xs c)"

fun strstr :: "string \<Rightarrow> string \<Rightarrow> string option" where
  "strstr [] pat = (if pat = [] then Some [] else None)"
| "strstr (x # xs) pat = (if take (length pat) (x # xs) = pat then Some (x # xs) else strstr xs pat)"

subsection \<open>Words\<close>

text \<open>The words that \<open>strtok\<close> finds one after the other; \<open>cur\<close> is the word being read, last character first.\<close>

fun tokens :: "(char \<Rightarrow> bool) \<Rightarrow> string \<Rightarrow> string \<Rightarrow> string list" where
  "tokens delim [] [] = []"
| "tokens delim [] cur = [rev cur]"
| "tokens delim (c # cs) cur =
     (if delim c then (if cur = [] then tokens delim cs [] else rev cur # tokens delim cs [])
      else tokens delim cs (c # cur))"

subsection \<open>Printed numbers\<close>

text \<open>\<open>%u\<close> of \<open>printf\<close>.\<close>

fun decimal :: "nat \<Rightarrow> string" where
  "decimal n = (if n < 10 then [char_of (48 + n)] else decimal (n div 10) @ [char_of (48 + n mod 10)])"

declare decimal.simps [simp del]

lemma digit_char: "n < 10 \<Longrightarrow> of_char (char_of (48 + n) :: char) = 48 + (n :: nat)"
  by simp

lemma digit_val_char: "(n :: nat) < 10 \<Longrightarrow> digit_val (char_of (48 + n)) = Some n"
  by (simp add: digit_val_def)

lemma is_digit_char: "(n :: nat) < 10 \<Longrightarrow> is_digit 10 (char_of (48 + n))"
  by (simp add: is_digit_def digit_val_char)

lemma dec_digits: "c \<in> set (decimal n) \<Longrightarrow> is_digit 10 c"
proof (induction n rule: decimal.induct)
  case (1 n)
  then show ?case by (cases "n < 10") (auto simp: decimal.simps [of n] is_digit_char)
qed

lemma dec_nonempty: "decimal n \<noteq> []"
  by (simp add: decimal.simps [of n])

lemma dec_value: "digits_val 10 (decimal n) = n"
proof (induction n rule: decimal.induct)
  case (1 n)
  show ?case
  proof (cases "n < 10")
    case True
    then show ?thesis by (simp add: decimal.simps [of n] digits_val_def digit_val_char)
  next
    case False
    then have "digits_val 10 (decimal (n div 10)) = n div 10" using 1 by simp
    then show ?thesis using False by (simp add: decimal.simps [of n] digits_val_def digit_val_char)
  qed
qed

lemma hd_dec_zero: "hd (decimal n) = CHR ''0'' \<longleftrightarrow> n = 0"
proof (induction n rule: decimal.induct)
  case (1 n)
  have z: "char_of (48 + m) = CHR ''0'' \<longleftrightarrow> m = 0" if "m < 10" for m :: nat
  proof
    assume "char_of (48 + m) = CHR ''0''"
    then have "of_char (char_of (48 + m) :: char) = (48 :: nat)" by (simp only:) simp
    with digit_char [OF that] show "m = 0" by simp
  next
    assume "m = 0"
    then show "char_of (48 + m) = CHR ''0''" by (simp only: add_0_right) code_simp
  qed
  show ?case
  proof (cases "n < 10")
    case True
    with z show ?thesis by (simp add: decimal.simps [of n])
  next
    case False
    with 1 show ?thesis by (simp add: decimal.simps [of n] dec_nonempty)
  qed
qed

end
