(* ===== verification/Dm_Settings.thy ===== *)
theory Dm_Settings
  imports C_Strings
begin

section \<open>Device monitor: settings\<close>

text \<open>
  \<open>settings_module.c\<close> and \<open>parsing.c\<close> of \<open>tf_device_monitor\<close>: the text of a settings message becomes commands, and
  these become lines for the shell. Strings are lists of characters without the terminating zero. What \<open>openPipe\<close>
  gives to the shell is appended to \<open>shell\<close>. \<open>None\<close> stands for what C leaves undefined: a null pointer, a table entry
  that was never written, or a string longer than its array.
\<close>

subsection \<open>Words and characters\<close>

text \<open>\<open>split_line\<close>: the count of words is a \<open>uint8_t\<close>, so of 256 or more words only those after the last multiple of
  256 are seen; without any word the first pointer is null, here \<open>None\<close>.\<close>

definition split_line :: "string \<Rightarrow> char \<Rightarrow> string list option" where
  "split_line line delim =
     (let ts = tokens (\<lambda>c. c = delim) line []; seen = drop (256 * (length ts div 256)) ts
      in if seen = [] then None else Some seen)"

definition replaceSymbols :: "char \<Rightarrow> char \<Rightarrow> string \<Rightarrow> string" where
  "replaceSymbols oldSym newSym = map (\<lambda>c. if c = oldSym then newSym else c)"

definition removeCharacter :: "char \<Rightarrow> string \<Rightarrow> string" where
  "removeCharacter c = filter (\<lambda>x. x \<noteq> c)"

text \<open>The apostrophe and the end of a line.\<close>

definition apostrophe :: char where "apostrophe = char_of (39 :: nat)"
definition newline :: char where "newline = char_of (10 :: nat)"

definition quoted :: "string \<Rightarrow> string" where
  "quoted v = replaceSymbols CHR '']'' apostrophe (replaceSymbols CHR ''['' apostrophe v)"

definition first_line :: "string \<Rightarrow> string" where
  "first_line = takeWhile (\<lambda>c. c \<noteq> newline)"

subsection \<open>Commands of a message\<close>

datatype SETTINGS_CMD = SETTINGS_DEFAULT_ALL | SETTINGS_REBOOT_ALL | SETTINGS_IPADDRESS | SETTINGS_NETMASK
  | SETTINGS_GATEWAY | SETTINGS_SYSTEM_NAME | SETTINGS_SYSTEM_LOCATION | SETTINGS_SNMP
  | SETTINGS_SYS_RELOAD | SETTINGS_NET_RELOAD

record SETTINGS_INFO_t =
  setDHCP :: bool
  applyNetwork :: bool
  applySystem :: bool

definition settings_Table :: "(string \<times> SETTINGS_CMD) list" where
  "settings_Table =
     [(''DEFAULT_ALL'', SETTINGS_DEFAULT_ALL), (''REBOOT_ALL'', SETTINGS_REBOOT_ALL), (''IPADDRESS'', SETTINGS_IPADDRESS),
      (''NETMASK'', SETTINGS_NETMASK), (''GATEWAY'', SETTINGS_GATEWAY), (''SYSTEM_NAME'', SETTINGS_SYSTEM_NAME),
      (''SYSTEM_LOCATION'', SETTINGS_SYSTEM_LOCATION), (''SNMP_STATE'', SETTINGS_SNMP)]"

text \<open>A value is copied into 128 characters; one of 128 or more has no terminating zero.\<close>

definition SETTINGS_VALUE_LENGTH :: nat where "SETTINGS_VALUE_LENGTH = 128"

definition getCmdType :: "string \<Rightarrow> (SETTINGS_CMD \<times> string) option" where
  "getCmdType token = do {
     ws \<leftarrow> split_line token CHR ''='';
     c \<leftarrow> map_of settings_Table (ws ! 0);
     if length ws < 2 \<or> length (ws ! 1) \<ge> SETTINGS_VALUE_LENGTH then None else Some (c, ws ! 1)
   }"

definition getSettingsCmdArray :: "string list \<Rightarrow> (SETTINGS_CMD \<times> string) list option" where
  "getSettingsCmdArray ts = those (map getCmdType ts)"

subsection \<open>Running the commands\<close>

record dm_sys =
  settingsInfo :: SETTINGS_INFO_t
  shell :: "string list"

text \<open>What the daemon gets from outside: the text each command prints, and a flag of the command line.\<close>

record dm_env =
  command_output :: "string \<Rightarrow> string"
  locationTestFlag :: bool

definition OUTPUT_MAX_LENGTH :: nat where "OUTPUT_MAX_LENGTH = 128"

text \<open>What \<open>fgets\<close> puts into an array of \<open>OUTPUT_MAX_LENGTH\<close> characters, call by call: a line with its end, or as much
  of it as fits; \<open>cur\<close> is the piece being read, last character first.\<close>

fun fgets_all :: "string \<Rightarrow> string \<Rightarrow> string list" where
  "fgets_all cur [] = (if cur = [] then [] else [rev cur])"
| "fgets_all cur (c # cs) =
     (if c = newline \<or> length cur + 2 = OUTPUT_MAX_LENGTH then rev (c # cur) # fgets_all [] cs
      else fgets_all (c # cur) cs)"

definition printed :: "dm_env \<Rightarrow> string \<Rightarrow> string list" where
  "printed e cmd = fgets_all [] (command_output e cmd)"

definition openPipe :: "string \<Rightarrow> dm_sys \<Rightarrow> dm_sys" where
  "openPipe cmd s = s\<lparr>shell := shell s @ [cmd]\<rparr>"

text \<open>The command and the value, in an array of 128 characters.\<close>

definition mainCommand :: "string \<Rightarrow> string \<Rightarrow> string option" where
  "mainCommand cmd v = (if length cmd + length v \<ge> 128 then None else Some (cmd @ v))"

definition apply_network :: "dm_sys \<Rightarrow> dm_sys" where
  "apply_network s = s\<lparr>settingsInfo := (settingsInfo s)\<lparr>applyNetwork := True\<rparr>\<rparr>"

definition apply_system :: "dm_sys \<Rightarrow> dm_sys" where
  "apply_system s = s\<lparr>settingsInfo := (settingsInfo s)\<lparr>applySystem := True\<rparr>\<rparr>"

definition quote1 :: string where "quote1 = [apostrophe]"

definition runReset :: "string \<Rightarrow> dm_sys \<Rightarrow> dm_sys option" where
  "runReset v s = Some (openPipe (''echo '' @ quote1 @ ''firstboot -y && reboot'' @ quote1) s)"

definition runReboot :: "string \<Rightarrow> dm_sys \<Rightarrow> dm_sys option" where
  "runReboot v s = Some (openPipe (''echo '' @ quote1 @ ''reboot'' @ quote1) s)"

text \<open>The body of the loop runs once for each line that \<open>uci show\<close> prints.\<close>

definition runSetIp :: "dm_env \<Rightarrow> string \<Rightarrow> dm_sys \<Rightarrow> dm_sys option" where
  "runSetIp e v s =
     ofold (\<lambda>_ s. do {
       cmd \<leftarrow> mainCommand ''uci set network.lan.ipaddr='' (first_line (quoted v));
       Some (apply_network (openPipe cmd (openPipe (''uci set network.lan.proto='' @ quote1 @ ''static'' @ quote1) s)))
     }) (printed e ''uci show network.lan.proto'') (openPipe ''uci show network.lan.proto'' s)"

definition runSetMask :: "string \<Rightarrow> dm_sys \<Rightarrow> dm_sys option" where
  "runSetMask v s = do {
     cmd \<leftarrow> mainCommand ''uci set network.lan.netmask='' (first_line (quoted v));
     Some (apply_network (openPipe cmd s))
   }"

text \<open>The count of octets that are 255, or 5 when there are not four words.\<close>

definition checkGateWayValid :: "string \<Rightarrow> nat" where
  "checkGateWayValid ip =
     (case split_line (map (\<lambda>c. if c \<in> set ''.[]'' then CHR '' '' else c) ip) CHR '' '' of
        None \<Rightarrow> 5
      | Some ws \<Rightarrow> if length ws \<noteq> 4 then 5 else length (filter (\<lambda>w. strtol10 w = 255) ws))"

definition runSetGate :: "string \<Rightarrow> dm_sys \<Rightarrow> dm_sys option" where
  "runSetGate v s = do {
     s \<leftarrow> (if checkGateWayValid v = 0 then do {
              cmd \<leftarrow> mainCommand ''uci set network.lan.gateway='' (first_line (quoted v));
              Some (openPipe ''uci commit network'' (openPipe cmd s))
            }
            else Some (openPipe ''uci commit network'' (openPipe ''uci del network.lan.gateway'' s)));
     Some (apply_network s)
   }"

definition runSetDescription :: "dm_env \<Rightarrow> string \<Rightarrow> dm_sys \<Rightarrow> dm_sys option" where
  "runSetDescription e v s =
     (if v = [] then Some s
      else do {
        cmd \<leftarrow> mainCommand ''uci set system.@system[0].description=''
                 (if locationTestFlag e then quoted v else first_line (quoted v));
        Some (apply_system (openPipe ''uci commit system'' (openPipe cmd s)))
      })"

definition runSetLocation :: "dm_env \<Rightarrow> string \<Rightarrow> dm_sys \<Rightarrow> dm_sys option" where
  "runSetLocation e v s =
     (if v = [] then Some s
      else do {
        cmd \<leftarrow> mainCommand ''uci set system.@system[0].location=''
                 (if locationTestFlag e then quoted v else first_line (quoted v));
        Some (apply_system (openPipe ''uci commit system'' (openPipe cmd s)))
      })"

definition runSetSnmp :: "string \<Rightarrow> dm_sys \<Rightarrow> dm_sys option" where
  "runSetSnmp v s =
     (if v = [] then Some s
      else do {
        cmd \<leftarrow> mainCommand ''uci set snmpd.general.enabled='' (first_line (quoted v));
        Some (apply_network (openPipe ''/etc/init.d/snmpd reload'' (openPipe ''uci commit snmpd'' (openPipe cmd s))))
      })"

definition system_restart :: string where "system_restart = ''/etc/init.d/system restart''"
definition network_restart :: string where "network_restart = ''/etc/init.d/network restart''"

definition runSystemRestart :: "dm_sys \<Rightarrow> dm_sys" where
  "runSystemRestart = openPipe system_restart"

definition runNetworkRestart :: "dm_sys \<Rightarrow> dm_sys" where
  "runNetworkRestart = openPipe network_restart"

definition runSetingsCmd :: "dm_env \<Rightarrow> SETTINGS_CMD \<times> string \<Rightarrow> dm_sys \<Rightarrow> dm_sys option" where
  "runSetingsCmd e = (\<lambda>(c, v).
     case c of
       SETTINGS_DEFAULT_ALL \<Rightarrow> runReset v
     | SETTINGS_REBOOT_ALL \<Rightarrow> runReboot v
     | SETTINGS_IPADDRESS \<Rightarrow> runSetIp e v
     | SETTINGS_NETMASK \<Rightarrow> runSetMask v
     | SETTINGS_GATEWAY \<Rightarrow> runSetGate v
     | SETTINGS_SYSTEM_NAME \<Rightarrow> runSetDescription e v
     | SETTINGS_SYSTEM_LOCATION \<Rightarrow> runSetLocation e v
     | SETTINGS_SNMP \<Rightarrow> runSetSnmp v
     | SETTINGS_SYS_RELOAD \<Rightarrow> (\<lambda>s. Some (runSystemRestart s))
     | SETTINGS_NET_RELOAD \<Rightarrow> (\<lambda>s. Some (runNetworkRestart s)))"

definition settings_handler :: "dm_env \<Rightarrow> (SETTINGS_CMD \<times> string) list \<Rightarrow> dm_sys \<Rightarrow> dm_sys option" where
  "settings_handler e cmds s = do {
     s \<leftarrow> ofold (runSetingsCmd e) cmds s;
     let s = (if applySystem (settingsInfo s) then runSystemRestart s else s);
     let s = (if applyNetwork (settingsInfo s) then runNetworkRestart s else s);
     Some s
   }"

text \<open>The text of a message: \<open>getCmdType\<close> clears the flags before the commands run.\<close>

definition apply_settings :: "dm_env \<Rightarrow> string \<Rightarrow> dm_sys \<Rightarrow> dm_sys option" where
  "apply_settings e msg s = do {
     ts \<leftarrow> split_line msg CHR ''#'';
     cmds \<leftarrow> getSettingsCmdArray ts;
     settings_handler e cmds (s\<lparr>settingsInfo := \<lparr>setDHCP = False, applyNetwork = False, applySystem = False\<rparr>\<rparr>)
   }"

end
