(* ===== verification/Dm_Query.thy ===== *)
theory Dm_Query
  imports Dm_Settings
begin

section \<open>Device monitor: queries\<close>

text \<open>
  \<open>run_CLIcmd.c\<close>: the callbacks that fill the answer to a search from the output of scripts. Arrays of octets are
  lists of fixed length. \<open>None\<close> stands for what C leaves undefined: a string without its terminating zero, a write past
  an array, a number read from an array that was never written.
\<close>

subsection \<open>The answer\<close>

definition MAC_LEN :: nat where "MAC_LEN = 6"
definition IPV4_LEN :: nat where "IPV4_LEN = 4"
definition PORT_NUM :: nat where "PORT_NUM = 16"
definition MAX_LENGTH :: nat where "MAX_LENGTH = 128"

record search_out_msg_t =
  so_msg_type :: u8
  so_dev_type :: u8
  so_ip :: "u8 list"
  so_mac :: "u8 list"
  so_dev_descr :: "u8 list"
  so_dev_loc :: "u8 list"
  so_uptime :: "u8 list"
  so_firmware :: "u8 list"
  so_mask :: "u8 list"
  so_gate :: "u8 list"
  so_mac_entry :: "u8 list"

definition zero_search :: search_out_msg_t where
  "zero_search = \<lparr>so_msg_type = 0, so_dev_type = 0, so_ip = replicate IPV4_LEN 0, so_mac = replicate MAC_LEN 0,
     so_dev_descr = replicate MAX_LENGTH 0, so_dev_loc = replicate MAX_LENGTH 0, so_uptime = replicate 4 0,
     so_firmware = replicate 4 0, so_mask = replicate IPV4_LEN 0, so_gate = replicate IPV4_LEN 0,
     so_mac_entry = replicate (10 * PORT_NUM) 0\<rparr>"

text \<open>The union's view as octets; no member needs padding.\<close>

definition search_buff :: "search_out_msg_t \<Rightarrow> u8 list" where
  "search_buff m = [so_msg_type m, so_dev_type m] @ so_ip m @ so_mac m @ so_dev_descr m @ so_dev_loc m @ so_uptime m
     @ so_firmware m @ so_mask m @ so_gate m @ so_mac_entry m"

definition search_wf :: "search_out_msg_t \<Rightarrow> bool" where
  "search_wf m \<longleftrightarrow> length (so_ip m) = IPV4_LEN \<and> length (so_mac m) = MAC_LEN \<and> length (so_dev_descr m) = MAX_LENGTH
     \<and> length (so_dev_loc m) = MAX_LENGTH \<and> length (so_uptime m) = 4 \<and> length (so_firmware m) = 4
     \<and> length (so_mask m) = IPV4_LEN \<and> length (so_gate m) = IPV4_LEN \<and> length (so_mac_entry m) = 10 * PORT_NUM"

lemma search_buff_length: "search_wf m \<Longrightarrow> length (search_buff m) = 444"
  by (simp add: search_wf_def search_buff_def IPV4_LEN_def MAC_LEN_def MAX_LENGTH_def PORT_NUM_def)

subsection \<open>Names of the interface\<close>

record CONFIG_PARAM_t =
  ifName :: string
  deviceName :: string
  mngtDevice :: string

definition NUL :: char where "NUL = char_of (0 :: nat)"

definition zero_name :: string where "zero_name = replicate 16 NUL"

definition zero_config :: CONFIG_PARAM_t where
  "zero_config = \<lparr>ifName = zero_name, deviceName = zero_name, mngtDevice = zero_name\<rparr>"

text \<open>\<open>strncpy\<close> of the string without its terminating zero: what was behind it stays.\<close>

definition overwrite :: "'a list \<Rightarrow> 'a list \<Rightarrow> 'a list option" where
  "overwrite new old = (if length new \<le> length old then Some (new @ drop (length new) old) else None)"

text \<open>An array of characters as a string.\<close>

definition as_string :: "string \<Rightarrow> string option" where
  "as_string a = (if NUL \<in> set a then Some (takeWhile (\<lambda>c. c \<noteq> NUL) a) else None)"

definition octets :: "string \<Rightarrow> u8 list" where
  "octets = map (\<lambda>c. of_nat (of_char c))"

datatype cmd_type_e = CMD_DEVICE_IF_NAME | CMD_DEVICE_DEV_NAME | CMD_DEVICE_MNGT | CMD_NET_INFO_IP | CMD_NET_INFO_MASK
  | CMD_NET_INFO_MAC | CMD_NET_INFO_GATE_WAY | CMD_TIME_INFO | CMD_BOARD_INFO | CMD_SYSTEM_INFO

definition CMD_MAX :: nat where "CMD_MAX = 10"

definition scripts :: string where "scripts = ''/etc/tf_device_monitor_scripts/''"

definition CommandTable :: "cmd_type_e \<Rightarrow> string" where
  "CommandTable c = scripts @
     (case c of
        CMD_DEVICE_IF_NAME \<Rightarrow> ''getNetDeviceInfo.lua if_name''
      | CMD_DEVICE_DEV_NAME \<Rightarrow> ''getNetDeviceInfo.lua dev_name''
      | CMD_DEVICE_MNGT \<Rightarrow> ''getMngtDevice.lua''
      | CMD_NET_INFO_IP \<Rightarrow> ''getNetData.lua ipaddr''
      | CMD_NET_INFO_MASK \<Rightarrow> ''getNetData.lua netmask''
      | CMD_NET_INFO_MAC \<Rightarrow> ''getNetData.lua macaddr''
      | CMD_NET_INFO_GATE_WAY \<Rightarrow> ''getNetData.lua gateWay''
      | CMD_TIME_INFO \<Rightarrow> ''getUptime.lua''
      | CMD_BOARD_INFO \<Rightarrow> ''getBoardInfo.lua''
      | CMD_SYSTEM_INFO \<Rightarrow> ''getSystemInfo.lua'')"

text \<open>\<open>snprintf\<close> of a command and the name it is about.\<close>

definition about :: "cmd_type_e \<Rightarrow> string \<Rightarrow> string option" where
  "about c name = do {
     n \<leftarrow> as_string name;
     Some (take (OUTPUT_MAX_LENGTH - 1) (CommandTable c @ '' '' @ n))
   }"

subsection \<open>Reading the output\<close>

text \<open>The lines one by one with the count, a \<open>uint8_t\<close>, that each loop keeps.\<close>

fun each_line :: "(u8 \<Rightarrow> string \<Rightarrow> 'a \<Rightarrow> 'a option) \<Rightarrow> u8 \<Rightarrow> string list \<Rightarrow> 'a \<Rightarrow> 'a option" where
  "each_line f n [] a = Some a"
| "each_line f n (l # ls) a = Option.bind (f (n + 1) l a) (each_line f (n + 1) ls)"

definition first_line_only :: "u8 \<Rightarrow> string \<Rightarrow> string \<Rightarrow> string option" where
  "first_line_only n l param = (if n = 1 then overwrite l param else Some param)"

text \<open>Numbers, one a line, into an array of octets. Without a further line the one before is read again.\<close>

fun number_lines :: "(string \<Rightarrow> int) \<Rightarrow> string list \<Rightarrow> string option \<Rightarrow> u8 list \<Rightarrow> u8 list option" where
  "number_lines strtol ls cur [] = Some []"
| "number_lines strtol ls cur (x # xs) = do {
     l \<leftarrow> (case ls of [] \<Rightarrow> cur | l # _ \<Rightarrow> Some l);
     let v = strtol l;
     xs \<leftarrow> number_lines strtol (tl ls) (Some l) xs;
     Some ((if v \<ge> 0 \<and> v < 256 then of_int v else x) # xs)
   }"

text \<open>\<open>strtol\<close> in base sixteen.\<close>

definition strtol16 :: "string \<Rightarrow> int" where
  "strtol16 s =
     (let (neg, s1) = strip_sign (dropWhile c_isspace s);
          n = int (digits_val 16 (takeWhile (is_digit 16) (snd (strip_base 16 s1))))
      in if neg then max (- (2 ^ 31)) (- n) else min (2 ^ 31 - 1) n)"

subsection \<open>The callbacks\<close>

text \<open>What they work on: the answer, the names and the shell.\<close>

record dm_info =
  searchOutMsg :: search_out_msg_t
  configParam :: CONFIG_PARAM_t
  dsys :: dm_sys

definition run :: "string \<Rightarrow> dm_info \<Rightarrow> dm_info" where
  "run cmd d = d\<lparr>dsys := openPipe cmd (dsys d)\<rparr>"

definition set_config :: "(CONFIG_PARAM_t \<Rightarrow> CONFIG_PARAM_t) \<Rightarrow> dm_info \<Rightarrow> dm_info" where
  "set_config f d = d\<lparr>configParam := f (configParam d)\<rparr>"

definition set_answer :: "(search_out_msg_t \<Rightarrow> search_out_msg_t) \<Rightarrow> dm_info \<Rightarrow> dm_info" where
  "set_answer f d = d\<lparr>searchOutMsg := f (searchOutMsg d)\<rparr>"

definition getConfigParam :: "dm_env \<Rightarrow> cmd_type_e \<Rightarrow> string \<Rightarrow> string option" where
  "getConfigParam e c param = each_line first_line_only 0 (printed e (CommandTable c)) param"

definition getMngmntnDevice :: "dm_env \<Rightarrow> string \<Rightarrow> string \<Rightarrow> string option" where
  "getMngmntnDevice e cmd param = each_line first_line_only 0 (printed e cmd) param"

definition getDeviceInfo :: "dm_env \<Rightarrow> dm_info \<Rightarrow> dm_info option" where
  "getDeviceInfo e d = do {
     let d = run (CommandTable CMD_DEVICE_IF_NAME) d;
     n \<leftarrow> getConfigParam e CMD_DEVICE_IF_NAME (ifName (configParam d));
     let d = run (CommandTable CMD_DEVICE_DEV_NAME) (set_config (ifName_update (\<lambda>_. n)) d);
     n \<leftarrow> getConfigParam e CMD_DEVICE_DEV_NAME (deviceName (configParam d));
     let d = set_config (deviceName_update (\<lambda>_. n)) d;
     cmd \<leftarrow> about CMD_DEVICE_MNGT (ifName (configParam d));
     n \<leftarrow> getMngmntnDevice e cmd (mngtDevice (configParam d));
     Some (set_config (mngtDevice_update (\<lambda>_. n)) (run cmd d))
   }"

definition getIpaddr :: "dm_env \<Rightarrow> dm_info \<Rightarrow> dm_info option" where
  "getIpaddr e d = do {
     cmd \<leftarrow> about CMD_NET_INFO_IP (ifName (configParam d));
     ip \<leftarrow> number_lines strtol10 (printed e cmd) None (so_ip (searchOutMsg d));
     Some (set_answer (so_ip_update (\<lambda>_. ip)) (run cmd d))
   }"

definition getMacaddr :: "dm_env \<Rightarrow> dm_info \<Rightarrow> dm_info option" where
  "getMacaddr e d = do {
     cmd \<leftarrow> about CMD_NET_INFO_MAC (deviceName (configParam d));
     mac \<leftarrow> number_lines strtol16 (printed e cmd) None (so_mac (searchOutMsg d));
     Some (set_answer (so_mac_update (\<lambda>_. mac)) (run cmd d))
   }"

definition getMask :: "dm_env \<Rightarrow> dm_info \<Rightarrow> dm_info option" where
  "getMask e d = do {
     cmd \<leftarrow> about CMD_NET_INFO_MASK (ifName (configParam d));
     mask \<leftarrow> number_lines strtol10 (printed e cmd) None (so_mask (searchOutMsg d));
     Some (set_answer (so_mask_update (\<lambda>_. mask)) (run cmd d))
   }"

definition geGateWay :: "dm_env \<Rightarrow> dm_info \<Rightarrow> dm_info option" where
  "geGateWay e d = do {
     cmd \<leftarrow> about CMD_NET_INFO_GATE_WAY (mngtDevice (configParam d));
     gate \<leftarrow> number_lines strtol10 (printed e cmd) None (so_gate (searchOutMsg d));
     Some (set_answer (so_gate_update (\<lambda>_. gate)) (run cmd d))
   }"

definition getNETinfo :: "dm_env \<Rightarrow> dm_info \<Rightarrow> dm_info option" where
  "getNETinfo e d = do {
     d \<leftarrow> getIpaddr e d;
     d \<leftarrow> getMask e d;
     d \<leftarrow> getMacaddr e d;
     geGateWay e d
   }"

definition uptime_octets :: "string \<Rightarrow> u8 list" where
  "uptime_octets l =
     (let d_uptime = of_int (strtol10 l) :: u32 in map (\<lambda>i. ucast (drop_bit (8 * i) d_uptime)) [0 ..< 4])"

definition getTimeInfo :: "dm_env \<Rightarrow> dm_info \<Rightarrow> dm_info option" where
  "getTimeInfo e d =
     each_line (\<lambda>n l d. Some (if n = 1 then set_answer (so_uptime_update (\<lambda>_. uptime_octets l)) d else d))
       0 (printed e (CommandTable CMD_TIME_INFO)) (run (CommandTable CMD_TIME_INFO) d)"

text \<open>The version is a constant in the code; the fourth octet is not written.\<close>

definition getBoardInfo :: "dm_env \<Rightarrow> dm_info \<Rightarrow> dm_info option" where
  "getBoardInfo e d = do {
     d \<leftarrow> each_line (\<lambda>n l d. Some (set_answer (so_dev_type_update (\<lambda>_. of_int (strtol10 l))) d))
            0 (printed e (CommandTable CMD_BOARD_INFO)) (run (CommandTable CMD_BOARD_INFO) d);
     Some (set_answer (so_firmware_update (\<lambda>fw. [56, 34, 12, fw ! 3])) d)
   }"

definition padded :: "string \<Rightarrow> u8 list option" where
  "padded l = overwrite (octets (removeCharacter apostrophe l)) (replicate MAX_LENGTH 0)"

definition getSystemInfo :: "dm_env \<Rightarrow> dm_info \<Rightarrow> dm_info option" where
  "getSystemInfo e d =
     each_line (\<lambda>n l d. if n = 1 then do { s \<leftarrow> padded l; Some (set_answer (so_dev_loc_update (\<lambda>_. s)) d) }
                        else if n = 2 then do { s \<leftarrow> padded l; Some (set_answer (so_dev_descr_update (\<lambda>_. s)) d) }
                        else Some d)
       0 (printed e (CommandTable CMD_SYSTEM_INFO)) (run (CommandTable CMD_SYSTEM_INFO) d)"

end
