(* ===== verification/Dm_State.thy ===== *)
theory Dm_State
  imports Dm_Query
begin

section \<open>Device monitor: the state machine\<close>

text \<open>
  \<open>state_handler.c\<close> and \<open>net_utils.c\<close>: datagrams arrive in a buffer, a search is answered once every callback has run,
  settings are applied when the address and the hash agree. What is sent is appended to \<open>sent\<close>. \<open>None\<close> stands for what
  C leaves undefined: a write before or past an array, a call through a word that is no callback.
\<close>

subsection \<open>Types\<close>

datatype error_code_t = OK | ERR_AUTHENTICATION | ERR_CONFIGURATION | ERR_OBJ_NOT_FOUND | ERR_UNAVAILABLE_RESOURCE
  | ERR_NETWORK | INFO_MAC_NOT_IDENTICAL

definition error_code :: "error_code_t \<Rightarrow> u8" where
  "error_code c = (case c of OK \<Rightarrow> 0 | ERR_AUTHENTICATION \<Rightarrow> 1 | ERR_CONFIGURATION \<Rightarrow> 2 | ERR_OBJ_NOT_FOUND \<Rightarrow> 3
     | ERR_UNAVAILABLE_RESOURCE \<Rightarrow> 4 | ERR_NETWORK \<Rightarrow> 5 | INFO_MAC_NOT_IDENTICAL \<Rightarrow> 6)"

datatype pass_id_e = pass_mac | pass_md5

definition request_find_device :: u8 where "request_find_device = 0xE0"
definition ack_find_device :: u8 where "ack_find_device = 0xE1"
definition request_set_config :: u8 where "request_set_config = 0xE2"
definition ack_to_set_config :: u8 where "ack_to_set_config = 0xE3"
definition request_to_update :: u8 where "request_to_update = 0xE4"

datatype TYPE_MSG_e = type_idle | type_searchMsg | type_settingsMsg | type_reload

datatype CLIENT_STATE_e = CLIENT_SATE_IDLE | CLIENT_SATE_INIT | CLIENT_STATE_WAIT | CLIENT_STATE_FILL_MSG
  | CLIENT_STATE_SEND | CLIENT_STATE_SETTINGS | CLIENT_STATE_RELOAD

text \<open>The bits of the event word that are used.\<close>

datatype CLIENT_EVENT_e = CLIENT_EVENT_FIND | CLIENT_EVENT_MSG_READY | CLIENT_EVENT_SETTINGS | CLIENT_EVENT_UPDATE
  | CLIENT_EVENT_NET_RELOAD | CLIENT_EVENT_SYS_RELOAD

datatype fill_callback = call_getDeviceInfo | call_getNETinfo | call_getTimeInfo | call_getBoardInfo | call_getSystemInfo

datatype send_callback = client_sendSearchMsg | client_sendSettMsg

definition CLIENT_FILLMSG_NUM_OF_CALLBACKS :: nat where "CLIENT_FILLMSG_NUM_OF_CALLBACKS = 5"
definition MAX_BUFFER_SIZE :: nat where "MAX_BUFFER_SIZE = 1550"
definition MD5_LEN :: nat where "MD5_LEN = 32"
definition SETT_MSG_SIZE :: nat where "SETT_MSG_SIZE = 1070"
definition SETTING_MSG_INDEX :: nat where "SETTING_MSG_INDEX = 39"

record client =
  state :: CLIENT_STATE_e
  event :: "CLIENT_EVENT_e set"
  msgType :: TYPE_MSG_e
  count :: nat
  fillCallbacks :: "fill_callback option list"
  sendCallbacks :: "TYPE_MSG_e \<Rightarrow> send_callback option"
  info :: dm_info
  settMsg :: "u8 list"
  passFlag :: "pass_id_e set"
  buffer :: "u8 list"
  bufferLen :: nat
  sent :: "u8 list list"

definition client_start :: client where
  "client_start = \<lparr>state = CLIENT_SATE_INIT, event = {}, msgType = type_idle, count = 0,
     fillCallbacks = replicate CLIENT_FILLMSG_NUM_OF_CALLBACKS None, sendCallbacks = (\<lambda>_. None),
     info = \<lparr>searchOutMsg = zero_search, configParam = zero_config,
       dsys = \<lparr>settingsInfo = \<lparr>setDHCP = False, applyNetwork = False, applySystem = False\<rparr>, shell = []\<rparr>\<rparr>,
     settMsg = replicate SETT_MSG_SIZE 0, passFlag = {}, buffer = replicate MAX_BUFFER_SIZE 0, bufferLen = 0, sent = []\<rparr>"

text \<open>
  What a step depends on: the next datagram (\<open>None\<close> when \<open>recvfrom\<close> fails), whether a datagram can be sent, the parser of
  the JSON library (the text of the member of that name, if it is a string), what \<open>hash_data\<close> holds before it is written,
  and choices of the compiler: whether the octet behind \<open>hash_data\<close> is unused, whether the words behind the array of
  callbacks are null, whether \<open>char\<close> is unsigned, and whether \<open>x |= f()\<close> reads \<open>x\<close> before it calls \<open>f\<close>.
\<close>

record client_env = dm_env +
  datagram :: "u8 list option"
  net_ok :: bool
  json_string :: "string \<Rightarrow> string \<Rightarrow> string option"
  hash_before :: "u8 list"
  octet_spare :: bool
  words_null :: bool
  char_unsigned :: bool
  load_first :: bool

subsection \<open>Datagrams\<close>

text \<open>\<open>bufferLen\<close> is unsigned, so the failure of \<open>recvfrom\<close> is not seen and the zero is written before the buffer.\<close>

definition net_getCommand :: "client_env \<Rightarrow> client \<Rightarrow> (u8 \<times> client) option" where
  "net_getCommand e c = do {
     dg \<leftarrow> datagram e;
     let dg = take MAX_BUFFER_SIZE dg;
     buf \<leftarrow> overwrite (dg @ [0]) (buffer c);
     Some (buf ! 0, c\<lparr>buffer := buf, bufferLen := length dg + 1\<rparr>)
   }"

definition getBuffer :: "client \<Rightarrow> client option" where
  "getBuffer c = do {
     m \<leftarrow> overwrite (take (bufferLen c) (buffer c)) (settMsg c);
     Some (c\<lparr>settMsg := m\<rparr>)
   }"

definition net_sendMsg :: "client_env \<Rightarrow> client \<Rightarrow> client" where
  "net_sendMsg e c = (if net_ok e then c\<lparr>sent := sent c @ [take (bufferLen c - 1) (buffer c)]\<rparr> else c)"

subsection \<open>Callbacks\<close>

definition fill_call :: "client_env \<Rightarrow> fill_callback \<Rightarrow> dm_info \<Rightarrow> dm_info option" where
  "fill_call e f = (case f of
     call_getDeviceInfo \<Rightarrow> getDeviceInfo (dm_env.truncate e)
   | call_getNETinfo \<Rightarrow> getNETinfo (dm_env.truncate e)
   | call_getTimeInfo \<Rightarrow> getTimeInfo (dm_env.truncate e)
   | call_getBoardInfo \<Rightarrow> getBoardInfo (dm_env.truncate e)
   | call_getSystemInfo \<Rightarrow> getSystemInfo (dm_env.truncate e))"

definition client_emitEvent_fillmsg :: "client_env \<Rightarrow> client \<Rightarrow> client option" where
  "client_emitEvent_fillmsg e c =
     (if count c < CMD_MAX then do {
        d \<leftarrow> (if count c < CLIENT_FILLMSG_NUM_OF_CALLBACKS
              then (case fillCallbacks c ! count c of None \<Rightarrow> Some (info c) | Some f \<Rightarrow> fill_call e f (info c))
              else if words_null e then Some (info c) else None);
        Some (c\<lparr>info := d, count := count c + 1\<rparr>)
      }
      else Some (c\<lparr>event := insert CLIENT_EVENT_MSG_READY (event c)\<rparr>))"

fun client_registerEvent_fillmsg :: "fill_callback \<Rightarrow> fill_callback option list \<Rightarrow> fill_callback option list" where
  "client_registerEvent_fillmsg f [] = []"
| "client_registerEvent_fillmsg f (None # fs) = Some f # fs"
| "client_registerEvent_fillmsg f (Some g # fs) = Some g # client_registerEvent_fillmsg f fs"

definition client_registerEvent_sendmsg :: "send_callback \<Rightarrow> client \<Rightarrow> client" where
  "client_registerEvent_sendmsg f c =
     (if sendCallbacks c (msgType c) = None then c\<lparr>sendCallbacks := (sendCallbacks c)(msgType c := Some f)\<rparr> else c)"

definition client_unRegisterEvent_sendmsg :: "client \<Rightarrow> client" where
  "client_unRegisterEvent_sendmsg c = c\<lparr>sendCallbacks := (sendCallbacks c)(msgType c := None)\<rparr>"

definition send_call :: "client_env \<Rightarrow> send_callback \<Rightarrow> client \<Rightarrow> client option" where
  "send_call e f c = do {
     buf \<leftarrow> overwrite (case f of client_sendSearchMsg \<Rightarrow> search_buff (searchOutMsg (info c))
                              | client_sendSettMsg \<Rightarrow> settMsg c) (buffer c);
     Some (net_sendMsg e (c\<lparr>buffer := buf\<rparr>))
   }"

definition client_emitEvent_sendmsg :: "client_env \<Rightarrow> client \<Rightarrow> client option" where
  "client_emitEvent_sendmsg e c =
     (case sendCallbacks c (msgType c) of None \<Rightarrow> Some c | Some f \<Rightarrow> send_call e f c)"

subsection \<open>Settings\<close>

definition sett_mac :: "u8 list \<Rightarrow> u8 list" where "sett_mac m = take MAC_LEN (drop 1 m)"
definition sett_md5 :: "u8 list \<Rightarrow> u8 list" where "sett_md5 m = take MD5_LEN (drop 7 m)"

definition sett_text :: "u8 list \<Rightarrow> string" where
  "sett_text m = map (\<lambda>b. char_of (unat b)) (takeWhile (\<lambda>b. b \<noteq> 0) (drop SETTING_MSG_INDEX m))"

definition checkMacAddress :: "client_env \<Rightarrow> client \<Rightarrow> (pass_id_e set \<times> client) option" where
  "checkMacAddress e c = do {
     d \<leftarrow> getNETinfo (dm_env.truncate e) (info c);
     let flags = (if so_mac (searchOutMsg d) = sett_mac (settMsg c) then passFlag c else passFlag c - {pass_mac});
     Some (flags, c\<lparr>info := d, passFlag := flags\<rparr>)
   }"

definition ubus_rpcd :: string where
  "ubus_rpcd = ''ubus call uci get '' @ quote1 @ ''{'' @ [CHR 0x22] @ ''config'' @ [CHR 0x22] @ '':'' @ [CHR 0x22] @ ''rpcd''
     @ [CHR 0x22] @ ''}'' @ quote1"

text \<open>\<open>strcpy\<close> into \<open>hash_data\<close>, whose 32 octets do not hold the zero after a hash of 32 characters.\<close>

definition strcpy_hash :: "client_env \<Rightarrow> string \<Rightarrow> u8 list \<Rightarrow> u8 list option" where
  "strcpy_hash e v a =
     (if length v = MD5_LEN \<and> octet_spare e then Some (octets v) else overwrite (octets v @ [0]) a)"

definition getData_formJson :: "client_env \<Rightarrow> string \<Rightarrow> string \<Rightarrow> u8 list \<Rightarrow> u8 list option" where
  "getData_formJson e str opt data = do {
     data \<leftarrow> strcpy_hash e [] data;
     (case json_string e (''{'' @ take (length str - 2) str @ ''}'') opt of
        None \<Rightarrow> Some data
      | Some v \<Rightarrow> strcpy_hash e v data)
   }"

definition hash_data :: "client_env \<Rightarrow> u8 list option" where
  "hash_data e = do {
     a \<leftarrow> strcpy_hash e [] (hash_before e);
     ofold (\<lambda>l a. if strstr l ''hash'' = None then Some a else getData_formJson e l ''hash'' a)
       (printed (dm_env.truncate e) ubus_rpcd) a
   }"

definition checkMD5Sum :: "client_env \<Rightarrow> client \<Rightarrow> (pass_id_e set \<times> client) option" where
  "checkMD5Sum e c = do {
     h \<leftarrow> hash_data e;
     let same = (sett_md5 (settMsg c) = h \<and> (char_unsigned e \<or> list_all (\<lambda>b. b < 128) h));
     let flags = (if same then passFlag c else passFlag c - {pass_md5});
     Some (flags, c\<lparr>info := run ubus_rpcd (info c), passFlag := flags\<rparr>)
   }"

text \<open>\<open>passFlag |= f()\<close>, where \<open>f\<close> changes \<open>passFlag\<close>.\<close>

definition or_passFlag :: "client_env \<Rightarrow> (client_env \<Rightarrow> client \<Rightarrow> (pass_id_e set \<times> client) option) \<Rightarrow> client \<Rightarrow> client option"
  where
  "or_passFlag e f c = do {
     (r, d) \<leftarrow> f e c;
     Some (d\<lparr>passFlag := (if load_first e then passFlag c else passFlag d) \<union> r\<rparr>)
   }"

text \<open>
  What \<open>strtok\<close> leaves of the message: the end of each word is overwritten with zero, first at the signs between the
  settings, then at the equals signs of those that are looked at; \<open>n\<close> settings are skipped.
\<close>

fun stamp :: "nat \<Rightarrow> bool \<Rightarrow> bool \<Rightarrow> u8 list \<Rightarrow> u8 list" where
  "stamp n wd eq [] = []"
| "stamp n wd eq (b # bs) =
     (if b = 0 then b # bs
      else if b = 35 then (if wd then 0 else b) # stamp (if wd then n - 1 else n) False False bs
      else if b = 61 then (if eq \<and> n = 0 then 0 else b) # stamp n True False bs
      else b # stamp n True True bs)"

definition split_stamp :: "u8 list \<Rightarrow> u8 list" where
  "split_stamp m =
     (let ts = tokens (\<lambda>c. c = CHR ''#'') (sett_text m) []
      in take SETTING_MSG_INDEX m @ stamp (256 * (length ts div 256)) False False (drop SETTING_MSG_INDEX m))"

definition client_settings :: "client_env \<Rightarrow> client \<Rightarrow> (error_code_t \<times> client) option" where
  "client_settings e c = do {
     c \<leftarrow> getBuffer (c\<lparr>passFlag := {pass_mac, pass_md5}\<rparr>);
     c \<leftarrow> or_passFlag e checkMacAddress c;
     c \<leftarrow> or_passFlag e checkMD5Sum c;
     if pass_mac \<in> passFlag c then
       if pass_md5 \<in> passFlag c then do {
         s \<leftarrow> apply_settings (dm_env.truncate e) (sett_text (settMsg c)) (dsys (info c));
         Some (OK, c\<lparr>info := (info c)\<lparr>dsys := s\<rparr>, settMsg := split_stamp (settMsg c)\<rparr>)
       }
       else Some (ERR_AUTHENTICATION, c)
     else Some (INFO_MAC_NOT_IDENTICAL, c)
   }"

text \<open>The head of the answer: the type, the hash cleared, and the result in its first octet.\<close>

definition settings_answer :: "error_code_t \<Rightarrow> u8 list \<Rightarrow> u8 list" where
  "settings_answer r m =
     ack_to_set_config # sett_mac m @ error_code r # replicate (MD5_LEN - 1) 0 @ drop SETTING_MSG_INDEX m"

subsection \<open>The handler\<close>

definition client_waitCommand :: "client_env \<Rightarrow> client \<Rightarrow> (CLIENT_EVENT_e set \<times> client) option" where
  "client_waitCommand e c = do {
     (cmd, c) \<leftarrow> net_getCommand e c;
     Some (if cmd = request_find_device then {CLIENT_EVENT_FIND}
           else if cmd = request_set_config then {CLIENT_EVENT_SETTINGS}
           else if cmd = request_to_update then {CLIENT_EVENT_UPDATE}
           else {}, c)
   }"

definition client_init :: "client \<Rightarrow> client" where
  "client_init c =
     c\<lparr>fillCallbacks := fold client_registerEvent_fillmsg
          [call_getDeviceInfo, call_getNETinfo, call_getTimeInfo, call_getBoardInfo, call_getSystemInfo] (fillCallbacks c),
       state := CLIENT_STATE_WAIT\<rparr>"

definition client_wait :: "client_env \<Rightarrow> client \<Rightarrow> client option" where
  "client_wait e c = do {
     (ev, c) \<leftarrow> client_waitCommand e c;
     let c = c\<lparr>event := event c \<union> ev\<rparr>;
     let c = (if CLIENT_EVENT_FIND \<in> event c
              then c\<lparr>msgType := type_searchMsg, event := event c - {CLIENT_EVENT_FIND}, state := CLIENT_STATE_FILL_MSG,
                     count := 0\<rparr>
              else c);
     let c = (if CLIENT_EVENT_SETTINGS \<in> event c
              then c\<lparr>msgType := type_settingsMsg, event := event c - {CLIENT_EVENT_SETTINGS}, state := CLIENT_STATE_SETTINGS,
                     count := 0\<rparr>
              else c);
     Some c
   }"

definition client_send :: "client_env \<Rightarrow> client \<Rightarrow> client option" where
  "client_send e c = do {
     c \<leftarrow> client_emitEvent_sendmsg e (c\<lparr>state := CLIENT_STATE_RELOAD\<rparr>);
     Some (client_unRegisterEvent_sendmsg c)
   }"

definition client_fill :: "client_env \<Rightarrow> client \<Rightarrow> client option" where
  "client_fill e c = do {
     c \<leftarrow> client_emitEvent_fillmsg e c;
     let c = c\<lparr>info := set_answer (so_msg_type_update (\<lambda>_. ack_find_device)) (info c)\<rparr>;
     Some (if CLIENT_EVENT_MSG_READY \<in> event c
           then (client_registerEvent_sendmsg client_sendSearchMsg (c\<lparr>event := event c - {CLIENT_EVENT_MSG_READY}\<rparr>))
                  \<lparr>state := CLIENT_STATE_SEND\<rparr>
           else c)
   }"

definition reload_events :: "SETTINGS_INFO_t \<Rightarrow> CLIENT_EVENT_e set" where
  "reload_events s = (if applySystem s then {CLIENT_EVENT_SYS_RELOAD} else {})
     \<union> (if applyNetwork s then {CLIENT_EVENT_NET_RELOAD} else {})"

definition client_set :: "client_env \<Rightarrow> client \<Rightarrow> client option" where
  "client_set e c = do {
     (r, c) \<leftarrow> client_settings e c;
     let c = c\<lparr>settMsg := settings_answer r (settMsg c)\<rparr>;
     Some (case r of
             ERR_AUTHENTICATION \<Rightarrow> (client_registerEvent_sendmsg client_sendSettMsg c)\<lparr>state := CLIENT_STATE_SEND\<rparr>
           | OK \<Rightarrow> (client_registerEvent_sendmsg client_sendSettMsg c)
                      \<lparr>event := event c \<union> reload_events (settingsInfo (dsys (info c))), state := CLIENT_STATE_SEND\<rparr>
           | INFO_MAC_NOT_IDENTICAL \<Rightarrow> c\<lparr>state := CLIENT_STATE_WAIT\<rparr>
           | _ \<Rightarrow> c)
   }"

definition on_shell :: "(dm_sys \<Rightarrow> dm_sys) \<Rightarrow> client \<Rightarrow> client" where
  "on_shell f c = c\<lparr>info := (info c)\<lparr>dsys := f (dsys (info c))\<rparr>\<rparr>"

definition client_reload :: "client \<Rightarrow> client" where
  "client_reload c =
     (let c = (if CLIENT_EVENT_SYS_RELOAD \<in> event c
               then on_shell runSystemRestart (c\<lparr>event := event c - {CLIENT_EVENT_SYS_RELOAD}\<rparr>) else c);
          c = (if CLIENT_EVENT_NET_RELOAD \<in> event c
               then on_shell runNetworkRestart (c\<lparr>event := event c - {CLIENT_EVENT_NET_RELOAD}\<rparr>) else c)
      in c\<lparr>state := CLIENT_STATE_WAIT\<rparr>)"

definition client_handler :: "client_env \<Rightarrow> client \<Rightarrow> client option" where
  "client_handler e c =
     (case state c of
        CLIENT_SATE_IDLE \<Rightarrow> Some c
      | CLIENT_SATE_INIT \<Rightarrow> Some (client_init c)
      | CLIENT_STATE_WAIT \<Rightarrow> client_wait e c
      | CLIENT_STATE_FILL_MSG \<Rightarrow> client_fill e c
      | CLIENT_STATE_SEND \<Rightarrow> client_send e c
      | CLIENT_STATE_SETTINGS \<Rightarrow> client_set e c
      | CLIENT_STATE_RELOAD \<Rightarrow> Some (client_reload c))"

text \<open>\<open>client_app\<close>: the handler again and again; each call has its own environment.\<close>

definition client_app :: "client_env list \<Rightarrow> client \<Rightarrow> client option" where
  "client_app = ofold client_handler"

end
