(* ===== verification/Dm_Inv.thy ===== *)
theory Dm_Inv
  imports Dm_State
begin

section \<open>Device monitor: invariant\<close>

text \<open>
  The callbacks only ask, the checks of \<open>client_settings\<close> in one piece, and the invariant of the state machine with the
  lemma that each step of the handler keeps it.
\<close>

subsection \<open>The queries change nothing\<close>

definition is_query :: "string \<Rightarrow> bool" where
  "is_query cmd \<longleftrightarrow> cmd = ubus_rpcd \<or> take (length scripts) cmd = scripts"

text \<open>A callback only asks: it appends queries to the shell and keeps the shape of the answer.\<close>

definition asks :: "dm_info \<Rightarrow> dm_info \<Rightarrow> bool" where
  "asks d d' \<longleftrightarrow> (\<exists>qs. shell (dsys d') = shell (dsys d) @ qs \<and> list_all is_query qs)
     \<and> settingsInfo (dsys d') = settingsInfo (dsys d) \<and> (search_wf (searchOutMsg d) \<longrightarrow> search_wf (searchOutMsg d'))"

lemma asks_refl [simp, intro]: "asks d d"
  by (simp add: asks_def)

lemma asks_trans [trans]: "asks a b \<Longrightarrow> asks b c \<Longrightarrow> asks a c"
  unfolding asks_def by (metis append_assoc list_all_append)

lemma asks_run: "is_query cmd \<Longrightarrow> asks d (run cmd d)"
  by (simp add: asks_def run_def openPipe_def)

lemma asks_run_then: "is_query cmd \<Longrightarrow> asks (run cmd d) d' \<Longrightarrow> asks d d'"
  using asks_run asks_trans by blast

lemma asks_set_config: "asks d (set_config f d')" if "asks d d'"
  using that by (simp add: asks_def set_config_def)

lemma asks_set_answer: "asks d (set_answer f d')"
  if "asks d d'" "search_wf (searchOutMsg d') \<Longrightarrow> search_wf (f (searchOutMsg d'))"
  using that by (auto simp: asks_def set_answer_def)

lemma query_table [simp]: "is_query (CommandTable c)"
  by (simp add: is_query_def CommandTable_def)

lemma query_about: "about c n = Some cmd \<Longrightarrow> is_query cmd"
  by (auto simp: about_def is_query_def CommandTable_def scripts_def OUTPUT_MAX_LENGTH_def bind_eq_Some_conv)

lemma number_lines_length: "number_lines f ls cur xs = Some ys \<Longrightarrow> length ys = length xs"
  by (induction f ls cur xs arbitrary: ys rule: number_lines.induct) (auto simp: Let_def bind_eq_Some_conv)

lemma each_line_asks:
  assumes "\<And>n l a b. f n l a = Some b \<Longrightarrow> asks a b" and "each_line f n ls a = Some b"
  shows "asks a b"
  using assms(2)
proof (induction ls arbitrary: n a)
  case (Cons l ls)
  then obtain a' where "f (n + 1) l a = Some a'" "each_line f (n + 1) ls a' = Some b"
    by (auto simp: bind_eq_Some_conv)
  then show ?case using assms(1) Cons.IH asks_trans by blast
qed simp

lemma getDeviceInfo_asks: "getDeviceInfo e d = Some d' \<Longrightarrow> asks d d'"
  unfolding getDeviceInfo_def
  by (auto simp: bind_eq_Some_conv Let_def dest!: query_about
      intro!: asks_set_config asks_trans [OF _ asks_run] asks_run)

lemma address_asks:
  shows "getIpaddr e d = Some d' \<Longrightarrow> asks d d'" and "getMask e d = Some d' \<Longrightarrow> asks d d'"
    and "getMacaddr e d = Some d' \<Longrightarrow> asks d d'" and "geGateWay e d = Some d' \<Longrightarrow> asks d d'"
  unfolding getIpaddr_def getMask_def getMacaddr_def geGateWay_def
  by (auto simp: bind_eq_Some_conv search_wf_def run_def dest!: query_about number_lines_length
      intro!: asks_set_answer asks_run [unfolded run_def])

lemma getNETinfo_asks:
  assumes "getNETinfo e d = Some d'"
  shows "asks d d'"
proof -
  obtain a b c where "getIpaddr e d = Some a" "getMask e a = Some b" "getMacaddr e b = Some c" "geGateWay e c = Some d'"
    using assms by (auto simp: getNETinfo_def bind_eq_Some_conv)
  then show ?thesis using address_asks asks_trans by meson
qed

lemma getTimeInfo_asks: "getTimeInfo e d = Some d' \<Longrightarrow> asks d d'"
  unfolding getTimeInfo_def
  by (rule asks_run_then [OF query_table], rule each_line_asks, assumption?)
    (auto simp: uptime_octets_def search_wf_def Let_def intro!: asks_set_answer split: if_splits)

lemma getBoardInfo_asks: "getBoardInfo e d = Some d' \<Longrightarrow> asks d d'"
proof -
  assume "getBoardInfo e d = Some d'"
  then obtain d1 where d1: "each_line (\<lambda>n l d. Some (set_answer (so_dev_type_update (\<lambda>_. of_int (strtol10 l))) d))
      0 (printed e (CommandTable CMD_BOARD_INFO)) (run (CommandTable CMD_BOARD_INFO) d) = Some d1"
    and d': "d' = set_answer (so_firmware_update (\<lambda>fw. [56, 34, 12, fw ! 3])) d1"
    by (auto simp: getBoardInfo_def bind_eq_Some_conv)
  have "asks (run (CommandTable CMD_BOARD_INFO) d) d1"
    using d1 by (rule each_line_asks [rotated]) (auto simp: search_wf_def intro!: asks_set_answer)
  with asks_run_then [OF query_table] have "asks d d1" .
  then show ?thesis unfolding d' by (rule asks_set_answer) (simp add: search_wf_def)
qed

lemma padded_length: "padded l = Some s \<Longrightarrow> length s = MAX_LENGTH"
  by (auto simp: padded_def overwrite_def split: if_splits)

lemma getSystemInfo_asks: "getSystemInfo e d = Some d' \<Longrightarrow> asks d d'"
  unfolding getSystemInfo_def
  by (rule asks_run_then [OF query_table], erule each_line_asks [rotated])
    (auto simp: search_wf_def padded_length bind_eq_Some_conv intro!: asks_set_answer split: if_splits)

lemma fill_call_asks: "fill_call e f d = Some d' \<Longrightarrow> asks d d'"
  unfolding fill_call_def
  by (auto split: fill_callback.splits
      intro: getDeviceInfo_asks getNETinfo_asks getTimeInfo_asks getBoardInfo_asks getSystemInfo_asks)


subsection \<open>Authentication in one piece\<close>

text \<open>The same hash, as the loop over the 32 octets compares them.\<close>

definition same_hash :: "client_env \<Rightarrow> u8 list \<Rightarrow> u8 list \<Rightarrow> bool" where
  "same_hash e m h \<longleftrightarrow> sett_md5 m = h \<and> (char_unsigned e \<or> list_all (\<lambda>b. b < 128) h)"

definition mac_ok :: "client_env \<Rightarrow> dm_info \<Rightarrow> u8 list \<Rightarrow> bool" where
  "mac_ok e d m \<longleftrightarrow> load_first e \<or> so_mac (searchOutMsg d) = sett_mac m"

definition md5_ok :: "client_env \<Rightarrow> u8 list \<Rightarrow> u8 list \<Rightarrow> bool" where
  "md5_ok e m h \<longleftrightarrow> load_first e \<or> same_hash e m h"

definition flags_for :: "bool \<Rightarrow> bool \<Rightarrow> pass_id_e set" where
  "flags_for a b = (if a then {pass_mac} else {}) \<union> (if b then {pass_md5} else {})"

lemma flags_simps [simp]: "pass_mac \<in> flags_for a b \<longleftrightarrow> a" "pass_md5 \<in> flags_for a b \<longleftrightarrow> b"
  by (auto simp: flags_for_def)

lemma flags_minus:
  "flags_for a b - {pass_mac} = flags_for False b" "flags_for a b - {pass_md5} = flags_for a False"
  by (auto simp: flags_for_def)

lemma flags_union: "flags_for a b \<union> flags_for a' b' = flags_for (a \<or> a') (b \<or> b')"
  by (auto simp: flags_for_def)

lemma or_passFlag_mac:
  assumes "passFlag c = flags_for True b"
  shows "or_passFlag e checkMacAddress c =
    map_option (\<lambda>d. c\<lparr>info := d, passFlag := flags_for (mac_ok e d (settMsg c)) b\<rparr>)
      (getNETinfo (dm_env.truncate e) (info c))"
  using assms
  by (cases "getNETinfo (dm_env.truncate e) (info c)")
    (simp_all add: or_passFlag_def checkMacAddress_def mac_ok_def flags_minus flags_union Let_def)

lemma or_passFlag_md5:
  assumes "passFlag c = flags_for a True"
  shows "or_passFlag e checkMD5Sum c =
    map_option (\<lambda>h. c\<lparr>info := run ubus_rpcd (info c), passFlag := flags_for a (md5_ok e (settMsg c) h)\<rparr>) (hash_data e)"
  using assms
  by (cases "hash_data e")
    (auto simp: or_passFlag_def checkMD5Sum_def md5_ok_def same_hash_def flags_minus flags_union Let_def)

text \<open>\<open>client_settings\<close> with what its checks come to.\<close>

definition settings_spec :: "client_env \<Rightarrow> u8 list \<Rightarrow> dm_info \<Rightarrow> u8 list \<Rightarrow> client \<Rightarrow> (error_code_t \<times> client) option" where
  "settings_spec e m d h c =
     (let c = c\<lparr>settMsg := m, info := run ubus_rpcd d, passFlag := flags_for (mac_ok e d m) (md5_ok e m h)\<rparr>
      in if \<not> mac_ok e d m then Some (INFO_MAC_NOT_IDENTICAL, c)
         else if \<not> md5_ok e m h then Some (ERR_AUTHENTICATION, c)
         else map_option (\<lambda>s. (OK, c\<lparr>info := (info c)\<lparr>dsys := s\<rparr>, settMsg := split_stamp m\<rparr>))
                (apply_settings (dm_env.truncate e) (sett_text m) (dsys (info c))))"

lemma client_settings_eq:
  "client_settings e c = do {
     m \<leftarrow> overwrite (take (bufferLen c) (buffer c)) (settMsg c);
     d \<leftarrow> getNETinfo (dm_env.truncate e) (info c);
     h \<leftarrow> hash_data e;
     settings_spec e m d h c
   }"
proof -
  have flags: "{pass_mac, pass_md5} = flags_for True True" by (auto simp: flags_for_def)
  have opt: "map_option f x = Option.bind x (\<lambda>y. Some (f y))" for f and x :: "'x option"
    by (cases x) simp_all
  show ?thesis
  proof (cases "overwrite (take (bufferLen c) (buffer c)) (settMsg c)")
    case (Some m)
    show ?thesis
    proof (cases "getNETinfo (dm_env.truncate e) (info c)")
      case (Some d)
      with \<open>overwrite _ _ = Some m\<close> show ?thesis
        by (cases "hash_data e")
          (simp_all add: client_settings_def getBuffer_def flags or_passFlag_mac or_passFlag_md5 settings_spec_def opt)
    qed (simp add: client_settings_def getBuffer_def flags or_passFlag_mac Some)
  qed (simp add: client_settings_def getBuffer_def)
qed

subsection \<open>Well-formed states\<close>

definition fill_registered :: "fill_callback option list" where
  "fill_registered =
     map Some [call_getDeviceInfo, call_getNETinfo, call_getTimeInfo, call_getBoardInfo, call_getSystemInfo]"

text \<open>
  \<open>G\<close> holds the datagrams received so far. The hash of the last settings is cleared, the callback for sending is
  registered exactly in the state that sends, and only an update request, which nothing handles, stays pending.
\<close>

definition buffers_wf :: "client \<Rightarrow> bool" where
  "buffers_wf c \<longleftrightarrow> length (buffer c) = MAX_BUFFER_SIZE \<and> length (settMsg c) = SETT_MSG_SIZE
     \<and> take 31 (drop 8 (settMsg c)) = replicate 31 0 \<and> search_wf (searchOutMsg (info c))"

definition sends :: "client \<Rightarrow> (TYPE_MSG_e \<Rightarrow> send_callback option)" where
  "sends c = (\<lambda>_. None)(msgType c := Some (if msgType c = type_searchMsg then client_sendSearchMsg else client_sendSettMsg))"

definition control_wf :: "client \<Rightarrow> bool" where
  "control_wf c \<longleftrightarrow> state c \<noteq> CLIENT_SATE_IDLE
     \<and> (state c = CLIENT_STATE_FILL_MSG \<longrightarrow> msgType c = type_searchMsg)
     \<and> (state c = CLIENT_STATE_SETTINGS \<longrightarrow> msgType c = type_settingsMsg)
     \<and> fillCallbacks c = (if state c = CLIENT_SATE_INIT then replicate 5 None else fill_registered)
     \<and> sendCallbacks c = (if state c = CLIENT_STATE_SEND then sends c else (\<lambda>_. None))
     \<and> event c \<subseteq> (if state c \<in> {CLIENT_STATE_SEND, CLIENT_STATE_RELOAD}
                   then {CLIENT_EVENT_UPDATE, CLIENT_EVENT_NET_RELOAD, CLIENT_EVENT_SYS_RELOAD}
                   else {CLIENT_EVENT_UPDATE})"

definition request_wf :: "u8 list set \<Rightarrow> client \<Rightarrow> bool" where
  "request_wf G c \<longleftrightarrow> (state c \<in> {CLIENT_STATE_FILL_MSG, CLIENT_STATE_SETTINGS, CLIENT_STATE_SEND}
     \<longrightarrow> (\<exists>dg\<in>G. bufferLen c = length dg + 1 \<and> length dg < MAX_BUFFER_SIZE
           \<and> (state c \<noteq> CLIENT_STATE_SEND \<longrightarrow> take (bufferLen c) (buffer c) = dg @ [0])))"

definition client_wf :: "u8 list set \<Rightarrow> client \<Rightarrow> bool" where
  "client_wf G c \<longleftrightarrow> buffers_wf c \<and> control_wf c \<and> request_wf G c"

lemma overwrite_length: "overwrite new old = Some r \<Longrightarrow> length r = length old"
  by (auto simp: overwrite_def split: if_splits)

lemma client_start_wf: "client_wf G client_start"
  by (simp add: client_wf_def buffers_wf_def control_wf_def request_wf_def client_start_def search_wf_def zero_search_def
      CLIENT_FILLMSG_NUM_OF_CALLBACKS_def SETT_MSG_SIZE_def)

lemma stamp_length: "length (stamp n w q bs) = length bs"
  by (induction n w q bs rule: stamp.induct) auto

lemma settings_answer_wf:
  assumes "length m = SETT_MSG_SIZE"
  shows "length (settings_answer r m) = SETT_MSG_SIZE" "take 31 (drop 8 (settings_answer r m)) = replicate 31 0"
  using assms by (simp_all add: settings_answer_def sett_mac_def MAC_LEN_def MD5_LEN_def SETTING_MSG_INDEX_def
      SETT_MSG_SIZE_def)

lemma split_stamp_length: "length m = SETT_MSG_SIZE \<Longrightarrow> length (split_stamp m) = SETT_MSG_SIZE"
  by (simp add: split_stamp_def stamp_length SETT_MSG_SIZE_def SETTING_MSG_INDEX_def Let_def)

lemma client_init_wf: "client_wf G c \<Longrightarrow> state c = CLIENT_SATE_INIT \<Longrightarrow> client_wf G (client_init c)"
  by (auto simp: client_wf_def buffers_wf_def control_wf_def request_wf_def client_init_def fill_registered_def
      numeral_eq_Suc)

lemma client_reload_wf: "client_wf G c \<Longrightarrow> state c = CLIENT_STATE_RELOAD \<Longrightarrow> client_wf G (client_reload c)"
  by (auto simp: client_wf_def buffers_wf_def control_wf_def request_wf_def client_reload_def on_shell_def Let_def)

lemma net_sendMsg_keeps [simp]:
  "info (net_sendMsg e c) = info c" "event (net_sendMsg e c) = event c" "state (net_sendMsg e c) = state c"
  by (simp_all add: net_sendMsg_def)

lemma client_send_result:
  assumes "client_wf G c" "state c = CLIENT_STATE_SEND" "client_send e c = Some c'"
  obtains buf where "overwrite (if msgType c = type_searchMsg then search_buff (searchOutMsg (info c)) else settMsg c)
      (buffer c) = Some buf"
    and "c' = (net_sendMsg e (c\<lparr>buffer := buf, state := CLIENT_STATE_RELOAD\<rparr>))\<lparr>sendCallbacks := (\<lambda>_. None)\<rparr>"
proof -
  have "sendCallbacks c = sends c" using assms(1,2) by (simp add: client_wf_def control_wf_def)
  then have "sendCallbacks c (msgType c) = Some (if msgType c = type_searchMsg then client_sendSearchMsg
      else client_sendSettMsg)" "(sendCallbacks c)(msgType c := None) = (\<lambda>_. None)"
    by (auto simp: sends_def)
  then show ?thesis
    using assms(3) that
    by (auto simp: client_send_def client_emitEvent_sendmsg_def send_call_def net_sendMsg_def
        client_unRegisterEvent_sendmsg_def bind_eq_Some_conv split: if_splits)
qed

lemma client_send_wf:
  assumes "client_wf G c" "state c = CLIENT_STATE_SEND" "client_send e c = Some c'"
  shows "client_wf G c'"
proof -
  obtain buf where buf: "length buf = length (buffer c)"
    and c': "c' = (net_sendMsg e (c\<lparr>buffer := buf, state := CLIENT_STATE_RELOAD\<rparr>))\<lparr>sendCallbacks := (\<lambda>_. None)\<rparr>"
    using client_send_result [OF assms] overwrite_length by metis
  show ?thesis
    using assms(1,2) buf
    by (simp add: c' client_wf_def buffers_wf_def control_wf_def request_wf_def net_sendMsg_def)
qed

text \<open>One step of filling the answer.\<close>

definition fill_one :: "client_env \<Rightarrow> client \<Rightarrow> dm_info option" where
  "fill_one e c =
     (if count c < CLIENT_FILLMSG_NUM_OF_CALLBACKS
      then (case fillCallbacks c ! count c of None \<Rightarrow> Some (info c) | Some f \<Rightarrow> fill_call e f (info c))
      else if words_null e then Some (info c) else None)"

lemma fill_one_asks: "fill_one e c = Some d \<Longrightarrow> asks (info c) d"
  by (auto simp: fill_one_def dest: fill_call_asks split: if_splits option.splits)

lemma client_fill_more:
  assumes "count c < CMD_MAX" "CLIENT_EVENT_MSG_READY \<notin> event c"
  shows "client_fill e c =
    map_option (\<lambda>d. c\<lparr>info := set_answer (so_msg_type_update (\<lambda>_. ack_find_device)) d, count := count c + 1\<rparr>) (fill_one e c)"
  using assms
  by (cases "fill_one e c")
    (simp_all add: client_fill_def client_emitEvent_fillmsg_def fill_one_def [symmetric] Let_def cong: if_cong)

lemma client_fill_done:
  assumes "\<not> count c < CMD_MAX" "CLIENT_EVENT_MSG_READY \<notin> event c" "sendCallbacks c = (\<lambda>_. None)"
    and "msgType c = type_searchMsg"
  shows "client_fill e c = Some (c\<lparr>info := set_answer (so_msg_type_update (\<lambda>_. ack_find_device)) (info c),
    state := CLIENT_STATE_SEND, sendCallbacks := sends c\<rparr>)"
proof -
  have "event c - {CLIENT_EVENT_MSG_READY} = event c" using assms(2) by simp
  then show ?thesis
    using assms
    by (auto simp: client_fill_def client_emitEvent_fillmsg_def client_registerEvent_sendmsg_def sends_def Let_def)
qed

lemma client_fill_result:
  assumes "client_fill e c = Some c'" and "CLIENT_EVENT_MSG_READY \<notin> event c" and "sendCallbacks c = (\<lambda>_. None)"
    and "msgType c = type_searchMsg"
  obtains d where "asks (info c) d" "c' = c\<lparr>info := d, count := count c + 1\<rparr>"
  | d where "asks (info c) d" "c' = c\<lparr>info := d, state := CLIENT_STATE_SEND, sendCallbacks := sends c\<rparr>"
proof (cases "count c < CMD_MAX")
  case True
  then obtain d where d: "asks (info c) d"
      "c' = c\<lparr>info := set_answer (so_msg_type_update (\<lambda>_. ack_find_device)) d, count := count c + 1\<rparr>"
    using assms(1,2) by (auto simp: client_fill_more dest: fill_one_asks)
  show ?thesis by (rule that(1) [OF _ d(2)]) (rule asks_set_answer [OF d(1)], simp add: search_wf_def)
next
  case False
  then have "c' = c\<lparr>info := set_answer (so_msg_type_update (\<lambda>_. ack_find_device)) (info c), state := CLIENT_STATE_SEND,
      sendCallbacks := sends c\<rparr>"
    using client_fill_done assms by simp
  then show ?thesis by (rule that(2) [rotated]) (rule asks_set_answer [OF asks_refl], simp add: search_wf_def)
qed

lemma client_fill_wf:
  assumes "client_wf G c" "state c = CLIENT_STATE_FILL_MSG" "client_fill e c = Some c'"
  shows "client_wf G c'"
proof -
  have c: "CLIENT_EVENT_MSG_READY \<notin> event c" "sendCallbacks c = (\<lambda>_. None)" "msgType c = type_searchMsg"
    using assms(1,2) by (auto simp: client_wf_def control_wf_def)
  have wf: "search_wf (searchOutMsg d)" if "asks (info c) d" for d
    using that assms(1) by (simp add: asks_def client_wf_def buffers_wf_def)
  from assms(3) c show ?thesis
  proof (cases rule: client_fill_result)
    case (1 d)
    with assms(1,2) wf [OF 1(1)] show ?thesis
      by (simp add: client_wf_def buffers_wf_def control_wf_def request_wf_def)
  next
    case (2 d)
    with assms(1,2) wf [OF 2(1)] show ?thesis
      by (auto simp: client_wf_def buffers_wf_def control_wf_def request_wf_def sends_def)
  qed
qed

text \<open>A datagram that is received in full.\<close>

lemma net_getCommand_eq:
  assumes "length (buffer c) = MAX_BUFFER_SIZE"
  shows "net_getCommand e c = (case datagram e of None \<Rightarrow> None
    | Some dg \<Rightarrow> if length dg < MAX_BUFFER_SIZE
        then (let buf = dg @ 0 # drop (length dg + 1) (buffer c)
              in Some (buf ! 0, c\<lparr>buffer := buf, bufferLen := length dg + 1\<rparr>))
        else None)"
  using assms by (auto simp: net_getCommand_def overwrite_def Let_def split: option.splits)

definition wait_next :: "u8 list \<Rightarrow> client \<Rightarrow> client" where
  "wait_next dg c =
     (let buf = dg @ 0 # drop (length dg + 1) (buffer c); cmd = buf ! 0; c = c\<lparr>buffer := buf, bufferLen := length dg + 1\<rparr>
      in if cmd = request_find_device
           then c\<lparr>msgType := type_searchMsg, state := CLIENT_STATE_FILL_MSG, count := 0\<rparr>
         else if cmd = request_set_config
           then c\<lparr>msgType := type_settingsMsg, state := CLIENT_STATE_SETTINGS, count := 0\<rparr>
         else if cmd = request_to_update then c\<lparr>event := insert CLIENT_EVENT_UPDATE (event c)\<rparr>
         else c)"

lemma wait_next_keeps: "info (wait_next dg c) = info c" "event (wait_next dg c) \<subseteq> insert CLIENT_EVENT_UPDATE (event c)"
  by (auto simp: wait_next_def Let_def)

lemma client_wait_eq:
  assumes len: "length (buffer c) = MAX_BUFFER_SIZE" and ev: "event c \<subseteq> {CLIENT_EVENT_UPDATE}"
  shows "client_wait e c = (case datagram e of None \<Rightarrow> None
    | Some dg \<Rightarrow> if length dg < MAX_BUFFER_SIZE then Some (wait_next dg c) else None)"
proof -
  have ev': "CLIENT_EVENT_FIND \<notin> event c" "CLIENT_EVENT_SETTINGS \<notin> event c"
    "insert CLIENT_EVENT_FIND (event c) - {CLIENT_EVENT_FIND} = event c"
    "insert CLIENT_EVENT_SETTINGS (event c) - {CLIENT_EVENT_SETTINGS} = event c"
    using ev by auto
  have "client_wait e c = Some (wait_next dg c)" if "datagram e = Some dg" "length dg < MAX_BUFFER_SIZE" for dg
    using that ev'
    by (simp add: client_wait_def client_waitCommand_def net_getCommand_eq [OF len] wait_next_def Let_def
        request_find_device_def request_set_config_def request_to_update_def)
  then show ?thesis
    by (auto simp: client_wait_def client_waitCommand_def net_getCommand_eq [OF len] split: option.splits)
qed

lemma wait_next_wf:
  assumes "client_wf G c" "state c = CLIENT_STATE_WAIT" "dg \<in> G" "length dg < MAX_BUFFER_SIZE"
  shows "client_wf G (wait_next dg c)"
proof -
  have "take (Suc (length dg)) (dg @ 0 # r) = dg @ [0]" for r :: "u8 list"
    by simp
  then show ?thesis
    using assms
    by (auto simp: client_wf_def buffers_wf_def control_wf_def request_wf_def wait_next_def Let_def intro!: bexI [of _ dg])
qed

text \<open>What the handler makes of the result of \<open>client_settings\<close>.\<close>

definition set_next :: "error_code_t \<Rightarrow> client \<Rightarrow> client" where
  "set_next r c =
     c\<lparr>settMsg := settings_answer r (settMsg c),
       event := event c \<union> (if r = OK then reload_events (settingsInfo (dsys (info c))) else {}),
       state := (if r = INFO_MAC_NOT_IDENTICAL then CLIENT_STATE_WAIT else CLIENT_STATE_SEND),
       sendCallbacks := (if r = INFO_MAC_NOT_IDENTICAL then (\<lambda>_. None) else sends c)\<rparr>"

lemma client_set_eq:
  assumes "client_settings e c = Some (r, c1)" "r \<in> {OK, ERR_AUTHENTICATION, INFO_MAC_NOT_IDENTICAL}"
    and "sendCallbacks c1 = (\<lambda>_. None)" "msgType c1 = type_settingsMsg"
  shows "client_set e c = Some (set_next r c1)"
  using assms by (cases c1) (auto simp: client_set_def set_next_def client_registerEvent_sendmsg_def sends_def)

lemma client_set_wf:
  assumes "client_wf G c" "state c = CLIENT_STATE_SETTINGS" "client_set e c = Some c'"
  shows "client_wf G c'"
proof -
  from assms(3) obtain r c1 where r: "client_settings e c = Some (r, c1)"
    by (auto simp: client_set_def bind_eq_Some_conv)
  then obtain m d h where m: "overwrite (take (bufferLen c) (buffer c)) (settMsg c) = Some m"
    and d: "getNETinfo (dm_env.truncate e) (info c) = Some d" and h: "settings_spec e m d h c = Some (r, c1)"
    by (auto simp: client_settings_eq bind_eq_Some_conv)
  have len: "length m = SETT_MSG_SIZE"
    using overwrite_length [OF m] assms(1) by (simp add: client_wf_def buffers_wf_def)
  have wf: "search_wf (searchOutMsg d)"
    using getNETinfo_asks [OF d] assms(1) by (simp add: asks_def client_wf_def buffers_wf_def)
  have c1: "c1 = c\<lparr>settMsg := settMsg c1, info := info c1, passFlag := passFlag c1\<rparr>" "length (settMsg c1) = SETT_MSG_SIZE"
      "search_wf (searchOutMsg (info c1))" and r3: "r \<in> {OK, ERR_AUTHENTICATION, INFO_MAC_NOT_IDENTICAL}"
    using h len wf
    by (auto simp: settings_spec_def Let_def run_def split_stamp_length split: if_splits)
  have fields: "state c1 = state c" "msgType c1 = msgType c" "event c1 = event c" "sendCallbacks c1 = sendCallbacks c"
    "fillCallbacks c1 = fillCallbacks c" "buffer c1 = buffer c" "bufferLen c1 = bufferLen c"
    by (subst c1(1), simp)+
  have c: "control_wf c" "request_wf G c" "sendCallbacks c = (\<lambda>_. None)" "msgType c = type_settingsMsg"
    "event c \<subseteq> {CLIENT_EVENT_UPDATE}" "length (buffer c) = MAX_BUFFER_SIZE"
    using assms(1,2) by (simp_all add: client_wf_def control_wf_def buffers_wf_def)
  have c': "c' = set_next r c1"
    using client_set_eq [OF r r3] c(3,4) assms(3) by (simp add: fields)
  have "buffers_wf c'" using c(6) settings_answer_wf [OF c1(2)] c1(3) by (simp add: c' set_next_def fields buffers_wf_def)
  moreover have "control_wf c'"
    using c assms(2) by (auto simp: c' set_next_def fields control_wf_def sends_def reload_events_def)
  moreover have "request_wf G c'" using c(2) assms(2) by (auto simp: c' set_next_def fields request_wf_def)
  ultimately show ?thesis by (simp add: client_wf_def)
qed

text \<open>The datagrams of a sequence of environments.\<close>

definition datagrams :: "client_env list \<Rightarrow> u8 list set" where
  "datagrams es = {dg. \<exists>e\<in>set es. datagram e = Some dg}"

lemma client_handler_wf:
  assumes "client_wf G c" "client_handler e c = Some c'" "\<And>dg. datagram e = Some dg \<Longrightarrow> dg \<in> G"
  shows "client_wf G c'"
proof (cases "state c")
  case CLIENT_STATE_WAIT
  have "length (buffer c) = MAX_BUFFER_SIZE" "event c \<subseteq> {CLIENT_EVENT_UPDATE}"
    using assms(1) CLIENT_STATE_WAIT by (auto simp: client_wf_def buffers_wf_def control_wf_def)
  then obtain dg where "datagram e = Some dg" "length dg < MAX_BUFFER_SIZE" "c' = wait_next dg c"
    using assms(2) CLIENT_STATE_WAIT by (auto simp: client_handler_def client_wait_eq split: option.splits if_splits)
  then show ?thesis using wait_next_wf assms(1,3) CLIENT_STATE_WAIT by blast
next
  case CLIENT_SATE_IDLE
  then show ?thesis using assms(1) by (simp add: client_wf_def control_wf_def)
next
  case CLIENT_SATE_INIT
  then show ?thesis using assms(1,2) client_init_wf by (auto simp: client_handler_def)
next
  case CLIENT_STATE_FILL_MSG
  then show ?thesis using assms(1,2) client_fill_wf by (simp add: client_handler_def)
next
  case CLIENT_STATE_SEND
  then show ?thesis using assms(1,2) client_send_wf by (simp add: client_handler_def)
next
  case CLIENT_STATE_SETTINGS
  then show ?thesis using assms(1,2) client_set_wf by (simp add: client_handler_def)
next
  case CLIENT_STATE_RELOAD
  then show ?thesis using assms(1,2) client_reload_wf by (auto simp: client_handler_def)
qed

end
