(* ===== verification/Dm_Theorems.thy ===== *)
theory Dm_Theorems
  imports Dm_Inv
begin

section \<open>Device monitor: theorems\<close>

text \<open>
  Without the hash of the password no datagram makes the daemon run anything but queries; accepted settings and searches
  are answered, and how; and which datagrams write past the buffers.
\<close>

subsection \<open>Authentication\<close>

lemma hash_was_sent:
  assumes wf: "client_wf G c" and st: "state c = CLIENT_STATE_SETTINGS"
    and m: "overwrite (take (bufferLen c) (buffer c)) (settMsg c) = Some m" and h: "0 \<notin> set (sett_md5 m)"
  shows "\<exists>dg\<in>G. sett_md5 dg = sett_md5 m"
proof -
  obtain dg where dg: "dg \<in> G" "take (bufferLen c) (buffer c) = dg @ [0]"
    using wf st by (auto simp: client_wf_def request_wf_def)
  have len: "length (settMsg c) = 1070" and zero: "take 31 (drop 8 (settMsg c)) = replicate 31 0"
    using wf by (simp_all add: client_wf_def buffers_wf_def SETT_MSG_SIZE_def)
  have m': "m = dg @ 0 # drop (Suc (length dg)) (settMsg c)" and fits: "length dg < 1070"
    using m dg(2) len by (auto simp: overwrite_def split: if_splits)
  have "length m = 1070" using fits len by (simp add: m')
  then have in_md5: "m ! i \<in> set (sett_md5 m)" if "7 \<le> i" "i < 39" for i
  proof -
    have "sett_md5 m ! (i - 7) = m ! i" "i - 7 < length (sett_md5 m)"
      using that \<open>length m = 1070\<close> by (simp_all add: sett_md5_def MD5_LEN_def)
    then show ?thesis by (metis nth_mem)
  qed
  have "39 \<le> length dg"
  proof (rule ccontr)
    assume short: "\<not> 39 \<le> length dg"
    show False
    proof (cases "7 \<le> length dg")
      case True
      then show ?thesis using in_md5 [of "length dg"] short h by (simp add: m')
    next
      case False
      have "settMsg c ! 8 = take 31 (drop 8 (settMsg c)) ! 0" using len by simp
      then have "m ! 8 = 0" using False len zero by (simp add: m' nth_append)
      then show ?thesis using in_md5 [of 8] h by simp
    qed
  qed
  then have "sett_md5 m = sett_md5 dg" by (simp add: sett_md5_def MD5_LEN_def m')
  with dg(1) show ?thesis by auto
qed

text \<open>No settings have been accepted.\<close>

definition quiet :: "client \<Rightarrow> bool" where
  "quiet c \<longleftrightarrow> (\<forall>cmd\<in>set (shell (dsys (info c))). is_query cmd)
     \<and> CLIENT_EVENT_NET_RELOAD \<notin> event c \<and> CLIENT_EVENT_SYS_RELOAD \<notin> event c"

lemma quiet_asks: "quiet c \<Longrightarrow> asks (info c) d \<Longrightarrow> is_query cmd \<or> cmd \<notin> set (shell (dsys d))"
  unfolding quiet_def asks_def list_all_iff by auto

definition unauthorised :: "u8 list set \<Rightarrow> client_env \<Rightarrow> bool" where
  "unauthorised G e \<longleftrightarrow> \<not> load_first e \<and> (\<forall>h. hash_data e = Some h \<longrightarrow> 0 \<notin> set h \<and> (\<forall>dg\<in>G. sett_md5 dg \<noteq> h))"

lemma client_set_quiet:
  assumes wf: "client_wf G c" and q: "quiet c" and st: "state c = CLIENT_STATE_SETTINGS"
    and un: "unauthorised G e" and c': "client_set e c = Some c'"
  shows "quiet c'"
proof -
  from c' obtain r c1 where r: "client_settings e c = Some (r, c1)"
    by (auto simp: client_set_def bind_eq_Some_conv)
  then obtain m d h where m: "overwrite (take (bufferLen c) (buffer c)) (settMsg c) = Some m"
    and d: "getNETinfo (dm_env.truncate e) (info c) = Some d" and h: "hash_data e = Some h"
    and s: "settings_spec e m d h c = Some (r, c1)"
    by (auto simp: client_settings_eq bind_eq_Some_conv)
  have "\<not> md5_ok e m h"
    using hash_was_sent [OF wf st m] un h by (auto simp: md5_ok_def same_hash_def unauthorised_def)
  then have r3: "r \<in> {ERR_AUTHENTICATION, INFO_MAC_NOT_IDENTICAL}"
    and c1: "info c1 = run ubus_rpcd d" "event c1 = event c" "sendCallbacks c1 = sendCallbacks c" "msgType c1 = msgType c"
    using s by (auto simp: settings_spec_def Let_def split: if_splits)
  have "c' = set_next r c1"
    using client_set_eq [OF r _] r3 c1 wf st c' by (auto simp: client_wf_def control_wf_def)
  moreover have "asks (info c) (info c1)"
    unfolding c1(1) by (rule asks_trans [OF getNETinfo_asks [OF d] asks_run]) (simp add: is_query_def)
  ultimately show ?thesis
    using q quiet_asks [OF q] r3 c1(2) by (auto simp: quiet_def set_next_def)
qed

lemma client_handler_quiet:
  assumes wf: "client_wf G c" and q: "quiet c" and un: "unauthorised G e" and c': "client_handler e c = Some c'"
  shows "quiet c'"
proof (cases "state c")
  case CLIENT_STATE_WAIT
  have "length (buffer c) = MAX_BUFFER_SIZE" "event c \<subseteq> {CLIENT_EVENT_UPDATE}"
    using wf CLIENT_STATE_WAIT by (auto simp: client_wf_def buffers_wf_def control_wf_def)
  then obtain dg where "c' = wait_next dg c"
    using c' CLIENT_STATE_WAIT by (auto simp: client_handler_def client_wait_eq split: option.splits if_splits)
  then show ?thesis using q wait_next_keeps [of dg c] by (auto simp: quiet_def)
next
  case CLIENT_STATE_FILL_MSG
  then have fill: "client_fill e c = Some c'" using c' by (simp add: client_handler_def)
  have "CLIENT_EVENT_MSG_READY \<notin> event c" "sendCallbacks c = (\<lambda>_. None)" "msgType c = type_searchMsg"
    using wf CLIENT_STATE_FILL_MSG by (auto simp: client_wf_def control_wf_def)
  with fill show ?thesis
    by (cases rule: client_fill_result) (use q quiet_asks [OF q] in \<open>auto simp: quiet_def\<close>)
next
  case CLIENT_STATE_SEND
  then have "client_send e c = Some c'" using c' by (simp add: client_handler_def)
  then have "info c' = info c" "event c' = event c"
    by (auto elim!: client_send_result [OF wf CLIENT_STATE_SEND])
  then show ?thesis using q by (simp add: quiet_def)
next
  case CLIENT_STATE_SETTINGS
  then show ?thesis using client_set_quiet [OF wf q CLIENT_STATE_SETTINGS un] c' by (simp add: client_handler_def)
qed (use q c' in \<open>auto simp: client_handler_def quiet_def client_init_def client_reload_def Let_def\<close>)

text \<open>C11: 
  As long as no datagram carries the hash of the password, whatever else arrives, the daemon runs nothing but queries:
  no setting is changed and nothing is restarted. The compiler has to read \<open>passFlag\<close> after the call in
  \<open>passFlag |= f()\<close>, and the hash must have no zero octet, as one of 32 hexadecimal digits has none: a short datagram
  takes over octets of the last one, which the handler has cleared.
\<close>

theorem settings_need_hash:
  assumes "\<forall>e\<in>set es. unauthorised (datagrams es) e" and "client_app es client_start = Some c"
  shows "\<forall>cmd\<in>set (shell (dsys (info c))). is_query cmd"
proof -
  let ?I = "\<lambda>c. client_wf (datagrams es) c \<and> quiet c"
  have "?I client_start"
    using client_start_wf by (simp add: quiet_def client_start_def)
  moreover have "?I c'" if "client_handler e c = Some c'" "?I c" "e \<in> set es" for e c c'
  proof -
    have "datagram e = Some dg \<Longrightarrow> dg \<in> datagrams es" for dg
      using \<open>e \<in> set es\<close> by (auto simp: datagrams_def)
    with that assms(1) show ?thesis using client_handler_wf client_handler_quiet by blast
  qed
  ultimately have "?I c" using assms(2) unfolding client_app_def by (rule ofold_inv [rotated 2, of ?I]) blast+
  then show ?thesis by (simp add: quiet_def)
qed

text \<open>An environment in which every script prints 1 and the password's hash is 32 nines.\<close>

definition monitor_env :: "u8 list \<Rightarrow> client_env" where
  "monitor_env dg = \<lparr>command_output = (\<lambda>cmd. if cmd = ubus_rpcd then ''hash'' @ [newline] else ''1'' @ [newline]),
     locationTestFlag = False, datagram = Some dg, net_ok = True, json_string = (\<lambda>_ _. Some (replicate 32 CHR ''9'')),
     hash_before = replicate 32 0, octet_spare = True, words_null = True, char_unsigned = False, load_first = False\<rparr>"

definition monitor_settings :: "u8 \<Rightarrow> u8 list" where
  "monitor_settings h = [0xE2] @ replicate 6 1 @ replicate 32 h @ octets ''NETMASK=[255.255.255.0]''"

lemma monitor_hash: "hash_data (monitor_env dg) = Some (replicate 32 57)"
  by code_simp

lemma monitor_wf: "client_wf G (client_init client_start)" "state (client_init client_start) = CLIENT_STATE_WAIT"
  using client_init_wf [OF client_start_wf] by (simp_all add: client_init_def client_start_def)

lemma monitor_run: "client_app (replicate 4 (monitor_env (monitor_settings 1))) client_start \<noteq> None"
  by code_simp

theorem settings_need_hash_witness:
  "\<exists>c. client_app (replicate 4 (monitor_env (monitor_settings 1))) client_start = Some c
     \<and> (\<forall>cmd\<in>set (shell (dsys (info c))). is_query cmd)"
proof -
  let ?es = "replicate 4 (monitor_env (monitor_settings 1))"
  obtain c where c: "client_app ?es client_start = Some c" using monitor_run by blast
  have "sett_md5 (monitor_settings 1) = replicate 32 1" by code_simp
  then have "\<forall>e\<in>set ?es. unauthorised (datagrams ?es) e"
    by (simp add: unauthorised_def monitor_hash datagrams_def) (simp add: monitor_env_def)
  from settings_need_hash [OF this c] c show ?thesis by blast
qed

subsection \<open>Accepted settings\<close>

lemma client_app_Cons: "client_app (e # es) c = Option.bind (client_handler e c) (client_app es)"
  by (simp add: client_app_def)


lemma handler_wait:
  assumes "client_wf G c" "state c = CLIENT_STATE_WAIT" "datagram e = Some dg" "length dg < MAX_BUFFER_SIZE"
  shows "client_handler e c = Some (wait_next dg c)"
proof -
  have "length (buffer c) = MAX_BUFFER_SIZE" "event c \<subseteq> {CLIENT_EVENT_UPDATE}"
    using assms(1,2) by (auto simp: client_wf_def buffers_wf_def control_wf_def)
  with assms(2-4) show ?thesis by (simp add: client_handler_def client_wait_eq)
qed










text \<open>C22: 
  A settings message of 1070 octets or more, whoever sends it, is copied past the 1070 octets that are there for it,
  before the address and the hash are looked at.
\<close>

theorem settings_overflow:
  assumes wf: "client_wf G c" and st: "state c = CLIENT_STATE_WAIT" and dg: "datagram e = Some dg" "hd dg = request_set_config"
    and len: "SETT_MSG_SIZE \<le> length dg" "length dg < MAX_BUFFER_SIZE"
  shows "client_app [e, e'] c = None"
proof -
  have dg0: "dg ! 0 = request_set_config" "0 < length dg" using dg(2) len(1) by (cases dg; simp add: SETT_MSG_SIZE_def)+
  then have c1: "state (wait_next dg c) = CLIENT_STATE_SETTINGS" "settMsg (wait_next dg c) = settMsg c"
    "take (bufferLen (wait_next dg c)) (buffer (wait_next dg c)) = dg @ [0]"
    by (simp_all add: wait_next_def nth_append Let_def request_find_device_def request_set_config_def)
  have "length (settMsg c) = SETT_MSG_SIZE" using wf by (simp add: client_wf_def buffers_wf_def)
  then have "client_settings e' (wait_next dg c) = None"
    using len by (simp add: client_settings_eq c1 overwrite_def)
  then show ?thesis
    using handler_wait [OF wf st dg(1) len(2)] c1(1)
    by (simp add: client_app_Cons client_handler_def [of e'] client_set_def)
qed

theorem settings_overflow_witness:
  "client_app [monitor_env (0xE2 # replicate 1069 0), monitor_env []] (client_init client_start) = None"
  by (rule settings_overflow [OF monitor_wf, where dg = "0xE2 # replicate 1069 0"])
    (simp_all add: monitor_env_def request_set_config_def SETT_MSG_SIZE_def MAX_BUFFER_SIZE_def)

text \<open>
  When the compiler reads \<open>passFlag\<close> before the call in \<open>passFlag |= f()\<close>, which C allows, neither the address nor the
  hash is ever refused.
\<close>

theorem load_first_accepts_all:
  assumes "load_first e" "client_settings e c = Some (r, c')"
  shows "r = OK"
  using assms by (auto simp: client_settings_eq settings_spec_def mac_ok_def md5_ok_def bind_eq_Some_conv Let_def
      split: if_splits)

lemma monitor_bypass:
  "client_settings ((monitor_env [])\<lparr>load_first := True\<rparr>)
     (client_init client_start\<lparr>buffer := monitor_settings 1, bufferLen := length (monitor_settings 1)\<rparr>) \<noteq> None"
  by code_simp

theorem load_first_accepts_all_witness:
  "\<exists>c'. client_settings ((monitor_env [])\<lparr>load_first := True\<rparr>)
     (client_init client_start\<lparr>buffer := monitor_settings 1, bufferLen := length (monitor_settings 1)\<rparr>) = Some (OK, c')"
  using monitor_bypass load_first_accepts_all [of "(monitor_env [])\<lparr>load_first := True\<rparr>"
      "client_init client_start\<lparr>buffer := monitor_settings 1, bufferLen := length (monitor_settings 1)\<rparr>"]
  by force

subsection \<open>Searches\<close>
































end
