(* ===== verification/Machine.thy ===== *)
theory Machine
  imports Pack_Prelude
begin

section \<open>Chained state machines with a dry run\<close>

text \<open>
  The recursion scheme of the state machines of \<open>src/mstpd/src/mstp.c\<close>. Every machine has a
  function \<open>X_run(obj, dry_run)\<close>, which looks for an enabled transition, and functions
  \<open>X_to_STATE(obj)\<close>, which enter a state. In an actual run the enabled transition is taken and
  most \<open>X_to_STATE\<close> functions end with a further call of \<open>X_run\<close>, so that the machine moves
  on until nothing is enabled; a few return at once, with a comment that no condition will be
  met. In a dry run nothing is changed and the answer says whether the actual run would change
  the state.

  A machine is given by its step function: \<open>Stay\<close> when nothing is enabled, and
  \<open>Move s' more answer\<close> when a transition is enabled, where \<open>s'\<close> is the state after
  \<open>X_to_STATE\<close> up to its final call of \<open>X_run\<close>, \<open>more\<close> says whether that call is made,
  and \<open>answer\<close> is what the dry run returns. \<open>Fault answer\<close> is an enabled transition whose
  \<open>X_to_STATE\<close> follows a null pointer. The fuel of \<open>sm_run\<close> bounds the depth of the
  recursion; \<open>None\<close> means deeper, or a fault.
\<close>

datatype 's transition = Stay | Move 's bool bool | Fault bool

text \<open>The transition into a state whose entry action may fault and which runs on.\<close>

definition chain :: "'s option \<Rightarrow> 's transition" where
  "chain r = (case r of None \<Rightarrow> Fault True | Some s \<Rightarrow> Move s True True)"

fun sm_run :: "('s \<Rightarrow> 's transition) \<Rightarrow> nat \<Rightarrow> 's \<Rightarrow> bool \<Rightarrow> (bool \<times> 's) option" where
  "sm_run step 0 s dry_run = None"
| "sm_run step (Suc fuel) s dry_run =
     (case step s of
        Stay \<Rightarrow> Some (False, s)
      | Fault a \<Rightarrow> if dry_run then Some (a, s) else None
      | Move s' m a \<Rightarrow>
          if dry_run then Some (a, s)
          else if m then map_option (\<lambda>r. (False, snd r)) (sm_run step fuel s' False)
          else Some (False, s'))"

lemma chain_Move: "chain r = Move s m a \<longleftrightarrow> r = Some s \<and> m \<and> a"
  by (auto simp: chain_def split: option.splits)

lemma chain_Fault: "chain r = Fault a \<longleftrightarrow> r = None \<and> a"
  by (auto simp: chain_def split: option.splits)

lemma chain_Stay [simp]: "chain r \<noteq> Stay"
  by (auto simp: chain_def split: option.splits)

text \<open>One more unit of fuel never changes a result.\<close>

lemma sm_run_mono: "sm_run step n s d = Some r \<Longrightarrow> sm_run step (Suc n) s d = Some r"
proof (induction n arbitrary: s d r)
  case 0
  then show ?case by simp
next
  case (Suc n)
  show ?case
  proof (cases "step s")
    case Stay
    with Suc.prems show ?thesis by simp
  next
    case (Fault a)
    with Suc.prems show ?thesis by simp
  next
    case (Move s' m a)
    show ?thesis
    proof (cases "d \<or> \<not> m")
      case True
      with Move Suc.prems show ?thesis by auto
    next
      case False
      with Move Suc.prems obtain r' where "sm_run step n s' False = Some r'" "r = (False, snd r')"
        by auto
      with Suc.IH [of s' False r'] Move False show ?thesis by simp
    qed
  qed
qed

lemma sm_run_mono_le: "sm_run step n s d = Some r \<Longrightarrow> n \<le> m \<Longrightarrow> sm_run step m s d = Some r"
  by (induction m) (auto intro: sm_run_mono simp: le_Suc_eq simp del: sm_run.simps)

lemma sm_run_actual_answer: "sm_run step n s False = Some (b, s') \<Longrightarrow> \<not> b"
  by (cases n) (auto split: transition.splits if_splits)

text \<open>A dry run looks at one step only.\<close>

lemma sm_run_dry_total: "0 < n \<Longrightarrow> \<exists>b. sm_run step n s True = Some (b, s)"
  by (cases n; cases "step s") auto

text \<open>What every transition preserves, the run preserves.\<close>

lemma sm_run_inv:
  assumes "\<And>s s' m a. I s \<Longrightarrow> step s = Move s' m a \<Longrightarrow> I s'"
  shows "I s \<Longrightarrow> sm_run step n s d = Some (b, s') \<Longrightarrow> I s'"
proof (induction n arbitrary: s b d)
  case 0
  then show ?case by simp
next
  case (Suc n)
  then show ?case by (cases "step s") (auto split: if_splits dest: assms)
qed

text \<open>
  Divergence: when every state of a set has an enabled transition that stays in the set and
  calls the run again, no amount of fuel is enough.
\<close>

lemma sm_run_diverges:
  assumes closed: "\<And>s. P s \<Longrightarrow> \<exists>s' a. step s = Move s' True a \<and> P s'" and "P s"
  shows "sm_run step n s False = None"
  using assms(2)
proof (induction n arbitrary: s)
  case 0
  then show ?case by simp
next
  case (Suc n)
  from closed [OF Suc.prems] obtain s' a where "step s = Move s' True a" "P s'" by blast
  with Suc.IH show ?case by simp
qed

text \<open>
  The contract of a machine that ends: an invariant \<open>ok\<close>, a rank that falls with every
  chained transition, and the coding convention of the source: where the dry run answers
  "no change", the transition changes nothing.
\<close>

locale state_machine =
  fixes step :: "'s \<Rightarrow> 's transition" and ok :: "'s \<Rightarrow> bool" and rank :: "'s \<Rightarrow> nat"
  assumes ok_step: "ok s \<Longrightarrow> step s = Move s' m a \<Longrightarrow> ok s'"
    and no_fault: "ok s \<Longrightarrow> step s \<noteq> Fault a"
    and rank_step: "ok s \<Longrightarrow> step s = Move s' True a \<Longrightarrow> rank s' < rank s"
    and dry_sound: "ok s \<Longrightarrow> step s = Move s' m False \<Longrightarrow> s' = s \<and> \<not> m"
begin

lemma run_ok: "ok s \<Longrightarrow> sm_run step n s False = Some (b, s') \<Longrightarrow> ok s'"
  by (rule sm_run_inv [of ok step]) (auto dest: ok_step)

lemma run_total: "ok s \<Longrightarrow> rank s < n \<Longrightarrow> \<exists>s'. sm_run step n s False = Some (False, s') \<and> ok s'"
proof (induction n arbitrary: s)
  case 0
  then show ?case by simp
next
  case (Suc n)
  show ?case
  proof (cases "step s")
    case Stay
    with Suc.prems show ?thesis by simp
  next
    case (Fault a)
    with Suc.prems show ?thesis by (simp add: no_fault)
  next
    case (Move s' m a)
    with Suc.prems have "ok s'" by (auto dest: ok_step)
    show ?thesis
    proof (cases m)
      case True
      with Move Suc.prems have "rank s' < n" by (auto dest: rank_step)
      with Suc.IH [OF \<open>ok s'\<close>] Move True show ?thesis by auto
    next
      case False
      with Move \<open>ok s'\<close> show ?thesis by simp
    qed
  qed
qed

lemma dry_false_unchanged:
  assumes "ok s" and "sm_run step n s True = Some (False, t)"
  shows "sm_run step n s False = Some (False, s)"
proof (cases n)
  case 0
  with assms show ?thesis by simp
next
  case (Suc k)
  with assms show ?thesis
    by (cases "step s") (auto dest: dry_sound no_fault)
qed

end

text \<open>
  The contract of a machine whose early returns are right: after a transition that does not
  call the run again, nothing is enabled (or only a transition that changes nothing).
\<close>

locale settling_machine = state_machine +
  assumes stop_ok: "ok s \<Longrightarrow> step s = Move s' False a \<Longrightarrow>
    step s' = Stay \<or> (\<exists>m. step s' = Move s' m False)"
begin

lemma run_settles:
  "ok s \<Longrightarrow> sm_run step n s False = Some (b, s') \<Longrightarrow> 0 < k \<Longrightarrow>
     sm_run step k s' True = Some (False, s')"
proof (induction n arbitrary: s b)
  case 0
  then show ?case by simp
next
  case (Suc n)
  show ?case
  proof (cases "step s")
    case Stay
    with Suc.prems show ?thesis by (cases k) auto
  next
    case (Fault a)
    with Suc.prems show ?thesis by simp
  next
    case (Move t m a)
    show ?thesis
    proof (cases m)
      case True
      with Move Suc.prems obtain b' where "sm_run step n t False = Some (b', s')" by auto
      moreover from Move Suc.prems have "ok t" by (auto dest: ok_step)
      ultimately show ?thesis using Suc.IH Suc.prems(3) by blast
    next
      case False
      with Move Suc.prems have "s' = t" by simp
      with stop_ok [of s t a] Move False Suc.prems show ?thesis by (cases k) auto
    qed
  qed
qed

end

end
