(* ===== verification/Mstp_Types.thy ===== *)
theory Mstp_Types
  imports Machine
begin

section \<open>The data of the spanning tree daemon\<close>

text \<open>
  The types of \<open>src/mstpd/src/mstp.h\<close>. A struct is a record, an enum a datatype.

  The C code links a \<open>bridge_t\<close>, its \<open>port_t\<close> and \<open>tree_t\<close> objects and the
  \<open>per_tree_port_t\<close> objects (one for each port and tree) by pointers and lists. Here all of
  them live in one store, the record \<open>bridge_t\<close>: \<open>ports\<close> and \<open>trees\<close> are the two lists in
  the order the code keeps them, a port is named by a \<open>portref\<close> (its address), a tree by its
  MSTID, and \<open>port_at\<close>, \<open>tree_at\<close> and \<open>ptp_at\<close> are the objects. The list of per-port
  objects of a tree and the list of per-tree objects of a port are in the order of \<open>ports\<close>
  and of \<open>trees\<close>: the code inserts them so (\<open>MSTP_IN_port_create_and_add_tail\<close>,
  \<open>MSTP_IN_create_msti\<close>).

  Integers of type \<open>__be16\<close> and \<open>__be32\<close> are words holding the value; where the code
  compares their bytes with \<open>memcmp\<close>, so does the model. Everything the daemon sends to the
  kernel or to the network is appended to \<open>outs\<close>.
\<close>

type_synonym portref = nat
type_synonym mstid = u16

subsection \<open>Constants of mstp.h\<close>

definition MAX_PORT_NUMBER :: nat where "MAX_PORT_NUMBER = 4095"
definition MAX_VID :: nat where "MAX_VID = 4094"
definition MAX_FID :: nat where "MAX_FID = 4095"
definition MAX_MSTID :: nat where "MAX_MSTID = 4094"
definition MAX_STANDARD_MSTIS :: nat where "MAX_STANDARD_MSTIS = 64"
definition MAX_IMPLEMENTATION_MSTIS :: nat where "MAX_IMPLEMENTATION_MSTIS = 63"
definition MAX_PATH_COST :: u32 where "MAX_PATH_COST = 200000000"
definition IFNAMSIZ :: nat where "IFNAMSIZ = 16"

subsection \<open>Identifiers and vectors\<close>

record bridge_identifier_t =
  bi_priority :: u16
  bi_mac :: "48 word"

type_synonym port_identifier_t = u16

record mst_configuration_identifier_t =
  selector :: u8
  configuration_name :: "u8 list"
  revision_level :: u16
  configuration_digest :: "u8 list"

record port_priority_vector_t =
  RRootID :: bridge_identifier_t
  IntRootPathCost :: u32
  DesignatedBridgeID :: bridge_identifier_t
  DesignatedPortID :: port_identifier_t
  RootID :: bridge_identifier_t
  ExtRootPathCost :: u32

record times_t =
  remainingHops :: u8
  Forward_Delay :: u8
  Max_Age :: u8
  Message_Age :: u8
  Hello_Time :: u8

subsection \<open>Enumerations\<close>

datatype port_info_t = OtherInfo | SuperiorDesignatedInfo | RepeatedDesignatedInfo
  | InferiorDesignatedInfo | InferiorRootAlternateInfo

datatype port_info_origin_t = ioDisabled | ioMine | ioAged | ioReceived

datatype port_role_t = roleDisabled | roleRoot | roleDesignated | roleAlternate
  | roleBackup | roleMaster

datatype port_encoded_role_t = encodedRoleMaster | encodedRoleAlternateBackup
  | encodedRoleRoot | encodedRoleDesignated

datatype protocol_version_t = protoSTP | protoRSTP | protoMSTP

fun proto_num :: "protocol_version_t \<Rightarrow> u8" where
  "proto_num protoSTP = 0"
| "proto_num protoRSTP = 2"
| "proto_num protoMSTP = 3"

definition bpduTypeConfig :: u8 where "bpduTypeConfig = 0"
definition bpduTypeRST :: u8 where "bpduTypeRST = 2"
definition bpduTypeTCN :: u8 where "bpduTypeTCN = 128"

definition offsetTc :: nat where "offsetTc = 0"
definition offsetProposal :: nat where "offsetProposal = 1"
definition offsetRole :: nat where "offsetRole = 2"
definition offsetLearnig :: nat where "offsetLearnig = 4"
definition offsetForwarding :: nat where "offsetForwarding = 5"
definition offsetAgreement :: nat where "offsetAgreement = 6"
definition offsetTcAck :: nat where "offsetTcAck = 7"
definition offsetMaster :: nat where "offsetMaster = offsetTcAck"

lemmas offset_defs = offsetTc_def offsetProposal_def offsetRole_def offsetLearnig_def
  offsetForwarding_def offsetAgreement_def offsetTcAck_def offsetMaster_def

datatype admin_p2p_t = p2pAuto | p2pForceTrue | p2pForceFalse

datatype br_state = BR_STATE_DISABLED | BR_STATE_LISTENING | BR_STATE_LEARNING
  | BR_STATE_FORWARDING | BR_STATE_BLOCKING

datatype PRSM_states_t = PRSM_DISCARD | PRSM_RECEIVE

datatype PPMSM_states_t = PPMSM_CHECKING_RSTP | PPMSM_SELECTING_STP | PPMSM_SENSING

datatype BDSM_states_t = BDSM_EDGE | BDSM_NOT_EDGE

datatype PTSM_states_t = PTSM_TRANSMIT_INIT | PTSM_TRANSMIT_CONFIG | PTSM_TRANSMIT_TCN
  | PTSM_TRANSMIT_RSTP | PTSM_TRANSMIT_PERIODIC | PTSM_IDLE

datatype PISM_states_t = PISM_DISABLED | PISM_AGED | PISM_UPDATE | PISM_SUPERIOR_DESIGNATED
  | PISM_REPEATED_DESIGNATED | PISM_INFERIOR_DESIGNATED | PISM_NOT_DESIGNATED | PISM_OTHER
  | PISM_CURRENT | PISM_RECEIVE

datatype PRSSM_states_t = PRSSM_INIT_TREE | PRSSM_ROLE_SELECTION

datatype PRTSM_states_t =
    PRTSM_INIT_PORT | PRTSM_DISABLE_PORT | PRTSM_DISABLED_PORT
  | PRTSM_MASTER_PROPOSED | PRTSM_MASTER_AGREED | PRTSM_MASTER_SYNCED | PRTSM_MASTER_RETIRED
  | PRTSM_MASTER_FORWARD | PRTSM_MASTER_LEARN | PRTSM_MASTER_DISCARD | PRTSM_MASTER_PORT
  | PRTSM_ROOT_PROPOSED | PRTSM_ROOT_AGREED | PRTSM_ROOT_SYNCED | PRTSM_REROOT
  | PRTSM_ROOT_FORWARD | PRTSM_ROOT_LEARN | PRTSM_REROOTED | PRTSM_ROOT_PORT
  | PRTSM_DESIGNATED_PROPOSE | PRTSM_DESIGNATED_AGREED | PRTSM_DESIGNATED_SYNCED
  | PRTSM_DESIGNATED_RETIRED | PRTSM_DESIGNATED_FORWARD | PRTSM_DESIGNATED_LEARN
  | PRTSM_DESIGNATED_DISCARD | PRTSM_DESIGNATED_PORT
  | PRTSM_BLOCK_PORT | PRTSM_BACKUP_PORT | PRTSM_ALTERNATE_PROPOSED
  | PRTSM_ALTERNATE_AGREED | PRTSM_ALTERNATE_PORT

datatype PSTSM_states_t = PSTSM_DISCARDING | PSTSM_LEARNING | PSTSM_FORWARDING

datatype TCSM_states_t = TCSM_INACTIVE | TCSM_LEARNING | TCSM_DETECTED | TCSM_NOTIFIED_TCN
  | TCSM_NOTIFIED_TC | TCSM_PROPAGATING | TCSM_ACKNOWLEDGED | TCSM_ACTIVE

subsection \<open>BPDUs\<close>

text \<open>
  The fields of a BPDU as the code reads them. \<open>mstConfiguration\<close> is the array of MSTI
  messages; a two-byte time is the pair of its bytes.
\<close>

record msti_configuration_message_t =
  msti_flags :: u8
  mstiRRootID :: bridge_identifier_t
  mstiIntRootPathCost :: u32
  bridgeIdentifierPriority :: u8
  portIdentifierPriority :: u8
  msti_remainingHops :: u8

record bpdu_t =
  protocolIdentifier :: u16
  protocolVersion :: u8
  bpduType :: u8
  flags :: u8
  cistRootID :: bridge_identifier_t
  cistExtRootPathCost :: u32
  cistRRootID :: bridge_identifier_t
  cistPortID :: port_identifier_t
  MessageAge :: "u8 \<times> u8"
  MaxAge :: "u8 \<times> u8"
  HelloTime :: "u8 \<times> u8"
  ForwardDelay :: "u8 \<times> u8"
  version1_len :: u8
  version3_len :: u16
  mstConfigurationIdentifier :: mst_configuration_identifier_t
  cistIntRootPathCost :: u32
  cistBridgeID :: bridge_identifier_t
  cistRemainingHops :: u8
  mstConfiguration :: "msti_configuration_message_t list"

text \<open>Sizes of the packed structs, as \<open>offsetof\<close> and \<open>sizeof\<close> give them.\<close>

definition TCN_BPDU_SIZE :: u32 where "TCN_BPDU_SIZE = 4"
definition CONFIG_BPDU_SIZE :: u32 where "CONFIG_BPDU_SIZE = 35"
definition RST_BPDU_SIZE :: u32 where "RST_BPDU_SIZE = 36"
definition MST_BPDU_SIZE_WO_MSTI_MSGS :: u32 where "MST_BPDU_SIZE_WO_MSTI_MSGS = 102"
definition MST_BPDU_VER3LEN_WO_MSTI_MSGS :: u32 where "MST_BPDU_VER3LEN_WO_MSTI_MSGS = 64"
definition sizeof_msti_configuration_message :: u32 where
  "sizeof_msti_configuration_message = 16"

subsection \<open>Trees, ports and per-tree ports\<close>

record tree_t =
  BridgeIdentifier :: bridge_identifier_t
  rootPortId :: port_identifier_t
  rootPriority :: port_priority_vector_t
  BridgePriority :: port_priority_vector_t
  BridgeTimes :: times_t
  rootTimes :: times_t
  time_since_topology_change :: u32
  topology_change_count :: u32
  topology_change :: bool
  topology_change_port :: string
  last_topology_change_port :: string
  PRSSM_state :: PRSSM_states_t

record port_t =
  port_number :: u16
  mdelayWhile :: u32
  helloWhen :: u32
  edgeDelayWhile :: u32
  txCount :: u32
  operEdge :: bool
  portEnabled :: bool
  infoInternal :: bool
  rcvdInternal :: bool
  mcheck :: bool
  rcvdBpdu :: bool
  rcvdRSTP :: bool
  rcvdSTP :: bool
  rcvdTcAck :: bool
  rcvdTcn :: bool
  sendRSTP :: bool
  tcAck :: bool
  newInfo :: bool
  newInfoMsti :: bool
  operPointToPointMAC :: bool
  restrictedRole :: bool
  restrictedTcn :: bool
  ExternalPortPathCost :: u32
  AdminExternalPortPathCost :: u32
  AdminP2P :: admin_p2p_t
  AdminEdgePort :: bool
  AutoEdge :: bool
  BpduGuardPort :: bool
  BpduGuardError :: bool
  NetworkPort :: bool
  BaInconsistent :: bool
  dontTxmtBpdu :: bool
  bpduFilterPort :: bool
  rapidAgeingWhile :: u32
  brAssuRcvdInfoWhile :: u32
  PRSM_state :: PRSM_states_t
  PPMSM_state :: PPMSM_states_t
  BDSM_state :: BDSM_states_t
  PTSM_state :: PTSM_states_t
  rcvdBpduData :: bpdu_t
  rcvdBpduNumOfMstis :: nat
  deleted :: bool
  if_name :: string
  speed :: int
  duplex :: int
  num_rx_bpdu_filtered :: u32
  num_rx_bpdu :: u32
  num_rx_tcn :: u32
  num_tx_bpdu :: u32
  num_tx_tcn :: u32
  num_trans_fwd :: u32
  num_trans_blk :: u32

text \<open>
  \<open>rcvdMstiConfig\<close> points into the array of MSTI messages of the port's received BPDU: it is
  an index into that array, \<open>None\<close> for the null pointer.
\<close>

record per_tree_port_t =
  state :: br_state
  fdWhile :: u32
  rrWhile :: u32
  rbWhile :: u32
  tcWhile :: u32
  rcvdInfoWhile :: u32
  agree :: bool
  agreed :: bool
  disputed :: bool
  forward :: bool
  forwarding :: bool
  learn :: bool
  learning :: bool
  rcvdInfo :: port_info_t
  infoIs :: port_info_origin_t
  proposed :: bool
  proposing :: bool
  rcvdMsg :: bool
  rcvdTc :: bool
  reRoot :: bool
  reselect :: bool
  selected :: bool
  fdbFlush :: bool
  tcProp :: bool
  updtInfo :: bool
  sync :: bool
  synced :: bool
  portId :: port_identifier_t
  role :: port_role_t
  selectedRole :: port_role_t
  designatedPriority :: port_priority_vector_t
  msgPriority :: port_priority_vector_t
  portPriority :: port_priority_vector_t
  designatedTimes :: times_t
  msgTimes :: times_t
  portTimes :: times_t
  master :: bool
  mastered :: bool
  InternalPortPathCost :: u32
  AdminInternalPortPathCost :: u32
  start_time :: u32
  PISM_state :: PISM_states_t
  PRTSM_state :: PRTSM_states_t
  PSTSM_state :: PSTSM_states_t
  TCSM_state :: TCSM_states_t
  calledFromFlushRoutine :: bool
  rcvdMstiConfig :: "nat option"

datatype mstp_out =
    OutKernelState portref br_state
  | OutFlushPort portref
  | OutAgeingTime u32
  | OutTxBpdu portref bpdu_t u32
  | OutShutdown portref

record bridge_t =
  ports :: "portref list"
  trees :: "mstid list"
  port_at :: "portref \<Rightarrow> port_t"
  tree_at :: "mstid \<Rightarrow> tree_t"
  ptp_at :: "portref \<Rightarrow> mstid \<Rightarrow> per_tree_port_t"
  bridgeEnabled :: bool
  MstConfigId :: mst_configuration_identifier_t
  ForceProtocolVersion :: protocol_version_t
  br_MaxHops :: u8
  br_Forward_Delay :: u8
  br_Max_Age :: u8
  br_Hello_Time :: u8
  Transmit_Hold_Count :: u32
  Migrate_Time :: u32
  Ageing_Time :: u32
  vid2fid :: "nat \<Rightarrow> u16"
  fid2mstid :: "nat \<Rightarrow> u16"
  uptime :: u32
  outs :: "mstp_out list"

subsection \<open>Access to the store\<close>

definition upd_port :: "portref \<Rightarrow> (port_t \<Rightarrow> port_t) \<Rightarrow> bridge_t \<Rightarrow> bridge_t" where
  "upd_port p f br = br\<lparr>port_at := (port_at br)(p := f (port_at br p))\<rparr>"

definition upd_tree :: "mstid \<Rightarrow> (tree_t \<Rightarrow> tree_t) \<Rightarrow> bridge_t \<Rightarrow> bridge_t" where
  "upd_tree t f br = br\<lparr>tree_at := (tree_at br)(t := f (tree_at br t))\<rparr>"

definition upd_ptp ::
    "portref \<Rightarrow> mstid \<Rightarrow> (per_tree_port_t \<Rightarrow> per_tree_port_t) \<Rightarrow> bridge_t \<Rightarrow> bridge_t" where
  "upd_ptp p t f br =
     br\<lparr>ptp_at := (ptp_at br)(p := (ptp_at br p)(t := f (ptp_at br p t)))\<rparr>"

definition emit :: "mstp_out \<Rightarrow> bridge_t \<Rightarrow> bridge_t" where
  "emit e br = br\<lparr>outs := outs br @ [e]\<rparr>"

text \<open>
  The loops \<open>FOREACH_PTP_IN_TREE\<close> and \<open>FOREACH_PTP_IN_PORT\<close> that update every object by
  itself, and \<open>list_for_each_entry_continue\<close> from the CIST, which visits every MSTI of a port.
  The lists are intrusive, so an object is visited once.
\<close>

definition foreach_ptp_in_tree ::
    "mstid \<Rightarrow> (per_tree_port_t \<Rightarrow> per_tree_port_t) \<Rightarrow> bridge_t \<Rightarrow> bridge_t" where
  "foreach_ptp_in_tree t f br =
     br\<lparr>ptp_at := (\<lambda>q u. if q \<in> set (ports br) \<and> u = t
                         then f (ptp_at br q u) else ptp_at br q u)\<rparr>"

definition foreach_ptp_in_port ::
    "portref \<Rightarrow> (per_tree_port_t \<Rightarrow> per_tree_port_t) \<Rightarrow> bridge_t \<Rightarrow> bridge_t" where
  "foreach_ptp_in_port p f br =
     br\<lparr>ptp_at := (\<lambda>q u. if q = p \<and> u \<in> set (trees br)
                         then f (ptp_at br q u) else ptp_at br q u)\<rparr>"

definition foreach_msti_in_port ::
    "portref \<Rightarrow> (per_tree_port_t \<Rightarrow> per_tree_port_t) \<Rightarrow> bridge_t \<Rightarrow> bridge_t" where
  "foreach_msti_in_port p f br =
     br\<lparr>ptp_at := (\<lambda>q u. if q = p \<and> u \<in> set (tl (trees br))
                         then f (ptp_at br q u) else ptp_at br q u)\<rparr>"

text \<open>The first tree of the list is the CIST, whose MSTID is 0.\<close>

definition CIST :: mstid where "CIST = 0"

definition wf_trees :: "mstid list \<Rightarrow> bool" where
  "wf_trees ts \<longleftrightarrow> ts \<noteq> [] \<and> hd ts = CIST \<and> sorted_wrt (<) ts"

definition wf_bridge :: "bridge_t \<Rightarrow> bool" where
  "wf_bridge br \<longleftrightarrow> distinct (ports br) \<and> wf_trees (trees br)"

abbreviation cist_of :: "bridge_t \<Rightarrow> portref \<Rightarrow> per_tree_port_t" where
  "cist_of br p \<equiv> ptp_at br p CIST"

definition rstpVersion :: "bridge_t \<Rightarrow> bool" where
  "rstpVersion br \<longleftrightarrow> proto_num protoRSTP \<le> proto_num (ForceProtocolVersion br)"

definition assurancePort :: "port_t \<Rightarrow> bool" where
  "assurancePort prt \<longleftrightarrow> NetworkPort prt \<and> operPointToPointMAC prt \<and> sendRSTP prt"

subsection \<open>Lemmas on the store\<close>

lemmas store_defs [state_simps] = upd_port_def upd_tree_def upd_ptp_def emit_def
  foreach_ptp_in_tree_def foreach_ptp_in_port_def foreach_msti_in_port_def

text \<open>Reading the store after a write.\<close>

lemma upd_port_sel [simp]:
  "ports (upd_port p f br) = ports br" "trees (upd_port p f br) = trees br"
  "tree_at (upd_port p f br) = tree_at br" "ptp_at (upd_port p f br) = ptp_at br"
  "bridgeEnabled (upd_port p f br) = bridgeEnabled br"
  "MstConfigId (upd_port p f br) = MstConfigId br"
  "ForceProtocolVersion (upd_port p f br) = ForceProtocolVersion br"
  "br_MaxHops (upd_port p f br) = br_MaxHops br"
  "br_Forward_Delay (upd_port p f br) = br_Forward_Delay br"
  "br_Max_Age (upd_port p f br) = br_Max_Age br"
  "br_Hello_Time (upd_port p f br) = br_Hello_Time br"
  "Transmit_Hold_Count (upd_port p f br) = Transmit_Hold_Count br"
  "Migrate_Time (upd_port p f br) = Migrate_Time br"
  "Ageing_Time (upd_port p f br) = Ageing_Time br" "vid2fid (upd_port p f br) = vid2fid br"
  "fid2mstid (upd_port p f br) = fid2mstid br" "uptime (upd_port p f br) = uptime br"
  "outs (upd_port p f br) = outs br"
  "port_at (upd_port p f br) q = (if q = p then f (port_at br p) else port_at br q)"
  by (simp_all add: upd_port_def)

lemma upd_tree_sel [simp]:
  "ports (upd_tree t f br) = ports br" "trees (upd_tree t f br) = trees br"
  "port_at (upd_tree t f br) = port_at br" "ptp_at (upd_tree t f br) = ptp_at br"
  "bridgeEnabled (upd_tree t f br) = bridgeEnabled br"
  "MstConfigId (upd_tree t f br) = MstConfigId br"
  "ForceProtocolVersion (upd_tree t f br) = ForceProtocolVersion br"
  "br_MaxHops (upd_tree t f br) = br_MaxHops br"
  "br_Forward_Delay (upd_tree t f br) = br_Forward_Delay br"
  "br_Max_Age (upd_tree t f br) = br_Max_Age br"
  "br_Hello_Time (upd_tree t f br) = br_Hello_Time br"
  "Transmit_Hold_Count (upd_tree t f br) = Transmit_Hold_Count br"
  "Migrate_Time (upd_tree t f br) = Migrate_Time br"
  "Ageing_Time (upd_tree t f br) = Ageing_Time br" "vid2fid (upd_tree t f br) = vid2fid br"
  "fid2mstid (upd_tree t f br) = fid2mstid br" "uptime (upd_tree t f br) = uptime br"
  "outs (upd_tree t f br) = outs br"
  "tree_at (upd_tree t f br) u = (if u = t then f (tree_at br t) else tree_at br u)"
  by (simp_all add: upd_tree_def)

lemma upd_ptp_sel [simp]:
  "ports (upd_ptp p t f br) = ports br" "trees (upd_ptp p t f br) = trees br"
  "port_at (upd_ptp p t f br) = port_at br" "tree_at (upd_ptp p t f br) = tree_at br"
  "bridgeEnabled (upd_ptp p t f br) = bridgeEnabled br"
  "MstConfigId (upd_ptp p t f br) = MstConfigId br"
  "ForceProtocolVersion (upd_ptp p t f br) = ForceProtocolVersion br"
  "br_MaxHops (upd_ptp p t f br) = br_MaxHops br"
  "br_Forward_Delay (upd_ptp p t f br) = br_Forward_Delay br"
  "br_Max_Age (upd_ptp p t f br) = br_Max_Age br"
  "br_Hello_Time (upd_ptp p t f br) = br_Hello_Time br"
  "Transmit_Hold_Count (upd_ptp p t f br) = Transmit_Hold_Count br"
  "Migrate_Time (upd_ptp p t f br) = Migrate_Time br"
  "Ageing_Time (upd_ptp p t f br) = Ageing_Time br" "vid2fid (upd_ptp p t f br) = vid2fid br"
  "fid2mstid (upd_ptp p t f br) = fid2mstid br" "uptime (upd_ptp p t f br) = uptime br"
  "outs (upd_ptp p t f br) = outs br"
  "ptp_at (upd_ptp p t f br) q u = (if q = p \<and> u = t then f (ptp_at br p t) else ptp_at br q u)"
  by (simp_all add: upd_ptp_def)

lemma emit_sel [simp]:
  "ports (emit e br) = ports br" "trees (emit e br) = trees br"
  "port_at (emit e br) = port_at br" "tree_at (emit e br) = tree_at br"
  "ptp_at (emit e br) = ptp_at br" "bridgeEnabled (emit e br) = bridgeEnabled br"
  "MstConfigId (emit e br) = MstConfigId br"
  "ForceProtocolVersion (emit e br) = ForceProtocolVersion br"
  "br_MaxHops (emit e br) = br_MaxHops br" "br_Forward_Delay (emit e br) = br_Forward_Delay br"
  "br_Max_Age (emit e br) = br_Max_Age br" "br_Hello_Time (emit e br) = br_Hello_Time br"
  "Transmit_Hold_Count (emit e br) = Transmit_Hold_Count br"
  "Migrate_Time (emit e br) = Migrate_Time br" "Ageing_Time (emit e br) = Ageing_Time br"
  "vid2fid (emit e br) = vid2fid br" "fid2mstid (emit e br) = fid2mstid br"
  "uptime (emit e br) = uptime br" "outs (emit e br) = outs br @ [e]"
  by (simp_all add: emit_def)

lemma foreach_ptp_in_tree_sel [simp]:
  "ports (foreach_ptp_in_tree t f br) = ports br"
  "trees (foreach_ptp_in_tree t f br) = trees br"
  "port_at (foreach_ptp_in_tree t f br) = port_at br"
  "tree_at (foreach_ptp_in_tree t f br) = tree_at br"
  "bridgeEnabled (foreach_ptp_in_tree t f br) = bridgeEnabled br"
  "MstConfigId (foreach_ptp_in_tree t f br) = MstConfigId br"
  "ForceProtocolVersion (foreach_ptp_in_tree t f br) = ForceProtocolVersion br"
  "br_MaxHops (foreach_ptp_in_tree t f br) = br_MaxHops br"
  "br_Forward_Delay (foreach_ptp_in_tree t f br) = br_Forward_Delay br"
  "br_Max_Age (foreach_ptp_in_tree t f br) = br_Max_Age br"
  "br_Hello_Time (foreach_ptp_in_tree t f br) = br_Hello_Time br"
  "Transmit_Hold_Count (foreach_ptp_in_tree t f br) = Transmit_Hold_Count br"
  "Migrate_Time (foreach_ptp_in_tree t f br) = Migrate_Time br"
  "Ageing_Time (foreach_ptp_in_tree t f br) = Ageing_Time br"
  "vid2fid (foreach_ptp_in_tree t f br) = vid2fid br"
  "fid2mstid (foreach_ptp_in_tree t f br) = fid2mstid br"
  "uptime (foreach_ptp_in_tree t f br) = uptime br"
  "outs (foreach_ptp_in_tree t f br) = outs br"
  "ptp_at (foreach_ptp_in_tree t f br) q u = (if q \<in> set (ports br) \<and> u = t then f (ptp_at br q u) else ptp_at br q u)"
  by (simp_all add: foreach_ptp_in_tree_def)

lemma foreach_ptp_in_port_sel [simp]:
  "ports (foreach_ptp_in_port p f br) = ports br"
  "trees (foreach_ptp_in_port p f br) = trees br"
  "port_at (foreach_ptp_in_port p f br) = port_at br"
  "tree_at (foreach_ptp_in_port p f br) = tree_at br"
  "bridgeEnabled (foreach_ptp_in_port p f br) = bridgeEnabled br"
  "MstConfigId (foreach_ptp_in_port p f br) = MstConfigId br"
  "ForceProtocolVersion (foreach_ptp_in_port p f br) = ForceProtocolVersion br"
  "br_MaxHops (foreach_ptp_in_port p f br) = br_MaxHops br"
  "br_Forward_Delay (foreach_ptp_in_port p f br) = br_Forward_Delay br"
  "br_Max_Age (foreach_ptp_in_port p f br) = br_Max_Age br"
  "br_Hello_Time (foreach_ptp_in_port p f br) = br_Hello_Time br"
  "Transmit_Hold_Count (foreach_ptp_in_port p f br) = Transmit_Hold_Count br"
  "Migrate_Time (foreach_ptp_in_port p f br) = Migrate_Time br"
  "Ageing_Time (foreach_ptp_in_port p f br) = Ageing_Time br"
  "vid2fid (foreach_ptp_in_port p f br) = vid2fid br"
  "fid2mstid (foreach_ptp_in_port p f br) = fid2mstid br"
  "uptime (foreach_ptp_in_port p f br) = uptime br"
  "outs (foreach_ptp_in_port p f br) = outs br"
  "ptp_at (foreach_ptp_in_port p f br) q u = (if q = p \<and> u \<in> set (trees br) then f (ptp_at br q u) else ptp_at br q u)"
  by (simp_all add: foreach_ptp_in_port_def)

lemma foreach_msti_in_port_sel [simp]:
  "ports (foreach_msti_in_port p f br) = ports br"
  "trees (foreach_msti_in_port p f br) = trees br"
  "port_at (foreach_msti_in_port p f br) = port_at br"
  "tree_at (foreach_msti_in_port p f br) = tree_at br"
  "bridgeEnabled (foreach_msti_in_port p f br) = bridgeEnabled br"
  "MstConfigId (foreach_msti_in_port p f br) = MstConfigId br"
  "ForceProtocolVersion (foreach_msti_in_port p f br) = ForceProtocolVersion br"
  "br_MaxHops (foreach_msti_in_port p f br) = br_MaxHops br"
  "br_Forward_Delay (foreach_msti_in_port p f br) = br_Forward_Delay br"
  "br_Max_Age (foreach_msti_in_port p f br) = br_Max_Age br"
  "br_Hello_Time (foreach_msti_in_port p f br) = br_Hello_Time br"
  "Transmit_Hold_Count (foreach_msti_in_port p f br) = Transmit_Hold_Count br"
  "Migrate_Time (foreach_msti_in_port p f br) = Migrate_Time br"
  "Ageing_Time (foreach_msti_in_port p f br) = Ageing_Time br"
  "vid2fid (foreach_msti_in_port p f br) = vid2fid br"
  "fid2mstid (foreach_msti_in_port p f br) = fid2mstid br"
  "uptime (foreach_msti_in_port p f br) = uptime br"
  "outs (foreach_msti_in_port p f br) = outs br"
  "ptp_at (foreach_msti_in_port p f br) q u = (if q = p \<and> u \<in> set (tl (trees br)) then f (ptp_at br q u) else ptp_at br q u)"
  by (simp_all add: foreach_msti_in_port_def)

text \<open>The configuration of a bridge and of a tree: what management sets and the machines only read.\<close>

definition bridge_config where
  "bridge_config br = (bridgeEnabled br, MstConfigId br, ForceProtocolVersion br, br_MaxHops br,
     br_Forward_Delay br, br_Max_Age br, br_Hello_Time br, Transmit_Hold_Count br, Migrate_Time br,
     Ageing_Time br, vid2fid br, fid2mstid br)"

definition tree_config where
  "tree_config x = (BridgeIdentifier x, BridgePriority x, BridgeTimes x)"

lemma bridge_config_sel [simp]:
  "bridge_config (upd_port p f br) = bridge_config br"
  "bridge_config (upd_tree t g br) = bridge_config br"
  "bridge_config (upd_ptp p t h br) = bridge_config br"
  "bridge_config (emit e br) = bridge_config br"
  "bridge_config (foreach_ptp_in_tree t h br) = bridge_config br"
  "bridge_config (foreach_ptp_in_port p h br) = bridge_config br"
  "bridge_config (foreach_msti_in_port p h br) = bridge_config br"
  by (simp_all add: bridge_config_def)

text \<open>The loops are the folds of the single updates over the lists.\<close>

lemma foreach_ptp_in_tree_fold:
  "distinct (ports br) \<Longrightarrow>
     foreach_ptp_in_tree t f br = fold (\<lambda>p. upd_ptp p t f) (ports br) br"
proof -
  assume d: "distinct (ports br)"
  have "fold (\<lambda>p. upd_ptp p t f) ps br =
      br\<lparr>ptp_at := (\<lambda>q u. if q \<in> set ps \<and> u = t then f (ptp_at br q u) else ptp_at br q u)\<rparr>"
    if "distinct ps" for ps
    using that
  proof (induction ps arbitrary: br)
    case Nil
    then show ?case by simp
  next
    case (Cons p ps)
    then show ?case by (auto simp: upd_ptp_def fun_eq_iff intro!: bridge_t.equality)
  qed
  with d show ?thesis by (simp add: foreach_ptp_in_tree_def)
qed

lemma wf_trees_distinct: "wf_trees ts \<Longrightarrow> distinct ts"
  by (auto simp: wf_trees_def strict_sorted_iff)

lemma wf_trees_mem: "wf_trees ts \<Longrightarrow> CIST \<in> set ts"
  by (cases ts) (auto simp: wf_trees_def)

lemma wf_trees_tl: "wf_trees ts \<Longrightarrow> t \<in> set (tl ts) \<longleftrightarrow> t \<in> set ts \<and> t \<noteq> CIST"
  by (cases ts) (auto simp: wf_trees_def)

end
