(* ===== verification/Mstp_Priority.thy ===== *)
theory Mstp_Priority
  imports Mstp_Types "HOL-Library.List_Lexorder"
begin

section \<open>Priority vectors, identifiers and path costs\<close>

text \<open>
  The comparison helpers of \<open>src/mstpd/src/mstp.c\<close> and the identifier macros of
  \<open>src/mstpd/src/mstp.h\<close>. The code compares identifiers and costs byte by byte with
  \<open>memcmp\<close>; the lemmas show that this is the lexicographic order on the numbers.
\<close>

subsection \<open>The cmp macros\<close>

definition bridge_id_bytes :: "bridge_identifier_t \<Rightarrow> u8 list" where
  "bridge_id_bytes b = be_bytes 2 (bi_priority b) @ be_bytes 6 (bi_mac b)"

definition ncmp_bid :: "bridge_identifier_t \<Rightarrow> bridge_identifier_t \<Rightarrow> int" where
  "ncmp_bid x y = memcmp (bridge_id_bytes x) (bridge_id_bytes y)"

definition ncmp_be16 :: "u16 \<Rightarrow> u16 \<Rightarrow> int" where
  "ncmp_be16 x y = memcmp (be_bytes 2 x) (be_bytes 2 y)"

definition ncmp_be32 :: "u32 \<Rightarrow> u32 \<Rightarrow> int" where
  "ncmp_be32 x y = memcmp (be_bytes 4 x) (be_bytes 4 y)"

definition ncmp_u8 :: "u8 \<Rightarrow> u8 \<Rightarrow> int" where
  "ncmp_u8 x y = memcmp [x] [y]"

definition mst_config_bytes :: "mst_configuration_identifier_t \<Rightarrow> u8 list" where
  "mst_config_bytes m = [selector m] @ configuration_name m
     @ be_bytes 2 (revision_level m) @ configuration_digest m"

subsection \<open>Comparing priority vectors\<close>

definition samePriorityAndTimers ::
    "port_priority_vector_t \<Rightarrow> port_priority_vector_t \<Rightarrow> times_t \<Rightarrow> times_t \<Rightarrow> bool \<Rightarrow> bool" where
  "samePriorityAndTimers vec1 vec2 time1 time2 cist =
     (if cist \<and> ncmp_u8 (Forward_Delay time1) (Forward_Delay time2) \<noteq> 0 then False
      else if cist \<and> ncmp_u8 (Max_Age time1) (Max_Age time2) \<noteq> 0 then False
      else if cist \<and> ncmp_u8 (Message_Age time1) (Message_Age time2) \<noteq> 0 then False
      else if cist \<and> ncmp_u8 (Hello_Time time1) (Hello_Time time2) \<noteq> 0 then False
      else if cist \<and> ncmp_bid (RootID vec1) (RootID vec2) \<noteq> 0 then False
      else if cist \<and> ncmp_be32 (ExtRootPathCost vec1) (ExtRootPathCost vec2) \<noteq> 0 then False
      else if ncmp_u8 (remainingHops time1) (remainingHops time2) \<noteq> 0 then False
      else if ncmp_bid (RRootID vec1) (RRootID vec2) \<noteq> 0 then False
      else if ncmp_be32 (IntRootPathCost vec1) (IntRootPathCost vec2) \<noteq> 0 then False
      else if ncmp_bid (DesignatedBridgeID vec1) (DesignatedBridgeID vec2) \<noteq> 0 then False
      else if ncmp_be16 (DesignatedPortID vec1) (DesignatedPortID vec2) \<noteq> 0 then False
      else True)"

text \<open>
  One comparison of the chain: worse, better, or look at the rest. The code writes these three
  lines once for every component.
\<close>

definition by_result :: "int \<Rightarrow> bool \<Rightarrow> bool" where
  "by_result result rest = (if 0 < result then False else if result < 0 then True else rest)"

definition betterorsamePriority ::
    "port_priority_vector_t \<Rightarrow> port_priority_vector_t \<Rightarrow> port_identifier_t \<Rightarrow> port_identifier_t
     \<Rightarrow> bool \<Rightarrow> bool" where
  "betterorsamePriority vec1 vec2 pId1 pId2 cist =
     (let internal =
        by_result (ncmp_bid (RRootID vec1) (RRootID vec2))
         (by_result (ncmp_be32 (IntRootPathCost vec1) (IntRootPathCost vec2))
          (by_result (ncmp_bid (DesignatedBridgeID vec1) (DesignatedBridgeID vec2))
           (by_result (ncmp_be16 (DesignatedPortID vec1) (DesignatedPortID vec2))
             (ncmp_be16 pId1 pId2 \<le> 0))))
      in if cist
         then by_result (ncmp_bid (RootID vec1) (RootID vec2))
               (by_result (ncmp_be32 (ExtRootPathCost vec1) (ExtRootPathCost vec2)) internal)
         else internal)"

subsection \<open>Priorities inside identifiers, path cost from speed\<close>

text \<open>
  \<open>GET_PRIORITY_FROM_IDENTIFIER\<close> and \<open>SET_PRIORITY_IN_IDENTIFIER\<close> work on the first octet of
  a port identifier or of the priority field of a bridge identifier.
\<close>

definition GET_PRIORITY_FROM_IDENTIFIER :: "u16 \<Rightarrow> u8" where
  "GET_PRIORITY_FROM_IDENTIFIER ident = ucast (drop_bit 8 ident) AND 0xF0"

definition SET_PRIORITY_IN_IDENTIFIER :: "u8 \<Rightarrow> u16 \<Rightarrow> u16" where
  "SET_PRIORITY_IN_IDENTIFIER pri ident =
     (ident AND 0x0FFF) OR push_bit 8 (ucast (pri AND 0xF0))"

definition compute_pcost :: "int \<Rightarrow> u32" where
  "compute_pcost sp =
     (if sp > 0 then (if sp < 20000000 then word_of_int (20000000 div sp) else 1)
      else MAX_PATH_COST)"

subsection \<open>The abstract order\<close>

text \<open>
  The specification of the comparison: the list of the components in the order the standard
  compares them, under the lexicographic order.
\<close>

definition bid_val :: "bridge_identifier_t \<Rightarrow> nat" where
  "bid_val b = unat (bi_priority b) * 2 ^ 48 + unat (bi_mac b)"

definition pri_key :: "bool \<Rightarrow> port_priority_vector_t \<Rightarrow> port_identifier_t \<Rightarrow> nat list" where
  "pri_key cist v pId =
     (if cist then [bid_val (RootID v), unat (ExtRootPathCost v)] else [])
     @ [bid_val (RRootID v), unat (IntRootPathCost v), bid_val (DesignatedBridgeID v),
        unat (DesignatedPortID v), unat pId]"

lemma bid_bytes_val: "be_val (bridge_id_bytes b) = bid_val b"
  by (simp add: bridge_id_bytes_def bid_val_def be_val_append be_val_be_bytes)

lemma ncmp_bid_iff:
  "ncmp_bid x y < 0 \<longleftrightarrow> bid_val x < bid_val y" "ncmp_bid x y = 0 \<longleftrightarrow> bid_val x = bid_val y"
proof -
  have "length (bridge_id_bytes x) = length (bridge_id_bytes y)"
    by (simp add: bridge_id_bytes_def)
  from memcmp_be_val [OF this]
  show "ncmp_bid x y < 0 \<longleftrightarrow> bid_val x < bid_val y" "ncmp_bid x y = 0 \<longleftrightarrow> bid_val x = bid_val y"
    by (auto simp: ncmp_bid_def bid_bytes_val)
qed

lemma be_bytes_val16: "be_val (be_bytes 2 (w :: u16)) = unat w"
  by (simp add: be_val_be_bytes)

lemma be_bytes_val32: "be_val (be_bytes 4 (w :: u32)) = unat w"
  by (simp add: be_val_be_bytes)

lemma ncmp_be16_iff:
  "ncmp_be16 x y < 0 \<longleftrightarrow> unat x < unat y" "ncmp_be16 x y = 0 \<longleftrightarrow> unat x = unat y"
  using memcmp_be_val [of "be_bytes 2 x" "be_bytes 2 y"]
  by (auto simp: ncmp_be16_def be_bytes_val16)

lemma ncmp_be32_iff:
  "ncmp_be32 x y < 0 \<longleftrightarrow> unat x < unat y" "ncmp_be32 x y = 0 \<longleftrightarrow> unat x = unat y"
  using memcmp_be_val [of "be_bytes 4 x" "be_bytes 4 y"]
  by (auto simp: ncmp_be32_def be_bytes_val32)

lemma ncmp_u8_iff: "ncmp_u8 x y = 0 \<longleftrightarrow> x = y"
  by (simp add: ncmp_u8_def)

lemma bid_val_inj: "bid_val x = bid_val y \<longleftrightarrow> x = y"
proof
  assume eq: "bid_val x = bid_val y"
  have val: "unat (bi_priority z) = bid_val z div 2 ^ 48 \<and> unat (bi_mac z) = bid_val z mod 2 ^ 48" for z
    using unat_bound [of "bi_mac z"] by (simp add: bid_val_def)
  from eq have "unat (bi_priority x) = unat (bi_priority y) \<and> unat (bi_mac x) = unat (bi_mac y)"
    by (simp only: val)
  then show "x = y" by (auto intro: bridge_identifier_t.equality unsigned_word_eqI)
qed simp

lemma by_result_iff: "by_result r R \<longleftrightarrow> r < 0 \<or> r = 0 \<and> R"
  by (auto simp: by_result_def)

text \<open>The code's chain of \<open>memcmp\<close> calls decides the lexicographic order.\<close>

lemma betterorsame_key:
  "betterorsamePriority v w p q cist \<longleftrightarrow> pri_key cist v p \<le> pri_key cist w q"
proof -
  have last: "ncmp_be16 p q \<le> 0 \<longleftrightarrow> unat p \<le> unat q"
    using ncmp_be16_iff [of p q] by linarith
  show ?thesis
    unfolding betterorsamePriority_def pri_key_def Let_def last by_result_iff
      ncmp_bid_iff ncmp_be16_iff ncmp_be32_iff
    by (cases cist) (simp add: order_le_less, blast)+
qed

lemma samePriorityAndTimers_iff:
  "samePriorityAndTimers v w s t cist \<longleftrightarrow>
     remainingHops s = remainingHops t \<and> RRootID v = RRootID w
     \<and> IntRootPathCost v = IntRootPathCost w
     \<and> DesignatedBridgeID v = DesignatedBridgeID w \<and> DesignatedPortID v = DesignatedPortID w
     \<and> (cist \<longrightarrow> Forward_Delay s = Forward_Delay t \<and> Max_Age s = Max_Age t
          \<and> Message_Age s = Message_Age t \<and> Hello_Time s = Hello_Time t
          \<and> RootID v = RootID w \<and> ExtRootPathCost v = ExtRootPathCost w)"
  unfolding samePriorityAndTimers_def
  by (auto simp: ncmp_u8_iff ncmp_bid_iff ncmp_be16_iff ncmp_be32_iff bid_val_inj
      intro: unsigned_word_eqI)

subsection \<open>Selecting the best vector\<close>

text \<open>
  What role selection relies on: the comparison is a total preorder. From that alone, the loop
  that keeps the better of two candidates ends with one that is at least as good as all.
\<close>

locale priority_order =
  fixes better :: "'v \<Rightarrow> 'v \<Rightarrow> bool"
  assumes better_refl: "better x x"
    and better_trans: "better x y \<Longrightarrow> better y z \<Longrightarrow> better x z"
    and better_total: "better x y \<or> better y x"
begin

definition keep :: "'v \<Rightarrow> 'v \<Rightarrow> 'v" where
  "keep x best = (if better x best then x else best)"

lemma keep_better: "better (keep x best) x \<and> better (keep x best) best"
  using better_total [of x best] by (auto simp: keep_def better_refl)

lemma fold_keep_best:
  "better (fold keep xs best) best \<and> (\<forall>x \<in> set xs. better (fold keep xs best) x)"
proof (induction xs arbitrary: best)
  case Nil
  then show ?case by (simp add: better_refl)
next
  case (Cons x xs)
  from Cons.IH [of "keep x best"] keep_better [of x best] show ?case
    by (auto intro: better_trans)
qed

lemma fold_keep_mem: "fold keep xs best \<in> insert best (set xs)"
proof (induction xs arbitrary: best)
  case Nil
  then show ?case by simp
next
  case (Cons x xs)
  from Cons.IH [of "keep x best"] show ?case by (auto simp: keep_def split: if_splits)
qed

end

interpretation vec_order: priority_order
  "\<lambda>(v, p) (w, q). betterorsamePriority v w p q cist" for cist
  by unfold_locales (auto simp: betterorsame_key split: prod.splits)

lemma betterorsame_refl: "betterorsamePriority v v p p cist"
  using vec_order.better_refl [of cist "(v, p)"] by simp

lemma betterorsame_antisym_key:
  "betterorsamePriority v w p q c \<Longrightarrow> betterorsamePriority w v q p c \<Longrightarrow>
     pri_key c v p = pri_key c w q"
  by (simp add: betterorsame_key)

subsection \<open>Identifiers and path costs\<close>

lemma priority_masks: "(0xF0 :: u8) = push_bit 4 (mask 4)" "(0x0FFF :: u16) = mask 12"
  by (simp_all add: mask_eq_exp_minus_1)

lemma get_set_priority:
  "GET_PRIORITY_FROM_IDENTIFIER (SET_PRIORITY_IN_IDENTIFIER pri ident) = pri AND 0xF0"
  unfolding GET_PRIORITY_FROM_IDENTIFIER_def SET_PRIORITY_IN_IDENTIFIER_def priority_masks
  by (rule bit_word_eqI) (auto simp: bit_simps)

lemma set_priority_low_bits:
  "SET_PRIORITY_IN_IDENTIFIER pri ident AND 0x0FFF = ident AND 0x0FFF"
  unfolding SET_PRIORITY_IN_IDENTIFIER_def priority_masks
  by (rule bit_word_eqI) (auto simp: bit_simps)

text \<open>The cost of a link: at least 1, never above the cost of a link of unknown speed, and
  no larger for a faster link.\<close>

lemma unat_compute_pcost:
  assumes "0 < sp"
  shows "unat (compute_pcost sp) = nat (if sp < 20000000 then 20000000 div sp else 1)"
proof -
  have "20000000 div sp \<le> 20000000"
    using zdiv_mono2 [of 20000000 1 sp] assms by simp
  moreover have "0 \<le> 20000000 div sp"
    using assms by (simp add: pos_imp_zdiv_nonneg_iff)
  ultimately have "uint (word_of_int (20000000 div sp) :: u32) = 20000000 div sp"
    by (simp add: unsigned_of_int take_bit_int_eq_self)
  then have "unat (word_of_int (20000000 div sp) :: u32) = nat (20000000 div sp)"
    by (metis nat_uint_eq)
  with assms show ?thesis
    by (cases "sp < 20000000") (simp_all only: compute_pcost_def if_True if_False unsigned_1 nat_one_as_int)
qed

end
