(* ===== verification/Mstp_Procedures.thy ===== *)
theory Mstp_Procedures
  imports Mstp_Priority
begin

section \<open>The state machine procedures\<close>

text \<open>
  The procedures of clause 13.26 as \<open>src/mstpd/src/mstp.c\<close> has them, and the external actions
  \<open>MSTP_OUT_*\<close> of \<open>src/mstpd/src/bridge_track.c\<close> with the driver stubs of
  \<open>src/mstpd/src/driver_deps.c\<close> (which accept every request). A procedure takes the port
  \<open>p\<close> and the tree \<open>t\<close> that its \<open>ptp\<close> argument stands for. Where the code follows the
  pointer \<open>rcvdMstiConfig\<close> the procedure has no result when the pointer is null.
\<close>

subsection \<open>External actions\<close>

definition MSTP_OUT_set_state ::
    "portref \<Rightarrow> mstid \<Rightarrow> br_state \<Rightarrow> bridge_t \<Rightarrow> bridge_t" where
  "MSTP_OUT_set_state p t new_state br =
     (if state (ptp_at br p t) = new_state then br
      else
        let br = upd_ptp p t (\<lambda>x. x\<lparr>state := new_state\<rparr>) br;
            br = (case new_state of
                    BR_STATE_FORWARDING \<Rightarrow>
                      upd_port p (\<lambda>x. x\<lparr>num_trans_fwd := num_trans_fwd x + 1\<rparr>) br
                  | BR_STATE_BLOCKING \<Rightarrow>
                      upd_port p (\<lambda>x. x\<lparr>num_trans_blk := num_trans_blk x + 1\<rparr>) br
                  | _ \<Rightarrow> br)
        in if t = CIST then emit (OutKernelState p new_state) br else br)"

text \<open>
  The stub \<open>driver_flush_all_fids\<close> signals completion at once by calling
  \<open>MSTP_IN_all_fids_flushed\<close>, which resets \<open>fdbFlush\<close> and, called from the flush routine,
  returns.
\<close>

definition MSTP_OUT_flush_all_fids :: "portref \<Rightarrow> mstid \<Rightarrow> bridge_t \<Rightarrow> bridge_t" where
  "MSTP_OUT_flush_all_fids p t br =
     (let br = (if t = CIST then emit (OutFlushPort p) br else br)
      in upd_ptp p t (\<lambda>x. x\<lparr>fdbFlush := False\<rparr>) br)"

definition MSTP_OUT_set_ageing_time :: "u32 \<Rightarrow> bridge_t \<Rightarrow> bridge_t" where
  "MSTP_OUT_set_ageing_time ageingTime br = emit (OutAgeingTime ageingTime) br"

definition MSTP_OUT_tx_bpdu :: "portref \<Rightarrow> bpdu_t \<Rightarrow> u32 \<Rightarrow> bridge_t \<Rightarrow> bridge_t" where
  "MSTP_OUT_tx_bpdu p b sz br =
     (let br = upd_port p (\<lambda>x. x\<lparr>num_tx_bpdu := num_tx_bpdu x + 1\<rparr>) br;
          br = (if protocolVersion b = proto_num protoSTP \<and> bpduType b = bpduTypeTCN
                then upd_port p (\<lambda>x. x\<lparr>num_tx_tcn := num_tx_tcn x + 1\<rparr>) br
                else if bit (flags b) offsetTc
                then upd_port p (\<lambda>x. x\<lparr>num_tx_tcn := num_tx_tcn x + 1\<rparr>) br
                else br)
      in emit (OutTxBpdu p b sz) br)"

definition MSTP_OUT_shutdown_port :: "portref \<Rightarrow> bridge_t \<Rightarrow> bridge_t" where
  "MSTP_OUT_shutdown_port p br = emit (OutShutdown p) br"

subsection \<open>Topology change bookkeeping\<close>

definition set_TopologyChange :: "mstid \<Rightarrow> bool \<Rightarrow> portref \<Rightarrow> bridge_t \<Rightarrow> bridge_t" where
  "set_TopologyChange t hint_SetToYes p br =
     (let prev_tc_not_set = \<not> topology_change (tree_at br t) in
      if hint_SetToYes then
        upd_tree t (\<lambda>x. x\<lparr>
          topology_change := True,
          time_since_topology_change := 0,
          topology_change_count :=
            (if prev_tc_not_set then topology_change_count x + 1 else topology_change_count x),
          topology_change_port := take IFNAMSIZ (last_topology_change_port x),
          last_topology_change_port := take IFNAMSIZ (if_name (port_at br p))\<rparr>) br
      else if prev_tc_not_set then br
      else if list_ex (\<lambda>q. tcWhile (ptp_at br q t) \<noteq> 0) (ports br)
      then upd_tree t (\<lambda>x. x\<lparr>topology_change := True, time_since_topology_change := 0\<rparr>) br
      else upd_tree t (\<lambda>x. x\<lparr>topology_change := False\<rparr>) br)"

text \<open>The assignment the code comments as \<open>newInfoXst = TRUE\<close>.\<close>

definition set_newInfoXst :: "portref \<Rightarrow> mstid \<Rightarrow> bridge_t \<Rightarrow> bridge_t" where
  "set_newInfoXst p t br =
     (if t = CIST then upd_port p (\<lambda>x. x\<lparr>newInfo := True\<rparr>) br
      else upd_port p (\<lambda>x. x\<lparr>newInfoMsti := True\<rparr>) br)"

definition newTcWhile :: "portref \<Rightarrow> mstid \<Rightarrow> bridge_t \<Rightarrow> bridge_t" where
  "newTcWhile p t br =
     (if tcWhile (ptp_at br p t) \<noteq> 0 then br
      else if sendRSTP (port_at br p) then
        let br = upd_ptp p t
              (\<lambda>x. x\<lparr>tcWhile := ucast (Hello_Time (portTimes (cist_of br p))) + 1\<rparr>) br;
            br = set_TopologyChange t True p br
        in set_newInfoXst p t br
      else
        let times = rootTimes (tree_at br t);
            br = upd_ptp p t
              (\<lambda>x. x\<lparr>tcWhile := ucast (Max_Age times) + ucast (Forward_Delay times)\<rparr>) br
        in set_TopologyChange t True p br)"

definition set_fdbFlush :: "portref \<Rightarrow> mstid \<Rightarrow> bridge_t \<Rightarrow> bridge_t" where
  "set_fdbFlush p t br =
     (if operEdge (port_at br p) \<or> deleted (port_at br p)
      then upd_ptp p t (\<lambda>x. x\<lparr>fdbFlush := False\<rparr>) br
      else if rstpVersion br then
        let br = upd_ptp p t (\<lambda>x. x\<lparr>fdbFlush := True, calledFromFlushRoutine := True\<rparr>) br;
            br = MSTP_OUT_flush_all_fids p t br
        in upd_ptp p t (\<lambda>x. x\<lparr>calledFromFlushRoutine := False\<rparr>) br
      else
        let FwdDelay = ucast (Forward_Delay (designatedTimes (cist_of br p)));
            br = MSTP_OUT_set_ageing_time FwdDelay br;
            br = upd_port p (\<lambda>x. x\<lparr>rapidAgeingWhile := FwdDelay\<rparr>) br
        in upd_ptp p t (\<lambda>x. x\<lparr>fdbFlush := False\<rparr>) br)"

subsection \<open>Reading the received BPDU\<close>

definition BPDU_FLAGS_ROLE_SET :: "u8 \<Rightarrow> u8" where
  "BPDU_FLAGS_ROLE_SET r = push_bit offsetRole (r AND 3)"

definition BPDU_FLAGS_ROLE_GET :: "u8 \<Rightarrow> u8" where
  "BPDU_FLAGS_ROLE_GET f = drop_bit offsetRole f AND 3"

fun role_num :: "port_encoded_role_t \<Rightarrow> u8" where
  "role_num encodedRoleMaster = 0"
| "role_num encodedRoleAlternateBackup = 1"
| "role_num encodedRoleRoot = 2"
| "role_num encodedRoleDesignated = 3"

definition rcvdMstiMsg :: "bridge_t \<Rightarrow> portref \<Rightarrow> mstid \<Rightarrow> msti_configuration_message_t option" where
  "rcvdMstiMsg br p t =
     (let msgs = mstConfiguration (rcvdBpduData (port_at br p)) in
      case rcvdMstiConfig (ptp_at br p t) of
        None \<Rightarrow> None
      | Some i \<Rightarrow> if i < length msgs then Some (msgs ! i) else None)"

definition NEAREST_WHOLE_SECOND :: "u8 \<times> u8 \<Rightarrow> u8" where
  "NEAREST_WHOLE_SECOND msgTime = (if snd msgTime < 128 then fst msgTime else fst msgTime + 1)"

definition betterorsameInfo :: "per_tree_port_t \<Rightarrow> mstid \<Rightarrow> port_info_origin_t \<Rightarrow> bool" where
  "betterorsameInfo x t newInfoIs =
     (if newInfoIs = ioReceived \<and> infoIs x = ioReceived
      then betterorsamePriority (msgPriority x) (portPriority x) 0 0 (t = CIST)
      else if newInfoIs = ioMine \<and> infoIs x = ioMine
      then betterorsamePriority (designatedPriority x) (portPriority x) 0 0 (t = CIST)
      else False)"

definition fromSameRegion :: "portref \<Rightarrow> bridge_t \<Rightarrow> bool" where
  "fromSameRegion p br =
     (let b = rcvdBpduData (port_at br p) in
      if protocolVersion b < proto_num protoMSTP then False
      else memcmp (mst_config_bytes (MstConfigId br))
             (mst_config_bytes (mstConfigurationIdentifier b)) = 0)"

text \<open>
  The role a message conveys, as the two \<open>switch\<close> statements of \<open>rcvInfo\<close> read it:
  \<open>Some True\<close> for a designated role, \<open>None\<close> where the code returns \<open>OtherInfo\<close>.
\<close>

definition cist_role_is_designated :: "bpdu_t \<Rightarrow> bool option" where
  "cist_role_is_designated b =
     (if protocolVersion b \<noteq> proto_num protoSTP then
        let r = BPDU_FLAGS_ROLE_GET (flags b) in
        if r = role_num encodedRoleAlternateBackup \<or> r = role_num encodedRoleRoot
        then Some False
        else if r = role_num encodedRoleDesignated then Some True
        else if protocolVersion b = proto_num protoRSTP then Some True
        else None
      else Some True)"

definition msti_role_is_designated :: "msti_configuration_message_t \<Rightarrow> bool option" where
  "msti_role_is_designated m =
     (let r = BPDU_FLAGS_ROLE_GET (msti_flags m) in
      if r = role_num encodedRoleAlternateBackup \<or> r = role_num encodedRoleRoot
      then Some False
      else if r = role_num encodedRoleDesignated then Some True
      else None)"

text \<open>The assignments to \<open>msgPriority\<close> and \<open>msgTimes\<close> in \<open>rcvInfo\<close>.\<close>

definition record_cist_msg :: "u8 \<Rightarrow> bpdu_t \<Rightarrow> per_tree_port_t \<Rightarrow> per_tree_port_t" where
  "record_cist_msg bridge_MaxHops b x =
     (let mPri = (msgPriority x)\<lparr>
            RRootID := cistRRootID b, DesignatedPortID := cistPortID b,
            RootID := cistRootID b, ExtRootPathCost := cistExtRootPathCost b\<rparr>;
          mTimes = (msgTimes x)\<lparr>
            Forward_Delay := NEAREST_WHOLE_SECOND (ForwardDelay b),
            Max_Age := NEAREST_WHOLE_SECOND (MaxAge b),
            Message_Age := NEAREST_WHOLE_SECOND (MessageAge b),
            Hello_Time := NEAREST_WHOLE_SECOND (HelloTime b)\<rparr>
      in if protocolVersion b < proto_num protoMSTP
         then x\<lparr>msgPriority := mPri\<lparr>IntRootPathCost := 0, DesignatedBridgeID := cistRRootID b\<rparr>,
                msgTimes := mTimes\<lparr>remainingHops := bridge_MaxHops\<rparr>\<rparr>
         else x\<lparr>msgPriority := mPri\<lparr>IntRootPathCost := cistIntRootPathCost b,
                                  DesignatedBridgeID := cistBridgeID b\<rparr>,
                msgTimes := mTimes\<lparr>remainingHops := cistRemainingHops b\<rparr>\<rparr>)"

definition record_msti_msg ::
    "mstid \<Rightarrow> bpdu_t \<Rightarrow> msti_configuration_message_t \<Rightarrow> per_tree_port_t \<Rightarrow> per_tree_port_t" where
  "record_msti_msg t b m x =
     x\<lparr>msgPriority := (msgPriority x)\<lparr>
          RRootID := mstiRRootID m,
          IntRootPathCost := mstiIntRootPathCost m,
          DesignatedBridgeID := (cistBridgeID b)\<lparr>
            bi_priority := SET_PRIORITY_IN_IDENTIFIER (bridgeIdentifierPriority m) t\<rparr>,
          DesignatedPortID :=
            SET_PRIORITY_IN_IDENTIFIER (portIdentifierPriority m) (cistPortID b)\<rparr>,
       msgTimes := (msgTimes x)\<lparr>remainingHops := msti_remainingHops m\<rparr>\<rparr>"

text \<open>The classification at the end of \<open>rcvInfo\<close>.\<close>

definition rcvInfo_classify :: "bool \<Rightarrow> bool \<Rightarrow> per_tree_port_t \<Rightarrow> port_info_t" where
  "rcvInfo_classify roleIsDesignated cist x =
     (let mPri = msgPriority x; pPri = portPriority x;
          msg_Better_port = (\<not> betterorsamePriority pPri mPri 0 0 cist)
      in if roleIsDesignated then
           if msg_Better_port
              \<or> (bi_mac (DesignatedBridgeID mPri) = bi_mac (DesignatedBridgeID pPri)
                 \<and> (DesignatedPortID mPri XOR DesignatedPortID pPri) AND 0x0FFF = 0)
           then SuperiorDesignatedInfo
           else
             let same = samePriorityAndTimers mPri pPri (msgTimes x) (portTimes x) cist
             in if \<not> same \<and> betterorsamePriority mPri pPri 0 0 cist
                then SuperiorDesignatedInfo
                else if same \<and> infoIs x = ioReceived then RepeatedDesignatedInfo
                else InferiorDesignatedInfo
         else if \<not> msg_Better_port then InferiorRootAlternateInfo
         else OtherInfo)"

definition rcvInfo :: "portref \<Rightarrow> mstid \<Rightarrow> bridge_t \<Rightarrow> (port_info_t \<times> bridge_t) option" where
  "rcvInfo p t br =
     (let b = rcvdBpduData (port_at br p) in
      if bpduType b = bpduTypeTCN then
        let br = upd_port p (\<lambda>x. x\<lparr>rcvdTcn := True\<rparr>) br
        in Some (OtherInfo, foreach_ptp_in_port p (\<lambda>x. x\<lparr>rcvdTc := True\<rparr>) br)
      else if t = CIST then
        (case cist_role_is_designated b of
           None \<Rightarrow> Some (OtherInfo, br)
         | Some d \<Rightarrow>
             let br' = upd_ptp p t (record_cist_msg (br_MaxHops br) b) br
             in Some (rcvInfo_classify d True (ptp_at br' p t), br'))
      else if protocolVersion b < proto_num protoMSTP then Some (OtherInfo, br)
      else do {
        m \<leftarrow> rcvdMstiMsg br p t;
        (case msti_role_is_designated m of
           None \<Rightarrow> Some (OtherInfo, br)
         | Some d \<Rightarrow>
             let br' = upd_ptp p t (record_msti_msg t b m) br
             in Some (rcvInfo_classify d False (ptp_at br' p t), br'))
      })"


subsection \<open>Clearing and setting flags\<close>

text \<open>The dry run of \<open>clearAllRcvdMsgs\<close> and its actual run.\<close>

definition clearAllRcvdMsgs_dry :: "portref \<Rightarrow> bridge_t \<Rightarrow> bool" where
  "clearAllRcvdMsgs_dry p br = list_ex (\<lambda>t. rcvdMsg (ptp_at br p t)) (trees br)"

definition clearAllRcvdMsgs :: "portref \<Rightarrow> bridge_t \<Rightarrow> bridge_t" where
  "clearAllRcvdMsgs p br = foreach_ptp_in_port p (\<lambda>x. x\<lparr>rcvdMsg := False\<rparr>) br"

definition clearReselectTree :: "mstid \<Rightarrow> bridge_t \<Rightarrow> bridge_t" where
  "clearReselectTree t br = foreach_ptp_in_tree t (\<lambda>x. x\<lparr>reselect := False\<rparr>) br"

definition recordAgreement :: "portref \<Rightarrow> mstid \<Rightarrow> bridge_t \<Rightarrow> bridge_t option" where
  "recordAgreement p t br =
     (let prt = port_at br p; b = rcvdBpduData prt in
      if t = CIST then
        let br = (if rstpVersion br \<and> operPointToPointMAC prt \<and> bit (flags b) offsetAgreement
                  then upd_ptp p t (\<lambda>x. x\<lparr>agreed := True, proposing := False\<rparr>) br
                  else upd_ptp p t (\<lambda>x. x\<lparr>agreed := False\<rparr>) br);
            cist_agreed = agreed (ptp_at br p t);
            cist_proposing = proposing (ptp_at br p t)
        in Some (if \<not> rcvdInternal prt
                 then foreach_msti_in_port p
                   (\<lambda>x. x\<lparr>agreed := cist_agreed, proposing := cist_proposing\<rparr>) br
                 else br)
      else
        let cist = cist_of br p in
        if operPointToPointMAC prt
           \<and> ncmp_bid (cistRootID b) (RootID (portPriority cist)) = 0
           \<and> ncmp_be32 (cistExtRootPathCost b) (ExtRootPathCost (portPriority cist)) = 0
           \<and> ncmp_bid (cistRRootID b) (RRootID (portPriority cist)) = 0
        then do {
          m \<leftarrow> rcvdMstiMsg br p t;
          Some (if bit (msti_flags m) offsetAgreement
                then upd_ptp p t (\<lambda>x. x\<lparr>agreed := True, proposing := False\<rparr>) br
                else upd_ptp p t (\<lambda>x. x\<lparr>agreed := False\<rparr>) br)
        }
        else Some (upd_ptp p t (\<lambda>x. x\<lparr>agreed := False\<rparr>) br))"

definition recordDispute :: "portref \<Rightarrow> mstid \<Rightarrow> bridge_t \<Rightarrow> bridge_t option" where
  "recordDispute p t br =
     (if t = CIST then
        if bit (flags (rcvdBpduData (port_at br p))) offsetLearnig then
          let br = upd_ptp p t (\<lambda>x. x\<lparr>disputed := True, agreed := False\<rparr>) br
          in Some (if \<not> rcvdInternal (port_at br p)
                   then foreach_msti_in_port p (\<lambda>x. x\<lparr>disputed := True, agreed := False\<rparr>) br
                   else br)
        else Some br
      else do {
        m \<leftarrow> rcvdMstiMsg br p t;
        Some (if bit (msti_flags m) offsetLearnig
              then upd_ptp p t (\<lambda>x. x\<lparr>disputed := True, agreed := False\<rparr>) br
              else br)
      })"

definition recordMastered :: "portref \<Rightarrow> mstid \<Rightarrow> bridge_t \<Rightarrow> bridge_t option" where
  "recordMastered p t br =
     (if t = CIST then
        Some (if \<not> rcvdInternal (port_at br p)
              then foreach_msti_in_port p (\<lambda>x. x\<lparr>mastered := False\<rparr>) br
              else br)
      else if operPointToPointMAC (port_at br p) then do {
        m \<leftarrow> rcvdMstiMsg br p t;
        Some (upd_ptp p t (\<lambda>x. x\<lparr>mastered := bit (msti_flags m) offsetMaster\<rparr>) br)
      }
      else Some (upd_ptp p t (\<lambda>x. x\<lparr>mastered := False\<rparr>) br))"

definition recordPriority :: "portref \<Rightarrow> mstid \<Rightarrow> bridge_t \<Rightarrow> bridge_t" where
  "recordPriority p t br = upd_ptp p t (\<lambda>x. x\<lparr>portPriority := msgPriority x\<rparr>) br"

definition recordProposal :: "portref \<Rightarrow> mstid \<Rightarrow> bridge_t \<Rightarrow> bridge_t option" where
  "recordProposal p t br =
     (if t = CIST then
        let br = (if bit (flags (rcvdBpduData (port_at br p))) offsetProposal
                  then upd_ptp p t (\<lambda>x. x\<lparr>proposed := True\<rparr>) br else br);
            cist_proposed = proposed (ptp_at br p t)
        in Some (if \<not> rcvdInternal (port_at br p)
                 then foreach_msti_in_port p (\<lambda>x. x\<lparr>proposed := cist_proposed\<rparr>) br
                 else br)
      else do {
        m \<leftarrow> rcvdMstiMsg br p t;
        Some (if bit (msti_flags m) offsetProposal
              then upd_ptp p t (\<lambda>x. x\<lparr>proposed := True\<rparr>) br else br)
      })"

definition recordTimes :: "portref \<Rightarrow> mstid \<Rightarrow> bridge_t \<Rightarrow> bridge_t" where
  "recordTimes p t br =
     upd_ptp p t
       (\<lambda>x. x\<lparr>portTimes := (msgTimes x)\<lparr>Hello_Time := Hello_Time (portTimes x)\<rparr>\<rparr>) br"

text \<open>The message of an MSTI is the first one whose regional root carries its MSTID.\<close>

definition find_msti_msg :: "port_t \<Rightarrow> mstid \<Rightarrow> nat option" where
  "find_msti_msg prt t =
     List.find (\<lambda>i. bi_priority (mstiRRootID (mstConfiguration (rcvdBpduData prt) ! i))
                      AND 0x0FFF = t)
       [0 ..< rcvdBpduNumOfMstis prt]"

definition set_msti_rcvdMsg :: "portref \<Rightarrow> mstid \<Rightarrow> bridge_t \<Rightarrow> bridge_t" where
  "set_msti_rcvdMsg p t br =
     (case find_msti_msg (port_at br p) t of
        None \<Rightarrow> br
      | Some i \<Rightarrow> upd_ptp p t (\<lambda>x. x\<lparr>rcvdMsg := True, rcvdMstiConfig := Some i\<rparr>) br)"

definition setRcvdMsgs :: "portref \<Rightarrow> bridge_t \<Rightarrow> bridge_t" where
  "setRcvdMsgs p br =
     (let br = upd_ptp p CIST (\<lambda>x. x\<lparr>rcvdMsg := True\<rparr>) br in
      if rcvdInternal (port_at br p) then fold (set_msti_rcvdMsg p) (tl (trees br)) br
      else br)"

definition setReRootTree :: "mstid \<Rightarrow> bridge_t \<Rightarrow> bridge_t" where
  "setReRootTree t br = foreach_ptp_in_tree t (\<lambda>x. x\<lparr>reRoot := True\<rparr>) br"

definition setSelectedTree :: "mstid \<Rightarrow> bridge_t \<Rightarrow> bridge_t" where
  "setSelectedTree t br = foreach_ptp_in_tree t (\<lambda>x. x\<lparr>selected := True\<rparr>) br"

definition setSyncTree :: "mstid \<Rightarrow> bridge_t \<Rightarrow> bridge_t" where
  "setSyncTree t br = foreach_ptp_in_tree t (\<lambda>x. x\<lparr>sync := True\<rparr>) br"

definition setTcFlags :: "portref \<Rightarrow> mstid \<Rightarrow> bridge_t \<Rightarrow> bridge_t option" where
  "setTcFlags p t br =
     (if t = CIST then
        let cistFlags = flags (rcvdBpduData (port_at br p));
            br = (if bit cistFlags offsetTcAck
                  then upd_port p (\<lambda>x. x\<lparr>rcvdTcAck := True\<rparr>) br else br)
        in Some (if bit cistFlags offsetTc then
                   let br = upd_ptp p t (\<lambda>x. x\<lparr>rcvdTc := True\<rparr>) br
                   in if \<not> rcvdInternal (port_at br p)
                      then foreach_msti_in_port p (\<lambda>x. x\<lparr>proposed := True\<rparr>) br
                      else br
                 else br)
      else do {
        m \<leftarrow> rcvdMstiMsg br p t;
        Some (if bit (msti_flags m) offsetTc
              then upd_ptp p t (\<lambda>x. x\<lparr>rcvdTc := True\<rparr>) br else br)
      })"

definition setTcPropTree :: "portref \<Rightarrow> mstid \<Rightarrow> bridge_t \<Rightarrow> bridge_t" where
  "setTcPropTree p t br =
     (if restrictedTcn (port_at br p) then br
      else fold (\<lambda>q br. if q \<noteq> p then upd_ptp q t (\<lambda>x. x\<lparr>tcProp := True\<rparr>) br else br)
             (ports br) br)"

definition syncMaster :: "bridge_t \<Rightarrow> bridge_t" where
  "syncMaster br =
     fold (\<lambda>t. fold (\<lambda>q br.
             if infoInternal (port_at br q)
             then upd_ptp q t
               (\<lambda>x. x\<lparr>agree := False, agreed := False, synced := False, sync := True\<rparr>) br
             else br) (ports br))
       (tl (trees br)) br"

subsection \<open>Sending BPDUs\<close>

text \<open>
  The code fills a BPDU on its stack and sends its first \<open>size\<close> bytes. Fields that are not
  assigned, none of which is sent, are zero here.
\<close>

definition blank_bid :: bridge_identifier_t where
  "blank_bid = \<lparr>bi_priority = 0, bi_mac = 0\<rparr>"

definition blank_bpdu :: bpdu_t where
  "blank_bpdu = \<lparr>protocolIdentifier = 0, protocolVersion = 0, bpduType = 0, flags = 0,
     cistRootID = blank_bid, cistExtRootPathCost = 0, cistRRootID = blank_bid, cistPortID = 0,
     MessageAge = (0, 0), MaxAge = (0, 0), HelloTime = (0, 0), ForwardDelay = (0, 0),
     version1_len = 0, version3_len = 0,
     mstConfigurationIdentifier = \<lparr>selector = 0, configuration_name = [], revision_level = 0,
       configuration_digest = []\<rparr>,
     cistIntRootPathCost = 0, cistBridgeID = blank_bid, cistRemainingHops = 0,
     mstConfiguration = []\<rparr>"

definition flag_bit :: "bool \<Rightarrow> nat \<Rightarrow> u8" where
  "flag_bit c n = (if c then push_bit n 1 else 0)"

definition tx_suppressed :: "portref \<Rightarrow> bridge_t \<Rightarrow> bool" where
  "tx_suppressed p br \<longleftrightarrow>
     deleted (port_at br p) \<or> role (cist_of br p) = roleDisabled \<or> dontTxmtBpdu (port_at br p)"

definition txConfig :: "portref \<Rightarrow> bridge_t \<Rightarrow> bridge_t" where
  "txConfig p br =
     (if tx_suppressed p br then br
      else
        let cist = cist_of br p; dPri = designatedPriority cist; dTimes = designatedTimes cist;
            b = blank_bpdu\<lparr>
              protocolIdentifier := 0, protocolVersion := proto_num protoSTP,
              bpduType := bpduTypeConfig,
              flags := flag_bit (tcWhile cist \<noteq> 0) offsetTc
                OR flag_bit (tcAck (port_at br p)) offsetTcAck,
              cistRootID := RootID dPri, cistExtRootPathCost := ExtRootPathCost dPri,
              cistRRootID := DesignatedBridgeID dPri, cistPortID := DesignatedPortID dPri,
              MessageAge := (Message_Age dTimes, 0), MaxAge := (Max_Age dTimes, 0),
              HelloTime := (Hello_Time (portTimes cist), 0),
              ForwardDelay := (Forward_Delay dTimes, 0)\<rparr>
        in MSTP_OUT_tx_bpdu p b CONFIG_BPDU_SIZE br)"

definition message_role_from_port_role :: "per_tree_port_t \<Rightarrow> port_encoded_role_t" where
  "message_role_from_port_role x =
     (case role x of
        roleRoot \<Rightarrow> encodedRoleRoot
      | roleDesignated \<Rightarrow> encodedRoleDesignated
      | roleAlternate \<Rightarrow> encodedRoleAlternateBackup
      | roleBackup \<Rightarrow> encodedRoleAlternateBackup
      | roleMaster \<Rightarrow> encodedRoleMaster
      | roleDisabled \<Rightarrow> encodedRoleAlternateBackup)"

text \<open>The flags both the CIST part and an MSTI message of \<open>txMstp\<close> start from.\<close>

definition tx_flags :: "per_tree_port_t \<Rightarrow> u8" where
  "tx_flags x =
     BPDU_FLAGS_ROLE_SET (role_num (message_role_from_port_role x))
     OR flag_bit (tcWhile x \<noteq> 0) offsetTc OR flag_bit (proposing x) offsetProposal
     OR flag_bit (learning x) offsetLearnig OR flag_bit (forwarding x) offsetForwarding
     OR flag_bit (agree x) offsetAgreement"

definition tx_msti_msg :: "per_tree_port_t \<Rightarrow> msti_configuration_message_t" where
  "tx_msti_msg x =
     \<lparr>msti_flags = tx_flags x OR flag_bit (master x) offsetMaster,
      mstiRRootID = RRootID (designatedPriority x),
      mstiIntRootPathCost = IntRootPathCost (designatedPriority x),
      bridgeIdentifierPriority =
        GET_PRIORITY_FROM_IDENTIFIER (bi_priority (DesignatedBridgeID (designatedPriority x))),
      portIdentifierPriority =
        GET_PRIORITY_FROM_IDENTIFIER (DesignatedPortID (designatedPriority x)),
      msti_remainingHops = remainingHops (designatedTimes x)\<rparr>"

definition txMstp :: "portref \<Rightarrow> bridge_t \<Rightarrow> bridge_t" where
  "txMstp p br =
     (if tx_suppressed p br then br
      else
        let cist = cist_of br p; dPri = designatedPriority cist; dTimes = designatedTimes cist;
            b = blank_bpdu\<lparr>
              protocolIdentifier := 0, bpduType := bpduTypeRST, flags := tx_flags cist,
              cistRootID := RootID dPri, cistExtRootPathCost := ExtRootPathCost dPri,
              cistRRootID := RRootID dPri, cistPortID := DesignatedPortID dPri,
              MessageAge := (Message_Age dTimes, 0), MaxAge := (Max_Age dTimes, 0),
              HelloTime := (Hello_Time (portTimes cist), 0),
              ForwardDelay := (Forward_Delay dTimes, 0), version1_len := 0\<rparr>
        in if proto_num (ForceProtocolVersion br) < proto_num protoMSTP
           then MSTP_OUT_tx_bpdu p (b\<lparr>protocolVersion := proto_num protoRSTP\<rparr>) RST_BPDU_SIZE br
           else
             let msgs = map (\<lambda>t. tx_msti_msg (ptp_at br p t)) (tl (trees br));
                 total = of_nat (length msgs) * sizeof_msti_configuration_message
             in MSTP_OUT_tx_bpdu p
                  (b\<lparr>protocolVersion := proto_num protoMSTP,
                     mstConfigurationIdentifier := MstConfigId br,
                     cistIntRootPathCost := IntRootPathCost dPri,
                     cistBridgeID := DesignatedBridgeID dPri,
                     cistRemainingHops := remainingHops dTimes,
                     mstConfiguration := msgs,
                     version3_len := ucast (MST_BPDU_VER3LEN_WO_MSTI_MSGS + total)\<rparr>)
                  (MST_BPDU_SIZE_WO_MSTI_MSGS + total) br)"

definition txTcn :: "portref \<Rightarrow> bridge_t \<Rightarrow> bridge_t" where
  "txTcn p br =
     (if tx_suppressed p br then br
      else MSTP_OUT_tx_bpdu p
             (blank_bpdu\<lparr>protocolIdentifier := 0, protocolVersion := proto_num protoSTP,
                         bpduType := bpduTypeTCN\<rparr>) TCN_BPDU_SIZE br)"

subsection \<open>Versions, ageing and reselection\<close>

definition updtBPDUVersion :: "portref \<Rightarrow> bridge_t \<Rightarrow> bridge_t" where
  "updtBPDUVersion p br =
     (if proto_num protoRSTP \<le> protocolVersion (rcvdBpduData (port_at br p))
      then upd_port p (\<lambda>x. x\<lparr>rcvdRSTP := True\<rparr>) br
      else upd_port p (\<lambda>x. x\<lparr>rcvdSTP := True\<rparr>) br)"

definition updtRcvdInfoWhile :: "portref \<Rightarrow> mstid \<Rightarrow> bridge_t \<Rightarrow> bridge_t" where
  "updtRcvdInfoWhile p t br =
     (let cTimes = portTimes (cist_of br p);
          age = ucast (Message_Age cTimes) :: u32;
          maxAge = ucast (Max_Age cTimes);
          hello = ucast (Hello_Time cTimes);
          rcvdInt = rcvdInternal (port_at br p)
      in if (\<not> rcvdInt \<and> age + 1 \<le> maxAge)
            \<or> (rcvdInt \<and> remainingHops (portTimes (ptp_at br p t)) > 1)
         then upd_ptp p t (\<lambda>x. x\<lparr>rcvdInfoWhile := 3 * hello\<rparr>) br
         else upd_ptp p t (\<lambda>x. x\<lparr>rcvdInfoWhile := 0\<rparr>) br)"

definition updtbrAssuRcvdInfoWhile :: "portref \<Rightarrow> bridge_t \<Rightarrow> bridge_t" where
  "updtbrAssuRcvdInfoWhile p br =
     upd_port p (\<lambda>x. x\<lparr>brAssuRcvdInfoWhile :=
       3 * ucast (Hello_Time (portTimes (cist_of br p)))\<rparr>) br"

definition updtRolesDisabledTree :: "mstid \<Rightarrow> bridge_t \<Rightarrow> bridge_t" where
  "updtRolesDisabledTree t br = foreach_ptp_in_tree t (\<lambda>x. x\<lparr>selectedRole := roleDisabled\<rparr>) br"

definition reselectMSTIs :: "portref \<Rightarrow> bridge_t \<Rightarrow> bridge_t" where
  "reselectMSTIs p br = foreach_msti_in_port p (\<lambda>x. x\<lparr>reselect := True\<rparr>) br"

end
