(* ===== verification/Mstp_Port_Machines.thy ===== *)
theory Mstp_Port_Machines
  imports Mstp_Procedures
begin

section \<open>The per-port state machines\<close>

text \<open>
  Port timers, port receive, port protocol migration, bridge detection and port transmit
  (clauses 13.27 to 13.31), as \<open>src/mstpd/src/mstp.c\<close> has them. \<open>X_to_STATE\<close> is the code's
  function of that name without its final call of \<open>X_run\<close>, \<open>X_step\<close> has the guards of
  \<open>X_run\<close>, and \<open>X_run\<close> chains the steps (\<open>Machine.sm_run\<close>).
\<close>

subsection \<open>Port timers\<close>

definition dec :: "u32 \<Rightarrow> u32" where
  "dec x = (if x \<noteq> 0 then x - 1 else x)"

definition tick_ptp :: "portref \<Rightarrow> mstid \<Rightarrow> bridge_t \<Rightarrow> bridge_t" where
  "tick_ptp p t br =
     (let tc = tcWhile (ptp_at br p t);
          br = upd_ptp p t (\<lambda>x. x\<lparr>fdWhile := dec (fdWhile x), rrWhile := dec (rrWhile x),
                                  rbWhile := dec (rbWhile x), tcWhile := dec tc\<rparr>) br;
          br = (if tc \<noteq> 0 \<and> tcWhile (ptp_at br p t) = 0
                then set_TopologyChange t False p br else br)
      in upd_ptp p t (\<lambda>x. x\<lparr>rcvdInfoWhile := dec (rcvdInfoWhile x)\<rparr>) br)"

definition PTSM_tick :: "portref \<Rightarrow> bridge_t \<Rightarrow> bridge_t" where
  "PTSM_tick p br =
     (let br = upd_port p (\<lambda>x. x\<lparr>helloWhen := dec (helloWhen x),
            mdelayWhile := dec (mdelayWhile x), edgeDelayWhile := dec (edgeDelayWhile x),
            txCount := dec (txCount x),
            brAssuRcvdInfoWhile := dec (brAssuRcvdInfoWhile x)\<rparr>) br
      in fold (tick_ptp p) (trees br) br)"

subsection \<open>Port receive\<close>

definition PRSM_to_DISCARD_dry :: "portref \<Rightarrow> bridge_t \<Rightarrow> bool" where
  "PRSM_to_DISCARD_dry p br =
     (let prt = port_at br p in
      PRSM_state prt \<noteq> PRSM_DISCARD \<or> rcvdBpdu prt \<or> rcvdRSTP prt \<or> rcvdSTP prt
      \<or> edgeDelayWhile prt \<noteq> Migrate_Time br \<or> clearAllRcvdMsgs_dry p br)"

definition PRSM_to_DISCARD :: "portref \<Rightarrow> bridge_t \<Rightarrow> bridge_t" where
  "PRSM_to_DISCARD p br =
     (let br = upd_port p (\<lambda>x. x\<lparr>PRSM_state := PRSM_DISCARD, rcvdBpdu := False,
                                 rcvdRSTP := False, rcvdSTP := False\<rparr>) br;
          br = clearAllRcvdMsgs p br
      in upd_port p (\<lambda>x. x\<lparr>edgeDelayWhile := Migrate_Time br\<rparr>) br)"

definition PRSM_to_RECEIVE :: "portref \<Rightarrow> bridge_t \<Rightarrow> bridge_t" where
  "PRSM_to_RECEIVE p br =
     (let br = upd_port p (\<lambda>x. x\<lparr>PRSM_state := PRSM_RECEIVE\<rparr>) br;
          br = updtBPDUVersion p br;
          br = upd_port p (\<lambda>x. x\<lparr>rcvdInternal := fromSameRegion p br\<rparr>) br;
          br = setRcvdMsgs p br
      in upd_port p (\<lambda>x. x\<lparr>operEdge := False, rcvdBpdu := False,
                           edgeDelayWhile := Migrate_Time br\<rparr>) br)"

definition PRSM_step :: "portref \<Rightarrow> bridge_t \<Rightarrow> bridge_t transition" where
  "PRSM_step p br =
     (let prt = port_at br p in
      if (rcvdBpdu prt \<or> edgeDelayWhile prt \<noteq> Migrate_Time br) \<and> \<not> portEnabled prt
      then Move (PRSM_to_DISCARD p br) False (PRSM_to_DISCARD_dry p br)
      else case PRSM_state prt of
        PRSM_DISCARD \<Rightarrow>
          if rcvdBpdu prt \<and> portEnabled prt then Move (PRSM_to_RECEIVE p br) False True else Stay
      | PRSM_RECEIVE \<Rightarrow>
          let rcvdAnyMsg = list_ex (\<lambda>t. rcvdMsg (ptp_at br p t)) (trees br)
          in if rcvdBpdu prt \<and> portEnabled prt \<and> \<not> rcvdAnyMsg
             then Move (PRSM_to_RECEIVE p br) False True else Stay)"

definition PRSM_run :: "nat \<Rightarrow> portref \<Rightarrow> bridge_t \<Rightarrow> bool \<Rightarrow> (bool \<times> bridge_t) option" where
  "PRSM_run fuel p = sm_run (PRSM_step p) fuel"

subsection \<open>Port protocol migration\<close>

definition PPMSM_to_CHECKING_RSTP :: "portref \<Rightarrow> bridge_t \<Rightarrow> bridge_t" where
  "PPMSM_to_CHECKING_RSTP p br =
     upd_port p (\<lambda>x. x\<lparr>PPMSM_state := PPMSM_CHECKING_RSTP, mcheck := False,
                       sendRSTP := rstpVersion br, mdelayWhile := Migrate_Time br\<rparr>) br"

definition PPMSM_to_SELECTING_STP :: "portref \<Rightarrow> bridge_t \<Rightarrow> bridge_t" where
  "PPMSM_to_SELECTING_STP p br =
     upd_port p (\<lambda>x. x\<lparr>PPMSM_state := PPMSM_SELECTING_STP, sendRSTP := False,
                       mdelayWhile := Migrate_Time br\<rparr>) br"

definition PPMSM_to_SENSING :: "portref \<Rightarrow> bridge_t \<Rightarrow> bridge_t" where
  "PPMSM_to_SENSING p br =
     upd_port p (\<lambda>x. x\<lparr>PPMSM_state := PPMSM_SENSING, rcvdRSTP := False, rcvdSTP := False\<rparr>) br"

definition PPMSM_step :: "portref \<Rightarrow> bridge_t \<Rightarrow> bridge_t transition" where
  "PPMSM_step p br =
     (let prt = port_at br p in
      case PPMSM_state prt of
        PPMSM_CHECKING_RSTP \<Rightarrow>
          if mdelayWhile prt \<noteq> Migrate_Time br \<and> \<not> portEnabled prt
          then Move (PPMSM_to_CHECKING_RSTP p br) False True
          else if mdelayWhile prt = 0 then Move (PPMSM_to_SENSING p br) True True
          else Stay
      | PPMSM_SELECTING_STP \<Rightarrow>
          if mdelayWhile prt = 0 \<or> \<not> portEnabled prt \<or> mcheck prt
          then Move (PPMSM_to_SENSING p br) True True
          else Stay
      | PPMSM_SENSING \<Rightarrow>
          if \<not> portEnabled prt \<or> mcheck prt
             \<or> (rstpVersion br \<and> \<not> sendRSTP prt \<and> rcvdRSTP prt)
          then Move (PPMSM_to_CHECKING_RSTP p br) False True
          else if sendRSTP prt \<and> rcvdSTP prt then Move (PPMSM_to_SELECTING_STP p br) True True
          else Stay)"

definition PPMSM_run :: "nat \<Rightarrow> portref \<Rightarrow> bridge_t \<Rightarrow> bool \<Rightarrow> (bool \<times> bridge_t) option" where
  "PPMSM_run fuel p = sm_run (PPMSM_step p) fuel"

subsection \<open>Bridge detection\<close>

definition BDSM_to_EDGE :: "portref \<Rightarrow> bridge_t \<Rightarrow> bridge_t" where
  "BDSM_to_EDGE p br = upd_port p (\<lambda>x. x\<lparr>BDSM_state := BDSM_EDGE, operEdge := True\<rparr>) br"

definition BDSM_to_NOT_EDGE :: "portref \<Rightarrow> bridge_t \<Rightarrow> bridge_t" where
  "BDSM_to_NOT_EDGE p br = upd_port p (\<lambda>x. x\<lparr>BDSM_state := BDSM_NOT_EDGE, operEdge := False\<rparr>) br"

definition BDSM_begin :: "portref \<Rightarrow> bridge_t \<Rightarrow> bridge_t" where
  "BDSM_begin p br =
     (if AdminEdgePort (port_at br p) then BDSM_to_EDGE p br else BDSM_to_NOT_EDGE p br)"

definition BDSM_step :: "portref \<Rightarrow> bridge_t \<Rightarrow> bridge_t transition" where
  "BDSM_step p br =
     (let prt = port_at br p in
      case BDSM_state prt of
        BDSM_EDGE \<Rightarrow>
          if ((\<not> portEnabled prt \<or> \<not> AutoEdge prt) \<and> \<not> AdminEdgePort prt) \<or> \<not> operEdge prt
          then Move (BDSM_to_NOT_EDGE p br) False True else Stay
      | BDSM_NOT_EDGE \<Rightarrow>
          if (\<not> portEnabled prt \<and> AdminEdgePort prt)
             \<or> (edgeDelayWhile prt = 0 \<and> AutoEdge prt \<and> sendRSTP prt
                 \<and> proposing (cist_of br p))
          then Move (BDSM_to_EDGE p br) False True else Stay)"

definition BDSM_run :: "nat \<Rightarrow> portref \<Rightarrow> bridge_t \<Rightarrow> bool \<Rightarrow> (bool \<times> bridge_t) option" where
  "BDSM_run fuel p = sm_run (BDSM_step p) fuel"

subsection \<open>Port transmit\<close>

definition PTSM_to_TRANSMIT_INIT_dry :: "portref \<Rightarrow> bridge_t \<Rightarrow> bool" where
  "PTSM_to_TRANSMIT_INIT_dry p br =
     (let prt = port_at br p in
      PTSM_state prt \<noteq> PTSM_TRANSMIT_INIT \<or> \<not> newInfo prt \<or> \<not> newInfoMsti prt \<or> txCount prt \<noteq> 0)"

definition PTSM_to_TRANSMIT_INIT :: "portref \<Rightarrow> bridge_t \<Rightarrow> bridge_t" where
  "PTSM_to_TRANSMIT_INIT p br =
     upd_port p (\<lambda>x. x\<lparr>PTSM_state := PTSM_TRANSMIT_INIT, newInfo := True, newInfoMsti := True,
                       txCount := 0\<rparr>) br"

definition PTSM_to_TRANSMIT_CONFIG :: "portref \<Rightarrow> bridge_t \<Rightarrow> bridge_t" where
  "PTSM_to_TRANSMIT_CONFIG p br =
     (let br = upd_port p (\<lambda>x. x\<lparr>PTSM_state := PTSM_TRANSMIT_CONFIG, newInfo := False\<rparr>) br;
          br = txConfig p br
      in upd_port p (\<lambda>x. x\<lparr>txCount := txCount x + 1, tcAck := False\<rparr>) br)"

definition PTSM_to_TRANSMIT_TCN :: "portref \<Rightarrow> bridge_t \<Rightarrow> bridge_t" where
  "PTSM_to_TRANSMIT_TCN p br =
     (let br = upd_port p (\<lambda>x. x\<lparr>PTSM_state := PTSM_TRANSMIT_TCN, newInfo := False\<rparr>) br;
          br = txTcn p br
      in upd_port p (\<lambda>x. x\<lparr>txCount := txCount x + 1\<rparr>) br)"

definition PTSM_to_TRANSMIT_RSTP :: "portref \<Rightarrow> bridge_t \<Rightarrow> bridge_t" where
  "PTSM_to_TRANSMIT_RSTP p br =
     (let br = upd_port p (\<lambda>x. x\<lparr>PTSM_state := PTSM_TRANSMIT_RSTP, newInfo := False,
                                 newInfoMsti := False\<rparr>) br;
          br = txMstp p br
      in upd_port p (\<lambda>x. x\<lparr>txCount := txCount x + 1, tcAck := False\<rparr>) br)"

definition designatedOrTCpropagatingRoot :: "per_tree_port_t \<Rightarrow> bool" where
  "designatedOrTCpropagatingRoot x \<longleftrightarrow>
     role x = roleDesignated \<or> (role x = roleRoot \<and> tcWhile x \<noteq> 0)"

definition PTSM_to_TRANSMIT_PERIODIC :: "portref \<Rightarrow> bridge_t \<Rightarrow> bridge_t" where
  "PTSM_to_TRANSMIT_PERIODIC p br =
     upd_port p (\<lambda>x. x\<lparr>PTSM_state := PTSM_TRANSMIT_PERIODIC,
       newInfo := newInfo x \<or> designatedOrTCpropagatingRoot (cist_of br p),
       newInfoMsti := newInfoMsti x
         \<or> list_ex (\<lambda>t. designatedOrTCpropagatingRoot (ptp_at br p t)) (tl (trees br))\<rparr>) br"

definition PTSM_to_IDLE :: "portref \<Rightarrow> bridge_t \<Rightarrow> bridge_t" where
  "PTSM_to_IDLE p br =
     upd_port p (\<lambda>x. x\<lparr>PTSM_state := PTSM_IDLE,
       helloWhen := ucast (Hello_Time (portTimes (cist_of br p)))\<rparr>) br"

text \<open>The guards of the state \<open>IDLE\<close>: \<open>allTransmitReady\<close> and \<open>mstiMasterPort\<close>.\<close>

definition allTransmitReady :: "portref \<Rightarrow> bridge_t \<Rightarrow> bool" where
  "allTransmitReady p br =
     list_all (\<lambda>t. selected (ptp_at br p t) \<and> \<not> updtInfo (ptp_at br p t))
       (CIST # tl (trees br))"

definition mstiMasterPort :: "portref \<Rightarrow> bridge_t \<Rightarrow> bool" where
  "mstiMasterPort p br = list_ex (\<lambda>t. role (ptp_at br p t) = roleMaster) (tl (trees br))"

definition PTSM_step :: "portref \<Rightarrow> bridge_t \<Rightarrow> bridge_t transition" where
  "PTSM_step p br =
     (let prt = port_at br p; cistRole = role (cist_of br p) in
      if \<not> portEnabled prt
      then Move (PTSM_to_TRANSMIT_INIT p br) False (PTSM_to_TRANSMIT_INIT_dry p br)
      else if PTSM_state prt \<noteq> PTSM_IDLE then Move (PTSM_to_IDLE p br) True True
      else if \<not> allTransmitReady p br then Stay
      else if helloWhen prt = 0 then Move (PTSM_to_TRANSMIT_PERIODIC p br) True True
      else if \<not> txCount prt < Transmit_Hold_Count br then Stay
      else if bpduFilterPort prt then Stay
      else if sendRSTP prt then
        if newInfo prt \<or> (newInfoMsti prt \<and> \<not> mstiMasterPort p br) \<or> assurancePort prt
        then Move (PTSM_to_TRANSMIT_RSTP p br) True True else Stay
      else if newInfo prt \<and> cistRole = roleDesignated
      then Move (PTSM_to_TRANSMIT_CONFIG p br) True True
      else if newInfo prt \<and> cistRole = roleRoot
      then Move (PTSM_to_TRANSMIT_TCN p br) True True
      else Stay)"

definition PTSM_run :: "nat \<Rightarrow> portref \<Rightarrow> bridge_t \<Rightarrow> bool \<Rightarrow> (bool \<times> bridge_t) option" where
  "PTSM_run fuel p = sm_run (PTSM_step p) fuel"


subsection \<open>The machines end, and their dry runs and early returns are right\<close>

lemma upd_port_id: "f (port_at br p) = port_at br p \<Longrightarrow> upd_port p f br = br"
  by (simp add: upd_port_def)

lemma foreach_ptp_in_port_id:
  "(\<And>t. t \<in> set (trees br) \<Longrightarrow> f (ptp_at br p t) = ptp_at br p t) \<Longrightarrow>
     foreach_ptp_in_port p f br = br"
proof -
  assume "\<And>t. t \<in> set (trees br) \<Longrightarrow> f (ptp_at br p t) = ptp_at br p t"
  then have "(\<lambda>q u. if q = p \<and> u \<in> set (trees br) then f (ptp_at br q u) else ptp_at br q u)
      = ptp_at br"
    by (auto simp: fun_eq_iff)
  then show ?thesis by (simp add: foreach_ptp_in_port_def)
qed

lemma foreach_ptp_in_port_rcvdMsg_id:
  "\<not> clearAllRcvdMsgs_dry p br \<Longrightarrow> clearAllRcvdMsgs p br = br"
  unfolding clearAllRcvdMsgs_def clearAllRcvdMsgs_dry_def
  by (rule foreach_ptp_in_port_id) (simp add: list_ex_iff)

lemma set_msti_rcvdMsg_frame [simp]:
  "port_at (fold (set_msti_rcvdMsg p) ts br) = port_at br"
  "Migrate_Time (fold (set_msti_rcvdMsg p) ts br) = Migrate_Time br"
  by (induction ts arbitrary: br) (simp_all add: set_msti_rcvdMsg_def split: option.split)

lemma setRcvdMsgs_frame [simp]:
  "port_at (setRcvdMsgs p br) = port_at br" "Migrate_Time (setRcvdMsgs p br) = Migrate_Time br"
  by (simp_all add: setRcvdMsgs_def Let_def)

lemma PRSM_to_DISCARD_id: "\<not> PRSM_to_DISCARD_dry p br \<Longrightarrow> PRSM_to_DISCARD p br = br"
  by (simp add: PRSM_to_DISCARD_def PRSM_to_DISCARD_dry_def Let_def upd_port_id
      foreach_ptp_in_port_rcvdMsg_id)

lemma PRSM_after_DISCARD: "PRSM_step p (PRSM_to_DISCARD p br) = Stay"
  by (simp add: PRSM_step_def PRSM_to_DISCARD_def Let_def clearAllRcvdMsgs_def)

lemma PRSM_after_RECEIVE: "PRSM_step p (PRSM_to_RECEIVE p br) = Stay"
  by (simp add: PRSM_step_def PRSM_to_RECEIVE_def Let_def updtBPDUVersion_def
      split: PRSM_states_t.split)

lemma PRSM_step_cases:
  "PRSM_step p br = Move s' m a \<Longrightarrow> \<not> m \<and>
     (s' = PRSM_to_DISCARD p br \<and> a = PRSM_to_DISCARD_dry p br \<or> s' = PRSM_to_RECEIVE p br \<and> a)"
  by (cases "PRSM_state (port_at br p)") (auto simp: PRSM_step_def Let_def split: if_splits)

lemma PRSM_no_fault: "PRSM_step p br \<noteq> Fault a"
  by (simp add: PRSM_step_def Let_def split: PRSM_states_t.split)

interpretation prsm: settling_machine "PRSM_step p" "\<lambda>_. True" "\<lambda>_. 0" for p
  by unfold_locales
    (auto dest!: PRSM_step_cases simp: PRSM_to_DISCARD_id PRSM_after_DISCARD PRSM_after_RECEIVE PRSM_no_fault)

definition PPMSM_rank :: "port_t \<Rightarrow> nat" where
  "PPMSM_rank prt = (case PPMSM_state prt of
       PPMSM_SENSING \<Rightarrow> if rcvdSTP prt then 3 else 1 | _ \<Rightarrow> 2)"

lemmas PPMSM_defs = PPMSM_step_def PPMSM_to_CHECKING_RSTP_def PPMSM_to_SELECTING_STP_def
  PPMSM_to_SENSING_def PPMSM_rank_def Let_def

lemma PPMSM_step_props:
  assumes "Migrate_Time br \<noteq> 0" and "PPMSM_step p br = Move s' m a"
  shows "Migrate_Time s' = Migrate_Time br" "a"
    "m \<Longrightarrow> PPMSM_rank (port_at s' p) < PPMSM_rank (port_at br p)"
    "\<not> m \<Longrightarrow> PPMSM_step p s' = Stay"
  using assms
  by (cases "PPMSM_state (port_at br p)"; force simp: PPMSM_defs split: if_splits)+

lemma PPMSM_no_fault: "PPMSM_step p br \<noteq> Fault a"
  by (simp add: PPMSM_step_def Let_def split: PPMSM_states_t.split)

interpretation ppmsm: settling_machine
  "PPMSM_step p" "\<lambda>br. Migrate_Time br \<noteq> 0" "\<lambda>br. PPMSM_rank (port_at br p)" for p
  by unfold_locales (use PPMSM_step_props PPMSM_no_fault in metis)+

interpretation bdsm: state_machine "BDSM_step p" "\<lambda>_. True" "\<lambda>_. 0" for p
  by unfold_locales
    (auto simp: BDSM_step_def Let_def split: if_splits BDSM_states_t.splits)

text \<open>What sending a BPDU leaves alone.\<close>

lemma tx_frame [simp]:
  "ptp_at (MSTP_OUT_tx_bpdu p b n br) = ptp_at br"
  "Transmit_Hold_Count (MSTP_OUT_tx_bpdu p b n br) = Transmit_Hold_Count br"
  "trees (MSTP_OUT_tx_bpdu p b n br) = trees br"
  "txCount (port_at (MSTP_OUT_tx_bpdu p b n br) q) = txCount (port_at br q)"
  "PTSM_state (port_at (MSTP_OUT_tx_bpdu p b n br) q) = PTSM_state (port_at br q)"
  "portEnabled (port_at (MSTP_OUT_tx_bpdu p b n br) q) = portEnabled (port_at br q)"
  "helloWhen (port_at (MSTP_OUT_tx_bpdu p b n br) q) = helloWhen (port_at br q)"
  by (simp_all add: MSTP_OUT_tx_bpdu_def Let_def)


lemma txConfig_frame [simp]:
  "ptp_at (txConfig p br) = ptp_at br" "Transmit_Hold_Count (txConfig p br) = Transmit_Hold_Count br"
  "txCount (port_at (txConfig p br) q) = txCount (port_at br q)"
  "PTSM_state (port_at (txConfig p br) q) = PTSM_state (port_at br q)"
  by (simp_all add: txConfig_def Let_def)

lemma txTcn_frame [simp]:
  "ptp_at (txTcn p br) = ptp_at br" "Transmit_Hold_Count (txTcn p br) = Transmit_Hold_Count br"
  "txCount (port_at (txTcn p br) q) = txCount (port_at br q)"
  "PTSM_state (port_at (txTcn p br) q) = PTSM_state (port_at br q)"
  by (simp_all add: txTcn_def Let_def)

lemma txMstp_frame [simp]:
  "ptp_at (txMstp p br) = ptp_at br" "Transmit_Hold_Count (txMstp p br) = Transmit_Hold_Count br"
  "txCount (port_at (txMstp p br) q) = txCount (port_at br q)"
  "PTSM_state (port_at (txMstp p br) q) = PTSM_state (port_at br q)"
  by (simp_all add: txMstp_def Let_def)

definition PTSM_credit :: "portref \<Rightarrow> bridge_t \<Rightarrow> nat" where
  "PTSM_credit p br = unat (Transmit_Hold_Count br) - unat (txCount (port_at br p))"

definition PTSM_rank :: "portref \<Rightarrow> bridge_t \<Rightarrow> nat" where
  "PTSM_rank p br = 2 * PTSM_credit p br
     + (if PTSM_state (port_at br p) \<noteq> PTSM_IDLE then 1
        else if helloWhen (port_at br p) = 0 then 2 else 0)"

lemmas PTSM_to_defs = PTSM_to_IDLE_def PTSM_to_TRANSMIT_INIT_def
  PTSM_to_TRANSMIT_PERIODIC_def PTSM_to_TRANSMIT_RSTP_def PTSM_to_TRANSMIT_CONFIG_def
  PTSM_to_TRANSMIT_TCN_def Let_def

text \<open>The bound on the recursion needs a hello time: with none, \<open>IDLE\<close> and
  \<open>TRANSMIT_PERIODIC\<close> would alternate for ever.\<close>

definition PTSM_ok :: "portref \<Rightarrow> bridge_t \<Rightarrow> bool" where
  "PTSM_ok p br \<longleftrightarrow> Hello_Time (portTimes (cist_of br p)) \<noteq> 0"

lemma PTSM_step_Move:
  "PTSM_step p br = Move s' m a \<Longrightarrow>
     (\<not> m \<and> s' = PTSM_to_TRANSMIT_INIT p br \<and> a = PTSM_to_TRANSMIT_INIT_dry p br) \<or>
     (m \<and> a \<and> (
        PTSM_state (port_at br p) \<noteq> PTSM_IDLE \<and> s' = PTSM_to_IDLE p br \<or>
        PTSM_state (port_at br p) = PTSM_IDLE \<and> helloWhen (port_at br p) = 0
          \<and> s' = PTSM_to_TRANSMIT_PERIODIC p br \<or>
        PTSM_state (port_at br p) = PTSM_IDLE \<and> helloWhen (port_at br p) \<noteq> 0
          \<and> txCount (port_at br p) < Transmit_Hold_Count br
          \<and> (s' = PTSM_to_TRANSMIT_RSTP p br \<or> s' = PTSM_to_TRANSMIT_CONFIG p br
              \<or> s' = PTSM_to_TRANSMIT_TCN p br)))"
  by (simp add: PTSM_step_def Let_def split: if_splits)

lemma PTSM_tx_rank:
  assumes "PTSM_state (port_at br p) = PTSM_IDLE" "txCount (port_at br p) < Transmit_Hold_Count br"
    and "s' \<in> {PTSM_to_TRANSMIT_RSTP p br, PTSM_to_TRANSMIT_CONFIG p br, PTSM_to_TRANSMIT_TCN p br}"
  shows "PTSM_rank p s' < PTSM_rank p br"
proof -
  have "PTSM_state (port_at s' p) \<noteq> PTSM_IDLE" "Transmit_Hold_Count s' = Transmit_Hold_Count br"
    "txCount (port_at s' p) = txCount (port_at br p) + 1"
    using assms(3) by (auto simp: PTSM_to_defs)
  moreover have "unat (txCount (port_at br p)) < unat (Transmit_Hold_Count br)"
    using assms(2) by (simp add: word_less_nat_alt)
  ultimately show ?thesis
    using assms(1) unat_inc [OF assms(2)] by (simp add: PTSM_rank_def PTSM_credit_def)
qed

lemma ucast_hello_nz: "(h :: u8) \<noteq> 0 \<Longrightarrow> (ucast h :: u32) \<noteq> 0"
  by (fastforce simp: bit_eq_iff bit_simps intro: exI [of _ n for n] less_trans)

lemma PTSM_step_rank:
  assumes "PTSM_ok p br" and "PTSM_step p br = Move s' True a"
  shows "PTSM_rank p s' < PTSM_rank p br"
  using PTSM_step_Move [OF assms(2)] PTSM_tx_rank [of br p s'] assms(1)
  by (auto simp: PTSM_rank_def PTSM_credit_def PTSM_to_IDLE_def PTSM_to_TRANSMIT_PERIODIC_def
      PTSM_ok_def ucast_hello_nz)

lemma PTSM_step_ok: "PTSM_ok p br \<Longrightarrow> PTSM_step p br = Move s' m a \<Longrightarrow> PTSM_ok p s'"
  by (auto dest!: PTSM_step_Move simp: PTSM_ok_def PTSM_to_defs)

lemma PTSM_init_id: "\<not> PTSM_to_TRANSMIT_INIT_dry p br \<Longrightarrow> PTSM_to_TRANSMIT_INIT p br = br"
  by (simp add: PTSM_to_TRANSMIT_INIT_dry_def PTSM_to_TRANSMIT_INIT_def upd_port_id Let_def)

lemma PTSM_init_stop:
  "PTSM_step p br = Move s' False a \<Longrightarrow> \<exists>m. PTSM_step p s' = Move s' m False"
  by (frule PTSM_step_Move)
    (auto simp: PTSM_step_def PTSM_to_TRANSMIT_INIT_def PTSM_to_TRANSMIT_INIT_dry_def Let_def
      upd_port_id split: if_splits)

lemma PTSM_no_fault: "PTSM_step p br \<noteq> Fault a"
  by (simp add: PTSM_step_def Let_def)

interpretation ptsm: settling_machine "PTSM_step p" "PTSM_ok p" "PTSM_rank p" for p
  by unfold_locales
    (auto simp: PTSM_step_ok PTSM_step_rank PTSM_init_id PTSM_init_stop PTSM_no_fault dest: PTSM_step_Move)

end
