(* ===== verification/Mstp_PISM.thy ===== *)
theory Mstp_PISM
  imports Mstp_Port_Machines
begin

section \<open>The port information state machine\<close>

text \<open>
  Clause 13.32, \<open>PISM_*\<close> of \<open>src/mstpd/src/mstp.c\<close>: one machine for each port and tree, which
  takes up received information, ages it out and installs the bridge's own. Entry actions that
  read the MSTI message of the received BPDU have no result when there is none.
\<close>

definition PISM_to_DISABLED :: "portref \<Rightarrow> mstid \<Rightarrow> bridge_t \<Rightarrow> bridge_t" where
  "PISM_to_DISABLED p t br =
     upd_ptp p t (\<lambda>x. x\<lparr>PISM_state := PISM_DISABLED, rcvdMsg := False, proposing := False,
       proposed := False, agree := False, agreed := False, rcvdInfoWhile := 0,
       infoIs := ioDisabled, reselect := True, selected := False\<rparr>) br"

definition PISM_to_AGED :: "portref \<Rightarrow> mstid \<Rightarrow> bridge_t \<Rightarrow> bridge_t" where
  "PISM_to_AGED p t br =
     upd_ptp p t (\<lambda>x. x\<lparr>PISM_state := PISM_AGED, infoIs := ioAged, reselect := True,
       selected := False\<rparr>) br"

definition PISM_to_UPDATE :: "portref \<Rightarrow> mstid \<Rightarrow> bridge_t \<Rightarrow> bridge_t" where
  "PISM_to_UPDATE p t br =
     (let br = upd_ptp p t (\<lambda>x. x\<lparr>PISM_state := PISM_UPDATE, proposing := False,
            proposed := False, agreed := agreed x \<and> betterorsameInfo x t ioMine\<rparr>) br;
          br = upd_ptp p t (\<lambda>x. x\<lparr>synced := synced x \<and> agreed x,
            portPriority := designatedPriority x, portTimes := designatedTimes x,
            updtInfo := False, infoIs := ioMine\<rparr>) br
      in set_newInfoXst p t br)"

definition PISM_to_SUPERIOR_DESIGNATED :: "portref \<Rightarrow> mstid \<Rightarrow> bridge_t \<Rightarrow> bridge_t option" where
  "PISM_to_SUPERIOR_DESIGNATED p t br = do {
     let br = upd_ptp p t (\<lambda>x. x\<lparr>PISM_state := PISM_SUPERIOR_DESIGNATED\<rparr>) br;
     let br = upd_port p (\<lambda>x. x\<lparr>infoInternal := rcvdInternal x\<rparr>) br;
     let br = upd_ptp p t (\<lambda>x. x\<lparr>agreed := False, proposing := False\<rparr>) br;
     br \<leftarrow> recordProposal p t br;
     br \<leftarrow> setTcFlags p t br;
     let br = upd_ptp p t (\<lambda>x. x\<lparr>agree := agree x \<and> betterorsameInfo x t ioReceived\<rparr>) br;
     br \<leftarrow> recordAgreement p t br;
     let br = upd_ptp p t (\<lambda>x. x\<lparr>synced := synced x \<and> agreed x\<rparr>) br;
     let br = recordPriority p t br;
     let br = recordTimes p t br;
     let br = updtRcvdInfoWhile p t br;
     Some (upd_ptp p t (\<lambda>x. x\<lparr>infoIs := ioReceived, reselect := True, selected := False,
       rcvdMsg := False\<rparr>) br)
   }"

definition PISM_to_REPEATED_DESIGNATED :: "portref \<Rightarrow> mstid \<Rightarrow> bridge_t \<Rightarrow> bridge_t option" where
  "PISM_to_REPEATED_DESIGNATED p t br = do {
     let br = upd_ptp p t (\<lambda>x. x\<lparr>PISM_state := PISM_REPEATED_DESIGNATED\<rparr>) br;
     let br = upd_port p (\<lambda>x. x\<lparr>infoInternal := rcvdInternal x\<rparr>) br;
     br \<leftarrow> recordProposal p t br;
     br \<leftarrow> setTcFlags p t br;
     br \<leftarrow> recordAgreement p t br;
     let br = updtRcvdInfoWhile p t br;
     Some (upd_ptp p t (\<lambda>x. x\<lparr>rcvdMsg := False\<rparr>) br)
   }"

definition PISM_to_INFERIOR_DESIGNATED :: "portref \<Rightarrow> mstid \<Rightarrow> bridge_t \<Rightarrow> bridge_t option" where
  "PISM_to_INFERIOR_DESIGNATED p t br = do {
     let br = upd_ptp p t (\<lambda>x. x\<lparr>PISM_state := PISM_INFERIOR_DESIGNATED\<rparr>) br;
     br \<leftarrow> recordDispute p t br;
     Some (upd_ptp p t (\<lambda>x. x\<lparr>rcvdMsg := False\<rparr>) br)
   }"

definition PISM_to_NOT_DESIGNATED :: "portref \<Rightarrow> mstid \<Rightarrow> bridge_t \<Rightarrow> bridge_t option" where
  "PISM_to_NOT_DESIGNATED p t br = do {
     let br = upd_ptp p t (\<lambda>x. x\<lparr>PISM_state := PISM_NOT_DESIGNATED\<rparr>) br;
     br \<leftarrow> recordAgreement p t br;
     br \<leftarrow> setTcFlags p t br;
     Some (upd_ptp p t (\<lambda>x. x\<lparr>rcvdMsg := False\<rparr>) br)
   }"

definition PISM_to_OTHER :: "portref \<Rightarrow> mstid \<Rightarrow> bridge_t \<Rightarrow> bridge_t" where
  "PISM_to_OTHER p t br = upd_ptp p t (\<lambda>x. x\<lparr>PISM_state := PISM_OTHER, rcvdMsg := False\<rparr>) br"

definition PISM_to_CURRENT :: "portref \<Rightarrow> mstid \<Rightarrow> bridge_t \<Rightarrow> bridge_t" where
  "PISM_to_CURRENT p t br = upd_ptp p t (\<lambda>x. x\<lparr>PISM_state := PISM_CURRENT\<rparr>) br"

definition PISM_to_RECEIVE :: "portref \<Rightarrow> mstid \<Rightarrow> bridge_t \<Rightarrow> bridge_t option" where
  "PISM_to_RECEIVE p t br = do {
     let br = upd_ptp p t (\<lambda>x. x\<lparr>PISM_state := PISM_RECEIVE\<rparr>) br;
     (info, br) \<leftarrow> rcvInfo p t br;
     let br = upd_ptp p t (\<lambda>x. x\<lparr>rcvdInfo := info\<rparr>) br;
     recordMastered p t br
   }"

definition rcvdXstMsg :: "portref \<Rightarrow> mstid \<Rightarrow> bridge_t \<Rightarrow> bool" where
  "rcvdXstMsg p t br =
     (if t = CIST then rcvdMsg (ptp_at br p t)
      else \<not> rcvdMsg (cist_of br p) \<and> rcvdMsg (ptp_at br p t))"

definition updtXstInfo :: "portref \<Rightarrow> mstid \<Rightarrow> bridge_t \<Rightarrow> bool" where
  "updtXstInfo p t br =
     (if t = CIST then updtInfo (ptp_at br p t)
      else updtInfo (ptp_at br p t) \<or> updtInfo (cist_of br p))"

definition PISM_current :: "portref \<Rightarrow> mstid \<Rightarrow> bridge_t \<Rightarrow> bridge_t transition" where
  "PISM_current p t br =
     (let x = ptp_at br p t in
      if rcvdXstMsg p t br \<and> \<not> updtXstInfo p t br then chain (PISM_to_RECEIVE p t br)
      else if infoIs x = ioReceived \<and> rcvdInfoWhile x = 0 \<and> \<not> updtInfo x
              \<and> \<not> rcvdXstMsg p t br
      then Move (PISM_to_AGED p t br) True True
      else if selected x \<and> updtInfo x then Move (PISM_to_UPDATE p t br) True True
      else Stay)"

definition PISM_received :: "portref \<Rightarrow> mstid \<Rightarrow> bridge_t \<Rightarrow> bridge_t transition" where
  "PISM_received p t br =
     (case rcvdInfo (ptp_at br p t) of
        SuperiorDesignatedInfo \<Rightarrow> chain (PISM_to_SUPERIOR_DESIGNATED p t br)
      | RepeatedDesignatedInfo \<Rightarrow> chain (PISM_to_REPEATED_DESIGNATED p t br)
      | InferiorDesignatedInfo \<Rightarrow> chain (PISM_to_INFERIOR_DESIGNATED p t br)
      | InferiorRootAlternateInfo \<Rightarrow> chain (PISM_to_NOT_DESIGNATED p t br)
      | OtherInfo \<Rightarrow> Move (PISM_to_OTHER p t br) True True)"

definition PISM_step :: "portref \<Rightarrow> mstid \<Rightarrow> bridge_t \<Rightarrow> bridge_t transition" where
  "PISM_step p t br =
     (let x = ptp_at br p t; enabled = portEnabled (port_at br p) in
      if \<not> enabled \<and> infoIs x \<noteq> ioDisabled then Move (PISM_to_DISABLED p t br) True True
      else case PISM_state x of
        PISM_DISABLED \<Rightarrow>
          if enabled then Move (PISM_to_AGED p t br) True True
          else if rcvdMsg x then Move (PISM_to_DISABLED p t br) True True
          else Stay
      | PISM_AGED \<Rightarrow>
          if selected x \<and> updtInfo x then Move (PISM_to_UPDATE p t br) True True else Stay
      | PISM_CURRENT \<Rightarrow> PISM_current p t br
      | PISM_RECEIVE \<Rightarrow> PISM_received p t br
      | _ \<Rightarrow> Move (PISM_to_CURRENT p t br) True True)"

definition PISM_run ::
    "nat \<Rightarrow> portref \<Rightarrow> mstid \<Rightarrow> bridge_t \<Rightarrow> bool \<Rightarrow> (bool \<times> bridge_t) option" where
  "PISM_run fuel p t = sm_run (PISM_step p t) fuel"

subsection \<open>What the procedures leave alone\<close>

text \<open>The part of the state that the guards of the machine read and the procedures keep.\<close>

definition PISM_view ::
    "portref \<Rightarrow> mstid \<Rightarrow> bridge_t \<Rightarrow>
       (bool \<times> bool \<times> bool \<times> port_info_origin_t \<times> PISM_states_t)
       \<times> bool \<times> nat option \<times> bpdu_t" where
  "PISM_view p t br =
     (let x = ptp_at br p t in
      ((rcvdMsg x, updtInfo x, selected x, infoIs x, PISM_state x),
       portEnabled (port_at br p), rcvdMstiConfig x, rcvdBpduData (port_at br p)))"

lemmas PISM_view_defs = PISM_view_def Let_def

lemma PISM_view_msg: "PISM_view p t br' = PISM_view p t br \<Longrightarrow> rcvdMstiMsg br' p t = rcvdMstiMsg br p t"
  by (simp add: PISM_view_defs rcvdMstiMsg_def)

lemma recordProposal_view:
  "recordProposal p t br = Some br' \<Longrightarrow> PISM_view q u br' = PISM_view q u br"
  by (auto simp: recordProposal_def PISM_view_defs bind_eq_Some_conv split: if_splits)

lemma setTcFlags_view:
  "setTcFlags p t br = Some br' \<Longrightarrow> PISM_view q u br' = PISM_view q u br"
  by (auto simp: setTcFlags_def PISM_view_defs bind_eq_Some_conv split: if_splits)

lemma recordAgreement_view:
  "recordAgreement p t br = Some br' \<Longrightarrow> PISM_view q u br' = PISM_view q u br"
  by (auto simp: recordAgreement_def PISM_view_defs bind_eq_Some_conv split: if_splits)

lemma recordDispute_view:
  "recordDispute p t br = Some br' \<Longrightarrow> PISM_view q u br' = PISM_view q u br"
  by (auto simp: recordDispute_def PISM_view_defs bind_eq_Some_conv split: if_splits)

lemma recordMastered_view:
  "recordMastered p t br = Some br' \<Longrightarrow> PISM_view q u br' = PISM_view q u br"
  by (auto simp: recordMastered_def PISM_view_defs bind_eq_Some_conv split: if_splits)


lemma rcvInfo_view:
  "rcvInfo p t br = Some (info, br') \<Longrightarrow> PISM_view q u br' = PISM_view q u br"
  by (auto simp: rcvInfo_def record_cist_msg_def record_msti_msg_def PISM_view_defs
      bind_eq_Some_conv split: if_splits option.splits)

lemma updtRcvdInfoWhile_view: "PISM_view q u (updtRcvdInfoWhile p t br) = PISM_view q u br"
  by (simp add: updtRcvdInfoWhile_def PISM_view_defs)

lemma set_newInfoXst_view: "PISM_view q u (set_newInfoXst p t br) = PISM_view q u br"
  by (simp add: set_newInfoXst_def PISM_view_defs)

lemmas PISM_views = recordProposal_view setTcFlags_view recordAgreement_view recordDispute_view
  recordMastered_view

text \<open>The procedures have a result where the message is there.\<close>

lemma msg_procedures_total:
  assumes "t = CIST \<or> rcvdMstiMsg br p t \<noteq> None"
  shows "\<exists>br'. recordProposal p t br = Some br'" "\<exists>br'. setTcFlags p t br = Some br'"
    "\<exists>br'. recordAgreement p t br = Some br'" "\<exists>br'. recordDispute p t br = Some br'"
    "\<exists>br'. recordMastered p t br = Some br'" "\<exists>info br'. rcvInfo p t br = Some (info, br')"
  using assms
  by (auto simp: recordProposal_def setTcFlags_def recordAgreement_def recordDispute_def
      recordMastered_def rcvInfo_def Let_def split: option.splits)


subsection \<open>The machine ends\<close>

definition PISM_msg_ok :: "portref \<Rightarrow> mstid \<Rightarrow> bridge_t \<Rightarrow> bool" where
  "PISM_msg_ok p t br \<longleftrightarrow> t = CIST \<or> rcvdMstiMsg br p t \<noteq> None"

lemma PISM_msg_ok_view: "PISM_view p t br' = PISM_view p t br \<Longrightarrow> PISM_msg_ok p t br \<Longrightarrow> PISM_msg_ok p t br'"
  unfolding PISM_msg_ok_def by (metis PISM_view_msg)

lemma PISM_msg_ok_upd [simp]:
  "(\<And>x. rcvdMstiConfig (f x) = rcvdMstiConfig x) \<Longrightarrow> PISM_msg_ok p t (upd_ptp p t f br) = PISM_msg_ok p t br"
  "(\<And>x. rcvdBpduData (g x) = rcvdBpduData x) \<Longrightarrow> PISM_msg_ok p t (upd_port p g br) = PISM_msg_ok p t br"
  by (simp_all add: PISM_msg_ok_def rcvdMstiMsg_def)

text \<open>Every procedure that reads the message has a result and keeps the view.\<close>

lemma msg_procedure_ok:
  assumes "PISM_msg_ok p t br" and "f \<in> {recordProposal, setTcFlags, recordAgreement,
    recordDispute, recordMastered}"
  shows "\<exists>br'. f p t br = Some br' \<and> PISM_view p t br' = PISM_view p t br \<and> PISM_msg_ok p t br'"
proof -
  from assms obtain br' where *: "f p t br = Some br'"
    using msg_procedures_total [of t br p] by (auto simp: PISM_msg_ok_def)
  with assms(2) have "PISM_view p t br' = PISM_view p t br"
    by (auto dest: PISM_views)
  with * PISM_msg_ok_view [OF this assms(1)] show ?thesis by blast
qed

lemmas recordProposal_ok = msg_procedure_ok [where f = recordProposal, simplified]
  and setTcFlags_ok = msg_procedure_ok [where f = setTcFlags, simplified]
  and recordAgreement_ok = msg_procedure_ok [where f = recordAgreement, simplified]
  and recordDispute_ok = msg_procedure_ok [where f = recordDispute, simplified]
  and recordMastered_ok = msg_procedure_ok [where f = recordMastered, simplified]

lemma rcvInfo_ok:
  assumes "PISM_msg_ok p t br"
  shows "\<exists>info br'. rcvInfo p t br = Some (info, br') \<and> PISM_view p t br' = PISM_view p t br
    \<and> PISM_msg_ok p t br'"
  using assms msg_procedures_total(6) [of t br p] rcvInfo_view PISM_msg_ok_view
  unfolding PISM_msg_ok_def by metis

text \<open>The effect of the entry actions on the view.\<close>

fun view_after :: "PISM_states_t \<Rightarrow> bool \<Rightarrow>
    (bool \<times> bool \<times> bool \<times> port_info_origin_t \<times> PISM_states_t) \<times> 'r \<Rightarrow>
    (bool \<times> bool \<times> bool \<times> port_info_origin_t \<times> PISM_states_t) \<times> 'r" where
  "view_after st keepMsg ((m, u, s, i, _), r) = ((m \<and> keepMsg, u, s, i, st), r)"

lemma PISM_to_NOT_DESIGNATED_view:
  assumes "PISM_msg_ok p t br"
  shows "\<exists>br'. PISM_to_NOT_DESIGNATED p t br = Some br'
     \<and> PISM_view p t br' = view_after PISM_NOT_DESIGNATED False (PISM_view p t br)"
proof -
  let ?b0 = "upd_ptp p t (\<lambda>x. x\<lparr>PISM_state := PISM_NOT_DESIGNATED\<rparr>) br"
  obtain b1 where 1: "recordAgreement p t ?b0 = Some b1" "PISM_view p t b1 = PISM_view p t ?b0"
    "PISM_msg_ok p t b1" using recordAgreement_ok [of p t ?b0] assms by auto
  obtain b2 where "setTcFlags p t b1 = Some b2" "PISM_view p t b2 = PISM_view p t b1"
    using setTcFlags_ok [OF 1(3)] by auto
  with 1 show ?thesis by (simp add: PISM_to_NOT_DESIGNATED_def PISM_view_defs)
qed

lemma PISM_to_INFERIOR_DESIGNATED_view:
  assumes "PISM_msg_ok p t br"
  shows "\<exists>br'. PISM_to_INFERIOR_DESIGNATED p t br = Some br'
     \<and> PISM_view p t br' = view_after PISM_INFERIOR_DESIGNATED False (PISM_view p t br)"
proof -
  let ?b0 = "upd_ptp p t (\<lambda>x. x\<lparr>PISM_state := PISM_INFERIOR_DESIGNATED\<rparr>) br"
  obtain b1 where "recordDispute p t ?b0 = Some b1" "PISM_view p t b1 = PISM_view p t ?b0"
    using recordDispute_ok [of p t ?b0] assms by auto
  then show ?thesis by (simp add: PISM_to_INFERIOR_DESIGNATED_def PISM_view_defs)
qed

lemma PISM_to_RECEIVE_view:
  assumes "PISM_msg_ok p t br"
  shows "\<exists>br'. PISM_to_RECEIVE p t br = Some br'
     \<and> PISM_view p t br' = view_after PISM_RECEIVE True (PISM_view p t br)"
proof -
  let ?b0 = "upd_ptp p t (\<lambda>x. x\<lparr>PISM_state := PISM_RECEIVE\<rparr>) br"
  obtain info b1 where 1: "rcvInfo p t ?b0 = Some (info, b1)"
    "PISM_view p t b1 = PISM_view p t ?b0" "PISM_msg_ok p t b1"
    using rcvInfo_ok [of p t ?b0] assms by auto
  let ?b1 = "upd_ptp p t (\<lambda>x. x\<lparr>rcvdInfo := info\<rparr>) b1"
  obtain b2 where "recordMastered p t ?b1 = Some b2" "PISM_view p t b2 = PISM_view p t ?b1"
    using recordMastered_ok [of p t ?b1] 1(3) by auto
  with 1 show ?thesis by (simp add: PISM_to_RECEIVE_def PISM_view_defs)
qed

lemma PISM_to_REPEATED_DESIGNATED_view:
  assumes "PISM_msg_ok p t br"
  shows "\<exists>br'. PISM_to_REPEATED_DESIGNATED p t br = Some br'
     \<and> PISM_view p t br' = view_after PISM_REPEATED_DESIGNATED False (PISM_view p t br)"
proof -
  let ?b0 = "upd_port p (\<lambda>x. x\<lparr>infoInternal := rcvdInternal x\<rparr>)
    (upd_ptp p t (\<lambda>x. x\<lparr>PISM_state := PISM_REPEATED_DESIGNATED\<rparr>) br)"
  obtain b1 where 1: "recordProposal p t ?b0 = Some b1" "PISM_view p t b1 = PISM_view p t ?b0"
    "PISM_msg_ok p t b1" using recordProposal_ok [of p t ?b0] assms by auto
  obtain b2 where 2: "setTcFlags p t b1 = Some b2" "PISM_view p t b2 = PISM_view p t b1"
    "PISM_msg_ok p t b2" using setTcFlags_ok [OF 1(3)] by auto
  obtain b3 where "recordAgreement p t b2 = Some b3" "PISM_view p t b3 = PISM_view p t b2"
    using recordAgreement_ok [OF 2(3)] by auto
  with 1 2 updtRcvdInfoWhile_view [of p t p t b3] show ?thesis
    by (simp add: PISM_to_REPEATED_DESIGNATED_def PISM_view_defs)
qed

lemma PISM_to_SUPERIOR_DESIGNATED_view:
  assumes "PISM_msg_ok p t br"
  shows "\<exists>br' m u s i st r. PISM_to_SUPERIOR_DESIGNATED p t br = Some br'
     \<and> PISM_view p t br = ((m, u, s, i, st), r)
     \<and> PISM_view p t br' = ((False, u, False, ioReceived, PISM_SUPERIOR_DESIGNATED), r)"
proof -
  let ?b0 = "upd_ptp p t (\<lambda>x. x\<lparr>agreed := False, proposing := False\<rparr>)
    (upd_port p (\<lambda>x. x\<lparr>infoInternal := rcvdInternal x\<rparr>)
      (upd_ptp p t (\<lambda>x. x\<lparr>PISM_state := PISM_SUPERIOR_DESIGNATED\<rparr>) br))"
  obtain b1 where 1: "recordProposal p t ?b0 = Some b1" "PISM_view p t b1 = PISM_view p t ?b0"
    "PISM_msg_ok p t b1" using recordProposal_ok [of p t ?b0] assms by auto
  obtain b2 where 2: "setTcFlags p t b1 = Some b2" "PISM_view p t b2 = PISM_view p t b1"
    "PISM_msg_ok p t b2" using setTcFlags_ok [OF 1(3)] by auto
  let ?b2 = "upd_ptp p t (\<lambda>x. x\<lparr>agree := agree x \<and> betterorsameInfo x t ioReceived\<rparr>) b2"
  obtain b3 where "recordAgreement p t ?b2 = Some b3" "PISM_view p t b3 = PISM_view p t ?b2"
    using recordAgreement_ok [of p t ?b2] 2(3) by auto
  with 1 2 updtRcvdInfoWhile_view show ?thesis
    by (simp add: PISM_to_SUPERIOR_DESIGNATED_def recordPriority_def recordTimes_def PISM_view_defs)
qed


definition PISM_rank :: "portref \<Rightarrow> mstid \<Rightarrow> bridge_t \<Rightarrow> nat" where
  "PISM_rank p t br =
     (let x = ptp_at br p t; f = of_bool (rcvdMsg x); g = of_bool (updtInfo x);
          base = (case PISM_state x of
              PISM_CURRENT \<Rightarrow> 4 * f + 3 * g + 2
            | PISM_RECEIVE \<Rightarrow> 3 * g + 4
            | PISM_AGED \<Rightarrow> if selected x then 4 * f + 3 * g + 1 else 1
            | PISM_DISABLED \<Rightarrow> f + 2
            | _ \<Rightarrow> 4 * f + 3 * g + 3)
      in if portEnabled (port_at br p) then base
         else if infoIs x \<noteq> ioDisabled then 3
         else if PISM_state x = PISM_DISABLED then f + 1
         else base + 4)"

definition PISM_ok :: "portref \<Rightarrow> mstid \<Rightarrow> bridge_t \<Rightarrow> bool" where
  "PISM_ok p t br \<longleftrightarrow>
     (rcvdMsg (ptp_at br p t) \<or> PISM_state (ptp_at br p t) = PISM_RECEIVE \<longrightarrow> PISM_msg_ok p t br)"

definition PISM_progress :: "portref \<Rightarrow> mstid \<Rightarrow> bridge_t \<Rightarrow> bridge_t transition \<Rightarrow> bool" where
  "PISM_progress p t br tr =
     (case tr of
        Stay \<Rightarrow> True | Fault a \<Rightarrow> False
      | Move br' m a \<Rightarrow> m \<and> a \<and> PISM_ok p t br' \<and> PISM_rank p t br' < PISM_rank p t br)"

lemma PISM_rank_bound: "PISM_rank p t br < 15"
  by (simp add: PISM_rank_def Let_def split: PISM_states_t.split)

lemma PISM_current_progress:
  assumes "PISM_ok p t br" "PISM_state (ptp_at br p t) = PISM_CURRENT"
    and "portEnabled (port_at br p) \<or> infoIs (ptp_at br p t) = ioDisabled"
  shows "PISM_progress p t br (PISM_current p t br)"
proof (cases "rcvdXstMsg p t br \<and> \<not> updtXstInfo p t br")
  case True
  then have r: "rcvdMsg (ptp_at br p t)" "\<not> updtInfo (ptp_at br p t)"
    by (auto simp: rcvdXstMsg_def updtXstInfo_def split: if_splits)
  with assms(1) have ok: "PISM_msg_ok p t br" by (simp add: PISM_ok_def)
  from PISM_to_RECEIVE_view [OF this] obtain br' where *: "PISM_to_RECEIVE p t br = Some br'"
    "PISM_view p t br' = view_after PISM_RECEIVE True (PISM_view p t br)" by auto
  from *(2) have "PISM_msg_ok p t br' = PISM_msg_ok p t br"
    by (simp add: PISM_view_defs PISM_msg_ok_def rcvdMstiMsg_def)
  with * r ok True assms(2,3) show ?thesis
    by (auto simp: PISM_progress_def PISM_current_def chain_def PISM_ok_def PISM_rank_def PISM_view_defs)
next
  case False
  with assms show ?thesis
    by (auto simp: PISM_progress_def PISM_current_def PISM_ok_def PISM_rank_def Let_def
        PISM_to_AGED_def PISM_to_UPDATE_def set_newInfoXst_def)
qed

lemma PISM_received_progress:
  assumes "PISM_ok p t br" "PISM_state (ptp_at br p t) = PISM_RECEIVE"
    and "portEnabled (port_at br p) \<or> infoIs (ptp_at br p t) = ioDisabled"
  shows "PISM_progress p t br (PISM_received p t br)"
proof -
  from assms have ok: "PISM_msg_ok p t br" by (simp add: PISM_ok_def)
  note views = PISM_to_SUPERIOR_DESIGNATED_view [OF ok] PISM_to_REPEATED_DESIGNATED_view [OF ok]
    PISM_to_INFERIOR_DESIGNATED_view [OF ok] PISM_to_NOT_DESIGNATED_view [OF ok]
  show ?thesis
  proof (cases "rcvdInfo (ptp_at br p t)")
    case OtherInfo
    with assms show ?thesis
      by (auto simp: PISM_progress_def PISM_received_def PISM_ok_def PISM_rank_def Let_def
          PISM_to_OTHER_def)
  qed (use views assms in \<open>auto simp: PISM_progress_def PISM_received_def chain_def PISM_ok_def
      PISM_rank_def PISM_view_defs\<close>)
qed

lemma PISM_step_progress:
  assumes "PISM_ok p t br"
  shows "PISM_progress p t br (PISM_step p t br)"
proof (cases "\<not> portEnabled (port_at br p) \<and> infoIs (ptp_at br p t) \<noteq> ioDisabled")
  case True
  with assms show ?thesis
    by (auto simp: PISM_step_def PISM_progress_def PISM_to_DISABLED_def PISM_ok_def PISM_rank_def)
next
  case False
  note simps = PISM_step_def PISM_progress_def PISM_ok_def PISM_rank_def PISM_to_AGED_def
    PISM_to_UPDATE_def PISM_to_DISABLED_def PISM_to_CURRENT_def set_newInfoXst_def Let_def
  show ?thesis
  proof (cases "PISM_state (ptp_at br p t)")
    case PISM_CURRENT
    with False PISM_current_progress [OF assms] show ?thesis by (auto simp: PISM_step_def)
  next
    case PISM_RECEIVE
    with False PISM_received_progress [OF assms] show ?thesis by (auto simp: PISM_step_def)
  qed (use assms False in \<open>auto simp: simps\<close>)
qed

interpretation pism: settling_machine "PISM_step p t" "PISM_ok p t" "PISM_rank p t" for p t
  by unfold_locales (use PISM_step_progress [of p t] in \<open>force simp: PISM_progress_def\<close>)+

end
