(* ===== verification/Mstp_Roles.thy ===== *)
theory Mstp_Roles
  imports Mstp_PISM
begin

section \<open>Role selection\<close>

text \<open>
  \<open>updtRolesTree\<close> (13.26.23) and the port role selection state machine (13.33) of
  \<open>src/mstpd/src/mstp.c\<close>. The three loops over the ports of the tree are three folds over
  \<open>ports\<close>; \<open>root_ptp\<close> is the port the first loop ends with, \<open>None\<close> for the null pointer.
\<close>

definition root_candidate :: "mstid \<Rightarrow> bridge_t \<Rightarrow> portref \<Rightarrow> bool" where
  "root_candidate t br p \<longleftrightarrow>
     infoIs (ptp_at br p t) = ioReceived \<and> \<not> restrictedRole (port_at br p)
     \<and> ncmp_bid (DesignatedBridgeID (portPriority (ptp_at br p t)))
          (BridgeIdentifier (tree_at br t)) \<noteq> 0"

definition root_path_priority :: "mstid \<Rightarrow> bridge_t \<Rightarrow> portref \<Rightarrow> port_priority_vector_t" where
  "root_path_priority t br p =
     (let x = ptp_at br p t; prt = port_at br p; v = portPriority x in
      if rcvdInternal prt
      then v\<lparr>IntRootPathCost := IntRootPathCost v + InternalPortPathCost x\<rparr>
      else if t = CIST
      then v\<lparr>ExtRootPathCost := ExtRootPathCost v + ExternalPortPathCost prt,
             RRootID := BridgeIdentifier (tree_at br t), IntRootPathCost := 0\<rparr>
      else v)"

type_synonym root_choice = "port_priority_vector_t \<times> port_identifier_t \<times> portref option"

definition consider_root :: "mstid \<Rightarrow> bridge_t \<Rightarrow> portref \<Rightarrow> root_choice \<Rightarrow> root_choice" where
  "consider_root t br p best =
     (case best of (rootPri, rootId, root_ptp) \<Rightarrow>
        let v = root_path_priority t br p; pId = portId (ptp_at br p t) in
        if root_candidate t br p \<and> betterorsamePriority v rootPri pId rootId (t = CIST)
        then (v, pId, Some p) else best)"

definition select_root :: "mstid \<Rightarrow> bridge_t \<Rightarrow> root_choice" where
  "select_root t br =
     fold (consider_root t br) (ports br) (BridgePriority (tree_at br t), 0, None)"

definition new_rootTimes :: "mstid \<Rightarrow> bridge_t \<Rightarrow> portref option \<Rightarrow> times_t" where
  "new_rootTimes t br root_ptp =
     (case root_ptp of
        None \<Rightarrow> BridgeTimes (tree_at br t)
      | Some p \<Rightarrow>
          let tm = portTimes (ptp_at br p t) in
          if rcvdInternal (port_at br p)
          then (if remainingHops tm \<noteq> 0 then tm\<lparr>remainingHops := remainingHops tm - 1\<rparr> else tm)
          else tm\<lparr>Message_Age := Message_Age tm + 1\<rparr>)"

definition set_designated :: "mstid \<Rightarrow> portref \<Rightarrow> bridge_t \<Rightarrow> bridge_t" where
  "set_designated t p br =
     (let tree = tree_at br t; bid = BridgeIdentifier tree in
      upd_ptp p t (\<lambda>x.
        let dPri = (rootPriority tree)\<lparr>DesignatedBridgeID := bid, DesignatedPortID := portId x\<rparr>
        in x\<lparr>designatedPriority :=
               (if t = CIST \<and> \<not> sendRSTP (port_at br p) then dPri\<lparr>RRootID := bid\<rparr> else dPri),
             designatedTimes := (rootTimes tree)\<lparr>Hello_Time := Hello_Time (portTimes x)\<rparr>\<rparr>) br)"

text \<open>Clauses f) to m) for one port: the role and \<open>updtInfo\<close> it is given.\<close>

definition role_from_received ::
    "mstid \<Rightarrow> bridge_identifier_t \<Rightarrow> bool \<Rightarrow> per_tree_port_t \<Rightarrow> port_role_t \<times> bool" where
  "role_from_received t bid isRoot x =
     (if isRoot then (roleRoot, False)
      else if betterorsamePriority (portPriority x) (designatedPriority x) 0 0 (t = CIST)
      then (if ncmp_bid (DesignatedBridgeID (portPriority x)) bid \<noteq> 0
            then roleAlternate else roleBackup, False)
      else (roleDesignated, True))"

definition new_role :: "mstid \<Rightarrow> portref option \<Rightarrow> portref \<Rightarrow> bridge_t \<Rightarrow> port_role_t \<times> bool" where
  "new_role t root_ptp p br =
     (let x = ptp_at br p t; prt = port_at br p; cist_tree = cist_of br p;
          same = samePriorityAndTimers (portPriority x) (designatedPriority x)
                   (portTimes x) (designatedTimes x)
      in if infoIs x = ioDisabled then (roleDisabled, updtInfo x)
         else if t \<noteq> CIST \<and> infoIs cist_tree = ioReceived \<and> \<not> infoInternal prt
         then (if selectedRole cist_tree = roleRoot then roleMaster else selectedRole cist_tree,
               updtInfo x \<or> \<not> same False)
         else if infoIs x = ioAged then (roleDesignated, True)
         else if infoIs x = ioMine then (roleDesignated, updtInfo x \<or> \<not> same (t = CIST))
         else role_from_received t (BridgeIdentifier (tree_at br t)) (root_ptp = Some p) x)"

definition updtRole :: "mstid \<Rightarrow> portref option \<Rightarrow> portref \<Rightarrow> bridge_t \<Rightarrow> bridge_t" where
  "updtRole t root_ptp p br =
     (case new_role t root_ptp p br of
        (r, u) \<Rightarrow>
          let br = upd_ptp p t (\<lambda>x. x\<lparr>selectedRole := r, updtInfo := u\<rparr>) br
          in if t = CIST \<and> infoIs (ptp_at br p t) = ioReceived \<and> r \<noteq> role (ptp_at br p t)
             then reselectMSTIs p br else br)"

definition updtRolesTree :: "mstid \<Rightarrow> bridge_t \<Rightarrow> bridge_t" where
  "updtRolesTree t br =
     (let prevRRootID = RRootID (rootPriority (tree_at br t));
          prevExtRootPathCost = ExtRootPathCost (rootPriority (tree_at br t));
          (rootPri, rootId, root_ptp) = select_root t br;
          br = upd_tree t (\<lambda>x. x\<lparr>rootPriority := rootPri, rootPortId := rootId,
                                 rootTimes := new_rootTimes t br root_ptp\<rparr>) br;
          br = fold (set_designated t) (ports br) br;
          br = (if t = CIST \<and> ncmp_bid (RRootID rootPri) prevRRootID \<noteq> 0
                   \<and> (ExtRootPathCost rootPri \<noteq> 0 \<or> prevExtRootPathCost \<noteq> 0)
                then syncMaster br else br)
      in fold (updtRole t root_ptp) (ports br) br)"

subsection \<open>The port role selection state machine\<close>

definition PRSSM_to_INIT_TREE :: "mstid \<Rightarrow> bridge_t \<Rightarrow> bridge_t" where
  "PRSSM_to_INIT_TREE t br =
     updtRolesDisabledTree t (upd_tree t (\<lambda>x. x\<lparr>PRSSM_state := PRSSM_INIT_TREE\<rparr>) br)"

definition PRSSM_to_ROLE_SELECTION :: "mstid \<Rightarrow> bridge_t \<Rightarrow> bridge_t" where
  "PRSSM_to_ROLE_SELECTION t br =
     (let br = upd_tree t (\<lambda>x. x\<lparr>PRSSM_state := PRSSM_ROLE_SELECTION\<rparr>) br;
          br = clearReselectTree t br;
          br = updtRolesTree t br
      in setSelectedTree t br)"

definition PRSSM_step :: "mstid \<Rightarrow> bridge_t \<Rightarrow> bridge_t transition" where
  "PRSSM_step t br =
     (case PRSSM_state (tree_at br t) of
        PRSSM_INIT_TREE \<Rightarrow> Move (PRSSM_to_ROLE_SELECTION t br) False True
      | PRSSM_ROLE_SELECTION \<Rightarrow>
          if list_ex (\<lambda>p. reselect (ptp_at br p t)) (ports br)
          then Move (PRSSM_to_ROLE_SELECTION t br) False True else Stay)"

definition PRSSM_run :: "nat \<Rightarrow> mstid \<Rightarrow> bridge_t \<Rightarrow> bool \<Rightarrow> (bool \<times> bridge_t) option" where
  "PRSSM_run fuel t = sm_run (PRSSM_step t) fuel"


subsection \<open>The root is the best candidate\<close>

lemma select_root_keep:
  "(let (v, i, r) = fold (consider_root t br) ps (v0, i0, r0) in (v, i)) =
     fold (vec_order.keep (t = CIST))
       (map (\<lambda>p. (root_path_priority t br p, portId (ptp_at br p t)))
          (filter (root_candidate t br) ps)) (v0, i0)"
proof (induction ps arbitrary: v0 i0 r0)
  case Nil
  then show ?case by simp
next
  case (Cons p ps)
  then show ?case
    by (cases "root_candidate t br p") (auto simp: consider_root_def vec_order.keep_def Let_def)
qed

text \<open>What the first loop ends with: no candidate and not the bridge itself has a better vector,
  and the port it names is a candidate with that vector.\<close>

lemma select_root_best:
  assumes "select_root t br = (v, i, r)"
  shows "betterorsamePriority v (BridgePriority (tree_at br t)) i 0 (t = CIST)"
    and "\<And>p. p \<in> set (ports br) \<Longrightarrow> root_candidate t br p \<Longrightarrow>
      betterorsamePriority v (root_path_priority t br p) i (portId (ptp_at br p t)) (t = CIST)"
proof -
  have *: "(v, i) = fold (vec_order.keep (t = CIST))
       (map (\<lambda>p. (root_path_priority t br p, portId (ptp_at br p t)))
          (filter (root_candidate t br) (ports br))) (BridgePriority (tree_at br t), 0)"
    using assms select_root_keep [of t br "ports br" "BridgePriority (tree_at br t)" 0 None]
    by (simp add: select_root_def)
  note best = vec_order.fold_keep_best [of "t = CIST"
      "map (\<lambda>p. (root_path_priority t br p, portId (ptp_at br p t)))
          (filter (root_candidate t br) (ports br))" "(BridgePriority (tree_at br t), 0)",
      folded *]
  then show "betterorsamePriority v (BridgePriority (tree_at br t)) i 0 (t = CIST)" by simp
  fix p
  assume "p \<in> set (ports br)" "root_candidate t br p"
  with best show
    "betterorsamePriority v (root_path_priority t br p) i (portId (ptp_at br p t)) (t = CIST)"
    by auto
qed

lemma consider_root_inv:
  "fold (consider_root t br) ps (v0, i0, r0) = (v, i, r) \<Longrightarrow>
     (case r0 of None \<Rightarrow> v0 = bv \<and> i0 = 0
      | Some p \<Rightarrow> root_candidate t br p \<and> v0 = root_path_priority t br p
                  \<and> i0 = portId (ptp_at br p t) \<and> p \<in> A) \<Longrightarrow>
     (case r of None \<Rightarrow> v = bv \<and> i = 0
      | Some p \<Rightarrow> root_candidate t br p \<and> v = root_path_priority t br p
                  \<and> i = portId (ptp_at br p t) \<and> p \<in> A \<union> set ps)"
proof (induction ps arbitrary: v0 i0 r0 A)
  case Nil
  then show ?case by (simp split: option.splits)
next
  case (Cons p ps)
  obtain v1 i1 r1 where c: "consider_root t br p (v0, i0, r0) = (v1, i1, r1)"
    by (cases "consider_root t br p (v0, i0, r0)") auto
  have "case r1 of None \<Rightarrow> v1 = bv \<and> i1 = 0
      | Some q \<Rightarrow> root_candidate t br q \<and> v1 = root_path_priority t br q
                  \<and> i1 = portId (ptp_at br q t) \<and> q \<in> A \<union> {p}"
    using Cons.prems(2) c by (auto simp: consider_root_def Let_def split: if_splits option.splits)
  from Cons.IH [OF _ this] c Cons.prems(1) show ?case by (auto split: option.splits)
qed

lemma select_root_source:
  assumes "select_root t br = (v, i, r)"
  shows "case r of None \<Rightarrow> v = BridgePriority (tree_at br t) \<and> i = 0
    | Some p \<Rightarrow> p \<in> set (ports br) \<and> root_candidate t br p \<and> v = root_path_priority t br p
        \<and> i = portId (ptp_at br p t)"
  using consider_root_inv [OF assms [unfolded select_root_def],
      of "BridgePriority (tree_at br t)" "{}"]
  by (auto split: option.splits)


subsection \<open>The roles the third loop assigns\<close>

text \<open>The parts of the store that role selection keeps.\<close>

definition fixed :: "bridge_t \<Rightarrow> portref list \<times> mstid list \<times> (portref \<Rightarrow> port_t)" where
  "fixed br = (ports br, trees br, port_at br)"

lemma fold_keeps: "(\<And>q s. C (g q s) = C s) \<Longrightarrow> C (fold g ps s) = C s"
  by (induction ps arbitrary: s) auto

lemma set_designated_frame:
  "fixed (set_designated t p br) = fixed br" "tree_at (set_designated t p br) = tree_at br"
  "u \<noteq> t \<or> q \<noteq> p \<Longrightarrow> ptp_at (set_designated t p br) q u = ptp_at br q u"
  by (auto simp: set_designated_def fixed_def Let_def)

lemma set_designated_own:
  assumes "ptp_at b p t = ptp_at b' p t" "(fixed b, tree_at b) = (fixed b', tree_at b')"
  shows "ptp_at (set_designated t p b) p t = ptp_at (set_designated t p b') p t"
proof -
  have "port_at b = port_at b'" "tree_at b = tree_at b'" using assms(2) by (simp_all add: fixed_def)
  with assms(1) show ?thesis
    unfolding set_designated_def Let_def upd_ptp_sel by (simp only:)
qed

lemma syncMaster_frame:
  "fixed (syncMaster br) = fixed br" "tree_at (syncMaster br) = tree_at br"
proof -
  let ?g = "\<lambda>t q br. if infoInternal (port_at br q)
     then upd_ptp q t (\<lambda>x. x\<lparr>agree := False, agreed := False, synced := False, sync := True\<rparr>) br
     else br"
  have *: "C (fold (\<lambda>t. fold (?g t) ps) ts br) = C br"
    if "\<And>q t br. C (?g t q br) = C br" for C :: "bridge_t \<Rightarrow> 'c" and ts ps
    by (intro fold_keeps that)
  show "fixed (syncMaster br) = fixed br" unfolding syncMaster_def
    by (rule *) (simp add: fixed_def)
  show "tree_at (syncMaster br) = tree_at br" unfolding syncMaster_def
    by (rule *) simp
qed

lemma syncMaster_cist:
  assumes "wf_bridge br"
  shows "ptp_at (syncMaster br) q CIST = ptp_at br q CIST"
proof -
  let ?g = "\<lambda>t q br. if infoInternal (port_at br q)
     then upd_ptp q t (\<lambda>x. x\<lparr>agree := False, agreed := False, synced := False, sync := True\<rparr>) br
     else br"
  have "ptp_at (fold (\<lambda>t. fold (?g t) ps) ts br) q CIST = ptp_at br q CIST"
    if "CIST \<notin> set ts" for ts ps
    using that
  proof (induction ts arbitrary: br)
    case Nil
    then show ?case by simp
  next
    case (Cons u ts)
    have "ptp_at (fold (?g u) ps br) q CIST = ptp_at br q CIST"
      by (rule fold_keeps) (use Cons.prems in auto)
    with Cons show ?case by simp
  qed
  moreover have "CIST \<notin> set (tl (trees br))"
    using assms wf_trees_tl by (auto simp: wf_bridge_def)
  ultimately show ?thesis unfolding syncMaster_def by blast
qed

lemma updtRole_frame:
  "fixed (updtRole t r p br) = fixed br" "tree_at (updtRole t r p br) = tree_at br"
  "q \<noteq> p \<Longrightarrow> ptp_at (updtRole t r p br) q = ptp_at br q"
  by (auto simp: updtRole_def fixed_def Let_def reselectMSTIs_def fun_eq_iff split: prod.splits)

lemma fixed_ports: "fixed br = fixed br' \<Longrightarrow> ports br = ports br' \<and> trees br = trees br' \<and> port_at br = port_at br'"
  by (simp add: fixed_def)

text \<open>The state between the second and the third loop.\<close>

lemma updtRolesTree_before_roles:
  assumes "wf_bridge br" and "select_root t br = (v, i, r)"
  obtains b where "updtRolesTree t br = fold (updtRole t r) (ports br) b" "fixed b = fixed br"
    "tree_at b = (tree_at br)(t := (tree_at br t)\<lparr>rootPriority := v, rootPortId := i,
       rootTimes := new_rootTimes t br r\<rparr>)"
    "\<And>p. p \<in> set (ports br) \<Longrightarrow> ptp_at b p t = ptp_at (set_designated t p
       (upd_tree t (\<lambda>x. x\<lparr>rootPriority := v, rootPortId := i,
          rootTimes := new_rootTimes t br r\<rparr>) br)) p t"
    "\<And>p. t \<noteq> CIST \<Longrightarrow> ptp_at b p CIST = ptp_at br p CIST"
proof -
  let ?b0 = "upd_tree t (\<lambda>x. x\<lparr>rootPriority := v, rootPortId := i,
    rootTimes := new_rootTimes t br r\<rparr>) br"
  let ?b1 = "fold (set_designated t) (ports br) ?b0"
  define c where "c \<longleftrightarrow> t = CIST
      \<and> ncmp_bid (RRootID v) (RRootID (rootPriority (tree_at br t))) \<noteq> 0
      \<and> (ExtRootPathCost v \<noteq> 0 \<or> ExtRootPathCost (rootPriority (tree_at br t)) \<noteq> 0)"
  let ?res = "if c then syncMaster ?b1 else ?b1"
  have f1: "fixed ?b1 = fixed br" and t1: "tree_at ?b1 = tree_at ?b0"
    using fold_keeps [of fixed "set_designated t"] fold_keeps [of tree_at "set_designated t"]
    by (simp_all add: set_designated_frame) (simp add: fixed_def)
  then have fb: "fixed ?res = fixed br" and tb: "tree_at ?res = tree_at ?b0"
    by (simp_all add: syncMaster_frame)
  have d: "distinct (ports br)" using assms(1) by (simp add: wf_bridge_def)
  have wf1: "wf_bridge ?b1" using assms(1) fixed_ports [OF f1] by (simp add: wf_bridge_def)
  have row: "ptp_at ?b1 p t = ptp_at (set_designated t p ?b0) p t" if "p \<in> set (ports br)" for p
    by (rule fold_row [where R = "\<lambda>b. ptp_at b p t" and C = "\<lambda>b. (fixed b, tree_at b)"])
      (erule set_designated_own | simp add: set_designated_frame d that)+
  have "updtRolesTree t br = fold (updtRole t r) (ports ?res) ?res"
    unfolding updtRolesTree_def Let_def assms(2) prod.case upd_tree_sel c_def by (rule refl)
  moreover have "ports ?res = ports br" using fixed_ports [OF fb] by blast
  ultimately have eq: "updtRolesTree t br = fold (updtRole t r) (ports br) ?res" by (simp only:)
  have res: "ptp_at ?res p t = ptp_at (set_designated t p ?b0) p t" if "p \<in> set (ports br)" for p
  proof (cases c)
    case True
    then have "t = CIST" by (simp add: c_def)
    with True row [OF that] syncMaster_cist [OF wf1] show ?thesis by simp
  qed (use row [OF that] in simp)
  have "ptp_at ?res p CIST = ptp_at br p CIST" if "t \<noteq> CIST" for p
    using that fold_keeps [of "\<lambda>b. ptp_at b p CIST" "set_designated t" "ports br" ?b0]
    by (simp add: set_designated_frame c_def)
  moreover have "tree_at ?res = (tree_at br)(t := (tree_at br t)\<lparr>rootPriority := v,
      rootPortId := i, rootTimes := new_rootTimes t br r\<rparr>)"
    unfolding tb by (simp add: fun_eq_iff)
  ultimately show ?thesis using that [of ?res] eq fb res by blast
qed


lemma updtRole_own:
  assumes "ptp_at b p = ptp_at b' p" "(fixed b, tree_at b) = (fixed b', tree_at b')"
  shows "ptp_at (updtRole t r p b) p = ptp_at (updtRole t r p b') p"
proof -
  have eqs: "port_at b = port_at b'" "tree_at b = tree_at b'" "trees b = trees b'"
    using assms(2) by (simp_all add: fixed_def)
  then have "new_role t r p b = new_role t r p b'"
    using assms(1) unfolding new_role_def by (simp only:)
  moreover obtain ro u where "new_role t r p b' = (ro, u)" by fastforce
  ultimately show ?thesis using eqs assms(1)
    by (intro ext) (simp only: updtRole_def reselectMSTIs_def Let_def prod.case upd_ptp_sel
        foreach_msti_in_port_sel if_distrib [of ptp_at] if_distribR)
qed

lemma updtRole_result:
  assumes "wf_bridge b"
  shows "ptp_at (updtRole t r p b) p t = (ptp_at b p t)\<lparr>selectedRole := fst (new_role t r p b),
    updtInfo := snd (new_role t r p b)\<rparr>"
proof -
  have "CIST \<notin> set (tl (trees b))" using assms wf_trees_tl by (auto simp: wf_bridge_def)
  then show ?thesis
    by (simp add: updtRole_def reselectMSTIs_def Let_def split: prod.split)
qed

text \<open>The vector a port would send as designated port.\<close>

definition designated_vector :: "mstid \<Rightarrow> bridge_t \<Rightarrow> port_priority_vector_t \<Rightarrow> portref \<Rightarrow> port_priority_vector_t" where
  "designated_vector t br rootPri p =
     (let bid = BridgeIdentifier (tree_at br t);
          dPri = rootPri\<lparr>DesignatedBridgeID := bid, DesignatedPortID := portId (ptp_at br p t)\<rparr>
      in if t = CIST \<and> \<not> sendRSTP (port_at br p) then dPri\<lparr>RRootID := bid\<rparr> else dPri)"

lemma updtRolesTree_tree:
  assumes "wf_bridge br" and "select_root t br = (v, i, r)"
  shows "tree_at (updtRolesTree t br) = (tree_at br)(t := (tree_at br t)\<lparr>rootPriority := v,
    rootPortId := i, rootTimes := new_rootTimes t br r\<rparr>)"
    and "fixed (updtRolesTree t br) = fixed br"
proof -
  obtain b where b: "updtRolesTree t br = fold (updtRole t r) (ports br) b" "fixed b = fixed br"
    "tree_at b = (tree_at br)(t := (tree_at br t)\<lparr>rootPriority := v, rootPortId := i,
       rootTimes := new_rootTimes t br r\<rparr>)"
    by (rule updtRolesTree_before_roles [OF assms])
  have "tree_at (fold (updtRole t r) (ports br) b) = tree_at b"
    "fixed (fold (updtRole t r) (ports br) b) = fixed b"
    by (rule fold_keeps; simp add: updtRole_frame)+
  with b show "tree_at (updtRolesTree t br) = (tree_at br)(t := (tree_at br t)\<lparr>rootPriority := v,
      rootPortId := i, rootTimes := new_rootTimes t br r\<rparr>)"
    "fixed (updtRolesTree t br) = fixed br" by simp_all
qed

lemma updtRolesTree_row:
  assumes "wf_bridge br" and "select_root t br = (v, i, r)" and "p \<in> set (ports br)"
  obtains b where "fixed b = fixed br"
    "BridgeIdentifier (tree_at b t) = BridgeIdentifier (tree_at br t)"
    "t \<noteq> CIST \<Longrightarrow> ptp_at b p CIST = ptp_at br p CIST"
    "ptp_at b p t = (ptp_at br p t)\<lparr>designatedPriority := designated_vector t br v p,
       designatedTimes := (new_rootTimes t br r)
         \<lparr>Hello_Time := Hello_Time (portTimes (ptp_at br p t))\<rparr>\<rparr>"
    "ptp_at (updtRolesTree t br) p t = (ptp_at b p t)\<lparr>selectedRole := fst (new_role t r p b),
       updtInfo := snd (new_role t r p b)\<rparr>"
proof (rule updtRolesTree_before_roles [OF assms(1,2)])
  fix b
  assume b: "updtRolesTree t br = fold (updtRole t r) (ports br) b" "fixed b = fixed br"
    "tree_at b = (tree_at br)(t := (tree_at br t)\<lparr>rootPriority := v, rootPortId := i,
       rootTimes := new_rootTimes t br r\<rparr>)"
    "\<And>p. p \<in> set (ports br) \<Longrightarrow> ptp_at b p t = ptp_at (set_designated t p
       (upd_tree t (\<lambda>x. x\<lparr>rootPriority := v, rootPortId := i,
          rootTimes := new_rootTimes t br r\<rparr>) br)) p t"
    "\<And>p. t \<noteq> CIST \<Longrightarrow> ptp_at b p CIST = ptp_at br p CIST"
  have wf: "distinct (ports br)" "wf_bridge b"
    using assms(1) fixed_ports [OF b(2)] by (simp_all add: wf_bridge_def)
  have "ptp_at (fold (updtRole t r) (ports br) b) p = ptp_at (updtRole t r p b) p"
    by (rule fold_row [where R = "\<lambda>b. ptp_at b p" and C = "\<lambda>b. (fixed b, tree_at b)"])
      (erule updtRole_own | simp add: updtRole_frame assms(3) wf(1))+
  then have "ptp_at (updtRolesTree t br) p t = (ptp_at b p t)\<lparr>
      selectedRole := fst (new_role t r p b), updtInfo := snd (new_role t r p b)\<rparr>"
    using updtRole_result [OF wf(2)] b(1) by simp
  moreover have "ptp_at b p t = (ptp_at br p t)\<lparr>designatedPriority := designated_vector t br v p,
       designatedTimes := (new_rootTimes t br r)
         \<lparr>Hello_Time := Hello_Time (portTimes (ptp_at br p t))\<rparr>\<rparr>"
    unfolding b(4) [OF assms(3)] set_designated_def designated_vector_def Let_def by simp
  ultimately show thesis using that [of b] b(2,3,5) by simp
qed


subsection \<open>The outcome of role selection\<close>

text \<open>The roles of the standard, as a function of the information a port holds.\<close>

definition role_spec :: "mstid \<Rightarrow> bridge_t \<Rightarrow> port_priority_vector_t \<Rightarrow> portref option \<Rightarrow> portref \<Rightarrow> port_role_t" where
  "role_spec t br dPri root_ptp p =
     (let x = ptp_at br p t; cist = cist_of br p in
      if infoIs x = ioDisabled then roleDisabled
      else if t \<noteq> CIST \<and> infoIs cist = ioReceived \<and> \<not> infoInternal (port_at br p)
      then (if selectedRole cist = roleRoot then roleMaster else selectedRole cist)
      else if infoIs x \<noteq> ioReceived then roleDesignated
      else if root_ptp = Some p then roleRoot
      else if \<not> betterorsamePriority (portPriority x) dPri 0 0 (t = CIST) then roleDesignated
      else if DesignatedBridgeID (portPriority x) \<noteq> BridgeIdentifier (tree_at br t)
      then roleAlternate else roleBackup)"

lemma updtRolesTree_roles:
  assumes "wf_bridge br" "select_root t br = (v, i, r)" "p \<in> set (ports br)"
  shows "selectedRole (ptp_at (updtRolesTree t br) p t) =
      role_spec t br (designated_vector t br v p) r p"
    and "designatedPriority (ptp_at (updtRolesTree t br) p t) = designated_vector t br v p"
    and "reselect (ptp_at (updtRolesTree t br) p t) = reselect (ptp_at br p t)"
proof -
  obtain b where b: "fixed b = fixed br"
    "BridgeIdentifier (tree_at b t) = BridgeIdentifier (tree_at br t)"
    "t \<noteq> CIST \<Longrightarrow> ptp_at b p CIST = ptp_at br p CIST"
    "ptp_at b p t = (ptp_at br p t)\<lparr>designatedPriority := designated_vector t br v p,
       designatedTimes := (new_rootTimes t br r)
         \<lparr>Hello_Time := Hello_Time (portTimes (ptp_at br p t))\<rparr>\<rparr>"
    "ptp_at (updtRolesTree t br) p t = (ptp_at b p t)\<lparr>selectedRole := fst (new_role t r p b),
       updtInfo := snd (new_role t r p b)\<rparr>"
    by (rule updtRolesTree_row [OF assms]) blast
  show "designatedPriority (ptp_at (updtRolesTree t br) p t) = designated_vector t br v p"
    "reselect (ptp_at (updtRolesTree t br) p t) = reselect (ptp_at br p t)"
    by (simp_all add: b(4,5))
  have "fst (new_role t r p b) = role_spec t br (designated_vector t br v p) r p"
    using b(1,2,3) unfolding new_role_def role_spec_def role_from_received_def Let_def b(4)
    by (cases "infoIs (ptp_at br p t)") (auto simp: fixed_def ncmp_bid_iff bid_val_inj)
  then show "selectedRole (ptp_at (updtRolesTree t br) p t) =
      role_spec t br (designated_vector t br v p) r p"
    by (simp add: b(4,5))
qed

text \<open>Role selection is settled when it returns, as its comment says.\<close>

lemma wf_bridge_fixed: "fixed b = fixed br \<Longrightarrow> wf_bridge b = wf_bridge br"
  by (simp add: wf_bridge_def fixed_def)

lemma select_root_ex: "\<exists>v i r. select_root t br = (v, i, r)"
  by (cases "select_root t br") auto

lemma PRSSM_to_ROLE_SELECTION_frame:
  assumes "wf_bridge br"
  shows "wf_bridge (PRSSM_to_ROLE_SELECTION t br)"
    and "PRSSM_step t (PRSSM_to_ROLE_SELECTION t br) = Stay"
proof -
  let ?b = "clearReselectTree t (upd_tree t (\<lambda>x. x\<lparr>PRSSM_state := PRSSM_ROLE_SELECTION\<rparr>) br)"
  have wf: "wf_bridge ?b" using assms by (simp add: wf_bridge_def clearReselectTree_def)
  obtain v i r where sel: "select_root t ?b = (v, i, r)" using select_root_ex by blast
  note facts = updtRolesTree_tree [OF wf sel] updtRolesTree_roles(3) [OF wf sel]
  have ports: "ports (updtRolesTree t ?b) = ports br"
    using fixed_ports [OF facts(2)] by (simp add: clearReselectTree_def)
  have "wf_bridge (updtRolesTree t ?b)" using wf_bridge_fixed [OF facts(2)] wf by blast
  then show "wf_bridge (PRSSM_to_ROLE_SELECTION t br)"
    by (simp add: PRSSM_to_ROLE_SELECTION_def Let_def setSelectedTree_def wf_bridge_def)
  have st: "PRSSM_state (tree_at (updtRolesTree t ?b) t) = PRSSM_ROLE_SELECTION"
    unfolding facts(1) by (simp add: clearReselectTree_def)
  have "\<not> reselect (ptp_at (updtRolesTree t ?b) p t)" if "p \<in> set (ports br)" for p
    using facts(3) [of p] that by (simp add: clearReselectTree_def)
  then show "PRSSM_step t (PRSSM_to_ROLE_SELECTION t br) = Stay"
    by (simp add: PRSSM_step_def PRSSM_to_ROLE_SELECTION_def Let_def setSelectedTree_def
        st ports list_ex_iff)
qed

lemma PRSSM_step_cases:
  "PRSSM_step t br = Move s' m a \<Longrightarrow> s' = PRSSM_to_ROLE_SELECTION t br \<and> \<not> m \<and> a"
  "PRSSM_step t br \<noteq> Fault a'"
  by (auto simp: PRSSM_step_def split: PRSSM_states_t.splits if_splits)

interpretation prssm: settling_machine "PRSSM_step t" wf_bridge "\<lambda>_. 0" for t
  by unfold_locales
    (auto dest!: PRSSM_step_cases(1) simp: PRSSM_to_ROLE_SELECTION_frame PRSSM_step_cases(2))

end
