(* ===== verification/Mstp_PRTSM.thy ===== *)
theory Mstp_PRTSM
  imports Mstp_Roles
begin

section \<open>The port role transitions state machine\<close>

text \<open>
  Clause 13.34, \<open>PRTSM_*\<close> of \<open>src/mstpd/src/mstp.c\<close>: it brings a port into its selected role
  and decides when the port may learn and forward. \<open>PRTSM_runr\<close> computes four delays in the
  outermost call and keeps them in static variables for the calls that follow; they are the
  record \<open>prtsm_delays\<close>.
\<close>

record prtsm_delays =
  dMaxAge :: u32
  dFwdDelay :: u32
  dforwardDelay :: u32
  dHelloTime :: u32

definition PRTSM_delays :: "portref \<Rightarrow> bridge_t \<Rightarrow> prtsm_delays" where
  "PRTSM_delays p br =
     (let cist = cist_of br p;
          FwdDelay = ucast (Forward_Delay (designatedTimes cist));
          HelloTime = ucast (Hello_Time (portTimes cist))
      in \<lparr>dMaxAge = ucast (Max_Age (designatedTimes cist)), dFwdDelay = FwdDelay,
          dforwardDelay = (if sendRSTP (port_at br p) then HelloTime else FwdDelay),
          dHelloTime = HelloTime\<rparr>)"

subsection \<open>Entering a state\<close>

definition PRTSM_to_INIT_PORT :: "portref \<Rightarrow> mstid \<Rightarrow> bridge_t \<Rightarrow> bridge_t" where
  "PRTSM_to_INIT_PORT p t br =
     (let cist = cist_of br p in
      upd_ptp p t (\<lambda>x. x\<lparr>PRTSM_state := PRTSM_INIT_PORT, role := roleDisabled, learn := False,
        forward := False, synced := False, sync := True, reRoot := True,
        rrWhile := ucast (Forward_Delay (designatedTimes cist)),
        fdWhile := ucast (Max_Age (designatedTimes cist)), rbWhile := 0\<rparr>) br)"

definition PRTSM_to_DISABLE_PORT :: "portref \<Rightarrow> mstid \<Rightarrow> bridge_t \<Rightarrow> bridge_t" where
  "PRTSM_to_DISABLE_PORT p t br =
     upd_ptp p t (\<lambda>x. x\<lparr>PRTSM_state := PRTSM_DISABLE_PORT, role := roleDisabled, learn := False,
       forward := False\<rparr>) br"

definition PRTSM_to_DISABLED_PORT :: "portref \<Rightarrow> mstid \<Rightarrow> u32 \<Rightarrow> bridge_t \<Rightarrow> bridge_t" where
  "PRTSM_to_DISABLED_PORT p t maxAge br =
     upd_ptp p t (\<lambda>x. x\<lparr>PRTSM_state := PRTSM_DISABLED_PORT, fdWhile := maxAge,
       synced := True, rrWhile := 0, sync := False, reRoot := False\<rparr>) br"

definition PRTSM_to_MASTER_PROPOSED :: "portref \<Rightarrow> mstid \<Rightarrow> bridge_t \<Rightarrow> bridge_t" where
  "PRTSM_to_MASTER_PROPOSED p t br =
     (let br = upd_ptp p t (\<lambda>x. x\<lparr>PRTSM_state := PRTSM_MASTER_PROPOSED\<rparr>) br;
          br = setSyncTree t br
      in upd_ptp p t (\<lambda>x. x\<lparr>proposed := False\<rparr>) br)"

definition PRTSM_to_MASTER_AGREED :: "portref \<Rightarrow> mstid \<Rightarrow> bridge_t \<Rightarrow> bridge_t" where
  "PRTSM_to_MASTER_AGREED p t br =
     upd_ptp p t (\<lambda>x. x\<lparr>PRTSM_state := PRTSM_MASTER_AGREED, proposed := False,
       sync := False, agree := True\<rparr>) br"

definition PRTSM_to_MASTER_SYNCED :: "portref \<Rightarrow> mstid \<Rightarrow> bridge_t \<Rightarrow> bridge_t" where
  "PRTSM_to_MASTER_SYNCED p t br =
     upd_ptp p t (\<lambda>x. x\<lparr>PRTSM_state := PRTSM_MASTER_SYNCED, rrWhile := 0,
       synced := True, sync := False\<rparr>) br"

definition PRTSM_to_MASTER_RETIRED :: "portref \<Rightarrow> mstid \<Rightarrow> bridge_t \<Rightarrow> bridge_t" where
  "PRTSM_to_MASTER_RETIRED p t br =
     upd_ptp p t (\<lambda>x. x\<lparr>PRTSM_state := PRTSM_MASTER_RETIRED, reRoot := False\<rparr>) br"

definition PRTSM_to_MASTER_FORWARD :: "portref \<Rightarrow> mstid \<Rightarrow> bridge_t \<Rightarrow> bridge_t" where
  "PRTSM_to_MASTER_FORWARD p t br =
     upd_ptp p t (\<lambda>x. x\<lparr>PRTSM_state := PRTSM_MASTER_FORWARD, forward := True,
       fdWhile := 0, agreed := sendRSTP (port_at br p)\<rparr>) br"

definition PRTSM_to_MASTER_LEARN :: "portref \<Rightarrow> mstid \<Rightarrow> u32 \<Rightarrow> bridge_t \<Rightarrow> bridge_t" where
  "PRTSM_to_MASTER_LEARN p t forwardDelay br =
     upd_ptp p t (\<lambda>x. x\<lparr>PRTSM_state := PRTSM_MASTER_LEARN, learn := True,
       fdWhile := forwardDelay\<rparr>) br"

definition PRTSM_to_MASTER_DISCARD :: "portref \<Rightarrow> mstid \<Rightarrow> u32 \<Rightarrow> bridge_t \<Rightarrow> bridge_t" where
  "PRTSM_to_MASTER_DISCARD p t forwardDelay br =
     upd_ptp p t (\<lambda>x. x\<lparr>PRTSM_state := PRTSM_MASTER_DISCARD, learn := False,
       forward := False, disputed := False, fdWhile := forwardDelay\<rparr>) br"

definition PRTSM_to_MASTER_PORT :: "portref \<Rightarrow> mstid \<Rightarrow> bridge_t \<Rightarrow> bridge_t" where
  "PRTSM_to_MASTER_PORT p t br =
     upd_ptp p t (\<lambda>x. x\<lparr>PRTSM_state := PRTSM_MASTER_PORT, role := roleMaster\<rparr>) br"

definition PRTSM_to_ROOT_PROPOSED :: "portref \<Rightarrow> mstid \<Rightarrow> bridge_t \<Rightarrow> bridge_t" where
  "PRTSM_to_ROOT_PROPOSED p t br =
     (let br = upd_ptp p t (\<lambda>x. x\<lparr>PRTSM_state := PRTSM_ROOT_PROPOSED\<rparr>) br;
          br = setSyncTree t br
      in upd_ptp p t (\<lambda>x. x\<lparr>proposed := False\<rparr>) br)"

definition PRTSM_to_ROOT_AGREED :: "portref \<Rightarrow> mstid \<Rightarrow> bridge_t \<Rightarrow> bridge_t" where
  "PRTSM_to_ROOT_AGREED p t br =
     set_newInfoXst p t (upd_ptp p t (\<lambda>x. x\<lparr>PRTSM_state := PRTSM_ROOT_AGREED,
       proposed := False, sync := False, agree := True\<rparr>) br)"

definition PRTSM_to_ROOT_SYNCED :: "portref \<Rightarrow> mstid \<Rightarrow> bridge_t \<Rightarrow> bridge_t" where
  "PRTSM_to_ROOT_SYNCED p t br =
     upd_ptp p t (\<lambda>x. x\<lparr>PRTSM_state := PRTSM_ROOT_SYNCED, synced := True, sync := False\<rparr>) br"

definition PRTSM_to_REROOT :: "portref \<Rightarrow> mstid \<Rightarrow> bridge_t \<Rightarrow> bridge_t" where
  "PRTSM_to_REROOT p t br =
     setReRootTree t (upd_ptp p t (\<lambda>x. x\<lparr>PRTSM_state := PRTSM_REROOT\<rparr>) br)"

definition PRTSM_to_ROOT_FORWARD :: "portref \<Rightarrow> mstid \<Rightarrow> bridge_t \<Rightarrow> bridge_t" where
  "PRTSM_to_ROOT_FORWARD p t br =
     upd_ptp p t (\<lambda>x. x\<lparr>PRTSM_state := PRTSM_ROOT_FORWARD, fdWhile := 0, forward := True\<rparr>) br"

definition PRTSM_to_ROOT_LEARN :: "portref \<Rightarrow> mstid \<Rightarrow> u32 \<Rightarrow> bridge_t \<Rightarrow> bridge_t" where
  "PRTSM_to_ROOT_LEARN p t forwardDelay br =
     upd_ptp p t (\<lambda>x. x\<lparr>PRTSM_state := PRTSM_ROOT_LEARN, fdWhile := forwardDelay,
       learn := True\<rparr>) br"

definition PRTSM_to_REROOTED :: "portref \<Rightarrow> mstid \<Rightarrow> bridge_t \<Rightarrow> bridge_t" where
  "PRTSM_to_REROOTED p t br =
     upd_ptp p t (\<lambda>x. x\<lparr>PRTSM_state := PRTSM_REROOTED, reRoot := False\<rparr>) br"

definition PRTSM_to_ROOT_PORT :: "portref \<Rightarrow> mstid \<Rightarrow> u32 \<Rightarrow> bridge_t \<Rightarrow> bridge_t" where
  "PRTSM_to_ROOT_PORT p t FwdDelay br =
     upd_ptp p t (\<lambda>x. x\<lparr>PRTSM_state := PRTSM_ROOT_PORT, role := roleRoot,
       rrWhile := FwdDelay\<rparr>) br"

definition PRTSM_to_DESIGNATED_PROPOSE :: "portref \<Rightarrow> mstid \<Rightarrow> bridge_t \<Rightarrow> bridge_t" where
  "PRTSM_to_DESIGNATED_PROPOSE p t br =
     (let br = upd_ptp p t (\<lambda>x. x\<lparr>PRTSM_state := PRTSM_DESIGNATED_PROPOSE,
            proposing := True\<rparr>) br
      in if t = CIST then
           let MaxAge = ucast (Max_Age (designatedTimes (ptp_at br p t)));
               EdgeDelay = (if operPointToPointMAC (port_at br p) then Migrate_Time br else MaxAge)
           in upd_port p (\<lambda>x. x\<lparr>edgeDelayWhile := EdgeDelay, newInfo := True\<rparr>) br
         else upd_port p (\<lambda>x. x\<lparr>newInfoMsti := True\<rparr>) br)"

definition PRTSM_to_DESIGNATED_AGREED :: "portref \<Rightarrow> mstid \<Rightarrow> bridge_t \<Rightarrow> bridge_t" where
  "PRTSM_to_DESIGNATED_AGREED p t br =
     set_newInfoXst p t (upd_ptp p t (\<lambda>x. x\<lparr>PRTSM_state := PRTSM_DESIGNATED_AGREED,
       proposed := False, sync := False, agree := True\<rparr>) br)"

definition PRTSM_to_DESIGNATED_SYNCED :: "portref \<Rightarrow> mstid \<Rightarrow> bridge_t \<Rightarrow> bridge_t" where
  "PRTSM_to_DESIGNATED_SYNCED p t br =
     upd_ptp p t (\<lambda>x. x\<lparr>PRTSM_state := PRTSM_DESIGNATED_SYNCED, rrWhile := 0,
       synced := True, sync := False\<rparr>) br"

definition PRTSM_to_DESIGNATED_RETIRED :: "portref \<Rightarrow> mstid \<Rightarrow> bridge_t \<Rightarrow> bridge_t" where
  "PRTSM_to_DESIGNATED_RETIRED p t br =
     upd_ptp p t (\<lambda>x. x\<lparr>PRTSM_state := PRTSM_DESIGNATED_RETIRED, reRoot := False\<rparr>) br"

definition PRTSM_to_DESIGNATED_FORWARD :: "portref \<Rightarrow> mstid \<Rightarrow> bridge_t \<Rightarrow> bridge_t" where
  "PRTSM_to_DESIGNATED_FORWARD p t br =
     upd_ptp p t (\<lambda>x. x\<lparr>PRTSM_state := PRTSM_DESIGNATED_FORWARD, forward := True,
       fdWhile := 0, agreed := sendRSTP (port_at br p)\<rparr>) br"

definition PRTSM_to_DESIGNATED_LEARN :: "portref \<Rightarrow> mstid \<Rightarrow> u32 \<Rightarrow> bridge_t \<Rightarrow> bridge_t" where
  "PRTSM_to_DESIGNATED_LEARN p t forwardDelay br =
     upd_ptp p t (\<lambda>x. x\<lparr>PRTSM_state := PRTSM_DESIGNATED_LEARN, learn := True,
       fdWhile := forwardDelay\<rparr>) br"

definition PRTSM_to_DESIGNATED_DISCARD :: "portref \<Rightarrow> mstid \<Rightarrow> u32 \<Rightarrow> bridge_t \<Rightarrow> bridge_t" where
  "PRTSM_to_DESIGNATED_DISCARD p t forwardDelay br =
     upd_ptp p t (\<lambda>x. x\<lparr>PRTSM_state := PRTSM_DESIGNATED_DISCARD, learn := False,
       forward := False, disputed := False, fdWhile := forwardDelay\<rparr>) br"

definition PRTSM_to_DESIGNATED_PORT :: "portref \<Rightarrow> mstid \<Rightarrow> bridge_t \<Rightarrow> bridge_t" where
  "PRTSM_to_DESIGNATED_PORT p t br =
     upd_ptp p t (\<lambda>x. x\<lparr>PRTSM_state := PRTSM_DESIGNATED_PORT, role := roleDesignated\<rparr>) br"

definition PRTSM_to_BLOCK_PORT :: "portref \<Rightarrow> mstid \<Rightarrow> bridge_t \<Rightarrow> bridge_t" where
  "PRTSM_to_BLOCK_PORT p t br =
     upd_ptp p t (\<lambda>x. x\<lparr>PRTSM_state := PRTSM_BLOCK_PORT, role := selectedRole x,
       learn := False, forward := False\<rparr>) br"

definition PRTSM_to_BACKUP_PORT :: "portref \<Rightarrow> mstid \<Rightarrow> u32 \<Rightarrow> bridge_t \<Rightarrow> bridge_t" where
  "PRTSM_to_BACKUP_PORT p t helloTime br =
     upd_ptp p t (\<lambda>x. x\<lparr>PRTSM_state := PRTSM_BACKUP_PORT, rbWhile := 2 * helloTime\<rparr>) br"

definition PRTSM_to_ALTERNATE_PROPOSED :: "portref \<Rightarrow> mstid \<Rightarrow> bridge_t \<Rightarrow> bridge_t" where
  "PRTSM_to_ALTERNATE_PROPOSED p t br =
     (let br = upd_ptp p t (\<lambda>x. x\<lparr>PRTSM_state := PRTSM_ALTERNATE_PROPOSED\<rparr>) br;
          br = setSyncTree t br
      in upd_ptp p t (\<lambda>x. x\<lparr>proposed := False\<rparr>) br)"

definition PRTSM_to_ALTERNATE_AGREED :: "portref \<Rightarrow> mstid \<Rightarrow> bridge_t \<Rightarrow> bridge_t" where
  "PRTSM_to_ALTERNATE_AGREED p t br =
     set_newInfoXst p t (upd_ptp p t (\<lambda>x. x\<lparr>PRTSM_state := PRTSM_ALTERNATE_AGREED,
       proposed := False, agree := True\<rparr>) br)"

definition PRTSM_to_ALTERNATE_PORT :: "portref \<Rightarrow> mstid \<Rightarrow> u32 \<Rightarrow> bridge_t \<Rightarrow> bridge_t" where
  "PRTSM_to_ALTERNATE_PORT p t forwardDelay br =
     upd_ptp p t (\<lambda>x. x\<lparr>PRTSM_state := PRTSM_ALTERNATE_PORT, fdWhile := forwardDelay,
       synced := True, rrWhile := 0, sync := False, reRoot := False\<rparr>) br"

subsection \<open>The guards\<close>

definition allSynced :: "portref \<Rightarrow> mstid \<Rightarrow> bridge_t \<Rightarrow> bool" where
  "allSynced p t br =
     (let x = ptp_at br p t in
      list_all (\<lambda>q. let y = ptp_at br q t in
          selected y \<and> role y = selectedRole y \<and> \<not> updtInfo y
          \<and> (if role x \<in> {roleRoot, roleAlternate} then role y = roleRoot \<or> synced y
             else if role x \<in> {roleDesignated, roleMaster} then q = p \<or> synced y
             else False))
        (ports br))"

definition reRooted :: "portref \<Rightarrow> mstid \<Rightarrow> bridge_t \<Rightarrow> bool" where
  "reRooted p t br = list_all (\<lambda>q. q = p \<or> rrWhile (ptp_at br q t) = 0) (ports br)"

definition PRTSM_disabled :: "prtsm_delays \<Rightarrow> portref \<Rightarrow> mstid \<Rightarrow> bridge_t \<Rightarrow> bridge_t transition" where
  "PRTSM_disabled d p t br =
     (let x = ptp_at br p t in
      if PRTSM_state x = PRTSM_INIT_PORT then Move (PRTSM_to_DISABLE_PORT p t br) True True
      else if PRTSM_state x = PRTSM_DISABLE_PORT then
        if selected x \<and> \<not> updtInfo x \<and> \<not> learning x \<and> \<not> forwarding x
        then Move (PRTSM_to_DISABLED_PORT p t (dMaxAge d) br) True True else Stay
      else
        if selected x \<and> \<not> updtInfo x
           \<and> (sync x \<or> reRoot x \<or> \<not> synced x \<or> fdWhile x \<noteq> dMaxAge d)
        then Move (PRTSM_to_DISABLED_PORT p t (dMaxAge d) br) True True else Stay)"

definition PRTSM_master :: "prtsm_delays \<Rightarrow> portref \<Rightarrow> mstid \<Rightarrow> bridge_t \<Rightarrow> bridge_t transition" where
  "PRTSM_master d p t br =
     (let x = ptp_at br p t; prt = port_at br p; allSync = allSynced p t br in
      if PRTSM_state x \<noteq> PRTSM_MASTER_PORT then Move (PRTSM_to_MASTER_PORT p t br) True True
      else if \<not> (selected x \<and> \<not> updtInfo x) then Stay
      else if reRoot x \<and> rrWhile x = 0 then Move (PRTSM_to_MASTER_RETIRED p t br) True True
      else if (\<not> learning x \<and> \<not> forwarding x \<and> \<not> synced x) \<or> (agreed x \<and> \<not> synced x)
              \<or> (operEdge prt \<and> \<not> synced x) \<or> (sync x \<and> synced x)
      then Move (PRTSM_to_MASTER_SYNCED p t br) True True
      else if (allSync \<and> \<not> agree x) \<or> (proposed x \<and> agree x)
      then Move (PRTSM_to_MASTER_AGREED p t br) True True
      else if proposed x \<and> \<not> agree x then Move (PRTSM_to_MASTER_PROPOSED p t br) True True
      else if (fdWhile x = 0 \<or> allSync) \<and> learn x \<and> \<not> forward x
      then Move (PRTSM_to_MASTER_FORWARD p t br) True True
      else if (fdWhile x = 0 \<or> allSync) \<and> \<not> learn x
      then Move (PRTSM_to_MASTER_LEARN p t (dforwardDelay d) br) True True
      else if ((sync x \<and> \<not> synced x) \<or> (reRoot x \<and> rrWhile x \<noteq> 0) \<or> disputed x)
              \<and> \<not> operEdge prt \<and> (learn x \<or> forward x)
      then Move (PRTSM_to_MASTER_DISCARD p t (dforwardDelay d) br) True True
      else Stay)"

definition PRTSM_root :: "prtsm_delays \<Rightarrow> portref \<Rightarrow> mstid \<Rightarrow> bridge_t \<Rightarrow> bridge_t transition" where
  "PRTSM_root d p t br =
     (let x = ptp_at br p t; allSync = allSynced p t br;
          may = (fdWhile x = 0 \<or> (reRooted p t br \<and> rbWhile x = 0 \<and> rstpVersion br)) in
      if PRTSM_state x \<noteq> PRTSM_ROOT_PORT
      then Move (PRTSM_to_ROOT_PORT p t (dFwdDelay d) br) True True
      else if \<not> (selected x \<and> \<not> updtInfo x) then Stay
      else if \<not> forward x \<and> \<not> reRoot x then Move (PRTSM_to_REROOT p t br) True True
      else if (agreed x \<and> \<not> synced x) \<or> (sync x \<and> synced x)
      then Move (PRTSM_to_ROOT_SYNCED p t br) True True
      else if (allSync \<and> \<not> agree x) \<or> (proposed x \<and> agree x)
      then Move (PRTSM_to_ROOT_AGREED p t br) True True
      else if proposed x \<and> \<not> agree x then Move (PRTSM_to_ROOT_PROPOSED p t br) True True
      else if may \<and> \<not> learn x
      then Move (PRTSM_to_ROOT_LEARN p t (dforwardDelay d) br) True True
      else if may \<and> \<not> forward x then Move (PRTSM_to_ROOT_FORWARD p t br) True True
      else if reRoot x \<and> forward x then Move (PRTSM_to_REROOTED p t br) True True
      else if rrWhile x \<noteq> dFwdDelay d
      then Move (PRTSM_to_ROOT_PORT p t (dFwdDelay d) br) True True
      else Stay)"

definition PRTSM_designated :: "prtsm_delays \<Rightarrow> portref \<Rightarrow> mstid \<Rightarrow> bridge_t \<Rightarrow> bridge_t transition" where
  "PRTSM_designated d p t br =
     (let x = ptp_at br p t; prt = port_at br p;
          may = ((fdWhile x = 0 \<or> agreed x \<or> operEdge prt)
                 \<and> (rrWhile x = 0 \<or> \<not> reRoot x) \<and> \<not> sync x \<and> \<not> BaInconsistent prt) in
      if PRTSM_state x \<noteq> PRTSM_DESIGNATED_PORT
      then Move (PRTSM_to_DESIGNATED_PORT p t br) True True
      else if \<not> (selected x \<and> \<not> updtInfo x) then Stay
      else if reRoot x \<and> rrWhile x = 0 then Move (PRTSM_to_DESIGNATED_RETIRED p t br) True True
      else if (\<not> learning x \<and> \<not> forwarding x \<and> \<not> synced x) \<or> (agreed x \<and> \<not> synced x)
              \<or> (operEdge prt \<and> \<not> synced x) \<or> (sync x \<and> synced x)
      then Move (PRTSM_to_DESIGNATED_SYNCED p t br) True True
      else if allSynced p t br \<and> (proposed x \<or> \<not> agree x)
      then Move (PRTSM_to_DESIGNATED_AGREED p t br) True True
      else if \<not> forward x \<and> \<not> agreed x \<and> \<not> proposing x \<and> \<not> operEdge prt
      then Move (PRTSM_to_DESIGNATED_PROPOSE p t br) True True
      else if may \<and> \<not> learn x
      then Move (PRTSM_to_DESIGNATED_LEARN p t (dforwardDelay d) br) True True
      else if may \<and> \<not> forward x then Move (PRTSM_to_DESIGNATED_FORWARD p t br) True True
      else if ((sync x \<and> \<not> synced x) \<or> (reRoot x \<and> rrWhile x \<noteq> 0) \<or> disputed x
               \<or> BaInconsistent prt) \<and> \<not> operEdge prt \<and> (learn x \<or> forward x)
      then Move (PRTSM_to_DESIGNATED_DISCARD p t (dforwardDelay d) br) True True
      else Stay)"

definition PRTSM_alternate :: "prtsm_delays \<Rightarrow> portref \<Rightarrow> mstid \<Rightarrow> bridge_t \<Rightarrow> bridge_t transition" where
  "PRTSM_alternate d p t br =
     (let x = ptp_at br p t in
      if PRTSM_state x = PRTSM_BLOCK_PORT then
        if selected x \<and> \<not> updtInfo x \<and> \<not> learning x \<and> \<not> forwarding x
        then Move (PRTSM_to_ALTERNATE_PORT p t (dforwardDelay d) br) True True else Stay
      else if PRTSM_state x \<noteq> PRTSM_ALTERNATE_PORT
      then Move (PRTSM_to_ALTERNATE_PORT p t (dforwardDelay d) br) True True
      else if \<not> (selected x \<and> \<not> updtInfo x) then Stay
      else if (allSynced p t br \<and> \<not> agree x) \<or> (proposed x \<and> agree x)
      then Move (PRTSM_to_ALTERNATE_AGREED p t br) True True
      else if proposed x \<and> \<not> agree x then Move (PRTSM_to_ALTERNATE_PROPOSED p t br) True True
      else if rbWhile x \<noteq> 2 * dHelloTime d \<and> role x = roleBackup
      then Move (PRTSM_to_BACKUP_PORT p t (dHelloTime d) br) True True
      else if fdWhile x \<noteq> dforwardDelay d \<or> sync x \<or> reRoot x \<or> \<not> synced x
      then Move (PRTSM_to_ALTERNATE_PORT p t (dforwardDelay d) br) True True
      else Stay)"

text \<open>The role groups of the states, in the order of the \<open>switch\<close>.\<close>

datatype prtsm_group = gDisabled | gMaster | gRoot | gDesignated | gAlternate

fun PRTSM_group :: "PRTSM_states_t \<Rightarrow> prtsm_group" where
  "PRTSM_group PRTSM_INIT_PORT = gDisabled"
| "PRTSM_group PRTSM_DISABLE_PORT = gDisabled"
| "PRTSM_group PRTSM_DISABLED_PORT = gDisabled"
| "PRTSM_group PRTSM_MASTER_PROPOSED = gMaster"
| "PRTSM_group PRTSM_MASTER_AGREED = gMaster"
| "PRTSM_group PRTSM_MASTER_SYNCED = gMaster"
| "PRTSM_group PRTSM_MASTER_RETIRED = gMaster"
| "PRTSM_group PRTSM_MASTER_FORWARD = gMaster"
| "PRTSM_group PRTSM_MASTER_LEARN = gMaster"
| "PRTSM_group PRTSM_MASTER_DISCARD = gMaster"
| "PRTSM_group PRTSM_MASTER_PORT = gMaster"
| "PRTSM_group PRTSM_ROOT_PROPOSED = gRoot"
| "PRTSM_group PRTSM_ROOT_AGREED = gRoot"
| "PRTSM_group PRTSM_ROOT_SYNCED = gRoot"
| "PRTSM_group PRTSM_REROOT = gRoot"
| "PRTSM_group PRTSM_ROOT_FORWARD = gRoot"
| "PRTSM_group PRTSM_ROOT_LEARN = gRoot"
| "PRTSM_group PRTSM_REROOTED = gRoot"
| "PRTSM_group PRTSM_ROOT_PORT = gRoot"
| "PRTSM_group PRTSM_DESIGNATED_PROPOSE = gDesignated"
| "PRTSM_group PRTSM_DESIGNATED_AGREED = gDesignated"
| "PRTSM_group PRTSM_DESIGNATED_SYNCED = gDesignated"
| "PRTSM_group PRTSM_DESIGNATED_RETIRED = gDesignated"
| "PRTSM_group PRTSM_DESIGNATED_FORWARD = gDesignated"
| "PRTSM_group PRTSM_DESIGNATED_LEARN = gDesignated"
| "PRTSM_group PRTSM_DESIGNATED_DISCARD = gDesignated"
| "PRTSM_group PRTSM_DESIGNATED_PORT = gDesignated"
| "PRTSM_group PRTSM_BLOCK_PORT = gAlternate"
| "PRTSM_group PRTSM_BACKUP_PORT = gAlternate"
| "PRTSM_group PRTSM_ALTERNATE_PROPOSED = gAlternate"
| "PRTSM_group PRTSM_ALTERNATE_AGREED = gAlternate"
| "PRTSM_group PRTSM_ALTERNATE_PORT = gAlternate"

definition PRTSM_new_role :: "prtsm_delays \<Rightarrow> portref \<Rightarrow> mstid \<Rightarrow> bridge_t \<Rightarrow> bridge_t" where
  "PRTSM_new_role d p t br =
     (case selectedRole (ptp_at br p t) of
        roleDisabled \<Rightarrow> PRTSM_to_DISABLE_PORT p t br
      | roleMaster \<Rightarrow> PRTSM_to_MASTER_PORT p t br
      | roleRoot \<Rightarrow> PRTSM_to_ROOT_PORT p t (dFwdDelay d) br
      | roleDesignated \<Rightarrow> PRTSM_to_DESIGNATED_PORT p t br
      | roleAlternate \<Rightarrow> PRTSM_to_BLOCK_PORT p t br
      | roleBackup \<Rightarrow> PRTSM_to_BLOCK_PORT p t br)"

definition role_pending :: "per_tree_port_t \<Rightarrow> bool" where
  "role_pending x \<longleftrightarrow> role x \<noteq> selectedRole x \<and> selected x \<and> \<not> updtInfo x"

definition PRTSM_step :: "prtsm_delays \<Rightarrow> portref \<Rightarrow> mstid \<Rightarrow> bridge_t \<Rightarrow> bridge_t transition" where
  "PRTSM_step d p t br =
     (if role_pending (ptp_at br p t) then Move (PRTSM_new_role d p t br) True True
      else case PRTSM_group (PRTSM_state (ptp_at br p t)) of
        gDisabled \<Rightarrow> PRTSM_disabled d p t br
      | gMaster \<Rightarrow> PRTSM_master d p t br
      | gRoot \<Rightarrow> PRTSM_root d p t br
      | gDesignated \<Rightarrow> PRTSM_designated d p t br
      | gAlternate \<Rightarrow> PRTSM_alternate d p t br)"

definition PRTSM_run ::
    "nat \<Rightarrow> portref \<Rightarrow> mstid \<Rightarrow> bridge_t \<Rightarrow> bool \<Rightarrow> (bool \<times> bridge_t) option" where
  "PRTSM_run fuel p t br = sm_run (PRTSM_step (PRTSM_delays p br) p t) fuel br"


subsection \<open>The invariant of the machine\<close>

text \<open>The state belongs to the role, and a port that must not forward is told not to.\<close>

definition PRTSM_consistent :: "per_tree_port_t \<Rightarrow> bool" where
  "PRTSM_consistent x =
     (case PRTSM_group (PRTSM_state x) of
        gDisabled \<Rightarrow> role x = roleDisabled
      | gMaster \<Rightarrow> role x = roleMaster
      | gRoot \<Rightarrow> role x = roleRoot
      | gDesignated \<Rightarrow> role x = roleDesignated
      | gAlternate \<Rightarrow> role x \<in> {roleAlternate, roleBackup})"

definition role_safe :: "per_tree_port_t \<Rightarrow> bool" where
  "role_safe x \<longleftrightarrow>
     (role x \<in> {roleDisabled, roleAlternate, roleBackup} \<longrightarrow> \<not> learn x \<and> \<not> forward x)"

definition PRTSM_inv :: "per_tree_port_t \<Rightarrow> bool" where
  "PRTSM_inv x \<longleftrightarrow> PRTSM_consistent x \<and> role_safe x"

lemmas PRTSM_to_defs =
  PRTSM_to_DISABLE_PORT_def PRTSM_to_DISABLED_PORT_def PRTSM_to_MASTER_PROPOSED_def
  PRTSM_to_MASTER_AGREED_def PRTSM_to_MASTER_SYNCED_def PRTSM_to_MASTER_RETIRED_def
  PRTSM_to_MASTER_FORWARD_def PRTSM_to_MASTER_LEARN_def PRTSM_to_MASTER_DISCARD_def
  PRTSM_to_MASTER_PORT_def PRTSM_to_ROOT_PROPOSED_def PRTSM_to_ROOT_AGREED_def
  PRTSM_to_ROOT_SYNCED_def PRTSM_to_REROOT_def PRTSM_to_ROOT_FORWARD_def
  PRTSM_to_ROOT_LEARN_def PRTSM_to_REROOTED_def PRTSM_to_ROOT_PORT_def
  PRTSM_to_DESIGNATED_PROPOSE_def PRTSM_to_DESIGNATED_AGREED_def
  PRTSM_to_DESIGNATED_SYNCED_def PRTSM_to_DESIGNATED_RETIRED_def
  PRTSM_to_DESIGNATED_FORWARD_def PRTSM_to_DESIGNATED_LEARN_def
  PRTSM_to_DESIGNATED_DISCARD_def PRTSM_to_DESIGNATED_PORT_def PRTSM_to_BLOCK_PORT_def
  PRTSM_to_BACKUP_PORT_def PRTSM_to_ALTERNATE_PROPOSED_def PRTSM_to_ALTERNATE_AGREED_def
  PRTSM_to_ALTERNATE_PORT_def set_newInfoXst_def setSyncTree_def setReRootTree_def Let_def

lemmas PRTSM_inv_defs = PRTSM_inv_def PRTSM_consistent_def role_safe_def

text \<open>What entering a state makes of the port's own record.\<close>

lemma setSyncTree_own: "ptp_at (setSyncTree t br) p t =
    (ptp_at br p t)\<lparr>sync := sync (ptp_at br p t) \<or> p \<in> set (ports br)\<rparr>"
  by (simp add: setSyncTree_def)

lemma setReRootTree_own: "ptp_at (setReRootTree t br) p t =
    (ptp_at br p t)\<lparr>reRoot := reRoot (ptp_at br p t) \<or> p \<in> set (ports br)\<rparr>"
  by (simp add: setReRootTree_def)

lemma set_newInfoXst_own [simp]: "ptp_at (set_newInfoXst p t br) = ptp_at br"
  by (simp add: set_newInfoXst_def)

lemma PRTSM_own:
  "ptp_at (PRTSM_to_DISABLE_PORT p t br) p t = (ptp_at br p t)
     \<lparr>PRTSM_state := PRTSM_DISABLE_PORT, role := roleDisabled, learn := False, forward := False\<rparr>"
  "ptp_at (PRTSM_to_DISABLED_PORT p t w br) p t = (ptp_at br p t)
     \<lparr>PRTSM_state := PRTSM_DISABLED_PORT, fdWhile := w, synced := True, rrWhile := 0, sync := False, reRoot := False\<rparr>"
  "ptp_at (PRTSM_to_MASTER_PROPOSED p t br) p t = (ptp_at br p t)
     \<lparr>PRTSM_state := PRTSM_MASTER_PROPOSED, proposed := False, sync := sync (ptp_at br p t) \<or> p \<in> set (ports br)\<rparr>"
  "ptp_at (PRTSM_to_MASTER_AGREED p t br) p t = (ptp_at br p t)
     \<lparr>PRTSM_state := PRTSM_MASTER_AGREED, proposed := False, sync := False, agree := True\<rparr>"
  "ptp_at (PRTSM_to_MASTER_SYNCED p t br) p t = (ptp_at br p t)
     \<lparr>PRTSM_state := PRTSM_MASTER_SYNCED, rrWhile := 0, synced := True, sync := False\<rparr>"
  "ptp_at (PRTSM_to_MASTER_RETIRED p t br) p t = (ptp_at br p t)
     \<lparr>PRTSM_state := PRTSM_MASTER_RETIRED, reRoot := False\<rparr>"
  "ptp_at (PRTSM_to_MASTER_FORWARD p t br) p t = (ptp_at br p t)
     \<lparr>PRTSM_state := PRTSM_MASTER_FORWARD, forward := True, fdWhile := 0, agreed := sendRSTP (port_at br p)\<rparr>"
  "ptp_at (PRTSM_to_MASTER_LEARN p t w br) p t = (ptp_at br p t)
     \<lparr>PRTSM_state := PRTSM_MASTER_LEARN, learn := True, fdWhile := w\<rparr>"
  "ptp_at (PRTSM_to_MASTER_DISCARD p t w br) p t = (ptp_at br p t)
     \<lparr>PRTSM_state := PRTSM_MASTER_DISCARD, learn := False, forward := False, disputed := False, fdWhile := w\<rparr>"
  "ptp_at (PRTSM_to_MASTER_PORT p t br) p t = (ptp_at br p t)
     \<lparr>PRTSM_state := PRTSM_MASTER_PORT, role := roleMaster\<rparr>"
  "ptp_at (PRTSM_to_ROOT_PROPOSED p t br) p t = (ptp_at br p t)
     \<lparr>PRTSM_state := PRTSM_ROOT_PROPOSED, proposed := False, sync := sync (ptp_at br p t) \<or> p \<in> set (ports br)\<rparr>"
  "ptp_at (PRTSM_to_ROOT_AGREED p t br) p t = (ptp_at br p t)
     \<lparr>PRTSM_state := PRTSM_ROOT_AGREED, proposed := False, sync := False, agree := True\<rparr>"
  "ptp_at (PRTSM_to_ROOT_SYNCED p t br) p t = (ptp_at br p t)
     \<lparr>PRTSM_state := PRTSM_ROOT_SYNCED, synced := True, sync := False\<rparr>"
  "ptp_at (PRTSM_to_REROOT p t br) p t = (ptp_at br p t)
     \<lparr>PRTSM_state := PRTSM_REROOT, reRoot := reRoot (ptp_at br p t) \<or> p \<in> set (ports br)\<rparr>"
  "ptp_at (PRTSM_to_ROOT_FORWARD p t br) p t = (ptp_at br p t)
     \<lparr>PRTSM_state := PRTSM_ROOT_FORWARD, fdWhile := 0, forward := True\<rparr>"
  "ptp_at (PRTSM_to_ROOT_LEARN p t w br) p t = (ptp_at br p t)
     \<lparr>PRTSM_state := PRTSM_ROOT_LEARN, fdWhile := w, learn := True\<rparr>"
  "ptp_at (PRTSM_to_REROOTED p t br) p t = (ptp_at br p t)
     \<lparr>PRTSM_state := PRTSM_REROOTED, reRoot := False\<rparr>"
  "ptp_at (PRTSM_to_ROOT_PORT p t w br) p t = (ptp_at br p t)
     \<lparr>PRTSM_state := PRTSM_ROOT_PORT, role := roleRoot, rrWhile := w\<rparr>"
  "ptp_at (PRTSM_to_DESIGNATED_PROPOSE p t br) p t = (ptp_at br p t)
     \<lparr>PRTSM_state := PRTSM_DESIGNATED_PROPOSE, proposing := True\<rparr>"
  "ptp_at (PRTSM_to_DESIGNATED_AGREED p t br) p t = (ptp_at br p t)
     \<lparr>PRTSM_state := PRTSM_DESIGNATED_AGREED, proposed := False, sync := False, agree := True\<rparr>"
  "ptp_at (PRTSM_to_DESIGNATED_SYNCED p t br) p t = (ptp_at br p t)
     \<lparr>PRTSM_state := PRTSM_DESIGNATED_SYNCED, rrWhile := 0, synced := True, sync := False\<rparr>"
  "ptp_at (PRTSM_to_DESIGNATED_RETIRED p t br) p t = (ptp_at br p t)
     \<lparr>PRTSM_state := PRTSM_DESIGNATED_RETIRED, reRoot := False\<rparr>"
  "ptp_at (PRTSM_to_DESIGNATED_FORWARD p t br) p t = (ptp_at br p t)
     \<lparr>PRTSM_state := PRTSM_DESIGNATED_FORWARD, forward := True, fdWhile := 0, agreed := sendRSTP (port_at br p)\<rparr>"
  "ptp_at (PRTSM_to_DESIGNATED_LEARN p t w br) p t = (ptp_at br p t)
     \<lparr>PRTSM_state := PRTSM_DESIGNATED_LEARN, learn := True, fdWhile := w\<rparr>"
  "ptp_at (PRTSM_to_DESIGNATED_DISCARD p t w br) p t = (ptp_at br p t)
     \<lparr>PRTSM_state := PRTSM_DESIGNATED_DISCARD, learn := False, forward := False, disputed := False, fdWhile := w\<rparr>"
  "ptp_at (PRTSM_to_DESIGNATED_PORT p t br) p t = (ptp_at br p t)
     \<lparr>PRTSM_state := PRTSM_DESIGNATED_PORT, role := roleDesignated\<rparr>"
  "ptp_at (PRTSM_to_BLOCK_PORT p t br) p t = (ptp_at br p t)
     \<lparr>PRTSM_state := PRTSM_BLOCK_PORT, role := selectedRole (ptp_at br p t), learn := False, forward := False\<rparr>"
  "ptp_at (PRTSM_to_BACKUP_PORT p t w br) p t = (ptp_at br p t)
     \<lparr>PRTSM_state := PRTSM_BACKUP_PORT, rbWhile := 2 * w\<rparr>"
  "ptp_at (PRTSM_to_ALTERNATE_PROPOSED p t br) p t = (ptp_at br p t)
     \<lparr>PRTSM_state := PRTSM_ALTERNATE_PROPOSED, proposed := False, sync := sync (ptp_at br p t) \<or> p \<in> set (ports br)\<rparr>"
  "ptp_at (PRTSM_to_ALTERNATE_AGREED p t br) p t = (ptp_at br p t)
     \<lparr>PRTSM_state := PRTSM_ALTERNATE_AGREED, proposed := False, agree := True\<rparr>"
  "ptp_at (PRTSM_to_ALTERNATE_PORT p t w br) p t = (ptp_at br p t)
     \<lparr>PRTSM_state := PRTSM_ALTERNATE_PORT, fdWhile := w, synced := True, rrWhile := 0, sync := False, reRoot := False\<rparr>"
  by (simp_all add: PRTSM_to_defs)

text \<open>What entering a state leaves alone: the other machines' part of every record, the selected
  role, and this machine's part of every other record.\<close>

definition PRTSM_core :: "per_tree_port_t \<Rightarrow> PRTSM_states_t \<times> port_role_t \<times> bool \<times> bool" where
  "PRTSM_core x = (PRTSM_state x, role x, learn x, forward x)"

definition PSTSM_core :: "per_tree_port_t \<Rightarrow> PSTSM_states_t \<times> bool \<times> bool \<times> br_state" where
  "PSTSM_core x = (PSTSM_state x, learning x, forwarding x, state x)"

definition sel_core :: "per_tree_port_t \<Rightarrow> port_role_t \<times> bool \<times> bool \<times> times_t \<times> times_t" where
  "sel_core x = (selectedRole x, selected x, updtInfo x, portTimes x, designatedTimes x)"

definition PRTSM_framed :: "portref \<Rightarrow> mstid \<Rightarrow> bridge_t \<Rightarrow> bridge_t \<Rightarrow> bool" where
  "PRTSM_framed p t br s' \<longleftrightarrow>
     ports s' = ports br \<and> trees s' = trees br \<and> bridge_config s' = bridge_config br
     \<and> tree_at s' = tree_at br
     \<and> (\<forall>q. BaInconsistent (port_at s' q) = BaInconsistent (port_at br q)
            \<and> deleted (port_at s' q) = deleted (port_at br q))
     \<and> (\<forall>q u. PSTSM_core (ptp_at s' q u) = PSTSM_core (ptp_at br q u)
            \<and> sel_core (ptp_at s' q u) = sel_core (ptp_at br q u)
            \<and> ((q, u) \<noteq> (p, t) \<longrightarrow> PRTSM_core (ptp_at s' q u) = PRTSM_core (ptp_at br q u)))"

lemmas PRTSM_framed_defs = PRTSM_framed_def PRTSM_core_def PSTSM_core_def sel_core_def

lemma PRTSM_frames:
  "PRTSM_framed p t br (PRTSM_to_DISABLE_PORT p t br)"
  "PRTSM_framed p t br (PRTSM_to_DISABLED_PORT p t w br)"
  "PRTSM_framed p t br (PRTSM_to_MASTER_PROPOSED p t br)"
  "PRTSM_framed p t br (PRTSM_to_MASTER_AGREED p t br)"
  "PRTSM_framed p t br (PRTSM_to_MASTER_SYNCED p t br)"
  "PRTSM_framed p t br (PRTSM_to_MASTER_RETIRED p t br)"
  "PRTSM_framed p t br (PRTSM_to_MASTER_FORWARD p t br)"
  "PRTSM_framed p t br (PRTSM_to_MASTER_LEARN p t w br)"
  "PRTSM_framed p t br (PRTSM_to_MASTER_DISCARD p t w br)"
  "PRTSM_framed p t br (PRTSM_to_MASTER_PORT p t br)"
  "PRTSM_framed p t br (PRTSM_to_ROOT_PROPOSED p t br)"
  "PRTSM_framed p t br (PRTSM_to_ROOT_AGREED p t br)"
  "PRTSM_framed p t br (PRTSM_to_ROOT_SYNCED p t br)"
  "PRTSM_framed p t br (PRTSM_to_REROOT p t br)"
  "PRTSM_framed p t br (PRTSM_to_ROOT_FORWARD p t br)"
  "PRTSM_framed p t br (PRTSM_to_ROOT_LEARN p t w br)"
  "PRTSM_framed p t br (PRTSM_to_REROOTED p t br)"
  "PRTSM_framed p t br (PRTSM_to_ROOT_PORT p t w br)"
  "PRTSM_framed p t br (PRTSM_to_DESIGNATED_PROPOSE p t br)"
  "PRTSM_framed p t br (PRTSM_to_DESIGNATED_AGREED p t br)"
  "PRTSM_framed p t br (PRTSM_to_DESIGNATED_SYNCED p t br)"
  "PRTSM_framed p t br (PRTSM_to_DESIGNATED_RETIRED p t br)"
  "PRTSM_framed p t br (PRTSM_to_DESIGNATED_FORWARD p t br)"
  "PRTSM_framed p t br (PRTSM_to_DESIGNATED_LEARN p t w br)"
  "PRTSM_framed p t br (PRTSM_to_DESIGNATED_DISCARD p t w br)"
  "PRTSM_framed p t br (PRTSM_to_DESIGNATED_PORT p t br)"
  "PRTSM_framed p t br (PRTSM_to_BLOCK_PORT p t br)"
  "PRTSM_framed p t br (PRTSM_to_BACKUP_PORT p t w br)"
  "PRTSM_framed p t br (PRTSM_to_ALTERNATE_PROPOSED p t br)"
  "PRTSM_framed p t br (PRTSM_to_ALTERNATE_AGREED p t br)"
  "PRTSM_framed p t br (PRTSM_to_ALTERNATE_PORT p t w br)"
  by (simp_all add: PRTSM_framed_defs PRTSM_to_defs)

lemma PRTSM_group_frames:
  "PRTSM_disabled d p t br = Move s' m a \<Longrightarrow> PRTSM_framed p t br s'"
  "PRTSM_master d p t br = Move s' m a \<Longrightarrow> PRTSM_framed p t br s'"
  "PRTSM_root d p t br = Move s' m a \<Longrightarrow> PRTSM_framed p t br s'"
  "PRTSM_designated d p t br = Move s' m a \<Longrightarrow> PRTSM_framed p t br s'"
  "PRTSM_alternate d p t br = Move s' m a \<Longrightarrow> PRTSM_framed p t br s'"
  unfolding PRTSM_disabled_def PRTSM_master_def PRTSM_root_def PRTSM_designated_def
    PRTSM_alternate_def Let_def
  by (simp split: if_splits; elim conjE; hypsubst?; simp add: PRTSM_frames)+

lemma PRTSM_step_framed: "PRTSM_step d p t br = Move s' m a \<Longrightarrow> PRTSM_framed p t br s'"
  by (cases "selectedRole (ptp_at br p t)"; cases "PRTSM_group (PRTSM_state (ptp_at br p t))")
    (auto simp: PRTSM_step_def PRTSM_new_role_def PRTSM_frames PRTSM_group_frames split: if_splits)

subsection \<open>Ranks\<close>

text \<open>
  How many transitions a port of each role can still make. The flags count what is left to do;
  in the designated role, information that makes the port discard (\<open>disputed\<close>, \<open>sync\<close>,
  \<open>reRoot\<close>) weighs as much as the way back through learning to forwarding.
\<close>

definition designated_work :: "bool \<Rightarrow> per_tree_port_t \<Rightarrow> nat" where
  "designated_work ba x =
     3 * of_bool (disputed x) + 3 * of_bool (reRoot x) + 3 * of_bool (\<not> synced x)
     + 3 * of_bool (sync x) + of_bool (proposed x) + of_bool (\<not> agree x)
     + of_bool (\<not> proposing x)
     + (if ba \<or> (sync x \<and> \<not> synced x) \<or> (reRoot x \<and> rrWhile x \<noteq> 0)
        then of_bool (learn x \<or> forward x) else of_bool (\<not> learn x) + of_bool (\<not> forward x))"

definition root_work :: "u32 \<Rightarrow> per_tree_port_t \<Rightarrow> nat" where
  "root_work fwd x =
     3 * of_bool (proposed x) + of_bool (sync x) + of_bool (\<not> synced x) + of_bool (\<not> agree x)
     + of_bool (\<not> learn x) + of_bool (rrWhile x \<noteq> fwd)
     + (if forward x then of_bool (reRoot x) else 2 + of_bool (\<not> reRoot x))"

definition alternate_work :: "u32 \<Rightarrow> per_tree_port_t \<Rightarrow> nat" where
  "alternate_work hello x =
     of_bool (proposed x) + of_bool (\<not> agree x)
     + of_bool (role x = roleBackup \<and> rbWhile x \<noteq> 2 * hello)"

definition PRTSM_rank_of :: "prtsm_delays \<Rightarrow> bool \<Rightarrow> per_tree_port_t \<Rightarrow> nat" where
  "PRTSM_rank_of d ba x =
     (if role_pending x then 50
      else case PRTSM_group (PRTSM_state x) of
        gDisabled \<Rightarrow>
          if PRTSM_state x = PRTSM_INIT_PORT then 4 else if PRTSM_state x = PRTSM_DISABLE_PORT then 3
          else 1 + of_bool (sync x \<or> reRoot x \<or> \<not> synced x \<or> fdWhile x \<noteq> dMaxAge d)
      | gMaster \<Rightarrow> 0
      | gRoot \<Rightarrow> 2 * root_work (dFwdDelay d) x + of_bool (PRTSM_state x \<noteq> PRTSM_ROOT_PORT)
      | gDesignated \<Rightarrow> 2 * designated_work ba x + of_bool (PRTSM_state x \<noteq> PRTSM_DESIGNATED_PORT)
      | gAlternate \<Rightarrow> 4 * alternate_work (dHelloTime d) x
          + (if PRTSM_state x \<noteq> PRTSM_ALTERNATE_PORT then 2
             else of_bool (fdWhile x \<noteq> dforwardDelay d \<or> sync x \<or> reRoot x \<or> \<not> synced x)))"

lemma PRTSM_rank_bound: "PRTSM_rank_of d ba x \<le> (if role_pending x then 50 else 35)"
proof -
  have "designated_work ba x \<le> 17" "root_work w x \<le> 11" "alternate_work w x \<le> 3" for w
    by (auto simp: designated_work_def root_work_def alternate_work_def of_bool_def)
  from this(1) this(2) [of "dFwdDelay d"] this(3) [of "dHelloTime d"] show ?thesis
    by (auto simp: PRTSM_rank_of_def of_bool_def split: prtsm_group.split)
qed

definition PRTSM_ok :: "portref \<Rightarrow> mstid \<Rightarrow> bridge_t \<Rightarrow> bool" where
  "PRTSM_ok p t br \<longleftrightarrow> PRTSM_inv (ptp_at br p t) \<and> p \<in> set (ports br)
     \<and> role (ptp_at br p t) \<noteq> roleMaster \<and> selectedRole (ptp_at br p t) \<noteq> roleMaster"

text \<open>One step of each group: its effect on the state, the role and the rank.\<close>

lemma designated_step:
  assumes "PRTSM_designated d p t br = Move s' m a" "role x = roleDesignated"
    and x: "x = ptp_at br p t"
  shows "m \<and> a \<and> PRTSM_group (PRTSM_state (ptp_at s' p t)) = gDesignated
    \<and> role (ptp_at s' p t) = roleDesignated
    \<and> 2 * designated_work (BaInconsistent (port_at br p)) (ptp_at s' p t)
        + of_bool (PRTSM_state (ptp_at s' p t) \<noteq> PRTSM_DESIGNATED_PORT)
      < 2 * designated_work (BaInconsistent (port_at br p)) x
        + of_bool (PRTSM_state x \<noteq> PRTSM_DESIGNATED_PORT)"
  using assms unfolding PRTSM_designated_def Let_def
  by (simp split: if_splits; elim conjE; hypsubst?;
      auto simp: PRTSM_own designated_work_def of_bool_def split: if_splits)

lemma root_step:
  assumes "PRTSM_root d p t br = Move s' m a" "role x = roleRoot" "p \<in> set (ports br)"
    and x: "x = ptp_at br p t"
  shows "m \<and> a \<and> PRTSM_group (PRTSM_state (ptp_at s' p t)) = gRoot
    \<and> role (ptp_at s' p t) = roleRoot
    \<and> 2 * root_work (dFwdDelay d) (ptp_at s' p t)
        + of_bool (PRTSM_state (ptp_at s' p t) \<noteq> PRTSM_ROOT_PORT)
      < 2 * root_work (dFwdDelay d) x + of_bool (PRTSM_state x \<noteq> PRTSM_ROOT_PORT)"
  using assms unfolding PRTSM_root_def Let_def
  by (simp split: if_splits; elim conjE; hypsubst?;
      auto simp: PRTSM_own root_work_def of_bool_def split: if_splits)

lemma alternate_step:
  assumes "PRTSM_alternate d p t br = Move s' m a" and x: "x = ptp_at br p t"
  shows "m \<and> a \<and> PRTSM_group (PRTSM_state (ptp_at s' p t)) = gAlternate
    \<and> role (ptp_at s' p t) = role x \<and> learn (ptp_at s' p t) = learn x
    \<and> forward (ptp_at s' p t) = forward x
    \<and> PRTSM_state (ptp_at s' p t) \<noteq> PRTSM_BLOCK_PORT
    \<and> 4 * alternate_work (dHelloTime d) (ptp_at s' p t)
        + (if PRTSM_state (ptp_at s' p t) \<noteq> PRTSM_ALTERNATE_PORT then 2
           else of_bool (fdWhile (ptp_at s' p t) \<noteq> dforwardDelay d \<or> sync (ptp_at s' p t)
             \<or> reRoot (ptp_at s' p t) \<or> \<not> synced (ptp_at s' p t)))
      < 4 * alternate_work (dHelloTime d) x
        + (if PRTSM_state x \<noteq> PRTSM_ALTERNATE_PORT then 2
           else of_bool (fdWhile x \<noteq> dforwardDelay d \<or> sync x \<or> reRoot x \<or> \<not> synced x))"
  using assms unfolding PRTSM_alternate_def Let_def
  by (simp split: if_splits; elim conjE; hypsubst?;
      auto simp: PRTSM_own alternate_work_def of_bool_def split: if_splits)

lemma disabled_step:
  assumes "PRTSM_disabled d p t br = Move s' m a" and x: "x = ptp_at br p t"
    and "role x = roleDisabled" "\<not> learn x" "\<not> forward x"
    and "PRTSM_group (PRTSM_state x) = gDisabled" "\<not> role_pending x"
  shows "m \<and> a \<and> PRTSM_group (PRTSM_state (ptp_at s' p t)) = gDisabled
    \<and> role (ptp_at s' p t) = roleDisabled
    \<and> \<not> learn (ptp_at s' p t) \<and> \<not> forward (ptp_at s' p t)
    \<and> PRTSM_rank_of d ba (ptp_at s' p t) < PRTSM_rank_of d ba x"
  using assms unfolding PRTSM_disabled_def Let_def
  by (simp split: if_splits; elim conjE; hypsubst?;
      auto simp: PRTSM_own PRTSM_rank_of_def role_pending_def of_bool_def split: if_splits)

lemma master_step:
  assumes "PRTSM_master d p t br = Move s' m a" "role x = roleMaster" and x: "x = ptp_at br p t"
  shows "m \<and> a \<and> PRTSM_group (PRTSM_state (ptp_at s' p t)) = gMaster
    \<and> role (ptp_at s' p t) = roleMaster"
  using assms unfolding PRTSM_master_def Let_def
  by (simp split: if_splits; elim conjE; hypsubst?; auto simp: PRTSM_own)


subsection \<open>The invariant is kept and the machine ends\<close>

lemma PRTSM_new_role_result:
  assumes "x' = ptp_at (PRTSM_new_role d p t br) p t" "x = ptp_at br p t"
  shows "role x' = selectedRole x" "PRTSM_inv x'" "\<not> role_pending x'"
  using assms
  by (cases "selectedRole x";
      simp add: PRTSM_new_role_def PRTSM_own PRTSM_inv_defs role_pending_def)+

lemma PRTSM_step_inv:
  assumes "PRTSM_inv (ptp_at br p t)" "p \<in> set (ports br)" "PRTSM_step d p t br = Move s' m a"
  shows "m \<and> a \<and> PRTSM_inv (ptp_at s' p t)"
proof (cases "role_pending (ptp_at br p t)")
  case True
  with assms(3) PRTSM_new_role_result [OF refl refl, of d p t br] show ?thesis
    by (auto simp: PRTSM_step_def)
next
  case False
  let ?x = "ptp_at br p t"
  show ?thesis
  proof (cases "PRTSM_group (PRTSM_state ?x)")
    case gDisabled
    with disabled_step [of d p t br s' m a ?x] False assms show ?thesis
      by (auto simp: PRTSM_step_def PRTSM_inv_defs)
  next
    case gMaster
    with master_step [of d p t br s' m a ?x] False assms show ?thesis
      by (auto simp: PRTSM_step_def PRTSM_inv_defs)
  next
    case gRoot
    with root_step [of d p t br s' m a ?x] False assms show ?thesis
      by (auto simp: PRTSM_step_def PRTSM_inv_defs)
  next
    case gDesignated
    with designated_step [of d p t br s' m a ?x] False assms show ?thesis
      by (auto simp: PRTSM_step_def PRTSM_inv_defs)
  next
    case gAlternate
    with alternate_step [of d p t br s' m a ?x] False assms show ?thesis
      by (auto simp: PRTSM_step_def PRTSM_inv_defs)
  qed
qed

definition PRTSM_rank :: "prtsm_delays \<Rightarrow> portref \<Rightarrow> mstid \<Rightarrow> bridge_t \<Rightarrow> nat" where
  "PRTSM_rank d p t br = PRTSM_rank_of d (BaInconsistent (port_at br p)) (ptp_at br p t)"

lemma PRTSM_role_kept:
  assumes "PRTSM_inv (ptp_at br p t)" "p \<in> set (ports br)" "PRTSM_step d p t br = Move s' m a"
    and "\<not> role_pending (ptp_at br p t)"
  shows "role (ptp_at s' p t) = role (ptp_at br p t)"
  using assms disabled_step [of d p t br s' m a "ptp_at br p t"]
    master_step [of d p t br s' m a "ptp_at br p t"] root_step [of d p t br s' m a "ptp_at br p t"]
    designated_step [of d p t br s' m a "ptp_at br p t"]
    alternate_step [of d p t br s' m a "ptp_at br p t"]
  by (cases "PRTSM_group (PRTSM_state (ptp_at br p t))") (auto simp: PRTSM_step_def PRTSM_inv_defs)

lemma PRTSM_step_rank:
  assumes ok: "PRTSM_ok p t br" and step: "PRTSM_step d p t br = Move s' m a"
  shows "PRTSM_rank d p t s' < PRTSM_rank d p t br"
proof (cases "role_pending (ptp_at br p t)")
  case True
  then have "\<not> role_pending (ptp_at s' p t)"
    using step PRTSM_new_role_result(3) [OF refl refl, of d p t br] by (auto simp: PRTSM_step_def)
  then have "PRTSM_rank d p t s' \<le> 35"
    using PRTSM_rank_bound [of d "BaInconsistent (port_at s' p)" "ptp_at s' p t"]
    by (simp add: PRTSM_rank_def)
  with True show ?thesis by (simp add: PRTSM_rank_def PRTSM_rank_of_def)
next
  case False
  let ?x = "ptp_at br p t" and ?x' = "ptp_at s' p t"
  have inv: "PRTSM_inv ?x" "p \<in> set (ports br)" "role ?x \<noteq> roleMaster"
    using ok by (simp_all add: PRTSM_ok_def)
  have fr: "sel_core ?x' = sel_core ?x" "BaInconsistent (port_at s' p) = BaInconsistent (port_at br p)"
    using PRTSM_step_framed [OF step] by (simp_all add: PRTSM_framed_def)
  with PRTSM_role_kept [OF inv(1,2) step False] False have np: "\<not> role_pending ?x'"
    by (simp add: role_pending_def sel_core_def)
  show ?thesis
  proof (cases "PRTSM_group (PRTSM_state ?x)")
    case gDisabled
    with disabled_step [of d p t br s' m a ?x] False step inv fr show ?thesis
      by (auto simp: PRTSM_step_def PRTSM_inv_defs PRTSM_rank_def)
  next
    case gMaster
    with inv show ?thesis by (simp add: PRTSM_inv_defs)
  next
    case gRoot
    with root_step [of d p t br s' m a ?x] False np step inv fr show ?thesis
      by (auto simp: PRTSM_step_def PRTSM_inv_defs PRTSM_rank_def PRTSM_rank_of_def)
  next
    case gDesignated
    with designated_step [of d p t br s' m a ?x] False np step inv fr show ?thesis
      by (auto simp: PRTSM_step_def PRTSM_inv_defs PRTSM_rank_def PRTSM_rank_of_def)
  next
    case gAlternate
    with alternate_step [of d p t br s' m a ?x] False np step inv fr show ?thesis
      by (simp add: PRTSM_step_def PRTSM_rank_def PRTSM_rank_of_def)
  qed
qed

lemma PRTSM_step_ok:
  assumes ok: "PRTSM_ok p t br" and step: "PRTSM_step d p t br = Move s' m a"
  shows "PRTSM_ok p t s'"
proof -
  have inv: "PRTSM_inv (ptp_at br p t)" "p \<in> set (ports br)" using ok by (simp_all add: PRTSM_ok_def)
  have fr: "sel_core (ptp_at s' p t) = sel_core (ptp_at br p t)" "ports s' = ports br"
    using PRTSM_step_framed [OF step] by (simp_all add: PRTSM_framed_def)
  have "role (ptp_at s' p t) \<in> {role (ptp_at br p t), selectedRole (ptp_at br p t)}"
  proof (cases "role_pending (ptp_at br p t)")
    case True
    with step PRTSM_new_role_result(1) [OF refl refl, of d p t br] show ?thesis
      by (auto simp: PRTSM_step_def)
  qed (use PRTSM_role_kept [OF inv step] in simp)
  with ok fr PRTSM_step_inv [OF inv step] show ?thesis
    by (auto simp: PRTSM_ok_def sel_core_def)
qed

lemma PRTSM_no_fault: "PRTSM_step d p t br \<noteq> Fault a"
  unfolding PRTSM_step_def PRTSM_disabled_def PRTSM_master_def PRTSM_root_def
    PRTSM_designated_def PRTSM_alternate_def Let_def
  by (simp only: transition.distinct simp_thms if_split [of "\<lambda>z. z \<noteq> Fault a"]
      prtsm_group.split [of "\<lambda>z. z \<noteq> Fault a"])

lemma PRTSM_step_flags: "PRTSM_ok p t br \<Longrightarrow> PRTSM_step d p t br = Move s' m a \<Longrightarrow> m \<and> a"
  using PRTSM_step_inv [of br p t d s' m a] by (simp add: PRTSM_ok_def)

interpretation prtsm: settling_machine "PRTSM_step d p t" "PRTSM_ok p t" "PRTSM_rank d p t" for d p t
proof
  fix br s' m a
  assume ok: "PRTSM_ok p t br"
  show "PRTSM_step d p t br \<noteq> Fault a" by (rule PRTSM_no_fault)
  show "PRTSM_ok p t s'" if "PRTSM_step d p t br = Move s' m a"
    using ok that by (rule PRTSM_step_ok)
  show "PRTSM_rank d p t s' < PRTSM_rank d p t br" if "PRTSM_step d p t br = Move s' True a"
    using ok that by (rule PRTSM_step_rank)
  show "s' = br \<and> \<not> m" if "PRTSM_step d p t br = Move s' m False"
    using PRTSM_step_flags [OF ok that] by simp
  show "PRTSM_step d p t s' = Stay \<or> (\<exists>m. PRTSM_step d p t s' = Move s' m False)"
    if "PRTSM_step d p t br = Move s' False a"
    using PRTSM_step_flags [OF ok that] by simp
qed

subsection \<open>A master port may never settle\<close>

text \<open>
  Clause 13.34 lets a master port learn and forward when all ports are synced even while it is to
  be retired (\<open>reRoot\<close> with \<open>rrWhile\<close> running), and then makes it discard for that same
  reason. The chain of calls goes round for ever.
\<close>

definition master_loop :: "portref \<Rightarrow> mstid \<Rightarrow> bridge_t \<Rightarrow> bool" where
  "master_loop p t br \<longleftrightarrow>
     (let x = ptp_at br p t in
      PRTSM_state x \<in> {PRTSM_MASTER_PORT, PRTSM_MASTER_LEARN, PRTSM_MASTER_FORWARD, PRTSM_MASTER_DISCARD}
      \<and> role x = roleMaster \<and> selectedRole x = roleMaster \<and> selected x \<and> \<not> updtInfo x
      \<and> reRoot x \<and> rrWhile x \<noteq> 0 \<and> synced x \<and> \<not> sync x \<and> agree x \<and> \<not> proposed x
      \<and> \<not> operEdge (port_at br p) \<and> allSynced p t br)"

lemma allSynced_cong:
  assumes "ports s' = ports br" "\<And>q. q \<noteq> p \<Longrightarrow> ptp_at s' q t = ptp_at br q t"
    and "role (ptp_at s' p t) = roleMaster" "role (ptp_at br p t) = roleMaster"
    and "sel_core (ptp_at s' p t) = sel_core (ptp_at br p t)"
  shows "allSynced p t s' = allSynced p t br"
  unfolding allSynced_def Let_def list_all_iff assms(1,3,4)
proof (intro ball_cong refl)
  fix q
  show "(selected (ptp_at s' q t) \<and> role (ptp_at s' q t) = selectedRole (ptp_at s' q t)
      \<and> \<not> updtInfo (ptp_at s' q t)
      \<and> (if roleMaster \<in> {roleRoot, roleAlternate} then role (ptp_at s' q t) = roleRoot \<or> synced (ptp_at s' q t)
         else if roleMaster \<in> {roleDesignated, roleMaster} then q = p \<or> synced (ptp_at s' q t) else False))
    = (selected (ptp_at br q t) \<and> role (ptp_at br q t) = selectedRole (ptp_at br q t)
      \<and> \<not> updtInfo (ptp_at br q t)
      \<and> (if roleMaster \<in> {roleRoot, roleAlternate} then role (ptp_at br q t) = roleRoot \<or> synced (ptp_at br q t)
         else if roleMaster \<in> {roleDesignated, roleMaster} then q = p \<or> synced (ptp_at br q t) else False))"
    using assms(2) [of q] assms(3-5) by (cases "q = p") (simp_all add: sel_core_def)
qed

lemma master_loop_step:
  assumes "master_loop p t br"
  shows "\<exists>s' a. PRTSM_step d p t br = Move s' True a \<and> master_loop p t s'"
proof -
  let ?s = "if PRTSM_state (ptp_at br p t) \<noteq> PRTSM_MASTER_PORT then PRTSM_to_MASTER_PORT p t br
    else if \<not> learn (ptp_at br p t) then PRTSM_to_MASTER_LEARN p t (dforwardDelay d) br
    else if \<not> forward (ptp_at br p t) then PRTSM_to_MASTER_FORWARD p t br
    else PRTSM_to_MASTER_DISCARD p t (dforwardDelay d) br"
  have g: "PRTSM_group (PRTSM_state (ptp_at br p t)) = gMaster"
    using assms by (auto simp: master_loop_def Let_def)
  have "PRTSM_step d p t br = Move ?s True True"
    using assms g by (simp add: master_loop_def PRTSM_step_def PRTSM_master_def role_pending_def Let_def)
  moreover have "allSynced p t ?s = allSynced p t br"
    by (rule allSynced_cong)
      (use assms in \<open>auto simp: master_loop_def PRTSM_own sel_core_def Let_def PRTSM_to_MASTER_PORT_def
        PRTSM_to_MASTER_LEARN_def PRTSM_to_MASTER_FORWARD_def PRTSM_to_MASTER_DISCARD_def\<close>)
  then have "master_loop p t ?s"
    using assms
    by (simp add: master_loop_def PRTSM_own Let_def) (simp add: PRTSM_to_MASTER_PORT_def
        PRTSM_to_MASTER_LEARN_def PRTSM_to_MASTER_FORWARD_def PRTSM_to_MASTER_DISCARD_def)
  ultimately show ?thesis by blast
qed

end
