(* ===== verification/Mstp_State_TC.thy ===== *)
theory Mstp_State_TC
  imports Mstp_PRTSM
begin

section \<open>Port state transition and topology change\<close>

text \<open>
  Clauses 13.35 and 13.36, \<open>PSTSM_*\<close> and \<open>TCSM_*\<close> of \<open>src/mstpd/src/mstp.c\<close>: the machine
  that sets the forwarding state of a port in the kernel, and the one that detects and propagates
  topology changes.
\<close>

subsection \<open>Port state transition\<close>

definition set_port_state :: "portref \<Rightarrow> mstid \<Rightarrow> br_state \<Rightarrow> bridge_t \<Rightarrow> bridge_t" where
  "set_port_state p t s br =
     (if state (ptp_at br p t) \<noteq> s \<and> \<not> deleted (port_at br p)
      then MSTP_OUT_set_state p t s br else br)"

definition PSTSM_to_DISCARDING :: "portref \<Rightarrow> mstid \<Rightarrow> bridge_t \<Rightarrow> bridge_t" where
  "PSTSM_to_DISCARDING p t br =
     (let br = upd_ptp p t (\<lambda>x. x\<lparr>PSTSM_state := PSTSM_DISCARDING\<rparr>) br;
          br = set_port_state p t BR_STATE_BLOCKING br
      in upd_ptp p t (\<lambda>x. x\<lparr>learning := False, forwarding := False\<rparr>) br)"

definition PSTSM_to_LEARNING :: "portref \<Rightarrow> mstid \<Rightarrow> bridge_t \<Rightarrow> bridge_t" where
  "PSTSM_to_LEARNING p t br =
     (let br = upd_ptp p t (\<lambda>x. x\<lparr>PSTSM_state := PSTSM_LEARNING\<rparr>) br;
          br = set_port_state p t BR_STATE_LEARNING br
      in upd_ptp p t (\<lambda>x. x\<lparr>learning := True\<rparr>) br)"

definition PSTSM_to_FORWARDING :: "portref \<Rightarrow> mstid \<Rightarrow> bridge_t \<Rightarrow> bridge_t" where
  "PSTSM_to_FORWARDING p t br =
     (let br = upd_ptp p t (\<lambda>x. x\<lparr>PSTSM_state := PSTSM_FORWARDING\<rparr>) br;
          br = set_port_state p t BR_STATE_FORWARDING br
      in upd_ptp p t (\<lambda>x. x\<lparr>forwarding := True\<rparr>) br)"

definition PSTSM_step :: "portref \<Rightarrow> mstid \<Rightarrow> bridge_t \<Rightarrow> bridge_t transition" where
  "PSTSM_step p t br =
     (let x = ptp_at br p t in
      case PSTSM_state x of
        PSTSM_DISCARDING \<Rightarrow>
          if learn x then Move (PSTSM_to_LEARNING p t br) True True else Stay
      | PSTSM_LEARNING \<Rightarrow>
          if \<not> learn x then Move (PSTSM_to_DISCARDING p t br) True True
          else if forward x then Move (PSTSM_to_FORWARDING p t br) False True
          else Stay
      | PSTSM_FORWARDING \<Rightarrow>
          if \<not> forward x then Move (PSTSM_to_DISCARDING p t br) True True else Stay)"

definition PSTSM_run ::
    "nat \<Rightarrow> portref \<Rightarrow> mstid \<Rightarrow> bridge_t \<Rightarrow> bool \<Rightarrow> (bool \<times> bridge_t) option" where
  "PSTSM_run fuel p t = sm_run (PSTSM_step p t) fuel"

subsection \<open>Topology change\<close>

definition TCSM_to_INACTIVE :: "portref \<Rightarrow> mstid \<Rightarrow> bridge_t \<Rightarrow> bridge_t" where
  "TCSM_to_INACTIVE p t br =
     (let br = upd_ptp p t (\<lambda>x. x\<lparr>TCSM_state := TCSM_INACTIVE\<rparr>) br;
          br = set_fdbFlush p t br;
          br = upd_ptp p t (\<lambda>x. x\<lparr>tcWhile := 0\<rparr>) br;
          br = set_TopologyChange t False p br
      in if t = CIST then upd_port p (\<lambda>x. x\<lparr>tcAck := False\<rparr>) br else br)"

definition TCSM_to_LEARNING_dry :: "portref \<Rightarrow> mstid \<Rightarrow> bridge_t \<Rightarrow> bool" where
  "TCSM_to_LEARNING_dry p t br =
     (let x = ptp_at br p t; prt = port_at br p in
      if TCSM_state x \<noteq> TCSM_LEARNING \<or> rcvdTc x \<or> tcProp x then True
      else if t = CIST then rcvdTcn prt \<or> rcvdTcAck prt
      else False)"

definition TCSM_to_LEARNING :: "portref \<Rightarrow> mstid \<Rightarrow> bridge_t \<Rightarrow> bridge_t" where
  "TCSM_to_LEARNING p t br =
     (let br = upd_ptp p t (\<lambda>x. x\<lparr>TCSM_state := TCSM_LEARNING\<rparr>) br;
          br = (if t = CIST
                then upd_port p (\<lambda>x. x\<lparr>rcvdTcn := False, rcvdTcAck := False\<rparr>) br else br)
      in upd_ptp p t (\<lambda>x. x\<lparr>rcvdTc := False, tcProp := False\<rparr>) br)"

definition TCSM_to_DETECTED :: "portref \<Rightarrow> mstid \<Rightarrow> bridge_t \<Rightarrow> bridge_t" where
  "TCSM_to_DETECTED p t br =
     (let br = upd_ptp p t (\<lambda>x. x\<lparr>TCSM_state := TCSM_DETECTED\<rparr>) br;
          br = newTcWhile p t br;
          br = setTcPropTree p t br
      in set_newInfoXst p t br)"

definition TCSM_to_NOTIFIED_TCN :: "portref \<Rightarrow> mstid \<Rightarrow> bridge_t \<Rightarrow> bridge_t" where
  "TCSM_to_NOTIFIED_TCN p t br =
     newTcWhile p t (upd_ptp p t (\<lambda>x. x\<lparr>TCSM_state := TCSM_NOTIFIED_TCN\<rparr>) br)"

definition TCSM_to_NOTIFIED_TC :: "portref \<Rightarrow> mstid \<Rightarrow> bridge_t \<Rightarrow> bridge_t" where
  "TCSM_to_NOTIFIED_TC p t br =
     (let br = upd_ptp p t (\<lambda>x. x\<lparr>TCSM_state := TCSM_NOTIFIED_TC, rcvdTc := False\<rparr>) br;
          br = (if t = CIST then
                  let br = upd_port p (\<lambda>x. x\<lparr>rcvdTcn := False\<rparr>) br
                  in if role (ptp_at br p t) = roleDesignated
                     then upd_port p (\<lambda>x. x\<lparr>tcAck := True\<rparr>) br else br
                else br)
      in setTcPropTree p t br)"

definition TCSM_to_PROPAGATING :: "portref \<Rightarrow> mstid \<Rightarrow> bridge_t \<Rightarrow> bridge_t" where
  "TCSM_to_PROPAGATING p t br =
     (let br = upd_ptp p t (\<lambda>x. x\<lparr>TCSM_state := TCSM_PROPAGATING\<rparr>) br;
          br = newTcWhile p t br;
          br = set_fdbFlush p t br
      in upd_ptp p t (\<lambda>x. x\<lparr>tcProp := False\<rparr>) br)"

definition TCSM_to_ACKNOWLEDGED :: "portref \<Rightarrow> mstid \<Rightarrow> bridge_t \<Rightarrow> bridge_t" where
  "TCSM_to_ACKNOWLEDGED p t br =
     (let br = upd_ptp p t (\<lambda>x. x\<lparr>TCSM_state := TCSM_ACKNOWLEDGED, tcWhile := 0\<rparr>) br;
          br = set_TopologyChange t False p br
      in upd_port p (\<lambda>x. x\<lparr>rcvdTcAck := False\<rparr>) br)"

definition TCSM_to_ACTIVE :: "portref \<Rightarrow> mstid \<Rightarrow> bridge_t \<Rightarrow> bridge_t" where
  "TCSM_to_ACTIVE p t br = upd_ptp p t (\<lambda>x. x\<lparr>TCSM_state := TCSM_ACTIVE\<rparr>) br"

definition active_port :: "per_tree_port_t \<Rightarrow> bool" where
  "active_port x \<longleftrightarrow> role x = roleRoot \<or> role x = roleDesignated \<or> role x = roleMaster"

definition TCSM_step :: "portref \<Rightarrow> mstid \<Rightarrow> bridge_t \<Rightarrow> bridge_t transition" where
  "TCSM_step p t br =
     (let x = ptp_at br p t; prt = port_at br p in
      case TCSM_state x of
        TCSM_INACTIVE \<Rightarrow>
          if learn x \<and> \<not> fdbFlush x then Move (TCSM_to_LEARNING p t br) True True else Stay
      | TCSM_LEARNING \<Rightarrow>
          if active_port x \<and> forward x \<and> \<not> operEdge prt
          then Move (TCSM_to_DETECTED p t br) True True
          else if rcvdTc x \<or> rcvdTcn prt \<or> rcvdTcAck prt \<or> tcProp x
          then Move (TCSM_to_LEARNING p t br) True (TCSM_to_LEARNING_dry p t br)
          else if \<not> active_port x \<and> \<not> (learn x \<or> learning x)
          then Move (TCSM_to_INACTIVE p t br) True True
          else Stay
      | TCSM_NOTIFIED_TCN \<Rightarrow> Move (TCSM_to_NOTIFIED_TC p t br) True True
      | TCSM_ACTIVE \<Rightarrow>
          if \<not> active_port x \<or> operEdge prt then Move (TCSM_to_LEARNING p t br) True True
          else if rcvdTcn prt then Move (TCSM_to_NOTIFIED_TCN p t br) True True
          else if rcvdTc x then Move (TCSM_to_NOTIFIED_TC p t br) True True
          else if tcProp x then Move (TCSM_to_PROPAGATING p t br) True True
          else if rcvdTcAck prt then Move (TCSM_to_ACKNOWLEDGED p t br) True True
          else Stay
      | _ \<Rightarrow> Move (TCSM_to_ACTIVE p t br) True True)"

definition TCSM_run ::
    "nat \<Rightarrow> portref \<Rightarrow> mstid \<Rightarrow> bridge_t \<Rightarrow> bool \<Rightarrow> (bool \<times> bridge_t) option" where
  "TCSM_run fuel p t = sm_run (TCSM_step p t) fuel"

subsection \<open>Port state transition ends and agrees with the kernel\<close>

text \<open>The state of the machine, the two flags and the state set in the kernel agree.\<close>

definition PSTSM_inv :: "bool \<Rightarrow> per_tree_port_t \<Rightarrow> bool" where
  "PSTSM_inv del x =
     (case PSTSM_state x of
        PSTSM_DISCARDING \<Rightarrow> \<not> learning x \<and> \<not> forwarding x \<and> (del \<or> state x = BR_STATE_BLOCKING)
      | PSTSM_LEARNING \<Rightarrow> learning x \<and> \<not> forwarding x \<and> (del \<or> state x = BR_STATE_LEARNING)
      | PSTSM_FORWARDING \<Rightarrow> learning x \<and> forwarding x \<and> (del \<or> state x = BR_STATE_FORWARDING))"

definition PSTSM_rank :: "portref \<Rightarrow> mstid \<Rightarrow> bridge_t \<Rightarrow> nat" where
  "PSTSM_rank p t br =
     (let x = ptp_at br p t in
      case PSTSM_state x of
        PSTSM_DISCARDING \<Rightarrow> 2 * of_bool (learn x) | PSTSM_LEARNING \<Rightarrow> 1 | PSTSM_FORWARDING \<Rightarrow> 3)"

lemma MSTP_OUT_set_state_ptp:
  "ptp_at (MSTP_OUT_set_state p t s br) q u =
     (if q = p \<and> u = t then (ptp_at br p t)\<lparr>state := s\<rparr> else ptp_at br q u)"
  by (cases s) (auto simp: MSTP_OUT_set_state_def Let_def)

lemma MSTP_OUT_set_state_port:
  "deleted (port_at (MSTP_OUT_set_state p t s br) q) = deleted (port_at br q)"
  by (cases s) (auto simp: MSTP_OUT_set_state_def Let_def)

lemma set_port_state_ptp:
  "ptp_at (set_port_state p t s br) q u =
     (if q = p \<and> u = t \<and> \<not> deleted (port_at br p) then (ptp_at br p t)\<lparr>state := s\<rparr>
      else ptp_at br q u)"
  by (auto simp: set_port_state_def MSTP_OUT_set_state_ptp)

lemma set_port_state_deleted [simp]:
  "deleted (port_at (set_port_state p t s br) q) = deleted (port_at br q)"
  by (simp add: set_port_state_def MSTP_OUT_set_state_port)

lemmas PSTSM_defs = PSTSM_to_DISCARDING_def PSTSM_to_LEARNING_def PSTSM_to_FORWARDING_def
  set_port_state_ptp Let_def

lemma PSTSM_step_inv:
  assumes "PSTSM_inv (deleted (port_at br p)) (ptp_at br p t)" "PSTSM_step p t br = Move s' m a"
  shows "PSTSM_inv (deleted (port_at s' p)) (ptp_at s' p t)"
  using assms
  by (cases "PSTSM_state (ptp_at br p t)")
    (auto simp: PSTSM_step_def PSTSM_inv_def PSTSM_defs split: if_splits)

lemma PSTSM_step_props:
  assumes "PSTSM_step p t br = Move s' m a"
  shows "a" "m \<Longrightarrow> PSTSM_rank p t s' < PSTSM_rank p t br" "\<not> m \<Longrightarrow> PSTSM_step p t s' = Stay"
  using assms
  by (cases "PSTSM_state (ptp_at br p t)";
      force simp: PSTSM_step_def PSTSM_rank_def PSTSM_defs split: if_splits)+

lemma PSTSM_no_fault: "PSTSM_step p t br \<noteq> Fault a"
  by (simp add: PSTSM_step_def Let_def split: PSTSM_states_t.split)

interpretation pstsm: settling_machine "PSTSM_step p t"
  "\<lambda>br. PSTSM_inv (deleted (port_at br p)) (ptp_at br p t)" "PSTSM_rank p t" for p t
  by unfold_locales (use PSTSM_step_inv PSTSM_step_props PSTSM_no_fault in metis)+


subsection \<open>Topology change\<close>

text \<open>The part of the state the guards read, and the procedures keep for the port itself.\<close>

definition tc_own :: "per_tree_port_t \<Rightarrow> (TCSM_states_t \<times> bool \<times> bool) \<times> port_role_t \<times> bool \<times> bool \<times> bool" where
  "tc_own x = ((TCSM_state x, rcvdTc x, tcProp x), role x, learn x, forward x, learning x)"

definition tc_prt :: "port_t \<Rightarrow> bool \<times> bool \<times> bool" where
  "tc_prt prt = (rcvdTcn prt, rcvdTcAck prt, operEdge prt)"

definition tc_view where
  "tc_view p t br = (tc_own (ptp_at br p t), tc_prt (port_at br p))"

lemma set_TopologyChange_ptp [simp]:
  "ptp_at (set_TopologyChange t h p br) = ptp_at br" "port_at (set_TopologyChange t h p br) = port_at br"
  "ports (set_TopologyChange t h p br) = ports br" "trees (set_TopologyChange t h p br) = trees br"
  by (simp_all add: set_TopologyChange_def Let_def)

lemma newTcWhile_view: "tc_view q u (newTcWhile p t br) = tc_view q u br"
  by (simp add: newTcWhile_def tc_view_def tc_own_def tc_prt_def set_newInfoXst_def Let_def)

lemma set_fdbFlush_view: "tc_view q u (set_fdbFlush p t br) = tc_view q u br"
  by (simp add: set_fdbFlush_def MSTP_OUT_flush_all_fids_def MSTP_OUT_set_ageing_time_def
      tc_view_def tc_own_def tc_prt_def Let_def)

lemma setTcPropTree_ports:
  "port_at (setTcPropTree p t br) = port_at br" "ports (setTcPropTree p t br) = ports br"
  "trees (setTcPropTree p t br) = trees br"
  by (simp_all add: setTcPropTree_def) (rule impI, rule fold_keeps, simp)+

lemma setTcPropTree_own: "ptp_at (setTcPropTree p t br) p u = ptp_at br p u"
  by (simp add: setTcPropTree_def) (rule impI, rule fold_keeps, simp)

lemma setTcPropTree_view: "tc_view p t (setTcPropTree p t br) = tc_view p t br"
  by (simp add: tc_view_def setTcPropTree_own setTcPropTree_ports)

lemma set_newInfoXst_tc_view: "tc_view q u (set_newInfoXst p t br) = tc_view q u br"
  by (simp add: set_newInfoXst_def tc_view_def tc_own_def tc_prt_def)

lemmas tc_views [unfolded tc_view_def tc_own_def tc_prt_def prod.inject] = newTcWhile_view
  set_fdbFlush_view setTcPropTree_view set_newInfoXst_tc_view

text \<open>What entering a state makes of the view.\<close>

lemma TCSM_own:
  assumes "tc_view p t br = (((st, rTc, tcP), ro, le, fw, lg), tcn, tack, edge)"
  shows
    "tc_view p t (TCSM_to_INACTIVE p t br) =
       (((TCSM_INACTIVE, rTc, tcP), ro, le, fw, lg), tcn, tack, edge)"
    "tc_view p t (TCSM_to_LEARNING p t br) =
       (((TCSM_LEARNING, False, False), ro, le, fw, lg), tcn \<and> t \<noteq> CIST, tack \<and> t \<noteq> CIST, edge)"
    "tc_view p t (TCSM_to_DETECTED p t br) =
       (((TCSM_DETECTED, rTc, tcP), ro, le, fw, lg), tcn, tack, edge)"
    "tc_view p t (TCSM_to_NOTIFIED_TCN p t br) =
       (((TCSM_NOTIFIED_TCN, rTc, tcP), ro, le, fw, lg), tcn, tack, edge)"
    "tc_view p t (TCSM_to_NOTIFIED_TC p t br) =
       (((TCSM_NOTIFIED_TC, False, tcP), ro, le, fw, lg), tcn \<and> t \<noteq> CIST, tack, edge)"
    "tc_view p t (TCSM_to_PROPAGATING p t br) =
       (((TCSM_PROPAGATING, rTc, False), ro, le, fw, lg), tcn, tack, edge)"
    "tc_view p t (TCSM_to_ACKNOWLEDGED p t br) =
       (((TCSM_ACKNOWLEDGED, rTc, tcP), ro, le, fw, lg), tcn, False, edge)"
    "tc_view p t (TCSM_to_ACTIVE p t br) =
       (((TCSM_ACTIVE, rTc, tcP), ro, le, fw, lg), tcn, tack, edge)"
  using assms
  by (cases "t = CIST"; simp add: TCSM_to_INACTIVE_def TCSM_to_LEARNING_def TCSM_to_DETECTED_def
      TCSM_to_NOTIFIED_TCN_def TCSM_to_NOTIFIED_TC_def TCSM_to_PROPAGATING_def
      TCSM_to_ACKNOWLEDGED_def TCSM_to_ACTIVE_def tc_view_def tc_own_def tc_prt_def tc_views Let_def)+

text \<open>
  The machine ends in the CIST, and in an MSTI as long as no TCN and no acknowledgment is pending:
  only the machine of the CIST clears those two flags of the port.
\<close>

definition TCSM_ok :: "portref \<Rightarrow> mstid \<Rightarrow> bridge_t \<Rightarrow> bool" where
  "TCSM_ok p t br \<longleftrightarrow> t = CIST \<or> \<not> rcvdTcn (port_at br p) \<and> \<not> rcvdTcAck (port_at br p)"

definition tc_active :: "port_role_t \<Rightarrow> bool" where
  "tc_active r \<longleftrightarrow> r = roleRoot \<or> r = roleDesignated \<or> r = roleMaster"

fun tc_rank :: "((TCSM_states_t \<times> bool \<times> bool) \<times> port_role_t \<times> bool \<times> bool \<times> bool)
    \<times> bool \<times> bool \<times> bool \<Rightarrow> nat" where
  "tc_rank (((st, rTc, tcP), ro, le, _, _), tcn, tack, edge) =
     (let k = of_bool rTc + of_bool tcP + of_bool tack; n = of_bool tcn;
          e = (if tc_active ro \<and> \<not> edge then 0 else 4)
      in case st of
           TCSM_INACTIVE \<Rightarrow> 3 * of_bool le
         | TCSM_LEARNING \<Rightarrow> 4 * (k + n) + 2
         | TCSM_NOTIFIED_TCN \<Rightarrow> 4 * k + e + 2
         | TCSM_ACTIVE \<Rightarrow> 4 * (k + n) + e
         | _ \<Rightarrow> 4 * (k + n) + e + 1)"

lemma tc_rank_bound: "tc_rank v < 23"
  by (cases v rule: tc_rank.cases) (simp add: Let_def split: TCSM_states_t.split)

lemma TCSM_step_view:
  assumes ok: "TCSM_ok p t br" and step: "TCSM_step p t br = Move s' m a"
    and v: "tc_view p t br = (((st, rTc, tcP), ro, le, fw, lg), tcn, tack, edge)"
  shows "m \<and> a \<and> tc_rank (tc_view p t s') < tc_rank (tc_view p t br)"
proof -
  define cist where "cist \<longleftrightarrow> t = CIST"
  note own = TCSM_own [OF v, folded cist_def]
  have sel: "TCSM_state (ptp_at br p t) = st" "rcvdTc (ptp_at br p t) = rTc"
    "tcProp (ptp_at br p t) = tcP" "active_port (ptp_at br p t) = tc_active ro"
    "learn (ptp_at br p t) = le" "forward (ptp_at br p t) = fw" "learning (ptp_at br p t) = lg"
    "rcvdTcn (port_at br p) = tcn" "rcvdTcAck (port_at br p) = tack" "operEdge (port_at br p) = edge"
    using v by (auto simp: tc_view_def tc_own_def tc_prt_def active_port_def tc_active_def)
  have c: "cist \<or> \<not> tcn \<and> \<not> tack" using ok by (simp add: TCSM_ok_def sel cist_def)
  show ?thesis
    using step c unfolding TCSM_step_def Let_def TCSM_to_LEARNING_dry_def sel v cist_def [symmetric]
    by (cases st; simp split: if_splits; elim conjE; hypsubst?; auto simp: own)
qed

lemma TCSM_step_ok:
  assumes "TCSM_ok p t br" "TCSM_step p t br = Move s' m a"
  shows "TCSM_ok p t s'"
proof -
  obtain st rTc tcP ro le fw lg tcn tack edge where
    v: "tc_view p t br = (((st, rTc, tcP), ro, le, fw, lg), tcn, tack, edge)"
    by (cases "tc_view p t br") auto
  have "tc_view p t s' = w \<Longrightarrow> TCSM_ok p t s' = (t = CIST \<or> \<not> fst (snd w) \<and> \<not> fst (snd (snd w)))" for w
    by (auto simp: TCSM_ok_def tc_view_def tc_prt_def)
  moreover have "t = CIST \<or> \<not> tcn \<and> \<not> tack"
    using assms(1) v by (auto simp: TCSM_ok_def tc_view_def tc_prt_def)
  moreover have "s' \<in> {TCSM_to_INACTIVE p t br, TCSM_to_LEARNING p t br, TCSM_to_DETECTED p t br,
      TCSM_to_NOTIFIED_TCN p t br, TCSM_to_NOTIFIED_TC p t br, TCSM_to_PROPAGATING p t br,
      TCSM_to_ACKNOWLEDGED p t br, TCSM_to_ACTIVE p t br}"
    using assms(2) by (simp add: TCSM_step_def Let_def split: TCSM_states_t.splits if_splits)
  ultimately show ?thesis using TCSM_own [OF v] by fastforce
qed

lemma TCSM_no_fault: "TCSM_step p t br \<noteq> Fault a"
  by (simp add: TCSM_step_def Let_def split: TCSM_states_t.split)

lemma TCSM_step_props:
  assumes "TCSM_ok p t br" "TCSM_step p t br = Move s' m a"
  shows "m \<and> a \<and> tc_rank (tc_view p t s') < tc_rank (tc_view p t br)"
  using TCSM_step_view [OF assms] by (metis prod.collapse)

interpretation tcsm: settling_machine "TCSM_step p t" "TCSM_ok p t" "\<lambda>br. tc_rank (tc_view p t br)"
  for p t
  by unfold_locales (use TCSM_step_ok TCSM_no_fault TCSM_step_props in blast)+

subsection \<open>A pending TCN or acknowledgment makes an MSTI's machine run for ever\<close>

definition tc_loop :: "portref \<Rightarrow> mstid \<Rightarrow> bridge_t \<Rightarrow> bool" where
  "tc_loop p t br \<longleftrightarrow>
     (let x = ptp_at br p t; prt = port_at br p in
      t \<noteq> CIST \<and>
      (TCSM_state x = TCSM_LEARNING \<and> (rcvdTcn prt \<or> rcvdTcAck prt)
         \<and> \<not> (active_port x \<and> forward x \<and> \<not> operEdge prt)
       \<or> TCSM_state x \<in> {TCSM_ACTIVE, TCSM_NOTIFIED_TCN, TCSM_NOTIFIED_TC} \<and> rcvdTcn prt
         \<and> active_port x \<and> \<not> operEdge prt))"

lemma tc_loop_step:
  assumes "tc_loop p t br"
  shows "\<exists>s' a. TCSM_step p t br = Move s' True a \<and> tc_loop p t s'"
proof -
  obtain st rTc tcP ro le fw lg tcn tack edge where
    v: "tc_view p t br = (((st, rTc, tcP), ro, le, fw, lg), tcn, tack, edge)"
    by (cases "tc_view p t br") auto
  have loop: "tc_loop p t s \<longleftrightarrow> t \<noteq> CIST \<and>
      (st = TCSM_LEARNING \<and> (tcn \<or> tack) \<and> \<not> (tc_active ro \<and> fw \<and> \<not> edge)
       \<or> st \<in> {TCSM_ACTIVE, TCSM_NOTIFIED_TCN, TCSM_NOTIFIED_TC} \<and> tcn \<and> tc_active ro \<and> \<not> edge)"
    if "tc_view p t s = (((st, rTc, tcP), ro, le, fw, lg), tcn, tack, edge)"
    for s st rTc tcP ro le fw lg tcn tack edge
    using that by (auto simp: tc_loop_def tc_view_def tc_own_def tc_prt_def active_port_def tc_active_def Let_def)
  have sel: "TCSM_state (ptp_at br p t) = st" "rcvdTc (ptp_at br p t) = rTc"
    "tcProp (ptp_at br p t) = tcP" "active_port (ptp_at br p t) = tc_active ro"
    "learn (ptp_at br p t) = le" "forward (ptp_at br p t) = fw" "learning (ptp_at br p t) = lg"
    "rcvdTcn (port_at br p) = tcn" "rcvdTcAck (port_at br p) = tack" "operEdge (port_at br p) = edge"
    using v by (auto simp: tc_view_def tc_own_def tc_prt_def active_port_def tc_active_def)
  show ?thesis
    using assms unfolding loop [OF v] TCSM_step_def Let_def sel
    by (cases st; simp add: loop [OF TCSM_own(2) [OF v]] loop [OF TCSM_own(4) [OF v]]
        loop [OF TCSM_own(5) [OF v]] loop [OF TCSM_own(8) [OF v]]; blast)
qed

end
