(* ===== verification/Mstp_Run.thy ===== *)
theory Mstp_Run
  imports Mstp_State_TC
begin

section \<open>Running all machines\<close>

text \<open>
  The end of \<open>src/mstpd/src/mstp.c\<close>: one pass over all machines of a bridge
  (\<open>__br_state_machines_run\<close>), the loop that repeats it until a dry run finds nothing to do or a
  second is over (\<open>br_state_machines_run\<close>), and the BEGIN functions. \<open>fuel\<close> bounds the
  depth of the recursion of each machine, \<open>rounds\<close> is how many more passes the clock allows.
\<close>

text \<open>A pass is a sequence of calls of the machines' run functions, in this order.\<close>

datatype job =
    JAssurance portref | JPRSM portref | JPPMSM portref | JBDSM portref | JPTSM portref
  | JPISM portref mstid | JPRSSM mstid | JPRTSM portref mstid | JPSTSM portref mstid
  | JTCSM portref mstid

definition ptps :: "bridge_t \<Rightarrow> (portref \<times> mstid) list" where
  "ptps br = concat (map (\<lambda>p. map (Pair p) (trees br)) (ports br))"

definition jobs :: "bridge_t \<Rightarrow> job list" where
  "jobs br =
     map JAssurance (ports br) @ map JPRSM (ports br) @ map JPPMSM (ports br)
     @ map JBDSM (ports br) @ map JPTSM (ports br)
     @ map (\<lambda>(p, t). JPISM p t) (ptps br) @ map JPRSSM (trees br)
     @ map (\<lambda>(p, t). JPRTSM p t) (ptps br) @ map (\<lambda>(p, t). JPSTSM p t) (ptps br)
     @ map (\<lambda>(p, t). JTCSM p t) (ptps br)"

definition assurance_step :: "portref \<Rightarrow> bridge_t \<Rightarrow> bridge_t transition" where
  "assurance_step p br =
     (let prt = port_at br p in
      if portEnabled prt \<and> assurancePort prt \<and> brAssuRcvdInfoWhile prt = 0 \<and> \<not> BaInconsistent prt
      then Move (upd_port p (\<lambda>x. x\<lparr>BaInconsistent := True\<rparr>) br) False True else Stay)"

fun run_job :: "nat \<Rightarrow> bool \<Rightarrow> job \<Rightarrow> bridge_t \<Rightarrow> (bool \<times> bridge_t) option" where
  "run_job fuel dry_run (JAssurance p) br = sm_run (assurance_step p) fuel br dry_run"
| "run_job fuel dry_run (JPRSM p) br = PRSM_run fuel p br dry_run"
| "run_job fuel dry_run (JPPMSM p) br = PPMSM_run fuel p br dry_run"
| "run_job fuel dry_run (JBDSM p) br = BDSM_run fuel p br dry_run"
| "run_job fuel dry_run (JPTSM p) br = PTSM_run fuel p br dry_run"
| "run_job fuel dry_run (JPISM p t) br = PISM_run fuel p t br dry_run"
| "run_job fuel dry_run (JPRSSM t) br = PRSSM_run fuel t br dry_run"
| "run_job fuel dry_run (JPRTSM p t) br = PRTSM_run fuel p t br dry_run"
| "run_job fuel dry_run (JPSTSM p t) br = PSTSM_run fuel p t br dry_run"
| "run_job fuel dry_run (JTCSM p t) br = TCSM_run fuel p t br dry_run"

fun foreach_run ::
    "bool \<Rightarrow> ('j \<Rightarrow> 's \<Rightarrow> (bool \<times> 's) option) \<Rightarrow> 'j list \<Rightarrow> 's \<Rightarrow> (bool \<times> 's) option" where
  "foreach_run dry_run f [] s = Some (False, s)"
| "foreach_run dry_run f (j # js) s =
     do { (b, s) \<leftarrow> f j s; if b \<and> dry_run then Some (True, s) else foreach_run dry_run f js s }"

definition br_state_machines_pass :: "nat \<Rightarrow> bridge_t \<Rightarrow> bool \<Rightarrow> (bool \<times> bridge_t) option" where
  "br_state_machines_pass fuel br dry_run =
     foreach_run dry_run (run_job fuel dry_run) (jobs br) br"

fun br_state_machines_loop :: "nat \<Rightarrow> nat \<Rightarrow> bridge_t \<Rightarrow> bridge_t option" where
  "br_state_machines_loop fuel 0 br = Some br"
| "br_state_machines_loop fuel (Suc rounds) br = do {
     (b, _) \<leftarrow> br_state_machines_pass fuel br True;
     if \<not> b then Some br
     else do {
       (_, br) \<leftarrow> br_state_machines_pass fuel br False;
       br_state_machines_loop fuel rounds br
     }
   }"

definition br_state_machines_run :: "nat \<Rightarrow> nat \<Rightarrow> bridge_t \<Rightarrow> bridge_t option" where
  "br_state_machines_run fuel rounds br =
     (if \<not> bridgeEnabled br then Some br else br_state_machines_loop fuel (Suc rounds) br)"

subsection \<open>BEGIN\<close>

definition PISM_start :: "portref \<Rightarrow> mstid \<Rightarrow> bridge_t \<Rightarrow> bridge_t" where
  "PISM_start p t br =
     PISM_to_DISABLED p t (upd_ptp p t (\<lambda>x. x\<lparr>start_time := uptime br\<rparr>) br)"

definition port_machines_start :: "portref \<Rightarrow> bridge_t \<Rightarrow> bridge_t" where
  "port_machines_start p br =
     PTSM_to_TRANSMIT_INIT p (BDSM_begin p (PPMSM_to_CHECKING_RSTP p (PRSM_to_DISCARD p br)))"

definition tree_state_machines_begin :: "nat \<Rightarrow> nat \<Rightarrow> mstid \<Rightarrow> bridge_t \<Rightarrow> bridge_t option" where
  "tree_state_machines_begin fuel rounds t br =
     (if \<not> bridgeEnabled br then Some br
      else
        let br = fold (\<lambda>p. PISM_start p t) (ports br) br;
            br = PRSSM_to_INIT_TREE t br;
            br = fold (\<lambda>p. PRTSM_to_INIT_PORT p t) (ports br) br;
            br = fold (\<lambda>p. PSTSM_to_DISCARDING p t) (ports br) br;
            br = fold (\<lambda>p. TCSM_to_INACTIVE p t) (ports br) br
        in br_state_machines_run fuel rounds br)"

definition prt_state_machines_begin :: "nat \<Rightarrow> nat \<Rightarrow> portref \<Rightarrow> bridge_t \<Rightarrow> bridge_t option" where
  "prt_state_machines_begin fuel rounds p br =
     (if \<not> bridgeEnabled br then Some br
      else do {
        let br = port_machines_start p br;
        let br = fold (PISM_start p) (trees br) br;
        br \<leftarrow> ofold (\<lambda>t br. map_option snd (PRSSM_run fuel t br False)) (trees br) br;
        let br = fold (PRTSM_to_INIT_PORT p) (trees br) br;
        let br = fold (PSTSM_to_DISCARDING p) (trees br) br;
        let br = fold (TCSM_to_INACTIVE p) (trees br) br;
        br_state_machines_run fuel rounds br
      })"

definition br_state_machines_begin :: "nat \<Rightarrow> nat \<Rightarrow> bridge_t \<Rightarrow> bridge_t option" where
  "br_state_machines_begin fuel rounds br =
     (if \<not> bridgeEnabled br then Some br
      else
        let br = fold PRSM_to_DISCARD (ports br) br;
            br = fold PPMSM_to_CHECKING_RSTP (ports br) br;
            br = fold BDSM_begin (ports br) br;
            br = fold PTSM_to_TRANSMIT_INIT (ports br) br;
            br = fold (\<lambda>(p, t). PISM_start p t) (ptps br) br;
            br = fold PRSSM_to_INIT_TREE (trees br) br;
            br = fold (\<lambda>(p, t). PRTSM_to_INIT_PORT p t) (ptps br) br;
            br = fold (\<lambda>(p, t). PSTSM_to_DISCARDING p t) (ptps br) br;
            br = fold (\<lambda>(p, t). TCSM_to_INACTIVE p t) (ptps br) br
        in br_state_machines_run fuel rounds br)"

subsection \<open>A dry run that answers no is right\<close>

text \<open>When every machine's contract holds, a negative dry run means that the actual pass would
  change nothing.\<close>

definition machines_ok :: "bridge_t \<Rightarrow> bool" where
  "machines_ok br \<longleftrightarrow> wf_bridge br \<and> Migrate_Time br \<noteq> 0
     \<and> (\<forall>p \<in> set (ports br). PTSM_ok p br)
     \<and> (\<forall>(p, t) \<in> set (ptps br). PISM_ok p t br \<and> PRTSM_ok p t br \<and> TCSM_ok p t br
          \<and> PSTSM_inv (deleted (port_at br p)) (ptp_at br p t))"

lemma foreach_run_dry:
  assumes "foreach_run True f js s = Some (False, s')"
    and "\<And>j b s'. j \<in> set js \<Longrightarrow> f j s = Some (b, s') \<Longrightarrow> s' = s"
  shows "\<forall>j \<in> set js. f j s = Some (False, s)"
  using assms
proof (induction js)
  case Nil
  then show ?case by simp
next
  case (Cons j js)
  from Cons.prems(1) obtain b s1 where 1: "f j s = Some (b, s1)" "\<not> b"
    "foreach_run True f js s1 = Some (False, s')"
    by (auto simp: bind_eq_Some_conv split: if_splits)
  from Cons.prems(2) [OF _ 1(1)] have "s1 = s" by simp
  moreover have "\<forall>j \<in> set js. f j s = Some (False, s)"
    by (rule Cons.IH) (use 1 \<open>s1 = s\<close> Cons.prems(2) in auto)
  ultimately show ?case using 1 by simp
qed

lemma foreach_run_same:
  "(\<And>j. j \<in> set js \<Longrightarrow> f j s = Some (False, s)) \<Longrightarrow> foreach_run False f js s = Some (False, s)"
  by (induction js) auto

lemma sm_run_dry_state: "sm_run step n s True = Some (b, s') \<Longrightarrow> s' = s"
  by (cases n) (auto split: transition.splits)

lemma run_job_dry_state: "run_job fuel True j br = Some (b, s') \<Longrightarrow> s' = br"
  by (cases j) (auto simp: PRSM_run_def PPMSM_run_def BDSM_run_def PTSM_run_def PISM_run_def
      PRSSM_run_def PRTSM_run_def PSTSM_run_def TCSM_run_def dest: sm_run_dry_state)

interpretation assurance: state_machine "assurance_step p" "\<lambda>_. True" "\<lambda>_. 0" for p
  by unfold_locales (auto simp: assurance_step_def Let_def split: if_splits)

lemma jobs_mem:
  "j \<in> set (jobs br) \<Longrightarrow> case j of
      JPISM p t \<Rightarrow> (p, t) \<in> set (ptps br) | JPRTSM p t \<Rightarrow> (p, t) \<in> set (ptps br)
    | JPSTSM p t \<Rightarrow> (p, t) \<in> set (ptps br) | JTCSM p t \<Rightarrow> (p, t) \<in> set (ptps br)
    | JPRSSM t \<Rightarrow> t \<in> set (trees br)
    | JAssurance p \<Rightarrow> p \<in> set (ports br) | JPRSM p \<Rightarrow> p \<in> set (ports br)
    | JPPMSM p \<Rightarrow> p \<in> set (ports br) | JBDSM p \<Rightarrow> p \<in> set (ports br)
    | JPTSM p \<Rightarrow> p \<in> set (ports br)"
  by (auto simp: jobs_def)

lemma run_job_dry_false:
  assumes ok: "machines_ok br" and j: "j \<in> set (jobs br)"
    and dry: "run_job fuel True j br = Some (False, br)"
  shows "run_job fuel False j br = Some (False, br)"
proof -
  have wf: "wf_bridge br" "Migrate_Time br \<noteq> 0" using ok by (simp_all add: machines_ok_def)
  have ptp: "PISM_ok p t br \<and> PRTSM_ok p t br \<and> TCSM_ok p t br
      \<and> PSTSM_inv (deleted (port_at br p)) (ptp_at br p t)" if "(p, t) \<in> set (ptps br)" for p t
    using ok that by (auto simp: machines_ok_def)
  have prt: "PTSM_ok p br" if "p \<in> set (ports br)" for p using ok that by (simp add: machines_ok_def)
  note run_defs = PRSM_run_def PPMSM_run_def BDSM_run_def PTSM_run_def PISM_run_def
    PRSSM_run_def PRTSM_run_def PSTSM_run_def TCSM_run_def
  from jobs_mem [OF j] dry show ?thesis
    by (cases j) (auto simp: run_defs wf prt ptp
        dest!: assurance.dry_false_unchanged [OF TrueI] prsm.dry_false_unchanged [OF TrueI]
          ppmsm.dry_false_unchanged [OF wf(2)] bdsm.dry_false_unchanged [OF TrueI]
          ptsm.dry_false_unchanged [rotated] pism.dry_false_unchanged [rotated]
          prssm.dry_false_unchanged [OF wf(1)] prtsm.dry_false_unchanged [rotated]
          pstsm.dry_false_unchanged [rotated] tcsm.dry_false_unchanged [rotated])
qed

lemma pass_dry_false:
  assumes "machines_ok br" "br_state_machines_pass fuel br True = Some (False, br')"
  shows "br_state_machines_pass fuel br False = Some (False, br)"
proof -
  have "\<forall>j \<in> set (jobs br). run_job fuel True j br = Some (False, br)"
    using assms(2) unfolding br_state_machines_pass_def
    by (rule foreach_run_dry) (rule run_job_dry_state)
  then show ?thesis
    unfolding br_state_machines_pass_def
    by (intro foreach_run_same run_job_dry_false [OF assms(1)]) auto
qed

end
