(* ===== verification/Hmac_Md5.thy ===== *)
theory Hmac_Md5
  imports Pack_Prelude
begin

section \<open>MD5 and HMAC-MD5\<close>

text \<open>
  \<open>src/mstpd/src/hmac_md5.c\<close>: MD5 over a stream of pieces (\<open>MD5Init\<close>, \<open>MD5Update\<close>,
  \<open>MD5Final\<close>) and the HMAC of RFC 2104 that the daemon uses for the digest of its MST configuration.
  \<open>UINT4\<close> is a 32-bit word. The context is the code's struct; its buffer is not initialised by
  \<open>MD5Init\<close>, and the lemmas hold for any contents. Lengths are natural numbers: the callers' are of
  type \<open>int\<close>, so that \<open>i + 63\<close> does not wrap in an \<open>unsigned int\<close>.

  The lemmas show that feeding a message in any pieces gives the digest of RFC 1321 of the whole
  message (\<open>md5\<close>), and that \<open>hmac_md5\<close> is the HMAC of RFC 2104.
\<close>

record MD5_CTX =
  md5_state :: "u32 \<times> u32 \<times> u32 \<times> u32"
  md5_count :: "u32 \<times> u32"
  md5_buffer :: "u8 list"

subsection \<open>The transformation\<close>

definition S11 :: nat where "S11 = 7"
definition S12 :: nat where "S12 = 12"
definition S13 :: nat where "S13 = 17"
definition S14 :: nat where "S14 = 22"
definition S21 :: nat where "S21 = 5"
definition S22 :: nat where "S22 = 9"
definition S23 :: nat where "S23 = 14"
definition S24 :: nat where "S24 = 20"
definition S31 :: nat where "S31 = 4"
definition S32 :: nat where "S32 = 11"
definition S33 :: nat where "S33 = 16"
definition S34 :: nat where "S34 = 23"
definition S41 :: nat where "S41 = 6"
definition S42 :: nat where "S42 = 10"
definition S43 :: nat where "S43 = 15"
definition S44 :: nat where "S44 = 21"

definition MD5_F :: "u32 \<Rightarrow> u32 \<Rightarrow> u32 \<Rightarrow> u32" where
  "MD5_F x y z = (x AND y) OR (NOT x AND z)"

definition MD5_G :: "u32 \<Rightarrow> u32 \<Rightarrow> u32 \<Rightarrow> u32" where
  "MD5_G x y z = (x AND z) OR (y AND NOT z)"

definition MD5_H :: "u32 \<Rightarrow> u32 \<Rightarrow> u32 \<Rightarrow> u32" where
  "MD5_H x y z = x XOR y XOR z"

definition MD5_I :: "u32 \<Rightarrow> u32 \<Rightarrow> u32 \<Rightarrow> u32" where
  "MD5_I x y z = y XOR (x OR NOT z)"

definition ROTATE_LEFT :: "u32 \<Rightarrow> nat \<Rightarrow> u32" where
  "ROTATE_LEFT x n = push_bit n x OR drop_bit (32 - n) x"

text \<open>The macros \<open>FF\<close>, \<open>GG\<close>, \<open>HH\<close>, \<open>II\<close> with their function as an argument: the new value of \<open>a\<close>.\<close>

definition md5_op :: "(u32 \<Rightarrow> u32 \<Rightarrow> u32 \<Rightarrow> u32) \<Rightarrow> u32 \<Rightarrow> u32 \<Rightarrow> u32 \<Rightarrow> u32 \<Rightarrow> u32 \<Rightarrow> nat \<Rightarrow> u32 \<Rightarrow> u32" where
  "md5_op f a b c d x s ac = ROTATE_LEFT (a + (f b c d + x + ac)) s + b"

text \<open>
  The 64 calls of the macros: the index into \<open>x\<close>, the shift and the constant. From one call to the
  next the arguments rotate, \<open>a b c d\<close>, \<open>d a b c\<close>, \<open>c d a b\<close>, \<open>b c d a\<close>: the tuple
  is rotated instead.
\<close>

definition md5_round :: "(u32 \<Rightarrow> u32 \<Rightarrow> u32 \<Rightarrow> u32) \<Rightarrow> (nat \<times> nat \<times> u32) list \<Rightarrow> u32 list \<Rightarrow>
    u32 \<times> u32 \<times> u32 \<times> u32 \<Rightarrow> u32 \<times> u32 \<times> u32 \<times> u32" where
  "md5_round f ops x = fold (\<lambda>(k, s, ac) (a, b, c, d). (d, md5_op f a b c d (x ! k) s ac, b, c)) ops"

definition FF_ops :: "(nat \<times> nat \<times> u32) list" where
  "FF_ops =
     [(0, S11, 0xd76aa478), (1, S12, 0xe8c7b756), (2, S13, 0x242070db), (3, S14, 0xc1bdceee),
      (4, S11, 0xf57c0faf), (5, S12, 0x4787c62a), (6, S13, 0xa8304613), (7, S14, 0xfd469501),
      (8, S11, 0x698098d8), (9, S12, 0x8b44f7af), (10, S13, 0xffff5bb1), (11, S14, 0x895cd7be),
      (12, S11, 0x6b901122), (13, S12, 0xfd987193), (14, S13, 0xa679438e), (15, S14, 0x49b40821)]"

definition GG_ops :: "(nat \<times> nat \<times> u32) list" where
  "GG_ops =
     [(1, S21, 0xf61e2562), (6, S22, 0xc040b340), (11, S23, 0x265e5a51), (0, S24, 0xe9b6c7aa),
      (5, S21, 0xd62f105d), (10, S22, 0x2441453), (15, S23, 0xd8a1e681), (4, S24, 0xe7d3fbc8),
      (9, S21, 0x21e1cde6), (14, S22, 0xc33707d6), (3, S23, 0xf4d50d87), (8, S24, 0x455a14ed),
      (13, S21, 0xa9e3e905), (2, S22, 0xfcefa3f8), (7, S23, 0x676f02d9), (12, S24, 0x8d2a4c8a)]"

definition HH_ops :: "(nat \<times> nat \<times> u32) list" where
  "HH_ops =
     [(5, S31, 0xfffa3942), (8, S32, 0x8771f681), (11, S33, 0x6d9d6122), (14, S34, 0xfde5380c),
      (1, S31, 0xa4beea44), (4, S32, 0x4bdecfa9), (7, S33, 0xf6bb4b60), (10, S34, 0xbebfbc70),
      (13, S31, 0x289b7ec6), (0, S32, 0xeaa127fa), (3, S33, 0xd4ef3085), (6, S34, 0x4881d05),
      (9, S31, 0xd9d4d039), (12, S32, 0xe6db99e5), (15, S33, 0x1fa27cf8), (2, S34, 0xc4ac5665)]"

definition II_ops :: "(nat \<times> nat \<times> u32) list" where
  "II_ops =
     [(0, S41, 0xf4292244), (7, S42, 0x432aff97), (14, S43, 0xab9423a7), (5, S44, 0xfc93a039),
      (12, S41, 0x655b59c3), (3, S42, 0x8f0ccc92), (10, S43, 0xffeff47d), (1, S44, 0x85845dd1),
      (8, S41, 0x6fa87e4f), (15, S42, 0xfe2ce6e0), (6, S43, 0xa3014314), (13, S44, 0x4e0811a1),
      (4, S41, 0xf7537e82), (11, S42, 0xbd3af235), (2, S43, 0x2ad7d2bb), (9, S44, 0xeb86d391)]"

definition Encode :: "u32 list \<Rightarrow> u8 list" where
  "Encode xs = concat (map (\<lambda>w. [ucast (w AND 0xff), ucast (drop_bit 8 w AND 0xff),
     ucast (drop_bit 16 w AND 0xff), ucast (drop_bit 24 w AND 0xff)]) xs)"

fun Decode :: "u8 list \<Rightarrow> u32 list" where
  "Decode (b0 # b1 # b2 # b3 # bs) =
     (ucast b0 OR push_bit 8 (ucast b1) OR push_bit 16 (ucast b2) OR push_bit 24 (ucast b3)) # Decode bs"
| "Decode _ = []"

definition MD5Transform :: "u32 \<times> u32 \<times> u32 \<times> u32 \<Rightarrow> u8 list \<Rightarrow> u32 \<times> u32 \<times> u32 \<times> u32" where
  "MD5Transform st block =
     (let x = Decode block;
          (a, b, c, d) = md5_round MD5_I II_ops x (md5_round MD5_H HH_ops x
            (md5_round MD5_G GG_ops x (md5_round MD5_F FF_ops x st)));
          (s0, s1, s2, s3) = st
      in (s0 + a, s1 + b, s2 + c, s3 + d))"

subsection \<open>The stream functions\<close>

definition MD5Init :: "MD5_CTX \<Rightarrow> MD5_CTX" where
  "MD5Init ctx = ctx\<lparr>md5_count := (0, 0),
     md5_state := (0x67452301, 0xefcdab89, 0x98badcfe, 0x10325476)\<rparr>"

text \<open>\<open>memcpy\<close> into a buffer from index \<open>k\<close> on.\<close>

definition memcpy_at :: "u8 list \<Rightarrow> nat \<Rightarrow> u8 list \<Rightarrow> u8 list" where
  "memcpy_at buf k xs = take k buf @ xs @ drop (k + length xs) buf"

text \<open>The loop over whole blocks; \<open>input\<close> is the rest from index \<open>i\<close> on.\<close>

function md5_blocks :: "u32 \<times> u32 \<times> u32 \<times> u32 \<Rightarrow> u8 list \<Rightarrow> (u32 \<times> u32 \<times> u32 \<times> u32) \<times> u8 list" where
  "md5_blocks st input =
     (if length input < 64 then (st, input)
      else md5_blocks (MD5Transform st (take 64 input)) (drop 64 input))"
  by pat_completeness auto
termination by (relation "measure (\<lambda>(st, input). length input)") auto

declare md5_blocks.simps [simp del]

definition md5_index :: "MD5_CTX \<Rightarrow> nat" where
  "md5_index ctx = unat (drop_bit 3 (fst (md5_count ctx)) AND 0x3F)"

definition MD5Update :: "MD5_CTX \<Rightarrow> u8 list \<Rightarrow> MD5_CTX" where
  "MD5Update ctx input =
     (let index = md5_index ctx;
          len = of_nat (length input) :: u32;
          (count0, count1) = md5_count ctx;
          lo = count0 + push_bit 3 len;
          hi = (if lo < push_bit 3 len then count1 + 1 else count1) + drop_bit 29 len;
          ctx = ctx\<lparr>md5_count := (lo, hi)\<rparr>;
          partLen = 64 - index
      in if partLen \<le> length input then
           let buf = memcpy_at (md5_buffer ctx) index (take partLen input);
               (st, rest) = md5_blocks (MD5Transform (md5_state ctx) buf) (drop partLen input)
           in ctx\<lparr>md5_state := st, md5_buffer := memcpy_at buf 0 rest\<rparr>
         else ctx\<lparr>md5_buffer := memcpy_at (md5_buffer ctx) index input\<rparr>)"

definition PADDING :: "u8 list" where
  "PADDING = 0x80 # replicate 63 0"

definition MD5Final :: "MD5_CTX \<Rightarrow> u8 list" where
  "MD5Final ctx =
     (let bits = Encode [fst (md5_count ctx), snd (md5_count ctx)];
          index = md5_index ctx;
          padLen = (if index < 56 then 56 - index else 120 - index);
          ctx = MD5Update ctx (take padLen PADDING);
          ctx = MD5Update ctx bits;
          (a, b, c, d) = md5_state ctx
      in Encode [a, b, c, d])"

text \<open>The contents of the stack before \<open>MD5Init\<close>.\<close>

definition fresh_ctx :: MD5_CTX where
  "fresh_ctx = \<lparr>md5_state = (0, 0, 0, 0), md5_count = (0, 0), md5_buffer = replicate 64 0\<rparr>"

definition hmac_md5 :: "u8 list \<Rightarrow> u8 list \<Rightarrow> u8 list" where
  "hmac_md5 text key =
     (let key = (if 64 < length key then MD5Final (MD5Update (MD5Init fresh_ctx) key) else key);
          padded = key @ replicate (64 - length key) 0;
          k_ipad = map (\<lambda>b. b XOR 0x36) padded;
          k_opad = map (\<lambda>b. b XOR 0x5c) padded;
          inner = MD5Final (MD5Update (MD5Update (MD5Init fresh_ctx) k_ipad) text)
      in MD5Final (MD5Update (MD5Update (MD5Init fresh_ctx) k_opad) inner))"

subsection \<open>The specification\<close>

text \<open>RFC 1321: the message, one bit, zeros up to 56 octets modulo 64, and the length in bits as
  64-bit number, lowest octet first; the blocks in their order; the state, lowest octets first.\<close>

definition chunks :: "u8 list \<Rightarrow> u8 list list" where
  "chunks xs = map (\<lambda>i. take 64 (drop (64 * i) xs)) [0 ..< length xs div 64]"

definition md5_initial :: "u32 \<times> u32 \<times> u32 \<times> u32" where
  "md5_initial = (0x67452301, 0xefcdab89, 0x98badcfe, 0x10325476)"

definition md5_absorb :: "u8 list \<Rightarrow> u32 \<times> u32 \<times> u32 \<times> u32 \<Rightarrow> u32 \<times> u32 \<times> u32 \<times> u32" where
  "md5_absorb xs st = fold (\<lambda>block st. MD5Transform st block) (chunks xs) st"

definition le_bytes :: "nat \<Rightarrow> nat \<Rightarrow> u8 list" where
  "le_bytes k n = map (\<lambda>i. of_nat (n div 256 ^ i)) [0 ..< k]"

definition md5_pad :: "nat \<Rightarrow> u8 list" where
  "md5_pad n = 0x80 # replicate ((if n mod 64 < 56 then 55 else 119) - n mod 64) 0 @ le_bytes 8 (8 * n)"

definition md5 :: "u8 list \<Rightarrow> u8 list" where
  "md5 m = (case md5_absorb (m @ md5_pad (length m)) md5_initial of (a, b, c, d) \<Rightarrow> Encode [a, b, c, d])"

definition hmac_spec :: "u8 list \<Rightarrow> u8 list \<Rightarrow> u8 list" where
  "hmac_spec text key =
     (let k = (if 64 < length key then md5 key else key);
          K = k @ replicate (64 - length k) 0
      in md5 (map (\<lambda>b. b XOR 0x5c) K @ md5 (map (\<lambda>b. b XOR 0x36) K @ text)))"

subsection \<open>Blocks\<close>

lemma chunks_short: "length xs < 64 \<Longrightarrow> chunks xs = []"
  by (simp add: chunks_def)

lemma chunks_block:
  assumes "64 \<le> length xs"
  shows "chunks xs = take 64 xs # chunks (drop 64 xs)"
proof -
  obtain n where n: "length xs div 64 = Suc n" using assms by (cases "length xs div 64") auto
  moreover have "(length xs - 64) div 64 = n" using n assms by (simp add: div_if)
  ultimately show ?thesis
    by (simp add: chunks_def upt_conv_Cons map_Suc_upt [symmetric] add.commute del: upt_Suc)
qed

lemma md5_absorb_short: "length xs < 64 \<Longrightarrow> md5_absorb xs st = st"
  by (simp add: md5_absorb_def chunks_short)

lemma md5_absorb_block:
  "length b = 64 \<Longrightarrow> md5_absorb (b @ xs) st = md5_absorb xs (MD5Transform st b)"
  by (simp add: md5_absorb_def chunks_block)

lemma md5_absorb_append:
  assumes "length xs mod 64 = 0"
  shows "md5_absorb (xs @ ys) st = md5_absorb ys (md5_absorb xs st)"
  using assms
proof (induction "length xs" arbitrary: xs st rule: less_induct)
  case less
  show ?case
  proof (cases "xs = []")
    case False
    then have "0 < length xs" by simp
    with less.prems have l: "64 \<le> length xs" by (metis mod_less not_less less_numeral_extra(3))
    then have "md5_absorb (drop 64 xs @ ys) st' = md5_absorb ys (md5_absorb (drop 64 xs) st')" for st'
      using less.prems by (intro less.hyps) (auto simp: mod_if)
    moreover have "xs = take 64 xs @ drop 64 xs" "length (take 64 xs) = 64" using l by simp_all
    ultimately show ?thesis using md5_absorb_block by (metis append_assoc)
  qed (simp add: md5_absorb_short)
qed

lemma md5_blocks_absorb:
  "md5_blocks st xs = (md5_absorb xs st, drop (64 * (length xs div 64)) xs)"
proof (induction st xs rule: md5_blocks.induct)
  case (1 st xs)
  show ?case
  proof (cases "length xs < 64")
    case True
    then show ?thesis by (simp add: md5_blocks.simps [of st] md5_absorb_short)
  next
    case False
    have "md5_absorb xs st = md5_absorb (drop 64 xs) (MD5Transform st (take 64 xs))"
      using md5_absorb_block [of "take 64 xs" "drop 64 xs" st] False by simp
    moreover have "drop (64 * ((length xs - 64) div 64)) (drop 64 xs) = drop (64 * (length xs div 64)) xs"
      using False by (simp add: le_div_geq add.commute)
    ultimately show ?thesis using 1 [OF False] False by (simp add: md5_blocks.simps [of st])
  qed
qed

subsection \<open>The context stands for the message so far\<close>

definition md5_rep :: "MD5_CTX \<Rightarrow> u8 list \<Rightarrow> bool" where
  "md5_rep ctx m \<longleftrightarrow> md5_state ctx = md5_absorb m md5_initial
     \<and> md5_count ctx = (of_nat (8 * length m), of_nat (8 * length m div 2 ^ 32))
     \<and> length (md5_buffer ctx) = 64
     \<and> take (length m mod 64) (md5_buffer ctx) = drop (64 * (length m div 64)) m"

lemma carry_div:
  fixes a b W :: nat
  assumes "0 < W"
  shows "(a + b) div W = a div W + b div W + (if (a + b) mod W < b mod W then 1 else 0)"
proof -
  have m: "a mod W < W" "b mod W < W" using assms by simp_all
  have sum: "(a + b) mod W = (a mod W + b mod W) mod W" "(a + b) div W = a div W + b div W + (a mod W + b mod W) div W"
    by (rule mod_add_eq [symmetric], rule div_add1_eq)
  show ?thesis
  proof (cases "a mod W + b mod W < W")
    case True
    then show ?thesis unfolding sum by simp
  next
    case False
    moreover have "a mod W + b mod W - W < W" using m by linarith
    ultimately have "(a mod W + b mod W) mod W = a mod W + b mod W - W" "(a mod W + b mod W) div W = 1"
      using assms by (simp_all add: le_mod_geq le_div_geq)
    moreover have "a mod W + b mod W - W < b mod W" using m False by linarith
    ultimately show ?thesis unfolding sum by simp
  qed
qed

lemma unat_word32: "unat (of_nat k :: u32) = k mod 2 ^ 32"
  using unat_of_nat [where 'a = 32, of k] by simp

lemma md5_count_update:
  fixes L n :: nat
  assumes "n < 2 ^ 32"
  defines "len \<equiv> of_nat n :: u32" and "lo \<equiv> of_nat (8 * L) + push_bit 3 (of_nat n :: u32)"
  shows "lo = of_nat (8 * (L + n))"
    and "(if lo < push_bit 3 len then of_nat (8 * L div 2 ^ 32) + 1 else of_nat (8 * L div 2 ^ 32))
      + drop_bit 29 len = of_nat (8 * (L + n) div 2 ^ 32)"
proof -
  have p: "push_bit 3 len = of_nat (8 * n)" by (simp add: len_def push_bit_eq_mult)
  show lo: "lo = of_nat (8 * (L + n))" using p by (simp add: lo_def len_def distrib_left)
  have carry: "lo < push_bit 3 len \<longleftrightarrow> (8 * L + 8 * n) mod 2 ^ 32 < 8 * n mod 2 ^ 32"
    unfolding lo p word_less_nat_alt unat_word32 distrib_left ..
  have "unat len = n" using assms(1) by (simp add: len_def unat_word32)
  then have "unat (drop_bit 29 len) = n div 2 ^ 29"
    by (simp only: unat_drop_bit_eq drop_bit_nat_def)
  moreover have "8 * n div 2 ^ 32 = n div 2 ^ 29" by simp
  moreover have "n div 2 ^ 29 < 2 ^ 32" using assms(1) by (simp add: less_mult_imp_div_less)
  ultimately have "unat (drop_bit 29 len) = unat (of_nat (8 * n div 2 ^ 32) :: u32)"
    by (simp add: unat_word32)
  then have d: "drop_bit 29 len = of_nat (8 * n div 2 ^ 32)" by (rule unsigned_word_eqI)
  show "(if lo < push_bit 3 len then of_nat (8 * L div 2 ^ 32) + 1 else of_nat (8 * L div 2 ^ 32))
      + drop_bit 29 len = of_nat (8 * (L + n) div 2 ^ 32)"
    unfolding carry d using carry_div [of "2 ^ 32" "8 * L" "8 * n"] by (simp add: distrib_left)
qed

lemma index_word: "unat (drop_bit 3 (w :: u32) AND 0x3F) = unat w div 8 mod 64"
proof -
  have "(0x3F :: u32) = mask 6" by (simp add: mask_eq_exp_minus_1)
  then have "drop_bit 3 w AND 0x3F = take_bit 6 (drop_bit 3 w)" by (simp add: take_bit_eq_mask)
  then have "unat (drop_bit 3 w AND 0x3F) = take_bit 6 (drop_bit 3 (unat w))"
    by (simp only: unsigned_take_bit_eq unat_drop_bit_eq)
  then show ?thesis by (simp add: take_bit_nat_def drop_bit_nat_def)
qed

lemma md5_index_rep: "md5_rep ctx m \<Longrightarrow> md5_index ctx = length m mod 64"
proof -
  assume "md5_rep ctx m"
  then have c: "fst (md5_count ctx) = of_nat (8 * length m)" by (simp add: md5_rep_def)
  have "md5_index ctx = 8 * length m mod 2 ^ 32 div 8 mod 64"
    unfolding md5_index_def c index_word unat_word32 ..
  also have "8 * length m mod 2 ^ 32 = 8 * (length m mod 2 ^ 29)" by (simp add: mult_mod_right)
  finally show ?thesis by (simp add: mod_mod_cancel)
qed

subsection \<open>Updating\<close>

lemma mod_eq_minus: "(n :: nat) mod k = n - k * (n div k)"
  using minus_mult_div_eq_mod [of n k] by simp

lemma memcpy_at_start:
  "length xs \<le> length buf \<Longrightarrow>
     length (memcpy_at buf 0 xs) = length buf \<and> take (length xs) (memcpy_at buf 0 xs) = xs"
  by (simp add: memcpy_at_def)

lemma MD5Init_rep: "length (md5_buffer ctx) = 64 \<Longrightarrow> md5_rep (MD5Init ctx) []"
  by (simp add: md5_rep_def MD5Init_def md5_initial_def md5_absorb_short)

lemma MD5Update_counts:
  "md5_count (MD5Update ctx input) =
     (let len = of_nat (length input); (c0, c1) = md5_count ctx; lo = c0 + push_bit 3 len
      in (lo, (if lo < push_bit 3 len then c1 + 1 else c1) + drop_bit 29 len))"
  by (simp add: MD5Update_def Let_def split_beta)

lemma MD5Update_count:
  assumes "md5_rep ctx m" "length input < 2 ^ 32"
  shows "md5_count (MD5Update ctx input) =
    (of_nat (8 * length (m @ input)), of_nat (8 * length (m @ input) div 2 ^ 32))"
proof -
  have c: "md5_count ctx = (of_nat (8 * length m), of_nat (8 * length m div 2 ^ 32))"
    using assms(1) by (simp add: md5_rep_def)
  show ?thesis
    unfolding MD5Update_counts c Let_def prod.case length_append prod.inject
    by (intro conjI md5_count_update [OF assms(2)])
qed

lemma MD5Update_rep:
  assumes rep: "md5_rep ctx m" and len: "length input < 2 ^ 32"
  shows "md5_rep (MD5Update ctx input) (m @ input)"
proof -
  define k where "k = length m mod 64"
  define q where "q = length m div 64"
  define full where "full = take (64 * q) m"
  define part where "part = drop (64 * q) m"
  have m: "m = full @ part" and lf: "length full = 64 * q" and lp: "length part = k" and k: "k < 64"
    by (simp_all add: full_def part_def k_def q_def mod_eq_minus)
  then have lm: "length m = 64 * q + k" by simp
  have idx: "md5_index ctx = k" using md5_index_rep [OF rep] by (simp add: k_def)
  have buf: "length (md5_buffer ctx) = 64" "take k (md5_buffer ctx) = part"
    and st: "md5_state ctx = md5_absorb m md5_initial"
    using rep by (simp_all add: md5_rep_def k_def q_def part_def)
  have absorb: "md5_absorb (full @ xs) s = md5_absorb xs (md5_absorb full s)" for xs s
    by (rule md5_absorb_append) (simp add: lf)
  have sf: "md5_state ctx = md5_absorb full md5_initial"
    using st absorb [of part md5_initial] lp k by (simp add: m md5_absorb_short)
  note count = MD5Update_count [OF rep len]
  show ?thesis
  proof (cases "64 - k \<le> length input")
    case False
    then have kn: "k + length input < 64" by simp
    let ?b = "md5_buffer (MD5Update ctx input)"
    have upd: "md5_state (MD5Update ctx input) = md5_state ctx" "?b = memcpy_at (md5_buffer ctx) k input"
      using False by (simp_all add: MD5Update_def Let_def split_beta idx)
    have "length (m @ input) = 64 * q + (k + length input)" by (simp add: lm)
    then have "length (m @ input) div 64 = q" "length (m @ input) mod 64 = k + length input"
      using kn by (simp_all only: div_mult_self4 mod_mult_self4 div_less mod_less add_0_right)
    moreover have "drop (64 * q) (m @ input) = part @ input" by (simp add: part_def lm)
    moreover have "take (k + length input) ?b = part @ input" "length ?b = 64"
      using kn buf by (simp_all add: upd memcpy_at_def lp)
    moreover have "md5_absorb (m @ input) md5_initial = md5_absorb full md5_initial"
      using absorb [of "part @ input" md5_initial] kn by (simp add: m lp md5_absorb_short)
    ultimately show ?thesis by (simp only: md5_rep_def count upd(1) sf simp_thms)
  next
    case True
    let ?h = "64 - k"
    let ?r = "drop ?h input"
    let ?blk = "part @ take ?h input"
    have lb: "length ?blk = 64" using True k lp by simp
    have mc: "memcpy_at (md5_buffer ctx) k (take ?h input) = ?blk"
      using True k buf by (simp add: memcpy_at_def)
    have "m @ input = full @ ?blk @ ?r" by (simp add: m)
    then have ab: "md5_absorb (m @ input) md5_initial = md5_absorb ?r (MD5Transform (md5_state ctx) ?blk)"
      by (simp only: absorb md5_absorb_block [OF lb] sf)
    let ?rest = "drop (64 * (length ?r div 64)) ?r"
    have upd: "md5_state (MD5Update ctx input) = md5_absorb ?r (MD5Transform (md5_state ctx) ?blk)"
      "md5_buffer (MD5Update ctx input) = memcpy_at ?blk 0 ?rest"
      using True by (simp_all add: MD5Update_def Let_def split_beta idx md5_blocks_absorb mc)
    have lt: "length (m @ input) = 64 * (q + 1) + length ?r" using True k by (simp add: lm)
    then have dm: "length (m @ input) div 64 = q + 1 + length ?r div 64" "length (m @ input) mod 64 = length ?r mod 64"
      by (simp_all only: div_mult_self4 mod_mult_self4 zero_neq_numeral not_False_eq_True)
    have lr: "length ?rest = length ?r mod 64" by (simp only: length_drop mod_eq_minus [of _ 64])
    have "drop (64 * (q + 1)) (m @ input) = ?r" using True k by (simp add: lm)
    then have "drop (64 * (length ?r div 64) + 64 * (q + 1)) (m @ input) = ?rest"
      by (simp only: drop_drop [symmetric])
    then have "drop (64 * (q + 1 + length ?r div 64)) (m @ input) = ?rest"
      by (simp only: distrib_left add.commute add.left_commute)
    moreover have "length (memcpy_at ?blk 0 ?rest) = 64" "take (length ?r mod 64) (memcpy_at ?blk 0 ?rest) = ?rest"
      using memcpy_at_start [of ?rest ?blk] lb lr by (simp_all del: length_drop length_append)
    ultimately show ?thesis by (simp only: md5_rep_def count upd ab dm simp_thms)
  qed
qed

subsection \<open>Octets and words\<close>

lemma ff_mask: "(0xff :: u32) = mask 8"
  by (simp add: mask_eq_exp_minus_1)

lemma Encode_Cons: "Encode (w # ws) = [ucast (w AND 0xff), ucast (drop_bit 8 w AND 0xff),
     ucast (drop_bit 16 w AND 0xff), ucast (drop_bit 24 w AND 0xff)] @ Encode ws"
  by (simp add: Encode_def)

lemma Decode_Encode: "Decode (Encode ws) = ws"
proof (induction ws)
  case (Cons w ws)
  have "ucast (ucast (w AND 0xff) :: u8) OR push_bit 8 (ucast (ucast (drop_bit 8 w AND 0xff) :: u8)) OR
        push_bit 16 (ucast (ucast (drop_bit 16 w AND 0xff) :: u8)) OR
        push_bit 24 (ucast (ucast (drop_bit 24 w AND 0xff) :: u8)) = w" (is "?v = w")
  proof (rule bit_word_eqI)
    fix n assume "n < LENGTH(32)"
    then consider "n < 8" | "8 \<le> n" "n < 16" | "16 \<le> n" "n < 24" | "24 \<le> n" "n < 32"
      by (simp add: not_le [symmetric]) linarith
    then show "bit ?v n = bit w n" by cases (auto simp: ff_mask bit_simps)
  qed
  with Cons show ?case by (simp add: Encode_Cons)
qed (simp add: Encode_def)

lemma Encode_Decode: "length bs mod 4 = 0 \<Longrightarrow> Encode (Decode bs) = bs"
proof (induction bs rule: Decode.induct)
  case (1 b0 b1 b2 b3 bs)
  let ?w = "ucast b0 OR push_bit 8 (ucast b1) OR push_bit 16 (ucast b2) OR push_bit 24 (ucast b3) :: u32"
  have "ucast (?w AND 0xff) = b0" "ucast (drop_bit 8 ?w AND 0xff) = b1"
    "ucast (drop_bit 16 ?w AND 0xff) = b2" "ucast (drop_bit 24 ?w AND 0xff) = b3"
    by (rule bit_word_eqI; auto simp: ff_mask bit_simps dest: bit_imp_le_length)+
  with 1 show ?case by (simp add: Encode_Cons)
qed (simp_all add: Encode_def)

subsection \<open>Finishing\<close>

lemma octet_of_nat:
  assumes "k + 8 \<le> 32"
  shows "(ucast (drop_bit k (of_nat n :: u32) AND 0xff) :: u8) = of_nat (n div 2 ^ k)"
proof (rule bit_word_eqI)
  fix j assume j: "j < LENGTH(8)"
  have "bit (of_nat (n div 2 ^ k) :: u8) j \<longleftrightarrow> bit n (k + j)"
    using j by (simp add: bit_simps flip: drop_bit_nat_def)
  moreover have "bit (ucast (drop_bit k (of_nat n :: u32) AND 0xff) :: u8) j \<longleftrightarrow> bit n (k + j)"
    using j assms by (auto simp: ff_mask bit_simps)
  ultimately show "bit (ucast (drop_bit k (of_nat n :: u32) AND 0xff) :: u8) j =
      bit (of_nat (n div 2 ^ k) :: u8) j" by simp
qed

lemma Encode_bytes: "Encode [of_nat n, of_nat (n div 2 ^ 32)] = le_bytes 8 n"
proof -
  have o: "(ucast ((of_nat x :: u32) AND 0xff) :: u8) = of_nat x" for x :: nat
    using octet_of_nat [of 0 x] by simp
  show ?thesis
    using octet_of_nat [of 8] octet_of_nat [of 16] octet_of_nat [of 24]
    by (simp add: Encode_def le_bytes_def o upt_rec flip: div_mult2_eq)
qed

lemma MD5Update_pieces:
  "md5_rep ctx m \<Longrightarrow> \<forall>p \<in> set ps. length p < 2 ^ 32 \<Longrightarrow>
     md5_rep (fold (\<lambda>p c. MD5Update c p) ps ctx) (m @ concat ps)"
  by (induction ps arbitrary: ctx m) (auto dest: MD5Update_rep simp flip: append_assoc)

lemma MD5Final_rep:
  assumes rep: "md5_rep ctx m"
  shows "MD5Final ctx = md5 m"
proof -
  let ?i = "length m mod 64"
  let ?padLen = "if ?i < 56 then 56 - ?i else 120 - ?i"
  let ?pad = "take ?padLen PADDING"
  let ?bits = "le_bytes 8 (8 * length m)"
  have i: "md5_index ctx = ?i" by (rule md5_index_rep [OF rep])
  have bits: "Encode [fst (md5_count ctx), snd (md5_count ctx)] = ?bits"
    using rep by (simp only: md5_rep_def fst_conv snd_conv Encode_bytes)
  have "?i < 64" by simp
  then have pad: "?pad @ ?bits = md5_pad (length m)"
    by (auto simp: md5_pad_def PADDING_def take_Cons' min_def)
  have "length ?pad < 2 ^ 32" "length ?bits < 2 ^ 32" by (simp_all add: PADDING_def le_bytes_def)
  then have "md5_rep (MD5Update (MD5Update ctx ?pad) ?bits) (m @ md5_pad (length m))"
    using MD5Update_rep rep by (metis append_assoc pad)
  then show ?thesis by (simp add: MD5Final_def md5_def i bits md5_rep_def Let_def)
qed

lemma Encode_length [simp]: "length (Encode ws) = 4 * length ws"
  by (induction ws) (simp_all add: Encode_def)

lemma md5_length [simp]: "length (md5 m) = 16"
  by (simp add: md5_def split: prod.split)

lemma md5_pieces:
  assumes "length (md5_buffer ctx) = 64" "\<forall>p \<in> set ps. length p < 2 ^ 32"
  shows "MD5Final (fold (\<lambda>p c. MD5Update c p) ps (MD5Init ctx)) = md5 (concat ps)"
  using MD5Final_rep [OF MD5Update_pieces [OF MD5Init_rep [OF assms(1)] assms(2)]] by simp

lemma md5_two:
  assumes "length xs < 2 ^ 32" "length ys < 2 ^ 32"
  shows "MD5Final (MD5Update (MD5Update (MD5Init fresh_ctx) xs) ys) = md5 (xs @ ys)"
    and "MD5Final (MD5Update (MD5Init fresh_ctx) xs) = md5 xs"
  using md5_pieces [of fresh_ctx "[xs, ys]"] md5_pieces [of fresh_ctx "[xs]"] assms
  by (simp_all add: fresh_ctx_def)

lemma hmac_md5_spec:
  assumes "length text < 2 ^ 32" "length key < 2 ^ 32"
  shows "hmac_md5 text key = hmac_spec text key"
proof -
  define k where "k = (if 64 < length key then md5 key else key)"
  have k: "length k \<le> 64" by (simp add: k_def)
  have "hmac_md5 text key = (let padded = k @ replicate (64 - length k) 0;
          inner = MD5Final (MD5Update (MD5Update (MD5Init fresh_ctx) (map (\<lambda>b. b XOR 0x36) padded)) text)
      in MD5Final (MD5Update (MD5Update (MD5Init fresh_ctx) (map (\<lambda>b. b XOR 0x5c) padded)) inner))"
    by (simp only: hmac_md5_def Let_def md5_two(2) [OF assms(2) assms(2)] k_def)
  then show ?thesis
    using k assms by (simp add: Let_def md5_two(1) hmac_spec_def flip: k_def)
qed

text \<open>The test vector \<open>abc\<close> of RFC 1321: the constants of the 64 steps are those of the standard.\<close>

lemma md5_pad_3: "md5_pad 3 = 0x80 # replicate 52 0 @ [24, 0, 0, 0, 0, 0, 0, 0]"
  by (simp add: md5_pad_def le_bytes_def upt_rec)

lemma MD5Transform_abc:
  "MD5Transform md5_initial (0x61 # 0x62 # 0x63 # 0x80 # replicate 52 0 @ [24, 0, 0, 0, 0, 0, 0, 0]) =
     (0x98500190, 0xb04fd23c, 0x7d3f96d6, 0x727fe128)"
  by code_simp

lemma md5_abc:
  "md5 [0x61, 0x62, 0x63] =
     [0x90, 0x01, 0x50, 0x98, 0x3c, 0xd2, 0x4f, 0xb0, 0xd6, 0x96, 0x3f, 0x7d, 0x28, 0xe1, 0x7f, 0x72]"
proof -
  let ?b = "0x61 # 0x62 # 0x63 # 0x80 # replicate 52 0 @ [24, 0, 0, 0, 0, 0, 0, 0] :: u8 list"
  have "md5_absorb ?b md5_initial = MD5Transform md5_initial ?b"
    using md5_absorb_block [of ?b "[]" md5_initial] by (simp add: md5_absorb_short)
  then have "md5_absorb ([0x61, 0x62, 0x63] @ md5_pad 3) md5_initial =
      (0x98500190, 0xb04fd23c, 0x7d3f96d6, 0x727fe128)"
    unfolding MD5Transform_abc md5_pad_3 append.simps .
  then show ?thesis by (simp add: md5_def Encode_def numeral_3_eq_3)
qed

subsection \<open>The properties\<close>

text \<open>C37: MD5 of a message that arrives in any pieces (each shorter than \<open>2 ^ 31\<close> octets, the range of the
  callers' \<open>int\<close> lengths), from
  any earlier contents of the buffer, is the digest of RFC 1321 of the whole message: the buffering of
  \<open>MD5Update\<close>, its 64-bit count of bits with the carry between the two words, and the padding of
  \<open>MD5Final\<close> are right.\<close>

theorem md5_any_pieces:
  assumes "length (md5_buffer ctx) = 64" "\<forall>p \<in> set ps. length p < 2 ^ 31"
  shows "MD5Final (fold (\<lambda>p c. MD5Update c p) ps (MD5Init ctx)) = md5 (concat ps)"
proof (rule md5_pieces [OF assms(1)])
  show "\<forall>p \<in> set ps. length p < 2 ^ 32" using assms(2) by fastforce
qed

theorem md5_any_pieces_witness:
  "MD5Final (fold (\<lambda>p c. MD5Update c p) [[0x61], [], [0x62, 0x63]] (MD5Init fresh_ctx)) =
     [0x90, 0x01, 0x50, 0x98, 0x3c, 0xd2, 0x4f, 0xb0, 0xd6, 0x96, 0x3f, 0x7d, 0x28, 0xe1, 0x7f, 0x72]"
  using md5_any_pieces [of fresh_ctx "[[0x61], [], [0x62, 0x63]]"] md5_abc by (simp add: fresh_ctx_def)

text \<open>C38: \<open>hmac_md5\<close> computes the HMAC of RFC 2104 over MD5, for keys of up to 64 octets and
  for longer ones, which are hashed first.\<close>

theorem hmac_md5_correct:
  assumes "length text < 2 ^ 31" "length key < 2 ^ 31"
  shows "hmac_md5 text key = hmac_spec text key \<and> length (hmac_md5 text key) = 16"
  using hmac_md5_spec [of "text" key] assms by (simp add: hmac_spec_def Let_def)

theorem hmac_md5_correct_witness:
  "hmac_md5 [1, 2, 3] (replicate 65 7) = hmac_spec [1, 2, 3] (replicate 65 7)
     \<and> length (hmac_md5 [1, 2, 3] (replicate 65 7)) = 16"
  by (rule hmac_md5_correct) simp_all

text \<open>\<open>Encode\<close> and \<open>Decode\<close> are inverse to each other on words and on octet strings whose
  length is a multiple of four.\<close>

theorem Encode_Decode_inverse:
  "Decode (Encode ws) = ws \<and> (length bs mod 4 = 0 \<longrightarrow> Encode (Decode bs) = bs)"
  by (simp add: Decode_Encode Encode_Decode)

theorem Encode_Decode_inverse_witness:
  "Decode (Encode [0x12345678]) = [0x12345678] \<and> Encode (Decode [1, 2, 3, 4]) = [1, 2, 3, 4]"
  using Encode_Decode_inverse [of "[0x12345678]" "[1, 2, 3, 4]"] by simp

end
