(* ===== verification/Mstp_Events.thy ===== *)
theory Mstp_Events
  imports Mstp_Run Hmac_Md5
begin

section \<open>External events\<close>

text \<open>
  The functions \<open>MSTP_IN_*\<close> of \<open>src/mstpd/src/mstp.c\<close> by which the rest of the daemon drives a
  bridge: creation and deletion of ports and trees, link changes, the one-second tick, received
  BPDUs and management. Memory allocation succeeds. A \<open>bool\<close> or \<open>int\<close> result of the code is the
  first component of the result; the option is the one of the state machines.
\<close>

subsection \<open>Zeroed objects and defaults\<close>

definition zero_vector :: port_priority_vector_t where
  "zero_vector = \<lparr>RRootID = blank_bid, IntRootPathCost = 0, DesignatedBridgeID = blank_bid,
     DesignatedPortID = 0, RootID = blank_bid, ExtRootPathCost = 0\<rparr>"

definition zero_times :: times_t where
  "zero_times = \<lparr>remainingHops = 0, Forward_Delay = 0, Max_Age = 0, Message_Age = 0, Hello_Time = 0\<rparr>"

definition zero_tree :: tree_t where
  "zero_tree = \<lparr>BridgeIdentifier = blank_bid, rootPortId = 0, rootPriority = zero_vector,
     BridgePriority = zero_vector, BridgeTimes = zero_times, rootTimes = zero_times,
     time_since_topology_change = 0, topology_change_count = 0, topology_change = False,
     topology_change_port = '''', last_topology_change_port = '''',
     PRSSM_state = PRSSM_INIT_TREE\<rparr>"

definition zero_ptp :: per_tree_port_t where
  "zero_ptp = \<lparr>state = BR_STATE_DISABLED, fdWhile = 0, rrWhile = 0, rbWhile = 0, tcWhile = 0,
     rcvdInfoWhile = 0, agree = False, agreed = False, disputed = False, forward = False,
     forwarding = False, learn = False, learning = False, rcvdInfo = OtherInfo,
     infoIs = ioDisabled, proposed = False, proposing = False, rcvdMsg = False, rcvdTc = False,
     reRoot = False, reselect = False, selected = False, fdbFlush = False, tcProp = False,
     updtInfo = False, sync = False, synced = False, portId = 0, role = roleDisabled,
     selectedRole = roleDisabled, designatedPriority = zero_vector, msgPriority = zero_vector,
     portPriority = zero_vector, designatedTimes = zero_times, msgTimes = zero_times,
     portTimes = zero_times, master = False, mastered = False, InternalPortPathCost = 0,
     AdminInternalPortPathCost = 0, start_time = 0, PISM_state = PISM_DISABLED,
     PRTSM_state = PRTSM_INIT_PORT, PSTSM_state = PSTSM_DISCARDING, TCSM_state = TCSM_INACTIVE,
     calledFromFlushRoutine = False, rcvdMstiConfig = None\<rparr>"

definition vid2mstid_image :: "bridge_t \<Rightarrow> u8 list" where
  "vid2mstid_image br =
     be_bytes 2 (0 :: u16)
     @ concat (map (\<lambda>vid. be_bytes 2 (fid2mstid br (unat (vid2fid br vid)))) [1 ..< MAX_VID + 1])
     @ be_bytes 2 (0 :: u16)"

lemma vid2mstid_image_length: "length (vid2mstid_image br) = 8192"
  by (simp add: vid2mstid_image_def be_bytes_def length_concat comp_def MAX_VID_def sum_list_triv)

definition HMAC_KEY :: "u8 list" where
  "HMAC_KEY = [0x13, 0xAC, 0x06, 0xA6, 0x2E, 0x47, 0xFD, 0x51,
               0xF9, 0x5D, 0x2B, 0xA2, 0x43, 0xCD, 0x03, 0x46]"

definition RecalcConfigDigest :: "bridge_t \<Rightarrow> bridge_t" where
  "RecalcConfigDigest br =
     br\<lparr>MstConfigId := (MstConfigId br)\<lparr>configuration_digest := hmac_md5 (vid2mstid_image br) HMAC_KEY\<rparr>\<rparr>"

definition bridge_default_internal_vars :: "bridge_t \<Rightarrow> bridge_t" where
  "bridge_default_internal_vars br = br\<lparr>uptime := 0\<rparr>"

definition tree_default_internal_vars :: "tree_t \<Rightarrow> tree_t" where
  "tree_default_internal_vars x =
     x\<lparr>time_since_topology_change := 0, topology_change_count := 0, topology_change := False,
       topology_change_port := ''None'', last_topology_change_port := ''None''\<rparr>"

definition port_default_internal_vars :: "port_t \<Rightarrow> port_t" where
  "port_default_internal_vars x =
     x\<lparr>infoInternal := False, rcvdInternal := False, rcvdTcAck := False, rcvdTcn := False,
       rapidAgeingWhile := 0, brAssuRcvdInfoWhile := 0, BaInconsistent := False,
       num_rx_bpdu_filtered := 0, num_rx_bpdu := 0, num_rx_tcn := 0, num_tx_bpdu := 0,
       num_tx_tcn := 0, num_trans_fwd := 0, num_trans_blk := 0\<rparr>"

definition ptp_default_internal_vars :: "per_tree_port_t \<Rightarrow> per_tree_port_t" where
  "ptp_default_internal_vars x =
     x\<lparr>rcvdTc := False, tcProp := False, updtInfo := False, master := False, disputed := False,
       rcvdInfo := OtherInfo, mastered := False, msgPriority := zero_vector,
       msgTimes := zero_times\<rparr>"

definition bridge_vector :: "bridge_identifier_t \<Rightarrow> port_priority_vector_t \<Rightarrow> port_priority_vector_t" where
  "bridge_vector bid v = v\<lparr>RootID := bid, RRootID := bid, DesignatedBridgeID := bid\<rparr>"

definition create_tree :: "bridge_t \<Rightarrow> 48 word \<Rightarrow> mstid \<Rightarrow> tree_t" where
  "create_tree br macaddr t =
     (let bid = \<lparr>bi_priority = 0x8000 OR t, bi_mac = macaddr\<rparr>
      in tree_default_internal_vars (zero_tree\<lparr>BridgeIdentifier := bid,
           BridgePriority := bridge_vector bid zero_vector,
           BridgeTimes := \<lparr>remainingHops = br_MaxHops br, Forward_Delay = br_Forward_Delay br,
             Max_Age = br_Max_Age br, Message_Age = 0, Hello_Time = br_Hello_Time br\<rparr>\<rparr>))"

definition create_ptp :: "tree_t \<Rightarrow> port_t \<Rightarrow> per_tree_port_t" where
  "create_ptp tree prt =
     ptp_default_internal_vars (zero_ptp\<lparr>state := BR_STATE_DISABLED,
       portId := 0x8000 OR port_number prt, AdminInternalPortPathCost := 0,
       InternalPortPathCost := compute_pcost (speed prt),
       portPriority := BridgePriority tree, portTimes := BridgeTimes tree,
       calledFromFlushRoutine := False\<rparr>)"

subsection \<open>Bridges and ports\<close>

definition hex_digit :: "nat \<Rightarrow> u8" where
  "hex_digit n = of_nat (if n < 10 then 48 + n else 55 + n)"

definition hex_name :: "48 word \<Rightarrow> u8 list" where
  "hex_name mac =
     concat (map (\<lambda>b. [hex_digit (unat b div 16), hex_digit (unat b mod 16)]) (be_bytes 6 mac))"

text \<open>The struct comes zeroed from \<open>calloc\<close>; \<open>port_at\<close>, \<open>tree_at\<close>, \<open>ptp_at\<close> are the memory.\<close>

definition MSTP_IN_bridge_create ::
    "48 word \<Rightarrow> bridge_t \<Rightarrow> bridge_t" where
  "MSTP_IN_bridge_create macaddr br =
     (let br = br\<lparr>ports := [], trees := [], bridgeEnabled := False, vid2fid := (\<lambda>_. 0),
            fid2mstid := (\<lambda>_. 0),
            MstConfigId := \<lparr>selector = 0, configuration_name = hex_name macaddr @ replicate 20 0,
              revision_level = 0, configuration_digest = replicate 16 0\<rparr>\<rparr>;
          br = RecalcConfigDigest br;
          br = br\<lparr>ForceProtocolVersion := protoRSTP, br_MaxHops := 20, br_Forward_Delay := 15,
            br_Max_Age := 20, Transmit_Hold_Count := 6, Migrate_Time := 3, Ageing_Time := 300,
            br_Hello_Time := 2\<rparr>;
          br = bridge_default_internal_vars br;
          br = upd_tree 0 (\<lambda>_. create_tree br macaddr 0) br
      in br\<lparr>trees := trees br @ [0]\<rparr>)"

definition init_port :: "u16 \<Rightarrow> port_t \<Rightarrow> port_t" where
  "init_port portno x =
     port_default_internal_vars (x\<lparr>port_number := portno, AdminExternalPortPathCost := 0,
       AdminP2P := p2pAuto, operPointToPointMAC := False, portEnabled := False,
       restrictedRole := False, restrictedTcn := False, ExternalPortPathCost := MAX_PATH_COST,
       AdminEdgePort := False, AutoEdge := True, BpduGuardPort := False, BpduGuardError := False,
       NetworkPort := False, dontTxmtBpdu := False, bpduFilterPort := False, deleted := False\<rparr>)"

definition MSTP_IN_port_create_and_add_tail ::
    "nat \<Rightarrow> nat \<Rightarrow> portref \<Rightarrow> u16 \<Rightarrow> bridge_t \<Rightarrow> bridge_t option" where
  "MSTP_IN_port_create_and_add_tail fuel rounds p portno br =
     (let br = upd_port p (init_port portno) br;
          br = fold (\<lambda>t br. upd_ptp p t (\<lambda>_. create_ptp (tree_at br t) (port_at br p)) br)
                 (trees br) br;
          br = br\<lparr>ports := ports br @ [p]\<rparr>
      in prt_state_machines_begin fuel rounds p br)"

definition MSTP_IN_delete_port :: "nat \<Rightarrow> nat \<Rightarrow> portref \<Rightarrow> bridge_t \<Rightarrow> bridge_t option" where
  "MSTP_IN_delete_port fuel rounds p br = do {
     let br = upd_port p (\<lambda>x. x\<lparr>deleted := True\<rparr>) br;
     br \<leftarrow> (if portEnabled (port_at br p)
            then br_state_machines_run fuel rounds (upd_port p (\<lambda>x. x\<lparr>portEnabled := False\<rparr>) br)
            else Some br);
     br_state_machines_run fuel rounds (br\<lparr>ports := remove1 p (ports br)\<rparr>)
   }"

definition MSTP_IN_delete_bridge :: "nat \<Rightarrow> nat \<Rightarrow> bridge_t \<Rightarrow> bridge_t option" where
  "MSTP_IN_delete_bridge fuel rounds br = do {
     let br = br\<lparr>bridgeEnabled := False\<rparr>;
     br \<leftarrow> ofold (MSTP_IN_delete_port fuel rounds) (ports br) br;
     Some (br\<lparr>trees := []\<rparr>)
   }"

definition set_tree_address :: "48 word \<Rightarrow> mstid \<Rightarrow> bridge_t \<Rightarrow> bridge_t" where
  "set_tree_address macaddr t br =
     upd_tree t (\<lambda>x.
       let bid = (BridgeIdentifier x)\<lparr>bi_mac := macaddr\<rparr>
       in x\<lparr>BridgeIdentifier := bid, BridgePriority := bridge_vector bid (BridgePriority x)\<rparr>) br"

definition MSTP_IN_set_bridge_address ::
    "nat \<Rightarrow> nat \<Rightarrow> 48 word \<Rightarrow> bridge_t \<Rightarrow> bridge_t option" where
  "MSTP_IN_set_bridge_address fuel rounds macaddr br =
     (let differs = (\<lambda>br t. bi_mac (BridgeIdentifier (tree_at br t)) \<noteq> macaddr);
          changed = list_ex (differs br) (trees br);
          br = fold (\<lambda>t br. if differs br t then set_tree_address macaddr t br else br) (trees br) br
      in if changed then br_state_machines_begin fuel rounds br else Some br)"

definition reset_ptp :: "portref \<Rightarrow> mstid \<Rightarrow> bridge_t \<Rightarrow> bridge_t" where
  "reset_ptp p t br =
     (let br = (if state (ptp_at br p t) \<noteq> BR_STATE_DISABLED
                then MSTP_OUT_set_state p t BR_STATE_DISABLED br else br)
      in upd_ptp p t ptp_default_internal_vars br)"

definition reset_port :: "portref \<Rightarrow> bridge_t \<Rightarrow> bridge_t" where
  "reset_port p br =
     (let br = (if rapidAgeingWhile (port_at br p) \<noteq> 0
                then MSTP_OUT_set_ageing_time (Ageing_Time br) br else br);
          br = upd_port p port_default_internal_vars br
      in fold (reset_ptp p) (trees br) br)"

definition MSTP_IN_set_bridge_enable :: "nat \<Rightarrow> nat \<Rightarrow> bool \<Rightarrow> bridge_t \<Rightarrow> bridge_t option" where
  "MSTP_IN_set_bridge_enable fuel rounds up br =
     (if bridgeEnabled br = up then Some br
      else
        let br = br\<lparr>bridgeEnabled := up\<rparr>;
            br = bridge_default_internal_vars br;
            br = fold (\<lambda>t. upd_tree t tree_default_internal_vars) (trees br) br;
            br = fold reset_port (ports br) br
        in br_state_machines_begin fuel rounds br)"

definition admin_or_auto :: "u32 \<Rightarrow> u32 \<Rightarrow> u32" where
  "admin_or_auto admin auto_cost = (if admin = 0 then auto_cost else admin)"

definition p2p_state :: "admin_p2p_t \<Rightarrow> int \<Rightarrow> bool" where
  "p2p_state a dplx =
     (case a of p2pForceTrue \<Rightarrow> True | p2pForceFalse \<Rightarrow> False | p2pAuto \<Rightarrow> dplx \<noteq> 0)"

definition MSTP_IN_set_port_enable ::
    "nat \<Rightarrow> nat \<Rightarrow> portref \<Rightarrow> bool \<Rightarrow> int \<Rightarrow> int \<Rightarrow> bridge_t \<Rightarrow> bridge_t option" where
  "MSTP_IN_set_port_enable fuel rounds p up spd dplx br =
     (let prt = port_at br p in
      if up then
        let pcost = compute_pcost spd;
            newExt = admin_or_auto (AdminExternalPortPathCost prt) pcost;
            newInt = (\<lambda>x. admin_or_auto (AdminInternalPortPathCost x) pcost);
            new_p2p = p2p_state (AdminP2P prt) dplx;
            changed = (ExternalPortPathCost prt \<noteq> newExt
              \<or> list_ex (\<lambda>t. InternalPortPathCost (ptp_at br p t) \<noteq> newInt (ptp_at br p t)) (trees br)
              \<or> operPointToPointMAC prt \<noteq> new_p2p \<or> \<not> portEnabled prt);
            br = upd_port p (\<lambda>x. x\<lparr>ExternalPortPathCost := newExt, operPointToPointMAC := new_p2p\<rparr>) br;
            br = foreach_ptp_in_port p (\<lambda>x. x\<lparr>InternalPortPathCost := newInt x\<rparr>) br;
            br = (if \<not> portEnabled prt then
                    let br = upd_port p (\<lambda>x. x\<lparr>portEnabled := True, BpduGuardError := False,
                          BaInconsistent := False, num_rx_bpdu_filtered := 0, num_rx_bpdu := 0,
                          num_rx_tcn := 0, num_tx_bpdu := 0, num_tx_tcn := 0\<rparr>) br
                    in updtbrAssuRcvdInfoWhile p br
                  else br)
        in if changed then br_state_machines_run fuel rounds br else Some br
      else if portEnabled prt
      then br_state_machines_run fuel rounds (upd_port p (\<lambda>x. x\<lparr>portEnabled := False\<rparr>) br)
      else Some br)"

definition tick_port :: "portref \<Rightarrow> bridge_t \<Rightarrow> bridge_t" where
  "tick_port p br =
     (let br = PTSM_tick p br in
      if rapidAgeingWhile (port_at br p) \<noteq> 0 then
        let br = upd_port p (\<lambda>x. x\<lparr>rapidAgeingWhile := rapidAgeingWhile x - 1\<rparr>) br
        in if rapidAgeingWhile (port_at br p) = 0 \<and> \<not> deleted (port_at br p)
           then MSTP_OUT_set_ageing_time (Ageing_Time br) br else br
      else br)"

definition MSTP_IN_one_second :: "nat \<Rightarrow> nat \<Rightarrow> bridge_t \<Rightarrow> bridge_t option" where
  "MSTP_IN_one_second fuel rounds br =
     (let br = br\<lparr>uptime := uptime br + 1\<rparr> in
      if \<not> bridgeEnabled br then Some br
      else
        let br = fold (\<lambda>t. upd_tree t (\<lambda>x. if topology_change x then x
                 else x\<lparr>time_since_topology_change := time_since_topology_change x + 1\<rparr>))
               (trees br) br;
            br = fold tick_port (ports br) br
        in br_state_machines_run fuel rounds br)"

definition MSTP_IN_all_fids_flushed ::
    "nat \<Rightarrow> nat \<Rightarrow> portref \<Rightarrow> mstid \<Rightarrow> bridge_t \<Rightarrow> bridge_t option" where
  "MSTP_IN_all_fids_flushed fuel rounds p t br =
     (let br = upd_ptp p t (\<lambda>x. x\<lparr>fdbFlush := False\<rparr>) br in
      if \<not> bridgeEnabled br then Some br
      else if calledFromFlushRoutine (ptp_at br p t) then Some br
      else do {
        (_, br) \<leftarrow> TCSM_run fuel p t br False;
        br_state_machines_run fuel rounds br
      })"


subsection \<open>Received BPDUs\<close>

text \<open>
  The validation of 14.4: \<open>None\<close> when it fails, otherwise the protocol version the BPDU is taken
  for and, for an MST BPDU, the number of MSTI messages. \<open>size\<close> is compared with the
  \<open>size_t\<close> constants as an unsigned number.
\<close>

definition rx_validate :: "bpdu_t \<Rightarrow> u32 \<Rightarrow> (u8 \<times> nat option) option" where
  "rx_validate b sz =
     (if sz < TCN_BPDU_SIZE \<or> protocolIdentifier b \<noteq> 0 then None
      else if bpduType b = bpduTypeTCN then Some (proto_num protoSTP, None)
      else if bpduType b = bpduTypeConfig then
        if sz < CONFIG_BPDU_SIZE then None else Some (proto_num protoSTP, None)
      else if bpduType b = bpduTypeRST then
        if protocolVersion b = proto_num protoRSTP then
          if sz < RST_BPDU_SIZE then None else Some (proto_num protoRSTP, None)
        else if protocolVersion b < proto_num protoMSTP then None
        else if sz < CONFIG_BPDU_SIZE then None
        else
          let mstis_size = int (unat (version3_len b)) - int (unat MST_BPDU_VER3LEN_WO_MSTI_MSGS);
              msg_size = int (unat sizeof_msti_configuration_message)
          in if sz < MST_BPDU_SIZE_WO_MSTI_MSGS \<or> version1_len b \<noteq> 0 \<or> mstis_size < 0
                \<or> int MAX_STANDARD_MSTIS * msg_size < mstis_size \<or> mstis_size mod msg_size \<noteq> 0
             then Some (proto_num protoRSTP, None)
             else Some (proto_num protoMSTP, Some (nat (mstis_size div msg_size)))
      else None)"

definition accept_bpdu :: "u8 \<Rightarrow> nat option \<Rightarrow> bpdu_t \<Rightarrow> port_t \<Rightarrow> port_t" where
  "accept_bpdu version num b x =
     (let b = b\<lparr>protocolVersion := version\<rparr>;
          x = (case num of None \<Rightarrow> x | Some n \<Rightarrow> x\<lparr>rcvdBpduNumOfMstis := n\<rparr>);
          tcn = (if version = proto_num protoSTP \<and> bpduType b = bpduTypeTCN then True
                 else bit (flags b) offsetTc);
          x = (if tcn then x\<lparr>num_rx_tcn := num_rx_tcn x + 1\<rparr> else x)
      in x\<lparr>rcvdBpduData := b, rcvdBpdu := True, BaInconsistent := False\<rparr>)"

definition MSTP_IN_rx_bpdu ::
    "nat \<Rightarrow> nat \<Rightarrow> portref \<Rightarrow> bpdu_t \<Rightarrow> u32 \<Rightarrow> bridge_t \<Rightarrow> bridge_t option" where
  "MSTP_IN_rx_bpdu fuel rounds p b sz br =
     (let br = upd_port p (\<lambda>x. x\<lparr>num_rx_bpdu := num_rx_bpdu x + 1\<rparr>) br; prt = port_at br p in
      if BpduGuardPort prt
      then Some (MSTP_OUT_shutdown_port p (upd_port p (\<lambda>x. x\<lparr>BpduGuardError := True\<rparr>) br))
      else if bpduFilterPort prt
      then Some (upd_port p (\<lambda>x. x\<lparr>num_rx_bpdu_filtered := num_rx_bpdu_filtered x + 1\<rparr>) br)
      else if \<not> bridgeEnabled br then Some br
      else if rcvdBpdu prt then Some br
      else case rx_validate b sz of
        None \<Rightarrow> Some br
      | Some (version, num) \<Rightarrow>
          let br = upd_port p (accept_bpdu version num b) br;
              br = updtbrAssuRcvdInfoWhile p br
          in br_state_machines_run fuel rounds br)"

subsection \<open>Management of the bridge\<close>

text \<open>A member of a configuration struct that has a \<open>set_\<close> flag is an option.\<close>

record CIST_BridgeConfig =
  cfg_bridge_max_age :: "u8 option"
  cfg_bridge_forward_delay :: "u8 option"
  cfg_protocol_version :: "int option"
  cfg_tx_hold_count :: "u32 option"
  cfg_max_hops :: "u8 option"
  cfg_bridge_hello_time :: "u8 option"
  cfg_bridge_ageing_time :: "u32 option"

definition proto_of_int :: "int \<Rightarrow> protocol_version_t option" where
  "proto_of_int v = (if v = 0 then Some protoSTP else if v = 2 then Some protoRSTP
     else if v = 3 then Some protoMSTP else None)"

definition in_range :: "'a::len word \<Rightarrow> 'a word \<Rightarrow> 'a word option \<Rightarrow> bool" where
  "in_range lo hi v = (case v of None \<Rightarrow> True | Some x \<Rightarrow> lo \<le> x \<and> x \<le> hi)"

definition cist_bridge_config_valid :: "CIST_BridgeConfig \<Rightarrow> bridge_t \<Rightarrow> bool" where
  "cist_bridge_config_valid cfg br =
     (let new_max_age = case_option (br_Max_Age br) id (cfg_bridge_max_age cfg);
          new_forward_delay = case_option (br_Forward_Delay br) id (cfg_bridge_forward_delay cfg)
      in in_range 6 40 (cfg_bridge_max_age cfg)
         \<and> in_range 4 30 (cfg_bridge_forward_delay cfg)
         \<and> (cfg_bridge_max_age cfg \<noteq> None \<or> cfg_bridge_forward_delay cfg \<noteq> None \<longrightarrow>
              \<not> 2 * (int (unat new_forward_delay) - 1) < int (unat new_max_age))
         \<and> (case cfg_protocol_version cfg of None \<Rightarrow> True | Some v \<Rightarrow> proto_of_int v \<noteq> None)
         \<and> in_range 1 10 (cfg_tx_hold_count cfg) \<and> in_range 6 40 (cfg_max_hops cfg)
         \<and> in_range 1 10 (cfg_bridge_hello_time cfg)
         \<and> in_range 10 1000000 (cfg_bridge_ageing_time cfg))"

text \<open>The assignments, with the three flags \<open>changed\<close>, \<open>changedBridgeTimes\<close> and \<open>init\<close>.\<close>

definition set_protocol_version :: "int option \<Rightarrow> bridge_t \<Rightarrow> bool \<times> bridge_t" where
  "set_protocol_version v br =
     (case Option.bind v proto_of_int of
        None \<Rightarrow> (False, br)
      | Some pv \<Rightarrow> if pv \<noteq> ForceProtocolVersion br
                   then (True, br\<lparr>ForceProtocolVersion := pv\<rparr>) else (False, br))"

definition set_tx_hold_count :: "u32 option \<Rightarrow> bridge_t \<Rightarrow> bool \<times> bridge_t" where
  "set_tx_hold_count v br =
     (case v of
        None \<Rightarrow> (False, br)
      | Some n \<Rightarrow>
          if n \<noteq> Transmit_Hold_Count br
          then (True, fold (\<lambda>p. upd_port p (\<lambda>x. x\<lparr>txCount := 0\<rparr>)) (ports br)
                        (br\<lparr>Transmit_Hold_Count := n\<rparr>))
          else (False, br))"

definition set_times :: "CIST_BridgeConfig \<Rightarrow> bridge_t \<Rightarrow> bool \<times> bridge_t" where
  "set_times cfg br =
     (let age = case_option (br_Max_Age br) id (cfg_bridge_max_age cfg);
          fwd = case_option (br_Forward_Delay br) id (cfg_bridge_forward_delay cfg);
          hops = case_option (br_MaxHops br) id (cfg_max_hops cfg);
          hello = case_option (br_Hello_Time br) id (cfg_bridge_hello_time cfg)
      in (age \<noteq> br_Max_Age br \<or> fwd \<noteq> br_Forward_Delay br \<or> hops \<noteq> br_MaxHops br
            \<or> hello \<noteq> br_Hello_Time br,
          br\<lparr>br_Max_Age := age, br_Forward_Delay := fwd, br_MaxHops := hops, br_Hello_Time := hello\<rparr>))"

definition finalize_times :: "mstid \<Rightarrow> bridge_t \<Rightarrow> bridge_t" where
  "finalize_times t br =
     (let br = upd_tree t (\<lambda>x. x\<lparr>BridgeTimes := (BridgeTimes x)\<lparr>remainingHops := br_MaxHops br,
            Forward_Delay := br_Forward_Delay br, Max_Age := br_Max_Age br,
            Hello_Time := br_Hello_Time br\<rparr>\<rparr>) br
      in foreach_ptp_in_tree t (\<lambda>x. x\<lparr>selected := False, reselect := True,
           portTimes := (portTimes x)\<lparr>Hello_Time := br_Hello_Time br\<rparr>\<rparr>) br)"

definition MSTP_IN_set_cist_bridge_config ::
    "nat \<Rightarrow> nat \<Rightarrow> CIST_BridgeConfig \<Rightarrow> bridge_t \<Rightarrow> (int \<times> bridge_t) option" where
  "MSTP_IN_set_cist_bridge_config fuel rounds cfg br =
     (if \<not> cist_bridge_config_valid cfg br then Some (-1, br)
      else do {
        let (changedBridgeTimes, br) = set_times cfg br;
        let (init, br) = set_protocol_version (cfg_protocol_version cfg) br;
        let (holdChanged, br) = set_tx_hold_count (cfg_tx_hold_count cfg) br;
        let br = br\<lparr>Ageing_Time := case_option (Ageing_Time br) id (cfg_bridge_ageing_time cfg)\<rparr>;
        let br = (if changedBridgeTimes then fold finalize_times (trees br) br else br);
        br \<leftarrow> (if (changedBridgeTimes \<or> init \<or> holdChanged) \<and> bridgeEnabled br then
                 if init then br_state_machines_begin fuel rounds br
                 else br_state_machines_run fuel rounds br
               else Some br);
        Some (0, br)
      })"

definition MSTP_IN_set_msti_bridge_config :: "mstid \<Rightarrow> u8 \<Rightarrow> bridge_t \<Rightarrow> int \<times> bridge_t" where
  "MSTP_IN_set_msti_bridge_config t bridge_priority br =
     (if 15 < bridge_priority then (-1, br)
      else
        let valuePri = push_bit 4 bridge_priority; bid = BridgeIdentifier (tree_at br t) in
        if GET_PRIORITY_FROM_IDENTIFIER (bi_priority bid) = valuePri then (0, br)
        else
          let bid = bid\<lparr>bi_priority := SET_PRIORITY_IN_IDENTIFIER valuePri (bi_priority bid)\<rparr>;
              br = upd_tree t (\<lambda>x. x\<lparr>BridgeIdentifier := bid,
                     BridgePriority := bridge_vector bid (BridgePriority x)\<rparr>) br
          in (0, foreach_ptp_in_tree t (\<lambda>x. x\<lparr>selected := False, reselect := True\<rparr>) br))"

end
