(* ===== verification/Mstp_Management.thy ===== *)
theory Mstp_Management
  imports Mstp_Events
begin

section \<open>Management of ports, VLAN allocation and MSTIs\<close>

text \<open>
  The rest of the management functions of \<open>src/mstpd/src/mstp.c\<close> (clauses 12.8.2, 12.10 and
  12.12): port parameters, the tables from VID to FID and from FID to MSTID, and the list of MSTIs.
\<close>

subsection \<open>Port parameters\<close>

record CIST_PortConfig =
  cfg_admin_external_port_path_cost :: "u32 option"
  cfg_admin_edge_port :: "bool option"
  cfg_auto_edge_port :: "bool option"
  cfg_admin_p2p :: "admin_p2p_t option"
  cfg_restricted_role :: "bool option"
  cfg_restricted_tcn :: "bool option"
  cfg_bpdu_guard_port :: "bool option"
  cfg_network_port :: "bool option"
  cfg_dont_txmt :: "bool option"
  cfg_bpdu_filter_port :: "bool option"

text \<open>\<open>set_if v get put\<close>: the assignment of a member that has a \<open>set_\<close> flag, and whether it
  changed the member.\<close>

definition set_if :: "'v option \<Rightarrow> ('s \<Rightarrow> 'v) \<Rightarrow> ('v \<Rightarrow> 's \<Rightarrow> 's) \<Rightarrow> 's \<Rightarrow> bool \<times> 's" where
  "set_if v get put s =
     (case v of None \<Rightarrow> (False, s) | Some x \<Rightarrow> if get s \<noteq> x then (True, put x s) else (False, s))"

definition set_external_cost :: "u32 option \<Rightarrow> portref \<Rightarrow> bridge_t \<Rightarrow> bool \<times> bridge_t" where
  "set_external_cost v p br =
     (case v of
        None \<Rightarrow> (False, br)
      | Some admin \<Rightarrow>
          let br = upd_port p (\<lambda>x. x\<lparr>AdminExternalPortPathCost := admin\<rparr>) br;
              cost = admin_or_auto admin (compute_pcost (speed (port_at br p)))
          in if ExternalPortPathCost (port_at br p) \<noteq> cost
             then (True, upd_ptp p CIST (\<lambda>x. x\<lparr>selected := False, reselect := True\<rparr>)
                     (upd_port p (\<lambda>x. x\<lparr>ExternalPortPathCost := cost\<rparr>) br))
             else (False, br))"

definition set_admin_p2p :: "admin_p2p_t option \<Rightarrow> portref \<Rightarrow> bridge_t \<Rightarrow> bool \<times> bridge_t" where
  "set_admin_p2p v p br =
     (case v of
        None \<Rightarrow> (False, br)
      | Some a \<Rightarrow>
          let br = upd_port p (\<lambda>x. x\<lparr>AdminP2P := a\<rparr>) br;
              new_p2p = p2p_state a (duplex (port_at br p))
          in if operPointToPointMAC (port_at br p) \<noteq> new_p2p
             then (True, upd_port p (\<lambda>x. x\<lparr>operPointToPointMAC := new_p2p\<rparr>) br)
             else (False, br))"

definition set_edge :: "bool option \<Rightarrow> portref \<Rightarrow> bridge_t \<Rightarrow> bool \<times> bridge_t" where
  "set_edge v p = set_if v (\<lambda>br. AdminEdgePort (port_at br p))
     (\<lambda>b br. BDSM_begin p (upd_port p (\<lambda>x. x\<lparr>AdminEdgePort := b\<rparr>) br))"

definition set_network :: "bool option \<Rightarrow> portref \<Rightarrow> bridge_t \<Rightarrow> bool \<times> bridge_t" where
  "set_network v p = set_if v (\<lambda>br. NetworkPort (port_at br p))
     (\<lambda>b. upd_port p (\<lambda>x. x\<lparr>NetworkPort := b, BaInconsistent := BaInconsistent x \<and> b\<rparr>))"

definition MSTP_IN_set_cist_port_config ::
    "nat \<Rightarrow> nat \<Rightarrow> portref \<Rightarrow> CIST_PortConfig \<Rightarrow> bridge_t \<Rightarrow> (int \<times> bridge_t) option" where
  "MSTP_IN_set_cist_port_config fuel rounds p cfg br = do {
     let (c1, br) = set_external_cost (cfg_admin_external_port_path_cost cfg) p br;
     let (c2, br) = set_admin_p2p (cfg_admin_p2p cfg) p br;
     let (c3, br) = set_edge (cfg_admin_edge_port cfg) p br;
     let (c4, br) = set_if (cfg_auto_edge_port cfg) (\<lambda>br. AutoEdge (port_at br p))
                      (\<lambda>b. upd_port p (\<lambda>x. x\<lparr>AutoEdge := b\<rparr>)) br;
     let (c5, br) = set_if (cfg_restricted_role cfg) (\<lambda>br. restrictedRole (port_at br p))
                      (\<lambda>b. upd_port p (\<lambda>x. x\<lparr>restrictedRole := b\<rparr>)) br;
     let (c6, br) = set_if (cfg_restricted_tcn cfg) (\<lambda>br. restrictedTcn (port_at br p))
                      (\<lambda>b. upd_port p (\<lambda>x. x\<lparr>restrictedTcn := b\<rparr>)) br;
     let (_, br) = set_if (cfg_bpdu_guard_port cfg) (\<lambda>br. BpduGuardPort (port_at br p))
                      (\<lambda>b. upd_port p (\<lambda>x. x\<lparr>BpduGuardPort := b\<rparr>)) br;
     let (c7, br) = set_network (cfg_network_port cfg) p br;
     let (_, br) = set_if (cfg_dont_txmt cfg) (\<lambda>br. dontTxmtBpdu (port_at br p))
                      (\<lambda>b. upd_port p (\<lambda>x. x\<lparr>dontTxmtBpdu := b\<rparr>)) br;
     let (_, br) = set_if (cfg_bpdu_filter_port cfg) (\<lambda>br. bpduFilterPort (port_at br p))
                      (\<lambda>b. upd_port p (\<lambda>x. x\<lparr>bpduFilterPort := b, num_rx_bpdu_filtered := 0\<rparr>)) br;
     br \<leftarrow> (if (c1 \<or> c2 \<or> c3 \<or> c4 \<or> c5 \<or> c6 \<or> c7) \<and> portEnabled (port_at br p)
            then br_state_machines_run fuel rounds br else Some br);
     Some (0, br)
   }"

record MSTI_PortConfig =
  cfg_admin_internal_port_path_cost :: "u32 option"
  cfg_port_priority :: "u8 option"

definition set_port_priority :: "u8 option \<Rightarrow> portref \<Rightarrow> mstid \<Rightarrow> bridge_t \<Rightarrow> bool \<times> bridge_t" where
  "set_port_priority v p t =
     set_if (map_option (push_bit 4) v) (\<lambda>br. GET_PRIORITY_FROM_IDENTIFIER (portId (ptp_at br p t)))
       (\<lambda>pri. upd_ptp p t (\<lambda>x. x\<lparr>portId := SET_PRIORITY_IN_IDENTIFIER pri (portId x)\<rparr>))"

definition set_internal_cost :: "u32 option \<Rightarrow> portref \<Rightarrow> mstid \<Rightarrow> bridge_t \<Rightarrow> bool \<times> bridge_t" where
  "set_internal_cost v p t br =
     (case v of
        None \<Rightarrow> (False, br)
      | Some admin \<Rightarrow>
          let br = upd_ptp p t (\<lambda>x. x\<lparr>AdminInternalPortPathCost := admin\<rparr>) br;
              cost = admin_or_auto admin (compute_pcost (speed (port_at br p)))
          in if InternalPortPathCost (ptp_at br p t) \<noteq> cost
             then (True, upd_ptp p t (\<lambda>x. x\<lparr>InternalPortPathCost := cost\<rparr>) br)
             else (False, br))"

definition MSTP_IN_set_msti_port_config ::
    "nat \<Rightarrow> nat \<Rightarrow> portref \<Rightarrow> mstid \<Rightarrow> MSTI_PortConfig \<Rightarrow> bridge_t \<Rightarrow> (int \<times> bridge_t) option" where
  "MSTP_IN_set_msti_port_config fuel rounds p t cfg br =
     (if case_option False (\<lambda>v. 15 < v) (cfg_port_priority cfg) then Some (-1, br)
      else do {
        let (c1, br) = set_port_priority (cfg_port_priority cfg) p t br;
        let (c2, br) = set_internal_cost (cfg_admin_internal_port_path_cost cfg) p t br;
        br \<leftarrow> (if (c1 \<or> c2) \<and> portEnabled (port_at br p)
               then br_state_machines_run fuel rounds
                      (upd_ptp p t (\<lambda>x. x\<lparr>selected := False, reselect := True\<rparr>) br)
               else Some br);
        Some (0, br)
      })"

definition MSTP_IN_port_mcheck :: "nat \<Rightarrow> nat \<Rightarrow> portref \<Rightarrow> bridge_t \<Rightarrow> (int \<times> bridge_t) option" where
  "MSTP_IN_port_mcheck fuel rounds p br =
     (if rstpVersion br \<and> portEnabled (port_at br p) \<and> bridgeEnabled br then
        let br = upd_port p (\<lambda>x. x\<lparr>mcheck := True\<rparr>) br;
            br = upd_ptp p CIST (\<lambda>x. x\<lparr>proposing := True\<rparr>) br
        in map_option (Pair 0) (br_state_machines_run fuel rounds br)
      else Some (0, br))"

subsection \<open>VLAN allocation\<close>

definition vid2mstid :: "bridge_t \<Rightarrow> nat \<Rightarrow> mstid" where
  "vid2mstid br vid = fid2mstid br (unat (vid2fid br vid))"

definition digest_and_begin ::
    "nat \<Rightarrow> nat \<Rightarrow> bridge_t \<Rightarrow> bridge_t option" where
  "digest_and_begin fuel rounds br =
     br_state_machines_begin fuel rounds (RecalcConfigDigest br)"

definition MSTP_IN_set_vid2fid ::
    "nat \<Rightarrow> nat \<Rightarrow> u16 \<Rightarrow> u16 \<Rightarrow> bridge_t \<Rightarrow> (bool \<times> bridge_t) option" where
  "MSTP_IN_set_vid2fid fuel rounds vid fid br =
     (if vid < 1 \<or> unat vid > MAX_VID \<or> unat fid > MAX_FID then Some (False, br)
      else
        let changed = (fid2mstid br (unat fid) \<noteq> vid2mstid br (unat vid));
            br = br\<lparr>vid2fid := (vid2fid br)(unat vid := fid)\<rparr>
        in if changed then map_option (Pair True) (digest_and_begin fuel rounds br)
           else Some (True, br))"

text \<open>The array \<open>br->vid2fid\<close> has \<open>MAX_VID + 1\<close> entries; entry 0 is copied unchecked.\<close>

definition MSTP_IN_set_all_vids2fids ::
    "nat \<Rightarrow> nat \<Rightarrow> (nat \<Rightarrow> u16) \<Rightarrow> bridge_t \<Rightarrow> (bool \<times> bridge_t) option" where
  "MSTP_IN_set_all_vids2fids fuel rounds vids2fids br =
     (let vids = [1 ..< MAX_VID + 1];
          bad = (\<lambda>vid. unat (vids2fids vid) > MAX_FID);
          new = (\<lambda>vid. if 1 \<le> vid \<and> vid \<le> MAX_VID \<and> bad vid then vid2fid br vid
                       else if vid \<le> MAX_VID then vids2fids vid else vid2fid br vid);
          changed = list_ex (\<lambda>vid. \<not> bad vid \<and>
            fid2mstid br (unat (vids2fids vid)) \<noteq> vid2mstid br vid) vids;
          br = br\<lparr>vid2fid := new\<rparr>
      in if changed then map_option (Pair True) (digest_and_begin fuel rounds br)
         else Some (True, br))"

definition MSTP_IN_set_fid2mstid ::
    "nat \<Rightarrow> nat \<Rightarrow> u16 \<Rightarrow> mstid \<Rightarrow> bridge_t \<Rightarrow> (bool \<times> bridge_t) option" where
  "MSTP_IN_set_fid2mstid fuel rounds fid t br =
     (if unat fid > MAX_FID then Some (False, br)
      else if t \<notin> set (trees br) then Some (False, br)
      else if fid2mstid br (unat fid) \<noteq> t then
        let br = br\<lparr>fid2mstid := (fid2mstid br)(unat fid := t)\<rparr>
        in if list_ex (\<lambda>vid. vid2fid br vid = fid) [1 ..< MAX_VID + 1]
           then map_option (Pair True) (digest_and_begin fuel rounds br)
           else Some (True, br)
      else Some (True, br))"

definition MSTP_IN_set_all_fids2mstids ::
    "nat \<Rightarrow> nat \<Rightarrow> (nat \<Rightarrow> u16) \<Rightarrow> bridge_t \<Rightarrow> (bool \<times> bridge_t) option" where
  "MSTP_IN_set_all_fids2mstids fuel rounds fids2mstids br =
     (let new = (\<lambda>fid. if unat (fids2mstids fid) > MAX_MSTID then fid2mstid br fid
                       else fids2mstids fid)
      in if list_ex (\<lambda>fid. new fid \<notin> set (trees br)) [0 ..< MAX_FID + 1] then Some (False, br)
         else
           let prev = vid2mstid br;
               br = br\<lparr>fid2mstid := (\<lambda>fid. if fid \<le> MAX_FID then new fid else fid2mstid br fid)\<rparr>
           in if list_ex (\<lambda>vid. prev vid \<noteq> vid2mstid br vid) [1 ..< MAX_VID + 1]
              then map_option (Pair True) (digest_and_begin fuel rounds br)
              else Some (True, br))"

subsection \<open>The list of MSTIs\<close>

definition MSTP_IN_get_mstilist :: "bridge_t \<Rightarrow> mstid list" where
  "MSTP_IN_get_mstilist br = take (MAX_IMPLEMENTATION_MSTIS + 1) (trees br)"

text \<open>The new tree goes behind the last tree with a smaller MSTID.\<close>

definition insert_tree :: "mstid \<Rightarrow> mstid list \<Rightarrow> mstid list option" where
  "insert_tree t ts =
     (case List.find (\<lambda>i. ts ! i < t) (rev [0 ..< length ts]) of
        None \<Rightarrow> None
      | Some i \<Rightarrow> Some (take (Suc i) ts @ t # drop (Suc i) ts))"

definition MSTP_IN_create_msti ::
    "nat \<Rightarrow> nat \<Rightarrow> mstid \<Rightarrow> bridge_t \<Rightarrow> (bool \<times> bridge_t) option" where
  "MSTP_IN_create_msti fuel rounds t br =
     (if t < 1 \<or> unat t > MAX_MSTID then Some (False, br)
      else if t \<in> set (trees br) then Some (True, br)
      else case insert_tree t (trees br) of
        None \<Rightarrow> Some (False, br)
      | Some new_trees \<Rightarrow>
          if MAX_IMPLEMENTATION_MSTIS < length (trees br) then Some (False, br)
          else
            let mac = bi_mac (BridgeIdentifier (tree_at br (hd (trees br))));
                br = upd_tree t (\<lambda>_. create_tree br mac t) br;
                br = fold (\<lambda>p br. upd_ptp p t (\<lambda>_. create_ptp (tree_at br t) (port_at br p)) br)
                       (ports br) br;
                br = br\<lparr>trees := new_trees\<rparr>
            in map_option (Pair True) (tree_state_machines_begin fuel rounds t br))"

definition MSTP_IN_delete_msti ::
    "nat \<Rightarrow> nat \<Rightarrow> mstid \<Rightarrow> bridge_t \<Rightarrow> (bool \<times> bridge_t) option" where
  "MSTP_IN_delete_msti fuel rounds t br =
     (if t < 1 \<or> unat t > MAX_MSTID then Some (False, br)
      else if list_ex (\<lambda>fid. fid2mstid br fid = t) [0 ..< MAX_FID + 1] then Some (False, br)
      else if t \<notin> set (trees br) then Some (True, br)
      else map_option (Pair True)
             (br_state_machines_run fuel rounds (br\<lparr>trees := remove1 t (trees br)\<rparr>)))"

text \<open>
  The name is compared as a C string and copied as one, cut to 31 bytes and padded with zeros.
\<close>

definition c_string :: "u8 list \<Rightarrow> u8 list" where
  "c_string bs = takeWhile (\<lambda>b. b \<noteq> 0) bs"

definition strncmp_differs :: "nat \<Rightarrow> u8 list \<Rightarrow> u8 list \<Rightarrow> bool" where
  "strncmp_differs n a b \<longleftrightarrow> take n (c_string a) \<noteq> take n (c_string b)"

definition MSTP_IN_set_mst_config_id ::
    "nat \<Rightarrow> nat \<Rightarrow> u16 \<Rightarrow> u8 list \<Rightarrow> bridge_t \<Rightarrow> bridge_t option" where
  "MSTP_IN_set_mst_config_id fuel rounds revision name br =
     (let mcid = MstConfigId br in
      if strncmp_differs 32 name (configuration_name mcid) \<or> revision \<noteq> revision_level mcid then
        let stored = take 31 (c_string name)
        in br_state_machines_begin fuel rounds
             (br\<lparr>MstConfigId := mcid\<lparr>revision_level := revision,
                configuration_name := stored @ replicate (32 - length stored) 0\<rparr>\<rparr>)
      else Some br)"

end
