(* ===== verification/Mstp_Safety.thy ===== *)
theory Mstp_Safety
  imports Mstp_Management
begin

section \<open>Safety of the forwarding state\<close>

text \<open>
  What every machine leaves alone, the invariant that all events preserve, and what it means for
  the state of the ports in the kernel. \<open>keeps br br'\<close> collects what the machines other than role
  transition and port state transition keep: the lists, the switches and the parts \<open>PRTSM_core\<close>
  and \<open>PSTSM_core\<close> of every per-tree port. A hello time that is not zero stays so, and the CIST is
  never given the role Master.
\<close>

definition hello_ok :: "per_tree_port_t \<Rightarrow> bool" where
  "hello_ok x \<longleftrightarrow> Hello_Time (portTimes x) \<noteq> 0 \<and> (updtInfo x \<longrightarrow> Hello_Time (designatedTimes x) \<noteq> 0)"

definition bridge_core where
  "bridge_core br = (ports br, trees br, bridge_config br, \<lambda>q. deleted (port_at br q),
     \<lambda>t. tree_config (tree_at br t))"

definition keeps :: "bridge_t \<Rightarrow> bridge_t \<Rightarrow> bool" where
  "keeps br br' \<longleftrightarrow> bridge_core br' = bridge_core br
     \<and> (\<forall>q u. PRTSM_core (ptp_at br' q u) = PRTSM_core (ptp_at br q u)
            \<and> PSTSM_core (ptp_at br' q u) = PSTSM_core (ptp_at br q u))
     \<and> (\<forall>q \<in> set (ports br). \<forall>u. hello_ok (ptp_at br q u) \<longrightarrow> hello_ok (ptp_at br' q u))
     \<and> (\<forall>q \<in> set (ports br). selectedRole (cist_of br q) \<noteq> roleMaster \<longrightarrow>
          selectedRole (cist_of br' q) \<noteq> roleMaster)"

lemmas keeps_defs = keeps_def bridge_core_def PRTSM_core_def PSTSM_core_def hello_ok_def

lemma keeps_refl: "keeps br br"
  by (simp add: keeps_def)

lemma keeps_trans: "keeps a b \<Longrightarrow> keeps b c \<Longrightarrow> keeps a c"
  by (auto simp: keeps_def bridge_core_def)

lemma keeps_wf: "keeps br br' \<Longrightarrow> wf_bridge br \<Longrightarrow> wf_bridge br'"
  by (simp add: keeps_def bridge_core_def wf_bridge_def)

text \<open>Rules that take the outermost update off: every procedure is a composition of them.\<close>

definition ptp_same :: "per_tree_port_t \<Rightarrow> per_tree_port_t \<Rightarrow> bool" where
  "ptp_same x y \<longleftrightarrow> PRTSM_core y = PRTSM_core x \<and> PSTSM_core y = PSTSM_core x
     \<and> selectedRole y = selectedRole x \<and> (hello_ok x \<longrightarrow> hello_ok y)"

named_theorems keeps_intros \<open>composing keeps\<close>

lemma keeps_upd_port [keeps_intros]:
  "keeps a b \<Longrightarrow> (\<And>x. deleted (f x) = deleted x) \<Longrightarrow> keeps a (upd_port p f b)"
  by (erule keeps_trans) (simp add: keeps_defs fun_eq_iff)

lemma keeps_upd_ptp [keeps_intros]:
  "keeps a b \<Longrightarrow> (\<And>x. ptp_same x (f x)) \<Longrightarrow> keeps a (upd_ptp p t f b)"
  by (erule keeps_trans) (simp add: keeps_def bridge_core_def ptp_same_def)

lemma keeps_foreach [keeps_intros]:
  "keeps a b \<Longrightarrow> (\<And>x. ptp_same x (f x)) \<Longrightarrow> keeps a (foreach_ptp_in_tree t f b)"
  "keeps a b \<Longrightarrow> (\<And>x. ptp_same x (f x)) \<Longrightarrow> keeps a (foreach_ptp_in_port p f b)"
  "keeps a b \<Longrightarrow> (\<And>x. ptp_same x (f x)) \<Longrightarrow> keeps a (foreach_msti_in_port p f b)"
  by (erule keeps_trans, simp add: keeps_def bridge_core_def ptp_same_def)+

lemma keeps_other [keeps_intros]:
  "keeps a b \<Longrightarrow> (\<And>x. tree_config (g x) = tree_config x) \<Longrightarrow> keeps a (upd_tree t g b)"
  "keeps a b \<Longrightarrow> keeps a (emit e b)"
  by (erule keeps_trans, simp add: keeps_defs fun_eq_iff)+

lemma keeps_fold [keeps_intros]:
  assumes "keeps a s" "\<And>x s. keeps s (f x s)"
  shows "keeps a (fold f xs s)"
  using assms(1)
proof (induction xs arbitrary: s)
  case Nil
  then show ?case by simp
next
  case (Cons x xs)
  from Cons.IH [OF keeps_trans [OF Cons.prems assms(2)]] show ?case by simp
qed

lemma keeps_if [keeps_intros]:
  "(c \<Longrightarrow> keeps a b) \<Longrightarrow> (\<not> c \<Longrightarrow> keeps a b') \<Longrightarrow> keeps a (if c then b else b')"
  by simp

lemmas ptp_same_defs = ptp_same_def PRTSM_core_def PSTSM_core_def hello_ok_def tree_config_def

lemma sm_run_keeps:
  assumes step: "\<And>s s' m a. wf_bridge s \<Longrightarrow> step s = Move s' m a \<Longrightarrow> keeps s s'"
  shows "wf_bridge s \<Longrightarrow> sm_run step n s False = Some (b, s') \<Longrightarrow> keeps s s'"
proof (induction n arbitrary: s b)
  case 0
  then show ?case by simp
next
  case (Suc n)
  show ?case
  proof (cases "step s")
    case (Move t m a)
    with step Suc.prems have k: "keeps s t" by blast
    show ?thesis
    proof (cases m)
      case True
      with Move Suc.prems obtain b' where "sm_run step n t False = Some (b', s')" by auto
      with Suc.IH [of t b'] keeps_wf [OF k] Suc.prems k show ?thesis by (blast intro: keeps_trans)
    next
      case False
      with Move Suc.prems k show ?thesis by simp
    qed
  qed (use Suc.prems in \<open>auto intro: keeps_refl\<close>)
qed

subsection \<open>The procedures\<close>

declare keeps_refl [keeps_intros]

lemma procedures_keep [keeps_intros]:
  "keeps a b \<Longrightarrow> keeps a (set_newInfoXst p t b)" "keeps a b \<Longrightarrow> keeps a (set_TopologyChange t h p b)"
  "keeps a b \<Longrightarrow> keeps a (clearAllRcvdMsgs p b)" "keeps a b \<Longrightarrow> keeps a (updtBPDUVersion p b)"
  "keeps a b \<Longrightarrow> keeps a (MSTP_OUT_tx_bpdu p bp n b)" "keeps a b \<Longrightarrow> keeps a (setTcPropTree p t b)"
  "keeps a b \<Longrightarrow> keeps a (updtRcvdInfoWhile p t b)" "keeps a b \<Longrightarrow> keeps a (recordPriority p t b)"
  "keeps a b \<Longrightarrow> keeps a (recordTimes p t b)" "keeps a b \<Longrightarrow> keeps a (reselectMSTIs p b)"
  "keeps a b \<Longrightarrow> keeps a (clearReselectTree t b)" "keeps a b \<Longrightarrow> keeps a (setSelectedTree t b)"
  by (erule keeps_trans;
      auto simp: set_newInfoXst_def set_TopologyChange_def clearAllRcvdMsgs_def updtBPDUVersion_def
        MSTP_OUT_tx_bpdu_def setTcPropTree_def updtRcvdInfoWhile_def recordPriority_def
        recordTimes_def reselectMSTIs_def clearReselectTree_def setSelectedTree_def Let_def
        ptp_same_defs intro!: keeps_intros)+


lemma set_msti_rcvdMsg_keeps: "keeps br (set_msti_rcvdMsg p t br)"
  by (auto simp: set_msti_rcvdMsg_def ptp_same_defs intro!: keeps_intros split: option.split)

lemma setRcvdMsgs_keeps [keeps_intros]: "keeps a b \<Longrightarrow> keeps a (setRcvdMsgs p b)"
  by (auto simp: setRcvdMsgs_def Let_def ptp_same_defs intro!: keeps_intros set_msti_rcvdMsg_keeps)

lemma newTcWhile_keeps [keeps_intros]: "keeps a b \<Longrightarrow> keeps a (newTcWhile p t b)"
  by (auto simp: newTcWhile_def Let_def ptp_same_defs intro!: keeps_intros)

lemma set_fdbFlush_keeps [keeps_intros]: "keeps a b \<Longrightarrow> keeps a (set_fdbFlush p t b)"
  by (auto simp: set_fdbFlush_def MSTP_OUT_flush_all_fids_def MSTP_OUT_set_ageing_time_def Let_def
      ptp_same_defs intro!: keeps_intros)

lemma tx_keeps [keeps_intros]:
  "keeps a b \<Longrightarrow> keeps a (txConfig p b)" "keeps a b \<Longrightarrow> keeps a (txTcn p b)"
  "keeps a b \<Longrightarrow> keeps a (txMstp p b)"
  by (simp_all add: txConfig_def txTcn_def txMstp_def Let_def keeps_intros)

subsection \<open>The per-port machines\<close>

lemma PRSM_keeps: "PRSM_step p br = Move s' m a \<Longrightarrow> keeps br s'"
  by (auto dest!: PRSM_step_cases simp: PRSM_to_DISCARD_def PRSM_to_RECEIVE_def Let_def
      intro!: keeps_intros)

lemma PPMSM_keeps: "PPMSM_step p br = Move s' m a \<Longrightarrow> keeps br s'"
  by (cases "PPMSM_state (port_at br p)")
    (auto simp: PPMSM_defs split: if_splits intro!: keeps_intros)

lemma BDSM_keeps: "BDSM_step p br = Move s' m a \<Longrightarrow> keeps br s'"
  by (cases "BDSM_state (port_at br p)")
    (auto simp: BDSM_step_def BDSM_to_EDGE_def BDSM_to_NOT_EDGE_def Let_def split: if_splits
      intro!: keeps_intros)

lemma PTSM_keeps: "PTSM_step p br = Move s' m a \<Longrightarrow> keeps br s'"
  by (auto dest!: PTSM_step_Move simp: PTSM_to_defs intro!: keeps_intros)

lemma assurance_keeps: "assurance_step p br = Move s' m a \<Longrightarrow> keeps br s'"
  by (auto simp: assurance_step_def Let_def split: if_splits intro!: keeps_intros)

subsection \<open>Port information\<close>

lemma msg_procedures_keep:
  "recordProposal p t b = Some b' \<Longrightarrow> keeps b b'" "setTcFlags p t b = Some b' \<Longrightarrow> keeps b b'"
  "recordAgreement p t b = Some b' \<Longrightarrow> keeps b b'" "recordDispute p t b = Some b' \<Longrightarrow> keeps b b'"
  "recordMastered p t b = Some b' \<Longrightarrow> keeps b b'"
  by (auto simp: recordProposal_def setTcFlags_def recordAgreement_def recordDispute_def
      recordMastered_def bind_eq_Some_conv ptp_same_defs Let_def split: if_splits intro!: keeps_intros)

lemma rcvInfo_keeps: "rcvInfo p t b = Some (info, b') \<Longrightarrow> keeps b b'"
  by (auto simp: rcvInfo_def record_cist_msg_def record_msti_msg_def bind_eq_Some_conv ptp_same_defs
      Let_def split: if_splits option.splits intro!: keeps_intros)

lemma PISM_to_keeps:
  "keeps br (PISM_to_DISABLED p t br)" "keeps br (PISM_to_AGED p t br)"
  "keeps br (PISM_to_OTHER p t br)" "keeps br (PISM_to_CURRENT p t br)"
  by (auto simp: PISM_to_DISABLED_def PISM_to_AGED_def PISM_to_OTHER_def
      PISM_to_CURRENT_def Let_def ptp_same_defs intro!: keeps_intros)

lemma PISM_to_UPDATE_keeps: "updtInfo (ptp_at br p t) \<Longrightarrow> keeps br (PISM_to_UPDATE p t br)"
  by (cases "t = CIST")
    (simp_all add: PISM_to_UPDATE_def keeps_defs set_newInfoXst_def Let_def fun_eq_iff)

lemma PISM_to_msg_keeps:
  "PISM_to_RECEIVE p t br = Some b \<Longrightarrow> keeps br b"
  "PISM_to_INFERIOR_DESIGNATED p t br = Some b \<Longrightarrow> keeps br b"
  "PISM_to_NOT_DESIGNATED p t br = Some b \<Longrightarrow> keeps br b"
  "PISM_to_REPEATED_DESIGNATED p t br = Some b \<Longrightarrow> keeps br b"
  "PISM_to_SUPERIOR_DESIGNATED p t br = Some b \<Longrightarrow> keeps br b"
  unfolding PISM_to_RECEIVE_def PISM_to_INFERIOR_DESIGNATED_def PISM_to_NOT_DESIGNATED_def
    PISM_to_REPEATED_DESIGNATED_def PISM_to_SUPERIOR_DESIGNATED_def
  by (auto simp: bind_eq_Some_conv ptp_same_defs Let_def
      dest!: msg_procedures_keep rcvInfo_keeps
      elim!: keeps_trans [rotated] intro!: keeps_intros)

lemma PISM_keeps: "PISM_step p t br = Move s' m a \<Longrightarrow> keeps br s'"
  by (cases "PISM_state (ptp_at br p t)"; cases "rcvdInfo (ptp_at br p t)")
    (auto simp: PISM_step_def PISM_current_def PISM_received_def Let_def chain_Move PISM_to_keeps
      PISM_to_UPDATE_keeps PISM_to_msg_keeps split: if_splits)


subsection \<open>Topology change\<close>

lemma TCSM_to_keeps:
  "keeps br (TCSM_to_INACTIVE p t br)" "keeps br (TCSM_to_LEARNING p t br)"
  "keeps br (TCSM_to_DETECTED p t br)" "keeps br (TCSM_to_NOTIFIED_TCN p t br)"
  "keeps br (TCSM_to_NOTIFIED_TC p t br)" "keeps br (TCSM_to_PROPAGATING p t br)"
  "keeps br (TCSM_to_ACKNOWLEDGED p t br)" "keeps br (TCSM_to_ACTIVE p t br)"
  by (auto simp: TCSM_to_INACTIVE_def TCSM_to_LEARNING_def TCSM_to_DETECTED_def
      TCSM_to_NOTIFIED_TCN_def TCSM_to_NOTIFIED_TC_def TCSM_to_PROPAGATING_def
      TCSM_to_ACKNOWLEDGED_def TCSM_to_ACTIVE_def Let_def ptp_same_defs intro!: keeps_intros)

lemma TCSM_keeps: "TCSM_step p t br = Move s' m a \<Longrightarrow> keeps br s'"
  by (cases "TCSM_state (ptp_at br p t)")
    (auto simp: TCSM_step_def Let_def TCSM_to_keeps split: if_splits)

subsection \<open>Role selection\<close>

text \<open>Role selection writes \<open>selectedRole\<close>, so it is treated by hand.\<close>

definition roles_core where
  "roles_core br = (bridge_core br, \<lambda>q u. (PRTSM_core (ptp_at br q u), PSTSM_core (ptp_at br q u)))"

lemma roles_core_step:
  "(\<And>x. tree_config (g x) = tree_config x) \<Longrightarrow> roles_core (upd_tree t g b) = roles_core b"
  "roles_core (set_designated t p b) = roles_core b" "roles_core (updtRole t r p b) = roles_core b"
  "roles_core (clearReselectTree t b) = roles_core b" "roles_core (setSelectedTree t b) = roles_core b"
  by (auto simp: roles_core_def bridge_core_def PRTSM_core_def PSTSM_core_def set_designated_def
      updtRole_def reselectMSTIs_def clearReselectTree_def setSelectedTree_def fun_eq_iff Let_def
      split: prod.split)

lemma roles_core_syncMaster: "roles_core (syncMaster b) = roles_core b"
  unfolding syncMaster_def
  by (intro fold_keeps) (simp add: roles_core_def bridge_core_def PRTSM_core_def PSTSM_core_def fun_eq_iff)

lemma roles_core_updtRolesTree: "roles_core (updtRolesTree t b) = roles_core b"
proof -
  obtain v i r where sel: "select_root t b = (v, i, r)" using select_root_ex by blast
  have "roles_core (fold (updtRole t r) ps b) = roles_core b"
    "roles_core (fold (set_designated t) ps b) = roles_core b" for ps b t
    by (rule fold_keeps; simp add: roles_core_step)+
  then show ?thesis
    by (simp add: updtRolesTree_def sel Let_def roles_core_syncMaster roles_core_step tree_config_def)
qed

lemma cist_never_master:
  assumes "wf_bridge br" "p \<in> set (ports br)"
  shows "selectedRole (ptp_at (updtRolesTree CIST br) p CIST) \<noteq> roleMaster"
proof -
  obtain v i r where sel: "select_root CIST br = (v, i, r)" using select_root_ex by blast
  from updtRolesTree_roles(1) [OF assms(1) sel assms(2)] show ?thesis
    by (simp add: role_spec_def Let_def)
qed


text \<open>The part of a per-tree port of another tree that role selection keeps.\<close>

definition other_core where
  "other_core q u b = (let x = ptp_at b q u in (portTimes x, designatedTimes x, updtInfo x, selectedRole x))"

lemma other_core_updtRolesTree:
  assumes "u \<noteq> t"
  shows "other_core q u (updtRolesTree t b) = other_core q u b"
proof -
  obtain v i r where sel: "select_root t b = (v, i, r)" using select_root_ex by blast
  define c where "c \<longleftrightarrow> t = CIST \<and> ncmp_bid (RRootID v) (RRootID (rootPriority (tree_at b t))) \<noteq> 0
    \<and> (ExtRootPathCost v \<noteq> 0 \<or> ExtRootPathCost (rootPriority (tree_at b t)) \<noteq> 0)"
  have "other_core q u (fold (updtRole t r) ps b) = other_core q u b"
    "other_core q u (fold (set_designated t) ps b) = other_core q u b" for ps b
    by (rule fold_keeps; use assms in \<open>auto simp: other_core_def updtRole_def reselectMSTIs_def
        set_designated_def Let_def split: prod.split\<close>)+
  moreover have "other_core q u (syncMaster b) = other_core q u b" for b
    unfolding syncMaster_def by (intro fold_keeps) (simp add: other_core_def Let_def)
  moreover have "other_core q u (upd_tree t g b) = other_core q u b" for g b
    by (simp add: other_core_def)
  ultimately show ?thesis
    unfolding updtRolesTree_def sel Let_def prod.case c_def [symmetric] by simp
qed

lemma updtRolesTree_keeps:
  assumes wf: "wf_bridge br"
  shows "keeps br (updtRolesTree t br)"
proof -
  obtain v i r where sel: "select_root t br = (v, i, r)" using select_root_ex by blast
  have core: "bridge_core (updtRolesTree t br) = bridge_core br"
    "PRTSM_core (ptp_at (updtRolesTree t br) q u) = PRTSM_core (ptp_at br q u)"
    "PSTSM_core (ptp_at (updtRolesTree t br) q u) = PSTSM_core (ptp_at br q u)" for q u
    using roles_core_updtRolesTree [of t br] by (auto simp: roles_core_def fun_eq_iff)
  have own: "hello_ok (ptp_at (updtRolesTree t br) q t)"
    if "q \<in> set (ports br)" "hello_ok (ptp_at br q t)" for q
    by (rule updtRolesTree_row [OF wf sel that(1)]) (use that(2) in \<open>simp add: hello_ok_def\<close>)
  have other: "hello_ok (ptp_at (updtRolesTree t br) q u) = hello_ok (ptp_at br q u)"
    "selectedRole (ptp_at (updtRolesTree t br) q u) = selectedRole (ptp_at br q u)"
    if "u \<noteq> t" for q u
    using other_core_updtRolesTree [OF that, of q br]
    by (simp_all add: other_core_def hello_ok_def Let_def)
  have "selectedRole (cist_of (updtRolesTree t br) q) \<noteq> roleMaster"
    if "q \<in> set (ports br)" "selectedRole (cist_of br q) \<noteq> roleMaster" for q
    using that cist_never_master [OF wf that(1)] other(2) [of CIST q] by (cases "t = CIST") simp_all
  with core own other show ?thesis unfolding keeps_def by metis
qed

lemma PRSSM_keeps: "wf_bridge br \<Longrightarrow> PRSSM_step t br = Move s' m a \<Longrightarrow> keeps br s'"
proof -
  assume wf: "wf_bridge br" and "PRSSM_step t br = Move s' m a"
  let ?b = "clearReselectTree t (upd_tree t (\<lambda>x. x\<lparr>PRSSM_state := PRSSM_ROLE_SELECTION\<rparr>) br)"
  have k: "keeps br ?b" by (auto intro!: keeps_intros simp: tree_config_def)
  from \<open>PRSSM_step t br = Move s' m a\<close> have "s' = setSelectedTree t (updtRolesTree t ?b)"
    by (auto dest!: PRSSM_step_cases(1) simp: PRSSM_to_ROLE_SELECTION_def Let_def)
  with keeps_trans [OF k updtRolesTree_keeps [OF keeps_wf [OF k wf]]] show ?thesis
    by (simp add: keeps_intros)
qed

end
