(* ===== verification/Mstp_Invariant.thy ===== *)
theory Mstp_Invariant
  imports Mstp_Safety
begin

section \<open>The invariant of a running bridge\<close>

text \<open>
  The per-tree invariants of role transition and port state transition hold for every port and
  tree, through every pass over the machines; after a pass a port whose role forbids forwarding is
  blocked in the kernel. For a bridge whose only tree is the CIST (plain STP or RSTP operation)
  every pass returns: no machine recurses without bound.
\<close>

definition ptp_inv :: "bridge_t \<Rightarrow> portref \<Rightarrow> mstid \<Rightarrow> bool" where
  "ptp_inv br p t \<longleftrightarrow>
     PRTSM_inv (ptp_at br p t) \<and> PSTSM_inv (deleted (port_at br p)) (ptp_at br p t)"

definition safe_inv :: "bridge_t \<Rightarrow> bool" where
  "safe_inv br \<longleftrightarrow> wf_bridge br \<and> (\<forall>p \<in> set (ports br). \<forall>t \<in> set (trees br). ptp_inv br p t)"

lemma PRTSM_inv_core: "PRTSM_core x = PRTSM_core y \<Longrightarrow> PRTSM_inv x = PRTSM_inv y"
  by (cases "PRTSM_group (PRTSM_state y)") (simp_all add: PRTSM_core_def PRTSM_inv_defs)

lemma PSTSM_inv_core: "PSTSM_core x = PSTSM_core y \<Longrightarrow> PSTSM_inv d x = PSTSM_inv d y"
  by (cases "PSTSM_state y") (simp_all add: PSTSM_core_def PSTSM_inv_def)

lemma bridge_core_sel:
  assumes "bridge_core br' = bridge_core br"
  shows "ports br' = ports br" "trees br' = trees br" "bridgeEnabled br' = bridgeEnabled br"
    "Migrate_Time br' = Migrate_Time br" "Transmit_Hold_Count br' = Transmit_Hold_Count br"
    "deleted (port_at br' q) = deleted (port_at br q)" "bridge_config br' = bridge_config br"
    "tree_config (tree_at br' t) = tree_config (tree_at br t)"
  using assms by (simp_all add: bridge_core_def bridge_config_def fun_eq_iff)

lemma keeps_ptp_inv: "keeps br br' \<Longrightarrow> ptp_inv br' p t = ptp_inv br p t"
  using PRTSM_inv_core [of "ptp_at br' p t" "ptp_at br p t"]
    PSTSM_inv_core [of "ptp_at br' p t" "ptp_at br p t"] bridge_core_sel(6) [of br' br p]
  by (simp add: keeps_def ptp_inv_def)

lemma keeps_safe: "keeps br br' \<Longrightarrow> safe_inv br \<Longrightarrow> safe_inv br'"
  using keeps_wf keeps_ptp_inv [of br br'] bridge_core_sel(1,2) [of br' br]
  by (auto simp: safe_inv_def keeps_def)

subsection \<open>Role transition and port state transition\<close>

text \<open>What the two machines leave alone.\<close>

lemma PRTSM_bridge_core: "PRTSM_framed p t br s' \<Longrightarrow> bridge_core s' = bridge_core br"
  by (simp add: PRTSM_framed_def bridge_core_def fun_eq_iff)

lemma PSTSM_framed:
  assumes "PSTSM_step p t br = Move s' m a"
  shows "bridge_core s' = bridge_core br"
    and "PRTSM_core (ptp_at s' q u) = PRTSM_core (ptp_at br q u)"
    and "sel_core (ptp_at s' q u) = sel_core (ptp_at br q u)"
    and "(q, u) \<noteq> (p, t) \<Longrightarrow> PSTSM_core (ptp_at s' q u) = PSTSM_core (ptp_at br q u)"
proof -
  have set_state: "bridge_core (set_port_state p t x b) = bridge_core b" for x b
    by (cases x) (auto simp: set_port_state_def MSTP_OUT_set_state_def bridge_core_def fun_eq_iff Let_def)
  have upd: "bridge_core (upd_ptp p t f b) = bridge_core b" for f b
    by (simp add: bridge_core_def)
  from assms have s': "s' \<in> {PSTSM_to_DISCARDING p t br, PSTSM_to_LEARNING p t br, PSTSM_to_FORWARDING p t br}"
    by (cases "PSTSM_state (ptp_at br p t)") (auto simp: PSTSM_step_def Let_def split: if_splits)
  then show "bridge_core s' = bridge_core br"
    by (auto simp: PSTSM_to_DISCARDING_def PSTSM_to_LEARNING_def PSTSM_to_FORWARDING_def Let_def set_state upd)
  from s' show "PRTSM_core (ptp_at s' q u) = PRTSM_core (ptp_at br q u)"
    "sel_core (ptp_at s' q u) = sel_core (ptp_at br q u)"
    by (elim insertE emptyE; simp add: PSTSM_defs PRTSM_core_def sel_core_def)+
  assume "(q, u) \<noteq> (p, t)"
  then have n: "(q = p \<and> u = t) = False" "(q = p \<and> u = t \<and> X) = False" for X by auto
  from s' have "ptp_at s' q u = ptp_at br q u"
    by (elim insertE emptyE; simp only: PSTSM_defs upd_ptp_sel n if_False)
  then show "PSTSM_core (ptp_at s' q u) = PSTSM_core (ptp_at br q u)" by simp
qed

lemma PRTSM_step_safe:
  assumes "safe_inv br" "p \<in> set (ports br)" "t \<in> set (trees br)" "PRTSM_step d p t br = Move s' m a"
  shows "safe_inv s'"
proof -
  have fr: "PRTSM_framed p t br s'" by (rule PRTSM_step_framed [OF assms(4)])
  note core = bridge_core_sel [OF PRTSM_bridge_core [OF fr]]
  have own: "PRTSM_inv (ptp_at s' p t)"
    using PRTSM_step_inv [OF _ assms(2,4)] assms(1-3) by (simp add: safe_inv_def ptp_inv_def)
  have "ptp_inv s' q u" if "q \<in> set (ports br)" "u \<in> set (trees br)" for q u
  proof -
    have inv: "PRTSM_inv (ptp_at br q u)" "PSTSM_inv (deleted (port_at br q)) (ptp_at br q u)"
      using assms(1) that by (simp_all add: safe_inv_def ptp_inv_def)
    have "PRTSM_inv (ptp_at s' q u)"
      using fr own inv(1) PRTSM_inv_core [of "ptp_at s' q u" "ptp_at br q u"]
      by (cases "(q, u) = (p, t)") (auto simp: PRTSM_framed_def)
    moreover have "PSTSM_core (ptp_at s' q u) = PSTSM_core (ptp_at br q u)"
      using fr by (simp add: PRTSM_framed_def)
    ultimately show ?thesis
      using inv(2) core(6) [of q] PSTSM_inv_core [of "ptp_at s' q u" "ptp_at br q u"]
      by (simp add: ptp_inv_def)
  qed
  with assms(1) core(1,2) show ?thesis by (simp add: safe_inv_def wf_bridge_def)
qed

lemma PSTSM_step_safe:
  assumes "safe_inv br" "p \<in> set (ports br)" "t \<in> set (trees br)" "PSTSM_step p t br = Move s' m a"
  shows "safe_inv s'"
proof -
  note fr = PSTSM_framed [OF assms(4)]
  note core = bridge_core_sel [OF fr(1)]
  have "ptp_inv s' q u" if "q \<in> set (ports br)" "u \<in> set (trees br)" for q u
  proof -
    have inv: "PRTSM_inv (ptp_at br q u)" "PSTSM_inv (deleted (port_at br q)) (ptp_at br q u)"
      using assms(1) that by (simp_all add: safe_inv_def ptp_inv_def)
    have "PSTSM_inv (deleted (port_at s' q)) (ptp_at s' q u)"
    proof (cases "(q, u) = (p, t)")
      case True
      with PSTSM_step_inv [OF _ assms(4)] inv(2) show ?thesis by simp
    next
      case False
      with PSTSM_inv_core [OF fr(4) [OF False]] inv(2) core(6) show ?thesis by simp
    qed
    with PRTSM_inv_core [OF fr(2)] inv(1) show ?thesis by (simp add: ptp_inv_def)
  qed
  with assms(1) core(1,2) show ?thesis by (simp add: safe_inv_def wf_bridge_def)
qed

subsection \<open>Every job keeps the invariant\<close>

lemma ptps_mem: "(p, t) \<in> set (ptps br) \<longleftrightarrow> p \<in> set (ports br) \<and> t \<in> set (trees br)"
  by (auto simp: ptps_def)

lemmas run_defs = PRSM_run_def PPMSM_run_def BDSM_run_def PTSM_run_def PISM_run_def
  PRSSM_run_def PRTSM_run_def PSTSM_run_def TCSM_run_def

text \<open>The jobs that \<open>keeps\<close> covers, and the two others.\<close>

fun plain_job :: "job \<Rightarrow> bool" where
  "plain_job (JPRTSM p t) = False" | "plain_job (JPSTSM p t) = False" | "plain_job _ = True"

lemma plain_job_keeps:
  assumes "plain_job j" "wf_bridge br" "run_job fuel False j br = Some (b, br')"
  shows "keeps br br'"
  using assms
  by (cases j) (auto simp: run_defs elim!: sm_run_keeps [rotated 2]
      dest: assurance_keeps PRSM_keeps PPMSM_keeps BDSM_keeps PTSM_keeps PISM_keeps PRSSM_keeps TCSM_keeps)

lemma jobs_core: "bridge_core br' = bridge_core br \<Longrightarrow> jobs br' = jobs br"
  using bridge_core_sel(1,2) [of br' br] by (simp add: jobs_def ptps_def)

lemma PRTSM_run_core: "PRTSM_run fuel p t br False = Some (b, br') \<Longrightarrow> bridge_core br' = bridge_core br"
  unfolding PRTSM_run_def
  using sm_run_inv [of "\<lambda>s. bridge_core s = bridge_core br"] PRTSM_step_framed PRTSM_bridge_core
  by metis

lemma PSTSM_run_core: "PSTSM_run fuel p t br False = Some (b, br') \<Longrightarrow> bridge_core br' = bridge_core br"
  unfolding PSTSM_run_def
  using sm_run_inv [of "\<lambda>s. bridge_core s = bridge_core br"] PSTSM_framed(1) by metis

lemma run_job_core:
  assumes "wf_bridge br" "run_job fuel False j br = Some (b, br')"
  shows "bridge_core br' = bridge_core br"
proof (cases "plain_job j")
  case True
  with plain_job_keeps [OF _ assms] show ?thesis by (simp add: keeps_def)
next
  case False
  with assms(2) show ?thesis by (cases j) (auto dest: PRTSM_run_core PSTSM_run_core)
qed

lemma PRTSM_run_safe:
  assumes "safe_inv br" "p \<in> set (ports br)" "t \<in> set (trees br)"
    and "PRTSM_run fuel p t br False = Some (b, br')"
  shows "safe_inv br'"
proof -
  let ?I = "\<lambda>s. safe_inv s \<and> bridge_core s = bridge_core br"
  have "?I s'" if "?I s" "PRTSM_step d p t s = Move s' m a" for s s' m a d
    using that assms(2,3) PRTSM_step_safe [of s p t d s' m a] bridge_core_sel(1,2) [of s br]
      PRTSM_bridge_core [OF PRTSM_step_framed [OF that(2)]] by simp
  then have "?I br'"
    using assms(1,4) unfolding PRTSM_run_def
    by (intro sm_run_inv [of ?I "PRTSM_step (PRTSM_delays p br) p t" br fuel False b br']) blast+
  then show ?thesis by simp
qed

lemma PSTSM_run_safe:
  assumes "safe_inv br" "p \<in> set (ports br)" "t \<in> set (trees br)"
    and "PSTSM_run fuel p t br False = Some (b, br')"
  shows "safe_inv br'"
proof -
  let ?I = "\<lambda>s. safe_inv s \<and> bridge_core s = bridge_core br"
  have "?I s'" if "?I s" "PSTSM_step p t s = Move s' m a" for s s' m a
    using that assms(2,3) PSTSM_step_safe [of s p t s' m a] bridge_core_sel(1,2) [of s br]
      PSTSM_framed(1) [OF that(2)] by simp
  then have "?I br'"
    using assms(1,4) unfolding PSTSM_run_def
    by (intro sm_run_inv [of ?I "PSTSM_step p t" br fuel False b br']) blast+
  then show ?thesis by simp
qed

lemma run_job_safe:
  assumes "safe_inv br" "j \<in> set (jobs br)" "run_job fuel False j br = Some (b, br')"
  shows "safe_inv br'"
proof (cases "plain_job j")
  case True
  have "wf_bridge br" using assms(1) by (simp add: safe_inv_def)
  from keeps_safe [OF plain_job_keeps [OF True this assms(3)] assms(1)] show ?thesis .
next
  case False
  with assms jobs_mem [OF assms(2)] show ?thesis
    by (cases j) (auto simp: ptps_mem dest: PRTSM_run_safe PSTSM_run_safe)
qed


subsection \<open>A pass keeps the invariant and blocks the ports that must not forward\<close>

abbreviation do_jobs :: "nat \<Rightarrow> job list \<Rightarrow> bridge_t \<Rightarrow> bridge_t option" where
  "do_jobs fuel \<equiv> ofold (\<lambda>j br. map_option snd (run_job fuel False j br))"

lemma foreach_run_actual:
  "foreach_run False f js s = map_option (Pair False) (ofold (\<lambda>j s. map_option snd (f j s)) js s)"
  by (induction js arbitrary: s) (auto simp: Option.map_conv_bind_option split: Option.bind_splits)

lemma pass_actual:
  "br_state_machines_pass fuel br False = Some (b, br') \<longleftrightarrow>
     \<not> b \<and> do_jobs fuel (jobs br) br = Some br'"
  by (auto simp: br_state_machines_pass_def foreach_run_actual)

lemma do_jobs_safe:
  assumes "safe_inv br" "set js \<subseteq> set (jobs br)" "do_jobs fuel js br = Some br'"
  shows "safe_inv br' \<and> bridge_core br' = bridge_core br"
proof (rule ofold_inv [where I = "\<lambda>s. safe_inv s \<and> bridge_core s = bridge_core br", OF _ assms(3)])
  fix j s s'
  assume j: "j \<in> set js" and I: "safe_inv s \<and> bridge_core s = bridge_core br"
    and "map_option snd (run_job fuel False j s) = Some s'"
  then obtain b where r: "run_job fuel False j s = Some (b, s')" by (auto simp: map_option_eq_Some)
  have "jobs s = jobs br" using I jobs_core [of s br] by simp
  then have "j \<in> set (jobs s)" using j assms(2) by auto
  moreover have "wf_bridge s" using I by (simp add: safe_inv_def)
  ultimately show "safe_inv s' \<and> bridge_core s' = bridge_core br"
    using run_job_safe [OF _ _ r] run_job_core [OF _ r] I by simp
qed (use assms(1) in simp)

definition settled :: "bridge_t \<Rightarrow> portref \<Rightarrow> mstid \<Rightarrow> bool" where
  "settled br p t \<longleftrightarrow> PSTSM_step p t br = Stay"

definition blocked :: "bridge_t \<Rightarrow> bool" where
  "blocked br \<longleftrightarrow>
     (\<forall>p \<in> set (ports br). \<forall>t \<in> set (trees br).
        role (ptp_at br p t) \<in> {roleDisabled, roleAlternate, roleBackup} \<longrightarrow>
        \<not> learning (ptp_at br p t) \<and> \<not> forwarding (ptp_at br p t)
        \<and> (\<not> deleted (port_at br p) \<longrightarrow> state (ptp_at br p t) = BR_STATE_BLOCKING))"

lemma settled_blocked:
  assumes "safe_inv br" "\<And>p t. p \<in> set (ports br) \<Longrightarrow> t \<in> set (trees br) \<Longrightarrow> settled br p t"
  shows "blocked br"
  unfolding blocked_def
proof (intro ballI impI)
  fix p t
  assume pt: "p \<in> set (ports br)" "t \<in> set (trees br)"
    and r: "role (ptp_at br p t) \<in> {roleDisabled, roleAlternate, roleBackup}"
  from assms(1) pt r have inv: "PSTSM_inv (deleted (port_at br p)) (ptp_at br p t)"
    "\<not> learn (ptp_at br p t)" "\<not> forward (ptp_at br p t)"
    by (auto simp: safe_inv_def ptp_inv_def PRTSM_inv_def role_safe_def)
  from assms(2) [OF pt] inv show "\<not> learning (ptp_at br p t) \<and> \<not> forwarding (ptp_at br p t)
      \<and> (\<not> deleted (port_at br p) \<longrightarrow> state (ptp_at br p t) = BR_STATE_BLOCKING)"
    by (cases "PSTSM_state (ptp_at br p t)") (auto simp: settled_def PSTSM_step_def PSTSM_inv_def Let_def)
qed

lemma settled_core:
  assumes "PRTSM_core (ptp_at br' p t) = PRTSM_core (ptp_at br p t)"
    "PSTSM_core (ptp_at br' p t) = PSTSM_core (ptp_at br p t)"
  shows "settled br' p t = settled br p t"
  using assms by (cases "PSTSM_state (ptp_at br p t)")
    (auto simp: settled_def PSTSM_step_def PRTSM_core_def PSTSM_core_def Let_def)

text \<open>Running the machine of one port settles that port and unsettles no other.\<close>

lemma PSTSM_run_settles:
  assumes "ptp_inv br p t" "PSTSM_run fuel p t br False = Some (b, br')"
  shows "settled br' p t"
proof -
  have "sm_run (PSTSM_step p t) 1 br' True = Some (False, br')"
    by (rule pstsm.run_settles [of br p t fuel b br' 1])
      (use assms in \<open>simp_all add: ptp_inv_def PSTSM_run_def\<close>)
  then show ?thesis
    using PSTSM_step_props(1) [of p t br'] PSTSM_no_fault [of p t br']
    by (cases "PSTSM_step p t br'") (auto simp: settled_def)
qed

lemma PSTSM_run_other:
  assumes "(q, u) \<noteq> (p, t)" "PSTSM_run fuel p t br False = Some (b, br')"
  shows "settled br' q u = settled br q u"
proof -
  let ?I = "\<lambda>s. PRTSM_core (ptp_at s q u) = PRTSM_core (ptp_at br q u)
    \<and> PSTSM_core (ptp_at s q u) = PSTSM_core (ptp_at br q u)"
  have "?I s'" if "?I s" "PSTSM_step p t s = Move s' m a" for s s' m a
    using that(1) PSTSM_framed(2,4) [OF that(2)] assms(1) by simp
  then have "?I br'"
    using assms(2) unfolding PSTSM_run_def
    by (intro sm_run_inv [of ?I "PSTSM_step p t" br fuel False b br']) blast+
  then show ?thesis by (intro settled_core) simp_all
qed

lemma PSTSM_jobs_settle:
  assumes "safe_inv br" "set pts \<subseteq> set (ptps br)"
    "do_jobs fuel (map (\<lambda>(p, t). JPSTSM p t) pts) br = Some br'"
  shows "(\<forall>(p, t) \<in> set pts. settled br' p t) \<and> (\<forall>p t. settled br p t \<and> (p, t) \<notin> set pts \<longrightarrow> settled br' p t)"
  using assms
proof (induction pts arbitrary: br)
  case Nil
  then show ?case by simp
next
  case (Cons pt pts)
  obtain p t where pt: "pt = (p, t)" by (cases pt)
  with Cons.prems(3) obtain b b1 where 1: "PSTSM_run fuel p t br False = Some (b, b1)"
    "do_jobs fuel (map (\<lambda>(p, t). JPSTSM p t) pts) b1 = Some br'"
    by (auto simp: bind_eq_Some_conv)
  have mem: "p \<in> set (ports br)" "t \<in> set (trees br)" using Cons.prems(2) pt by (simp_all add: ptps_mem)
  have s1: "safe_inv b1" by (rule PSTSM_run_safe [OF Cons.prems(1) mem 1(1)])
  have "ptps b1 = ptps br" using bridge_core_sel(1,2) [OF PSTSM_run_core [OF 1(1)]] by (simp add: ptps_def)
  then have IH: "(\<forall>(p, t) \<in> set pts. settled br' p t)
      \<and> (\<forall>p t. settled b1 p t \<and> (p, t) \<notin> set pts \<longrightarrow> settled br' p t)"
    using Cons.IH [OF s1 _ 1(2)] Cons.prems(2) by simp
  have "settled b1 p t"
    using PSTSM_run_settles [OF _ 1(1)] Cons.prems(1) mem by (simp add: safe_inv_def)
  moreover have "settled b1 q u = settled br q u" if "(q, u) \<noteq> (p, t)" for q u
    by (rule PSTSM_run_other [OF that 1(1)])
  ultimately have own: "settled br' p t" and
    other: "\<And>q u. (q, u) \<noteq> (p, t) \<Longrightarrow> settled br q u \<Longrightarrow> (q, u) \<notin> set pts \<Longrightarrow> settled br' q u"
    using IH by blast+
  show ?case
  proof (intro conjI ballI allI impI)
    fix x
    assume "x \<in> set (pt # pts)"
    then show "case x of (p, t) \<Rightarrow> settled br' p t" using own IH pt by auto
  next
    fix q u
    assume "settled br q u \<and> (q, u) \<notin> set (pt # pts)"
    then show "settled br' q u" using other [of q u] pt by simp
  qed
qed

lemma keeps_blocked_jobs:
  assumes "\<And>j. j \<in> set js \<Longrightarrow> plain_job j" "wf_bridge br" "do_jobs fuel js br = Some br'"
  shows "keeps br br'"
  using assms
proof (induction js arbitrary: br)
  case Nil
  then show ?case by (simp add: keeps_def)
next
  case (Cons j js)
  then obtain b b1 where 1: "run_job fuel False j br = Some (b, b1)" "do_jobs fuel js b1 = Some br'"
    by (auto simp: bind_eq_Some_conv)
  have k: "keeps br b1" by (rule plain_job_keeps [OF _ _ 1(1)]) (use Cons.prems in simp_all)
  then have "keeps b1 br'" using Cons.IH [OF _ _ 1(2)] Cons.prems keeps_wf [OF k] by simp
  with k show ?case by (rule keeps_trans)
qed

lemma keeps_settled: "keeps br br' \<Longrightarrow> settled br' p t = settled br p t"
  by (rule settled_core) (simp_all add: keeps_def)

lemma pass_blocks:
  assumes "safe_inv br" "br_state_machines_pass fuel br False = Some (b, br')"
  shows "safe_inv br'" and "blocked br'" and "bridge_core br' = bridge_core br"
proof -
  let ?J = "map (\<lambda>(p, t). JPSTSM p t) (ptps br)" and ?T = "map (\<lambda>(p, t). JTCSM p t) (ptps br)"
  obtain pre where pre: "jobs br = pre @ ?J @ ?T" unfolding jobs_def by auto
  from assms(2) have all: "do_jobs fuel (jobs br) br = Some br'" by (simp add: pass_actual)
  then obtain b1 b2 where
    1: "do_jobs fuel pre br = Some b1" and 2: "do_jobs fuel ?J b1 = Some b2" and
    3: "do_jobs fuel ?T b2 = Some br'"
    by (auto simp: pre ofold_append bind_eq_Some_conv)
  show inv: "safe_inv br'" "bridge_core br' = bridge_core br"
    using do_jobs_safe [OF assms(1) _ all] by simp_all
  have s1: "safe_inv b1" "bridge_core b1 = bridge_core br"
    using do_jobs_safe [OF assms(1) _ 1] pre by auto
  note same1 = bridge_core_sel(1,2) [OF s1(2)]
  have j1: "jobs b1 = jobs br" by (rule jobs_core [OF s1(2)])
  have s2: "safe_inv b2"
    using do_jobs_safe [OF s1(1) _ 2] pre j1 by auto
  have "ptps b1 = ptps br" using same1 by (simp add: ptps_def)
  then have "\<forall>(p, t) \<in> set (ptps br). settled b2 p t"
    using PSTSM_jobs_settle [OF s1(1) _ 2] by simp
  moreover have "keeps b2 br'"
    by (rule keeps_blocked_jobs [OF _ _ 3]) (use s2 in \<open>auto simp: safe_inv_def\<close>)
  ultimately have "\<forall>(p, t) \<in> set (ptps br). settled br' p t" using keeps_settled by blast
  then show "blocked br'"
    using bridge_core_sel(1,2) [OF inv(2)] by (intro settled_blocked [OF inv(1)]) (auto simp: ptps_mem)
qed

lemma dry_settled:
  assumes "br_state_machines_pass fuel br True = Some (False, br')" "(p, t) \<in> set (ptps br)"
  shows "settled br p t"
proof -
  have "\<forall>j \<in> set (jobs br). run_job fuel True j br = Some (False, br)"
    using assms(1) unfolding br_state_machines_pass_def
    by (rule foreach_run_dry) (rule run_job_dry_state)
  moreover have "JPSTSM p t \<in> set (jobs br)" using assms(2) by (force simp: jobs_def)
  ultimately have "sm_run (PSTSM_step p t) fuel br True = Some (False, br)"
    by (auto simp: PSTSM_run_def)
  then show ?thesis
    using PSTSM_step_props(1) [of p t br] PSTSM_no_fault [of p t br]
    by (cases fuel; cases "PSTSM_step p t br") (auto simp: settled_def)
qed

lemma loop_safe:
  assumes "safe_inv br" "br_state_machines_loop fuel rounds br = Some br'"
  shows "safe_inv br' \<and> bridge_core br' = bridge_core br \<and> (0 < rounds \<or> blocked br \<longrightarrow> blocked br')"
  using assms
proof (induction rounds arbitrary: br)
  case 0
  then show ?case by simp
next
  case (Suc rounds)
  from Suc.prems(2) obtain b b0 where dry: "br_state_machines_pass fuel br True = Some (b, b0)"
    by (auto simp: bind_eq_Some_conv)
  show ?case
  proof (cases b)
    case False
    with Suc.prems dry have "br' = br" by simp
    with Suc.prems(1) dry_settled [of fuel br b0] dry False show ?thesis
      by (auto intro!: settled_blocked simp: ptps_mem)
  next
    case True
    with Suc.prems(2) dry obtain c b1 where
      "br_state_machines_pass fuel br False = Some (c, b1)"
      and l: "br_state_machines_loop fuel rounds b1 = Some br'"
      by (auto simp: bind_eq_Some_conv)
    then show ?thesis using pass_blocks [OF Suc.prems(1)] Suc.IH [OF _ l] by simp
  qed
qed

lemma run_safe:
  assumes "safe_inv br" "br_state_machines_run fuel rounds br = Some br'"
  shows "safe_inv br'" and "bridge_core br' = bridge_core br"
    and "bridgeEnabled br \<Longrightarrow> blocked br'"
  using loop_safe [OF assms(1), of fuel "Suc rounds" br'] assms
  by (auto simp: br_state_machines_run_def simp del: br_state_machines_loop.simps split: if_splits)

end
