(* ===== verification/Mstp_Rstp.thy ===== *)
theory Mstp_Rstp
  imports Mstp_Invariant
begin

section \<open>A bridge with one spanning tree never hangs\<close>

text \<open>
  \<open>run_inv\<close> adds to the safety invariant what the CIST machines need in order to end: hello times
  are not zero and no port has the role Master in the CIST. A bridge whose only tree is the CIST
  is how the daemon runs STP and RSTP; there every machine ends within a fixed number of nested
  calls, so that a pass over the machines, and the loop around it, always return.
\<close>

definition cist_port_ok :: "bridge_t \<Rightarrow> portref \<Rightarrow> bool" where
  "cist_port_ok br p \<longleftrightarrow> hello_ok (cist_of br p)
     \<and> role (cist_of br p) \<noteq> roleMaster \<and> selectedRole (cist_of br p) \<noteq> roleMaster"

definition run_inv :: "bridge_t \<Rightarrow> bool" where
  "run_inv br \<longleftrightarrow> safe_inv br \<and> Migrate_Time br \<noteq> 0 \<and> (\<forall>p \<in> set (ports br). cist_port_ok br p)"

definition rstp_inv :: "bridge_t \<Rightarrow> bool" where
  "rstp_inv br \<longleftrightarrow> run_inv br \<and> trees br = [CIST]"

subsection \<open>The invariant is kept\<close>

lemma keeps_run:
  assumes k: "keeps br br'" and inv: "run_inv br"
  shows "run_inv br'"
proof -
  note core = bridge_core_sel [of br' br]
  have c: "bridge_core br' = bridge_core br" using k by (simp add: keeps_def)
  have "cist_port_ok br' p" if "p \<in> set (ports br)" for p
    using that k inv by (simp add: keeps_def run_inv_def cist_port_ok_def PRTSM_core_def)
  with inv keeps_safe [OF k] core [OF c] show ?thesis by (simp add: run_inv_def)
qed

lemma PRTSM_step_run:
  assumes inv: "run_inv br" and p: "p \<in> set (ports br)" "t \<in> set (trees br)"
    and step: "PRTSM_step d p t br = Move s' m a"
  shows "run_inv s'"
proof -
  have fr: "PRTSM_framed p t br s'" by (rule PRTSM_step_framed [OF step])
  note core = bridge_core_sel [OF PRTSM_bridge_core [OF fr]]
  have safe: "safe_inv s'"
    using PRTSM_step_safe [OF _ p step] inv by (simp add: run_inv_def)
  have role: "role (cist_of s' q) \<noteq> roleMaster" if "q \<in> set (ports br)" for q
  proof (cases "(q, CIST) = (p, t)")
    case True
    with inv p have "PRTSM_ok p t br"
      by (simp add: PRTSM_ok_def run_inv_def safe_inv_def ptp_inv_def cist_port_ok_def)
    with True PRTSM_step_ok [OF _ step] show ?thesis by (simp add: PRTSM_ok_def)
  next
    case False
    with fr that inv show ?thesis
      by (simp add: PRTSM_framed_def PRTSM_core_def run_inv_def cist_port_ok_def)
  qed
  have "cist_port_ok s' q" if "q \<in> set (ports br)" for q
  proof -
    have "sel_core (cist_of s' q) = sel_core (cist_of br q)" using fr by (simp add: PRTSM_framed_def)
    with role [OF that] that inv show ?thesis
      by (simp add: run_inv_def cist_port_ok_def sel_core_def hello_ok_def)
  qed
  with inv safe core show ?thesis by (simp add: run_inv_def)
qed

lemma PSTSM_step_run:
  assumes inv: "run_inv br" and p: "p \<in> set (ports br)" "t \<in> set (trees br)"
    and step: "PSTSM_step p t br = Move s' m a"
  shows "run_inv s'"
proof -
  note fr = PSTSM_framed [OF step]
  note core = bridge_core_sel [OF fr(1)]
  have safe: "safe_inv s'"
    using PSTSM_step_safe [OF _ p step] inv by (simp add: run_inv_def)
  have "cist_port_ok s' q" if "q \<in> set (ports br)" for q
    using fr(2,3) [of q CIST] that inv
    by (simp add: run_inv_def cist_port_ok_def sel_core_def PRTSM_core_def hello_ok_def)
  with inv safe core show ?thesis by (simp add: run_inv_def)
qed

lemma run_job_run:
  assumes inv: "run_inv br" and j: "j \<in> set (jobs br)" and r: "run_job fuel False j br = Some (b, br')"
  shows "run_inv br'"
proof (cases "plain_job j")
  case True
  have "wf_bridge br" using inv by (simp add: run_inv_def safe_inv_def)
  from keeps_run [OF plain_job_keeps [OF True this r] inv] show ?thesis .
next
  case False
  let ?I = "\<lambda>s. run_inv s \<and> bridge_core s = bridge_core br"
  have same: "ports s = ports br" "trees s = trees br" if "?I s" for s
    using that bridge_core_sel(1,2) [of s br] by simp_all
  show ?thesis
  proof (cases j)
    case (JPRTSM p t)
    with jobs_mem [OF j] have p: "p \<in> set (ports br)" "t \<in> set (trees br)" by (simp_all add: ptps_mem)
    have step: "?I s'" if "?I s" "PRTSM_step d p t s = Move s' m a" for s s' m a d
    proof
      have "p \<in> set (ports s)" "t \<in> set (trees s)" using p same [OF that(1)] by simp_all
      then show "run_inv s'" using PRTSM_step_run [OF _ _ _ that(2)] that(1) by blast
      show "bridge_core s' = bridge_core br"
        using PRTSM_bridge_core [OF PRTSM_step_framed [OF that(2)]] that(1) by metis
    qed
    have run: "sm_run (PRTSM_step (PRTSM_delays p br) p t) fuel br False = Some (b, br')"
      using r JPRTSM by (simp add: PRTSM_run_def)
    have "?I br'" by (rule sm_run_inv [where I = ?I, OF _ _ run]) (fact step, use inv in simp)
    then show ?thesis by simp
  next
    case (JPSTSM p t)
    with jobs_mem [OF j] have p: "p \<in> set (ports br)" "t \<in> set (trees br)" by (simp_all add: ptps_mem)
    have step: "?I s'" if "?I s" "PSTSM_step p t s = Move s' m a" for s s' m a
    proof
      have "p \<in> set (ports s)" "t \<in> set (trees s)" using p same [OF that(1)] by simp_all
      then show "run_inv s'" using PSTSM_step_run [OF _ _ _ that(2)] that(1) by blast
      show "bridge_core s' = bridge_core br" using PSTSM_framed(1) [OF that(2)] that(1) by metis
    qed
    have run: "sm_run (PSTSM_step p t) fuel br False = Some (b, br')"
      using r JPSTSM by (simp add: PSTSM_run_def)
    have "?I br'" by (rule sm_run_inv [where I = ?I, OF _ _ run]) (fact step, use inv in simp)
    then show ?thesis by simp
  qed (use False in simp_all)
qed

lemma pass_run_inv:
  assumes "run_inv br" "br_state_machines_pass fuel br False = Some (b, br')"
  shows "run_inv br'"
proof -
  let ?I = "\<lambda>s. run_inv s \<and> bridge_core s = bridge_core br"
  have r: "do_jobs fuel (jobs br) br = Some br'" using assms(2) by (simp add: pass_actual)
  have "?I br'"
  proof (rule ofold_inv [where I = ?I, OF _ r])
    fix j s s'
    assume j: "j \<in> set (jobs br)" and I: "?I s"
      and "map_option snd (run_job fuel False j s) = Some s'"
    then obtain b where r: "run_job fuel False j s = Some (b, s')" by (auto simp: map_option_eq_Some)
    have "jobs s = jobs br" using I jobs_core [of s br] by simp
    then have "j \<in> set (jobs s)" using j by simp
    moreover have "wf_bridge s" using I by (simp add: run_inv_def safe_inv_def)
    ultimately show "?I s'" using run_job_run [OF _ _ r] run_job_core [OF _ r] I by simp
  qed (use assms(1) in simp)
  then show ?thesis by simp
qed

lemma loop_run_inv:
  assumes "run_inv br" "br_state_machines_loop fuel rounds br = Some br'"
  shows "run_inv br'"
  using assms
proof (induction rounds arbitrary: br)
  case (Suc rounds)
  then show ?case
    by (auto simp: bind_eq_Some_conv split: if_splits dest: pass_run_inv)
qed simp

lemma run_run_inv:
  assumes "run_inv br" "br_state_machines_run fuel rounds br = Some br'"
  shows "run_inv br'"
  using assms loop_run_inv [OF assms(1), of fuel "Suc rounds" br']
  by (simp add: br_state_machines_run_def del: br_state_machines_loop.simps split: if_splits)

subsection \<open>Every machine ends\<close>

text \<open>The depth of nested calls a machine may need: 51 for role transitions; port transmit may
  send as many BPDUs as the hold count allows, with two calls for each.\<close>

definition call_depth :: "bridge_t \<Rightarrow> nat" where
  "call_depth br = max 51 (2 * unat (Transmit_Hold_Count br) + 3)"

lemma call_depth_core: "bridge_core br' = bridge_core br \<Longrightarrow> call_depth br' = call_depth br"
  using bridge_core_sel(5) [of br' br] by (simp add: call_depth_def)

lemma PTSM_rank_bound: "PTSM_rank p br < 2 * unat (Transmit_Hold_Count br) + 3"
  unfolding PTSM_rank_def PTSM_credit_def by (auto split: if_splits)

lemma PPMSM_rank_bound: "PPMSM_rank x < 4"
  by (simp add: PPMSM_rank_def split: PPMSM_states_t.split)

lemma PSTSM_rank_bound: "PSTSM_rank p t br < 4"
  by (simp add: PSTSM_rank_def Let_def split: PSTSM_states_t.split)

lemma PRTSM_rank_51: "PRTSM_rank d p t br < 51"
  using PRTSM_rank_bound [of d "BaInconsistent (port_at br p)" "ptp_at br p t"]
  by (simp add: PRTSM_rank_def split: if_splits)

lemma rstp_machines_ok:
  assumes "rstp_inv br"
  shows "machines_ok br"
  unfolding machines_ok_def
proof (intro conjI ballI, goal_cases)
  case (3 p)
  with assms show ?case by (simp add: rstp_inv_def run_inv_def cist_port_ok_def PTSM_ok_def hello_ok_def)
next
  case (4 pt)
  obtain p t where p: "pt = (p, t)" by (cases pt)
  with 4 assms have pt: "pt = (p, CIST)" "p \<in> set (ports br)" by (simp_all add: rstp_inv_def ptps_mem)
  with assms have "ptp_inv br p CIST" "cist_port_ok br p"
    by (auto simp: rstp_inv_def run_inv_def safe_inv_def)
  with pt show ?case
    by (simp add: PISM_ok_def PISM_msg_ok_def PRTSM_ok_def TCSM_ok_def ptp_inv_def cist_port_ok_def)
qed (use assms in \<open>simp_all add: rstp_inv_def run_inv_def safe_inv_def\<close>)

lemma run_job_total:
  assumes ok: "machines_ok br" and j: "j \<in> set (jobs br)" and fuel: "call_depth br \<le> fuel"
  shows "\<exists>br'. run_job fuel False j br = Some (False, br')"
proof -
  have wf: "wf_bridge br" "Migrate_Time br \<noteq> 0" using ok by (simp_all add: machines_ok_def)
  have f: "51 \<le> fuel" "2 * unat (Transmit_Hold_Count br) + 3 \<le> fuel"
    using fuel by (simp_all add: call_depth_def)
  have ptp: "PISM_ok p t br \<and> PRTSM_ok p t br \<and> TCSM_ok p t br
      \<and> PSTSM_inv (deleted (port_at br p)) (ptp_at br p t)" if "(p, t) \<in> set (ptps br)" for p t
    using ok that by (auto simp: machines_ok_def)
  have prt: "PTSM_ok p br" if "p \<in> set (ports br)" for p using ok that by (simp add: machines_ok_def)
  show ?thesis
  proof (cases j)
    case (JAssurance p)
    with assurance.run_total [where s = br and n = fuel and p = p] f show ?thesis by auto
  next
    case (JPRSM p)
    with prsm.run_total [where s = br and n = fuel and p = p] f show ?thesis by (auto simp: PRSM_run_def)
  next
    case (JPPMSM p)
    with ppmsm.run_total [where s = br and n = fuel and p = p] wf f PPMSM_rank_bound [of "port_at br p"] show ?thesis
      by (auto simp: PPMSM_run_def)
  next
    case (JBDSM p)
    with bdsm.run_total [where s = br and n = fuel and p = p] f show ?thesis by (auto simp: BDSM_run_def)
  next
    case (JPTSM p)
    then have "p \<in> set (ports br)" using jobs_mem [OF j] by simp
    with JPTSM ptsm.run_total [OF prt, where n = fuel and p = p] PTSM_rank_bound [of p br] f show ?thesis
      by (auto simp: PTSM_run_def)
  next
    case (JPISM p t)
    then have "(p, t) \<in> set (ptps br)" using jobs_mem [OF j] by simp
    from ptp [OF this] JPISM pism.run_total [where s = br and n = fuel and p = p and t = t] PISM_rank_bound [of p t br] f show ?thesis
      by (auto simp: PISM_run_def)
  next
    case (JPRSSM t)
    with prssm.run_total [where s = br and n = fuel and t = t] wf f show ?thesis by (auto simp: PRSSM_run_def)
  next
    case (JPRTSM p t)
    then have "(p, t) \<in> set (ptps br)" using jobs_mem [OF j] by simp
    from ptp [OF this] JPRTSM prtsm.run_total [where s = br and n = fuel and p = p and t = t and d = "PRTSM_delays p br"]
      PRTSM_rank_51 [of "PRTSM_delays p br" p t br] f show ?thesis
      by (auto simp: PRTSM_run_def)
  next
    case (JPSTSM p t)
    then have "(p, t) \<in> set (ptps br)" using jobs_mem [OF j] by simp
    from ptp [OF this] JPSTSM pstsm.run_total [where s = br and n = fuel and p = p and t = t] PSTSM_rank_bound [of p t br] f show ?thesis
      by (auto simp: PSTSM_run_def)
  next
    case (JTCSM p t)
    then have "(p, t) \<in> set (ptps br)" using jobs_mem [OF j] by simp
    from ptp [OF this] JTCSM tcsm.run_total [where s = br and n = fuel and p = p and t = t] tc_rank_bound [of "tc_view p t br"] f show ?thesis
      by (auto simp: TCSM_run_def)
  qed
qed

subsection \<open>A pass and the loop return\<close>

lemma do_jobs_total:
  assumes "rstp_inv br" "set js \<subseteq> set (jobs br)" "call_depth br \<le> fuel"
  shows "\<exists>br'. do_jobs fuel js br = Some br' \<and> rstp_inv br' \<and> bridge_core br' = bridge_core br"
  using assms
proof (induction js arbitrary: br)
  case Nil
  then show ?case by simp
next
  case (Cons j js)
  obtain b1 where r: "run_job fuel False j br = Some (False, b1)"
    using run_job_total [OF rstp_machines_ok [OF Cons.prems(1)], of j fuel] Cons.prems(2,3) by auto
  have core: "bridge_core b1 = bridge_core br"
    by (rule run_job_core [OF _ r]) (use Cons.prems(1) in \<open>simp add: rstp_inv_def run_inv_def safe_inv_def\<close>)
  have "run_inv b1"
    by (rule run_job_run [OF _ _ r]) (use Cons.prems(1,2) in \<open>simp_all add: rstp_inv_def\<close>)
  then have inv: "rstp_inv b1"
    using Cons.prems(1) bridge_core_sel(2) [OF core] by (simp add: rstp_inv_def)
  from Cons.IH [OF inv] jobs_core [OF core] call_depth_core [OF core] Cons.prems(2,3)
  obtain br' where "do_jobs fuel js b1 = Some br'" "rstp_inv br'" "bridge_core br' = bridge_core b1"
    by auto
  with r core show ?case by auto
qed

lemma pass_total:
  assumes "rstp_inv br" "call_depth br \<le> fuel"
  shows "\<exists>br'. br_state_machines_pass fuel br False = Some (False, br') \<and> rstp_inv br'
    \<and> bridge_core br' = bridge_core br"
  using do_jobs_total [OF assms(1) order_refl assms(2)] by (auto simp: pass_actual)

lemma run_job_dry_total: "0 < fuel \<Longrightarrow> \<exists>b. run_job fuel True j br = Some (b, br)"
  by (cases j) (simp_all add: run_defs sm_run_dry_total)

lemma foreach_dry_total:
  assumes "\<And>j. \<exists>b. f j s = Some (b, s)"
  shows "\<exists>b. foreach_run True f js s = Some (b, s)"
proof (induction js)
  case Nil
  then show ?case by auto
next
  case (Cons j js)
  from assms [of j] obtain b where "f j s = Some (b, s)" by blast
  with Cons.IH show ?case by (cases b) auto
qed

lemma pass_dry_total: "0 < fuel \<Longrightarrow> \<exists>b. br_state_machines_pass fuel br True = Some (b, br)"
  unfolding br_state_machines_pass_def by (rule foreach_dry_total) (rule run_job_dry_total)

lemma loop_total:
  assumes "rstp_inv br" "call_depth br \<le> fuel"
  shows "\<exists>br'. br_state_machines_loop fuel rounds br = Some br' \<and> rstp_inv br'
    \<and> bridge_core br' = bridge_core br"
  using assms
proof (induction rounds arbitrary: br)
  case 0
  then show ?case by simp
next
  case (Suc rounds)
  have "0 < fuel" using Suc.prems(2) by (simp add: call_depth_def)
  from pass_dry_total [OF this] obtain b where dry: "br_state_machines_pass fuel br True = Some (b, br)"
    by blast
  from pass_total [OF Suc.prems] obtain b1 where act: "br_state_machines_pass fuel br False = Some (False, b1)"
    "rstp_inv b1" "bridge_core b1 = bridge_core br" by blast
  from Suc.IH [OF act(2)] call_depth_core [OF act(3)] Suc.prems(2)
  obtain br' where "br_state_machines_loop fuel rounds b1 = Some br'" "rstp_inv br'"
    "bridge_core br' = bridge_core b1" by auto
  with dry act Suc.prems show ?case by (cases b) auto
qed

lemma bridge_run_total:
  assumes "rstp_inv br" "call_depth br \<le> fuel"
  shows "\<exists>br'. br_state_machines_run fuel rounds br = Some br' \<and> rstp_inv br'
    \<and> bridge_core br' = bridge_core br"
  using loop_total [OF assms, of "Suc rounds"] assms(1)
  by (auto simp: br_state_machines_run_def simp del: br_state_machines_loop.simps)

end
