(* ===== verification/Mstp_System.thy ===== *)
theory Mstp_System
  imports Mstp_Rstp
begin

section \<open>The bridge as a system of events\<close>

text \<open>
  Invariants of a bridge over any sequence of the external events of \<open>mstp.c\<close>. \<open>config_ok\<close> says
  that the configured times are in the ranges management checks, that every tree has them, and that
  the VLAN tables are consistent;
  \<open>weak_inv\<close> adds what holds even while the bridge is disabled, \<open>pre_inv\<close> the per-port invariants
  of an enabled bridge, and \<open>sys_inv\<close>, which holds between events, that ports which must not
  forward are blocked.
\<close>

definition times_of :: "bridge_t \<Rightarrow> times_t" where
  "times_of br = \<lparr>remainingHops = br_MaxHops br, Forward_Delay = br_Forward_Delay br,
     Max_Age = br_Max_Age br, Message_Age = 0, Hello_Time = br_Hello_Time br\<rparr>"

definition ranges_ok :: "bridge_t \<Rightarrow> bool" where
  "ranges_ok br \<longleftrightarrow>
     6 \<le> br_Max_Age br \<and> br_Max_Age br \<le> 40 \<and> 4 \<le> br_Forward_Delay br \<and> br_Forward_Delay br \<le> 30
     \<and> int (unat (br_Max_Age br)) \<le> 2 * (int (unat (br_Forward_Delay br)) - 1)
     \<and> 6 \<le> br_MaxHops br \<and> br_MaxHops br \<le> 40 \<and> 1 \<le> br_Hello_Time br \<and> br_Hello_Time br \<le> 10
     \<and> 1 \<le> Transmit_Hold_Count br \<and> Transmit_Hold_Count br \<le> 10
     \<and> 10 \<le> Ageing_Time br \<and> Ageing_Time br \<le> 1000000 \<and> Migrate_Time br = 3"

text \<open>The VLAN tables: every VID has a FID, every FID an existing tree; there are at most 63 MSTIs.\<close>

definition table_inv :: "bridge_t \<Rightarrow> bool" where
  "table_inv br \<longleftrightarrow> length (trees br) \<le> MAX_IMPLEMENTATION_MSTIS + 1
     \<and> (\<forall>t \<in> set (trees br). unat t \<le> MAX_MSTID)
     \<and> (\<forall>f \<le> MAX_FID. fid2mstid br f \<in> set (trees br))
     \<and> (\<forall>v. 1 \<le> v \<and> v \<le> MAX_VID \<longrightarrow> unat (vid2fid br v) \<le> MAX_FID)"

definition config_ok :: "bridge_t \<Rightarrow> bool" where
  "config_ok br \<longleftrightarrow> ranges_ok br \<and> table_inv br
     \<and> (\<forall>t \<in> set (trees br). BridgeTimes (tree_at br t) = times_of br)"

definition weak_inv :: "bridge_t \<Rightarrow> bool" where
  "weak_inv br \<longleftrightarrow> wf_bridge br \<and> config_ok br \<and> (\<forall>p \<in> set (ports br). cist_port_ok br p)"

definition pre_inv :: "bridge_t \<Rightarrow> bool" where
  "pre_inv br \<longleftrightarrow> weak_inv br \<and> (bridgeEnabled br \<longrightarrow> safe_inv br)"

definition sys_inv :: "bridge_t \<Rightarrow> bool" where
  "sys_inv br \<longleftrightarrow> pre_inv br \<and> (bridgeEnabled br \<longrightarrow> blocked br)"

lemma config_ok_core:
  assumes "bridge_core br' = bridge_core br"
  shows "config_ok br' = config_ok br"
proof -
  have "bridge_config br' = bridge_config br" "trees br' = trees br"
    "\<And>t. BridgeTimes (tree_at br' t) = BridgeTimes (tree_at br t)"
    using assms by (simp_all add: bridge_core_def fun_eq_iff tree_config_def)
  then show ?thesis by (simp add: config_ok_def ranges_ok_def table_inv_def times_of_def bridge_config_def)
qed

lemma config_hello_nz: "config_ok br \<Longrightarrow> br_Hello_Time br \<noteq> 0 \<and> Migrate_Time br \<noteq> 0"
  by (auto simp: config_ok_def ranges_ok_def)

lemma config_call_depth: "config_ok br \<Longrightarrow> call_depth br = 51"
  by (simp add: config_ok_def ranges_ok_def call_depth_def word_le_nat_alt)

lemma keeps_weak:
  assumes k: "keeps br br'" and inv: "weak_inv br"
  shows "weak_inv br'"
proof -
  have c: "bridge_core br' = bridge_core br" using k by (simp add: keeps_def)
  have "cist_port_ok br' p" if "p \<in> set (ports br)" for p
    using that k inv by (simp add: keeps_def weak_inv_def cist_port_ok_def PRTSM_core_def)
  with inv keeps_wf [OF k] config_ok_core [OF c] bridge_core_sel(1) [OF c] show ?thesis
    by (simp add: weak_inv_def)
qed

lemma pre_run_inv: "pre_inv br \<Longrightarrow> bridgeEnabled br \<Longrightarrow> run_inv br"
  by (simp add: pre_inv_def weak_inv_def run_inv_def config_hello_nz)

lemma run_inv_weak: "run_inv br \<Longrightarrow> config_ok br \<Longrightarrow> weak_inv br \<and> pre_inv br"
  by (simp add: pre_inv_def weak_inv_def run_inv_def safe_inv_def)

text \<open>Running the machines makes the invariant complete.\<close>

lemma run_sys:
  assumes "pre_inv br" "br_state_machines_run fuel rounds br = Some br'"
  shows "sys_inv br'" and "bridge_core br' = bridge_core br"
proof -
  have "sys_inv br' \<and> bridge_core br' = bridge_core br"
  proof (cases "bridgeEnabled br")
    case False
    with assms show ?thesis by (simp add: br_state_machines_run_def sys_inv_def)
  next
    case True
    with assms(1) have s: "safe_inv br" by (simp add: pre_inv_def)
    have "run_inv br'" by (rule run_run_inv [OF pre_run_inv [OF assms(1) True] assms(2)])
    moreover have c: "bridge_core br' = bridge_core br" by (rule run_safe(2) [OF s assms(2)])
    moreover have "config_ok br'"
      using config_ok_core [OF c] assms(1) by (simp add: pre_inv_def weak_inv_def)
    ultimately show ?thesis
      using run_inv_weak [of br'] run_safe(3) [OF s assms(2) True] by (simp add: sys_inv_def)
  qed
  then show "sys_inv br'" "bridge_core br' = bridge_core br" by simp_all
qed

lemma run_returns:
  assumes "pre_inv br" "trees br = [CIST]" "51 \<le> fuel"
  shows "\<exists>br'. br_state_machines_run fuel rounds br = Some br'"
proof (cases "bridgeEnabled br")
  case False
  then show ?thesis by (simp add: br_state_machines_run_def)
next
  case True
  have "rstp_inv br" using pre_run_inv [OF assms(1) True] assms(2) by (simp add: rstp_inv_def)
  moreover have "call_depth br \<le> fuel"
    using assms(1,3) config_call_depth by (simp add: pre_inv_def weak_inv_def)
  ultimately show ?thesis using bridge_run_total by blast
qed

subsection \<open>BEGIN establishes the invariant\<close>

definition reset_ptps :: "(portref \<times> mstid) list \<Rightarrow> bridge_t \<Rightarrow> bridge_t" where
  "reset_ptps pts br =
     fold (\<lambda>(p, t). TCSM_to_INACTIVE p t) pts
       (fold (\<lambda>(p, t). PSTSM_to_DISCARDING p t) pts
         (fold (\<lambda>(p, t). PRTSM_to_INIT_PORT p t) pts br))"

lemma INIT_PORT_frame:
  "bridge_core (PRTSM_to_INIT_PORT p t br) = bridge_core br"
  "PSTSM_core (ptp_at (PRTSM_to_INIT_PORT p t br) q u) = PSTSM_core (ptp_at br q u)"
  "sel_core (ptp_at (PRTSM_to_INIT_PORT p t br) q u) = sel_core (ptp_at br q u)"
  "PRTSM_core (ptp_at (PRTSM_to_INIT_PORT p t br) q u) =
     (if (q, u) = (p, t) then (PRTSM_INIT_PORT, roleDisabled, False, False)
      else PRTSM_core (ptp_at br q u))"
  by (simp_all add: PRTSM_to_INIT_PORT_def bridge_core_def PSTSM_core_def sel_core_def
      PRTSM_core_def Let_def)

lemma PRTSM_inv_init: "PRTSM_core x = (PRTSM_INIT_PORT, roleDisabled, False, False) \<Longrightarrow> PRTSM_inv x"
  by (simp add: PRTSM_core_def PRTSM_inv_defs)

lemma INIT_PORTs:
  fixes pts br
  defines "b \<equiv> fold (\<lambda>(p, t). PRTSM_to_INIT_PORT p t) pts br"
  shows "bridge_core b = bridge_core br"
    and "PSTSM_core (ptp_at b q u) = PSTSM_core (ptp_at br q u)"
    and "sel_core (ptp_at b q u) = sel_core (ptp_at br q u)"
    and "role (ptp_at b q u) \<in> {roleDisabled, role (ptp_at br q u)}"
    and "(q, u) \<in> set pts \<or> PRTSM_inv (ptp_at br q u) \<Longrightarrow> PRTSM_inv (ptp_at b q u)"
proof -
  let ?I = "\<lambda>s. bridge_core s = bridge_core br
    \<and> (\<forall>q u. PSTSM_core (ptp_at s q u) = PSTSM_core (ptp_at br q u)
           \<and> sel_core (ptp_at s q u) = sel_core (ptp_at br q u)
           \<and> role (ptp_at s q u) \<in> {roleDisabled, role (ptp_at br q u)})"
  let ?Q = "\<lambda>(q, u) s. PRTSM_inv (ptp_at s q u)"
  have role: "role (ptp_at (PRTSM_to_INIT_PORT p t s) q u) \<in> {roleDisabled, role (ptp_at s q u)}" for p t s q u
    using INIT_PORT_frame(4) [of p t s q u] by (auto simp: PRTSM_core_def split: if_splits)
  have "?I b \<and> (\<forall>y. y \<in> set pts \<or> ?Q y br \<longrightarrow> ?Q y b)"
    unfolding b_def
  proof (rule fold_establish [where I = ?I and Q = ?Q], goal_cases)
    case (1 x s)
    obtain p t where x: "x = (p, t)" by (cases x)
    have "role (ptp_at (PRTSM_to_INIT_PORT p t s) q u) \<in> {roleDisabled, role (ptp_at br q u)}" for q u
      using role [of p t s q u] 1 by fastforce
    with 1 x show ?case by (simp add: INIT_PORT_frame)
  next
    case (2 x s)
    then show ?case by (cases x) (simp add: PRTSM_inv_init INIT_PORT_frame)
  next
    case (3 x y s)
    obtain p t q u where xy: "x = (p, t)" "y = (q, u)" by (cases x, cases y)
    show ?case
    proof (cases "(q, u) = (p, t)")
      case True
      with xy show ?thesis by (simp add: PRTSM_inv_init INIT_PORT_frame)
    next
      case False
      then have "PRTSM_core (ptp_at (PRTSM_to_INIT_PORT p t s) q u) = PRTSM_core (ptp_at s q u)"
        by (simp only: INIT_PORT_frame if_False)
      from PRTSM_inv_core [OF this] xy 3 show ?thesis by simp
    qed
  qed simp
  then show "bridge_core b = bridge_core br" "PSTSM_core (ptp_at b q u) = PSTSM_core (ptp_at br q u)"
    "sel_core (ptp_at b q u) = sel_core (ptp_at br q u)"
    "role (ptp_at b q u) \<in> {roleDisabled, role (ptp_at br q u)}"
    "(q, u) \<in> set pts \<or> PRTSM_inv (ptp_at br q u) \<Longrightarrow> PRTSM_inv (ptp_at b q u)"
    by auto
qed

lemma DISCARDING_frame:
  "bridge_core (PSTSM_to_DISCARDING p t br) = bridge_core br"
  "PRTSM_core (ptp_at (PSTSM_to_DISCARDING p t br) q u) = PRTSM_core (ptp_at br q u)"
  "sel_core (ptp_at (PSTSM_to_DISCARDING p t br) q u) = sel_core (ptp_at br q u)"
  "PSTSM_inv (deleted (port_at (PSTSM_to_DISCARDING p t br) p)) (ptp_at (PSTSM_to_DISCARDING p t br) p t)"
  "(q, u) \<noteq> (p, t) \<Longrightarrow>
     PSTSM_core (ptp_at (PSTSM_to_DISCARDING p t br) q u) = PSTSM_core (ptp_at br q u)"
proof -
  have "bridge_core (set_port_state p t x b) = bridge_core b" for x b
    by (cases x) (auto simp: set_port_state_def MSTP_OUT_set_state_def bridge_core_def fun_eq_iff Let_def)
  moreover have "bridge_core (upd_ptp p t f b) = bridge_core b" for f b by (simp add: bridge_core_def)
  ultimately show "bridge_core (PSTSM_to_DISCARDING p t br) = bridge_core br"
    by (simp add: PSTSM_to_DISCARDING_def Let_def)
  show "PRTSM_core (ptp_at (PSTSM_to_DISCARDING p t br) q u) = PRTSM_core (ptp_at br q u)"
    "sel_core (ptp_at (PSTSM_to_DISCARDING p t br) q u) = sel_core (ptp_at br q u)"
    "PSTSM_inv (deleted (port_at (PSTSM_to_DISCARDING p t br) p)) (ptp_at (PSTSM_to_DISCARDING p t br) p t)"
    by (simp_all add: PSTSM_defs PRTSM_core_def sel_core_def PSTSM_inv_def)
  show "PSTSM_core (ptp_at (PSTSM_to_DISCARDING p t br) q u) = PSTSM_core (ptp_at br q u)"
    if "(q, u) \<noteq> (p, t)"
    using that by (auto simp: PSTSM_defs PSTSM_core_def)
qed

lemma DISCARDINGs:
  fixes pts br
  defines "b \<equiv> fold (\<lambda>(p, t). PSTSM_to_DISCARDING p t) pts br"
  shows "bridge_core b = bridge_core br"
    and "PRTSM_core (ptp_at b q u) = PRTSM_core (ptp_at br q u)"
    and "sel_core (ptp_at b q u) = sel_core (ptp_at br q u)"
    and "(q, u) \<in> set pts \<or> PSTSM_inv (deleted (port_at br q)) (ptp_at br q u) \<Longrightarrow>
      PSTSM_inv (deleted (port_at b q)) (ptp_at b q u)"
proof -
  let ?I = "\<lambda>s. bridge_core s = bridge_core br
    \<and> (\<forall>q u. PRTSM_core (ptp_at s q u) = PRTSM_core (ptp_at br q u)
           \<and> sel_core (ptp_at s q u) = sel_core (ptp_at br q u))"
  let ?Q = "\<lambda>(q, u) s. PSTSM_inv (deleted (port_at s q)) (ptp_at s q u)"
  have "?I b \<and> (\<forall>y. y \<in> set pts \<or> ?Q y br \<longrightarrow> ?Q y b)"
    unfolding b_def
  proof (rule fold_establish [where I = ?I and Q = ?Q], goal_cases)
    case (1 x s)
    then show ?case by (cases x) (simp add: DISCARDING_frame)
  next
    case (2 x s)
    then show ?case by (cases x) (simp add: DISCARDING_frame)
  next
    case (3 x y s)
    obtain p t q u where xy: "x = (p, t)" "y = (q, u)" by (cases x, cases y)
    show ?case
    proof (cases "(q, u) = (p, t)")
      case True
      with xy show ?thesis by (simp add: DISCARDING_frame)
    next
      case False
      have "deleted (port_at (PSTSM_to_DISCARDING p t s) q) = deleted (port_at s q)"
        by (rule bridge_core_sel(6) [OF DISCARDING_frame(1)])
      with PSTSM_inv_core [OF DISCARDING_frame(5) [OF False]] xy 3 show ?thesis by simp
    qed
  qed simp
  then show "bridge_core b = bridge_core br" "PRTSM_core (ptp_at b q u) = PRTSM_core (ptp_at br q u)"
    "sel_core (ptp_at b q u) = sel_core (ptp_at br q u)"
    "(q, u) \<in> set pts \<or> PSTSM_inv (deleted (port_at br q)) (ptp_at br q u) \<Longrightarrow>
      PSTSM_inv (deleted (port_at b q)) (ptp_at b q u)"
    by auto
qed

lemma reset_ptps_inv:
  assumes weak: "weak_inv br"
    and outside: "\<And>p t. p \<in> set (ports br) \<Longrightarrow> t \<in> set (trees br) \<Longrightarrow> (p, t) \<notin> set pts \<Longrightarrow> ptp_inv br p t"
  shows "pre_inv (reset_ptps pts br)" and "bridge_core (reset_ptps pts br) = bridge_core br"
proof -
  define b where "b = fold (\<lambda>(p, t). PRTSM_to_INIT_PORT p t) pts br"
  define b' where "b' = fold (\<lambda>(p, t). PSTSM_to_DISCARDING p t) pts b"
  note I = INIT_PORTs [where pts = pts and br = br, folded b_def] and D = DISCARDINGs [where pts = pts and br = b, folded b'_def]
  have k: "keeps b' (reset_ptps pts br)"
    unfolding reset_ptps_def b_def [symmetric] b'_def [symmetric]
    by (rule keeps_fold [OF keeps_refl]) (simp add: TCSM_to_keeps split: prod.split)
  have core: "bridge_core b' = bridge_core br" using I(1) D(1) by simp
  note same = bridge_core_sel(1,2) [OF core]
  have "ptp_inv b' p t" if "p \<in> set (ports br)" "t \<in> set (trees br)" for p t
  proof -
    have o: "(p, t) \<in> set pts \<or> ptp_inv br p t" using outside [OF that] by blast
    then have "PRTSM_inv (ptp_at b p t)" using I(5) [of p t] by (auto simp: ptp_inv_def)
    then have "PRTSM_inv (ptp_at b' p t)" using PRTSM_inv_core [OF D(2) [of p t]] by simp
    moreover have "(p, t) \<in> set pts \<or> PSTSM_inv (deleted (port_at b p)) (ptp_at b p t)"
      using o PSTSM_inv_core [OF I(2) [of p t]] bridge_core_sel(6) [OF I(1)] by (auto simp: ptp_inv_def)
    then have "PSTSM_inv (deleted (port_at b' p)) (ptp_at b' p t)" by (rule D(4))
    ultimately show ?thesis by (simp add: ptp_inv_def)
  qed
  then have safe: "safe_inv b'"
    using weak same by (simp add: safe_inv_def weak_inv_def wf_bridge_def)
  have "cist_port_ok b' p" if "p \<in> set (ports br)" for p
  proof -
    have "cist_port_ok br p" using weak that by (simp add: weak_inv_def)
    moreover have "sel_core (cist_of b' p) = sel_core (cist_of br p)" using I(3) D(3) by simp
    moreover have "role (cist_of b' p) \<in> {roleDisabled, role (cist_of br p)}"
      using D(2) [of p CIST] I(4) [of p CIST] by (simp add: PRTSM_core_def)
    ultimately show ?thesis by (auto simp: cist_port_ok_def sel_core_def hello_ok_def)
  qed
  then have "weak_inv b'"
    using weak same config_ok_core [OF core] by (simp add: weak_inv_def wf_bridge_def)
  with safe have "weak_inv (reset_ptps pts br)" "safe_inv (reset_ptps pts br)"
    by (auto intro: keeps_weak [OF k] keeps_safe [OF k])
  then show "pre_inv (reset_ptps pts br)" by (simp add: pre_inv_def)
  show "bridge_core (reset_ptps pts br) = bridge_core br" using k core by (simp add: keeps_def)
qed

text \<open>The first states of the other machines.\<close>

lemma INIT_TREE_keeps: "keeps br (PRSSM_to_INIT_TREE t br)"
  by (simp add: PRSSM_to_INIT_TREE_def updtRolesDisabledTree_def keeps_defs tree_config_def fun_eq_iff)

lemma starts_keep [keeps_intros]:
  "keeps a b \<Longrightarrow> keeps a (PRSM_to_DISCARD p b)" "keeps a b \<Longrightarrow> keeps a (PPMSM_to_CHECKING_RSTP p b)"
  "keeps a b \<Longrightarrow> keeps a (BDSM_begin p b)" "keeps a b \<Longrightarrow> keeps a (PTSM_to_TRANSMIT_INIT p b)"
  "keeps a b \<Longrightarrow> keeps a (PISM_start p t b)" "keeps a b \<Longrightarrow> keeps a (PRSSM_to_INIT_TREE t b)"
proof -
  show "keeps a b \<Longrightarrow> keeps a (PRSSM_to_INIT_TREE t b)" by (rule keeps_trans [OF _ INIT_TREE_keeps])
  show "keeps a b \<Longrightarrow> keeps a (PISM_start p t b)" unfolding PISM_start_def
    by (rule keeps_trans [OF _ PISM_to_keeps(1)]) (auto simp: ptp_same_defs intro!: keeps_intros)
qed (auto simp: PRSM_to_DISCARD_def PPMSM_to_CHECKING_RSTP_def BDSM_begin_def BDSM_to_EDGE_def
    BDSM_to_NOT_EDGE_def PTSM_to_TRANSMIT_INIT_def Let_def intro!: keeps_intros)

lemma keeps_lists:
  assumes "keeps br b"
  shows "ports b = ports br" "trees b = trees br" "ptps b = ptps br" "bridgeEnabled b = bridgeEnabled br"
  using assms bridge_core_sel(1,2,3) [of b br] by (simp_all add: keeps_def ptps_def)

lemma br_begin_form:
  assumes "bridgeEnabled br"
  obtains b where "keeps br b" "br_state_machines_begin fuel rounds br =
    br_state_machines_run fuel rounds (reset_ptps (ptps br) b)"
proof -
  define b1 where "b1 = fold PRSM_to_DISCARD (ports br) br"
  define b2 where "b2 = fold PPMSM_to_CHECKING_RSTP (ports b1) b1"
  define b3 where "b3 = fold BDSM_begin (ports b2) b2"
  define b4 where "b4 = fold PTSM_to_TRANSMIT_INIT (ports b3) b3"
  define b5 where "b5 = fold (\<lambda>(p, t). PISM_start p t) (ptps b4) b4"
  define b6 where "b6 = fold PRSSM_to_INIT_TREE (trees b5) b5"
  have "keeps br b4" unfolding b4_def b3_def b2_def b1_def by (intro keeps_intros)
  moreover have "keeps b4 b6"
    unfolding b6_def b5_def by (intro keeps_intros) (auto intro: keeps_intros split: prod.split)
  ultimately have k: "keeps br b6" by (rule keeps_trans)
  let ?b7 = "fold (\<lambda>(p, t). PRTSM_to_INIT_PORT p t) (ptps b6) b6"
  let ?b8 = "fold (\<lambda>(p, t). PSTSM_to_DISCARDING p t) (ptps b6) ?b7"
  have c7: "bridge_core ?b7 = bridge_core b6" by (rule INIT_PORTs(1))
  have c8: "bridge_core ?b8 = bridge_core b6" using DISCARDINGs(1) c7 by metis
  have ptps: "ptps ?b7 = ptps b6" "ptps ?b8 = ptps b6" "ptps b6 = ptps br"
    using bridge_core_sel(1,2) [OF c7] bridge_core_sel(1,2) [OF c8] keeps_lists(3) [OF k]
    by (simp_all add: ptps_def)
  have "br_state_machines_begin fuel rounds br = br_state_machines_run fuel rounds (reset_ptps (ptps br) b6)"
    unfolding br_state_machines_begin_def Let_def b1_def [symmetric] b2_def [symmetric]
      b3_def [symmetric] b4_def [symmetric] b5_def [symmetric] b6_def [symmetric]
    using assms ptps by (simp add: reset_ptps_def)
  with k show thesis by (rule that)
qed

lemma begin_sys:
  assumes "weak_inv br" "br_state_machines_begin fuel rounds br = Some br'"
  shows "sys_inv br'" and "bridge_core br' = bridge_core br"
proof -
  have "sys_inv br' \<and> bridge_core br' = bridge_core br"
  proof (cases "bridgeEnabled br")
    case False
    with assms show ?thesis by (simp add: br_state_machines_begin_def sys_inv_def pre_inv_def)
  next
    case True
    then obtain b where k: "keeps br b" and r: "br_state_machines_begin fuel rounds br =
      br_state_machines_run fuel rounds (reset_ptps (ptps br) b)" by (rule br_begin_form)
    note R = reset_ptps_inv [OF keeps_weak [OF k assms(1)], of "ptps br"]
    have "pre_inv (reset_ptps (ptps br) b)" "bridge_core (reset_ptps (ptps br) b) = bridge_core b"
      using R keeps_lists(1,2) [OF k] by (simp_all add: ptps_mem)
    then show ?thesis using run_sys [of "reset_ptps (ptps br) b" fuel rounds br'] r assms(2) k
      by (simp add: keeps_def)
  qed
  then show "sys_inv br'" "bridge_core br' = bridge_core br" by simp_all
qed

lemma begin_returns:
  assumes "weak_inv br" "trees br = [CIST]" "51 \<le> fuel"
  shows "\<exists>br'. br_state_machines_begin fuel rounds br = Some br'"
proof (cases "bridgeEnabled br")
  case False
  then show ?thesis by (simp add: br_state_machines_begin_def)
next
  case True
  then obtain b where k: "keeps br b" and r: "br_state_machines_begin fuel rounds br =
    br_state_machines_run fuel rounds (reset_ptps (ptps br) b)" by (rule br_begin_form)
  note R = reset_ptps_inv [OF keeps_weak [OF k assms(1)], of "ptps br"]
  have "pre_inv (reset_ptps (ptps br) b)" "bridge_core (reset_ptps (ptps br) b) = bridge_core b"
    using R keeps_lists(1,2) [OF k] by (simp_all add: ptps_mem)
  moreover from this(2) have "trees (reset_ptps (ptps br) b) = [CIST]"
    using bridge_core_sel(2) keeps_lists(2) [OF k] assms(2) by metis
  ultimately show ?thesis using run_returns [of _ fuel rounds] r assms(3) by simp
qed

text \<open>BEGIN for one tree and for one port: the other per-tree ports must be in order already.\<close>

lemma fold_pairs:
  "fold (\<lambda>p. F p t) ps s = fold (\<lambda>(p, t). F p t) (map (\<lambda>p. (p, t)) ps) s"
  "fold (F p) ts s = fold (\<lambda>(p, t). F p t) (map (Pair p) ts) s"
  by (simp_all add: fold_map comp_def)

lemma reset_lists:
  fixes pts :: "(portref \<times> mstid) list"
  assumes "keeps br b"
  defines "b7 \<equiv> fold (\<lambda>(p, t). PRTSM_to_INIT_PORT p t) pts b"
  defines "b8 \<equiv> fold (\<lambda>(p, t). PSTSM_to_DISCARDING p t) pts b7"
  shows "ports b7 = ports br" "ports b8 = ports br" "trees b7 = trees br" "trees b8 = trees br"
proof -
  have c7: "bridge_core b7 = bridge_core b" unfolding b7_def by (rule INIT_PORTs(1))
  have c8: "bridge_core b8 = bridge_core b" unfolding b8_def using DISCARDINGs(1) c7 by metis
  show "ports b7 = ports br" "ports b8 = ports br" "trees b7 = trees br" "trees b8 = trees br"
    using keeps_lists(1,2) [OF assms(1)] bridge_core_sel(1,2) [OF c7] bridge_core_sel(1,2) [OF c8]
    by simp_all
qed

lemma tree_begin_form:
  assumes "bridgeEnabled br"
  obtains b where "keeps br b" "tree_state_machines_begin fuel rounds t br =
    br_state_machines_run fuel rounds (reset_ptps (map (\<lambda>p. (p, t)) (ports br)) b)"
proof -
  define b where "b = PRSSM_to_INIT_TREE t (fold (\<lambda>p. PISM_start p t) (ports br) br)"
  have k: "keeps br b" unfolding b_def by (intro keeps_intros)
  note L = reset_lists [OF k, where pts = "map (\<lambda>p. (p, t)) (ports br)"]
  have "tree_state_machines_begin fuel rounds t br =
      br_state_machines_run fuel rounds (reset_ptps (map (\<lambda>p. (p, t)) (ports br)) b)"
    unfolding tree_state_machines_begin_def Let_def b_def [symmetric]
    unfolding fold_pairs(1) [where t = t] keeps_lists(1) [OF k] reset_ptps_def L
    using assms by simp
  with k show thesis by (rule that)
qed

lemma PRSSM_runs_keep:
  assumes "wf_bridge br" "ofold (\<lambda>t br. map_option snd (PRSSM_run fuel t br False)) ts br = Some b"
  shows "keeps br b"
proof (rule ofold_inv [where I = "keeps br", OF _ assms(2) keeps_refl])
  fix t s s'
  assume k: "keeps br s" and "map_option snd (PRSSM_run fuel t s False) = Some s'"
  then obtain c where r: "sm_run (PRSSM_step t) fuel s False = Some (c, s')"
    by (auto simp: map_option_eq_Some PRSSM_run_def)
  have "keeps s s'"
    by (rule sm_run_keeps [of "PRSSM_step t", OF _ keeps_wf [OF k assms(1)] r]) (rule PRSSM_keeps)
  with k show "keeps br s'" by (rule keeps_trans)
qed

lemma PRSSM_runs_total:
  assumes "wf_bridge br" "0 < fuel"
  shows "\<exists>b. ofold (\<lambda>t br. map_option snd (PRSSM_run fuel t br False)) ts br = Some b"
  using assms(1)
proof (induction ts arbitrary: br)
  case (Cons t ts)
  from prssm.run_total [OF Cons.prems, where n = fuel and t = t] assms(2) obtain b where
    "PRSSM_run fuel t br False = Some (False, b)" "wf_bridge b" by (auto simp: PRSSM_run_def)
  with Cons.IH show ?case by simp
qed simp

lemma prt_begin_form:
  assumes "bridgeEnabled br" "wf_bridge br"
  shows "prt_state_machines_begin fuel rounds p br = Some br' \<Longrightarrow>
      \<exists>b. keeps br b \<and> br_state_machines_run fuel rounds (reset_ptps (map (Pair p) (trees br)) b) = Some br'"
    and "0 < fuel \<Longrightarrow> \<exists>b. keeps br b \<and> prt_state_machines_begin fuel rounds p br =
      br_state_machines_run fuel rounds (reset_ptps (map (Pair p) (trees br)) b)"
proof -
  define b1 where "b1 = port_machines_start p br"
  define b2 where "b2 = fold (PISM_start p) (trees b1) b1"
  let ?sel = "ofold (\<lambda>t br. map_option snd (PRSSM_run fuel t br False)) (trees b2) b2"
  have k2: "keeps br b2" unfolding b2_def b1_def port_machines_start_def by (intro keeps_intros)
  have form: "prt_state_machines_begin fuel rounds p br =
      br_state_machines_run fuel rounds (reset_ptps (map (Pair p) (trees br)) b)"
    and k: "keeps br b" if "?sel = Some b" for b
  proof -
    show k: "keeps br b"
      using PRSSM_runs_keep [OF keeps_wf [OF k2 assms(2)] that] by (rule keeps_trans [OF k2])
    note L = reset_lists [OF k, where pts = "map (Pair p) (trees br)"]
    show "prt_state_machines_begin fuel rounds p br =
        br_state_machines_run fuel rounds (reset_ptps (map (Pair p) (trees br)) b)"
      unfolding prt_state_machines_begin_def Let_def b1_def [symmetric] b2_def [symmetric]
        that Option.bind.bind_lunit
      unfolding fold_pairs(2) [where p = p] keeps_lists(2) [OF k] reset_ptps_def L
      using assms by simp
  qed
  show "\<exists>b. keeps br b \<and> br_state_machines_run fuel rounds (reset_ptps (map (Pair p) (trees br)) b) = Some br'"
    if r: "prt_state_machines_begin fuel rounds p br = Some br'"
  proof -
    from r assms(1) obtain b where b: "?sel = Some b"
      unfolding prt_state_machines_begin_def Let_def b1_def [symmetric] b2_def [symmetric]
      by (auto simp: bind_eq_Some_conv)
    from form [OF b] k [OF b] r show ?thesis by auto
  qed
  show "\<exists>b. keeps br b \<and> prt_state_machines_begin fuel rounds p br =
      br_state_machines_run fuel rounds (reset_ptps (map (Pair p) (trees br)) b)" if "0 < fuel"
  proof -
    from PRSSM_runs_total [OF keeps_wf [OF k2 assms(2)] that] obtain b where b: "?sel = Some b" by blast
    from form [OF b] k [OF b] show ?thesis by auto
  qed
qed

lemma reset_pre:
  assumes "weak_inv br" "keeps br b"
    and "\<And>p t. p \<in> set (ports br) \<Longrightarrow> t \<in> set (trees br) \<Longrightarrow> (p, t) \<notin> set pts \<Longrightarrow> ptp_inv br p t"
  shows "pre_inv (reset_ptps pts b)" and "bridge_core (reset_ptps pts b) = bridge_core br"
  using reset_ptps_inv [OF keeps_weak [OF assms(2,1)], of pts] assms(3) keeps_lists(1,2) [OF assms(2)]
    keeps_ptp_inv [OF assms(2)] assms(2) by (simp_all add: keeps_def)

lemma reset_run_sys:
  assumes "weak_inv br" "keeps br b"
    and "\<And>p t. p \<in> set (ports br) \<Longrightarrow> t \<in> set (trees br) \<Longrightarrow> (p, t) \<notin> set pts \<Longrightarrow> ptp_inv br p t"
    and "br_state_machines_run fuel rounds (reset_ptps pts b) = Some br'"
  shows "sys_inv br' \<and> bridge_core br' = bridge_core br"
  using run_sys [OF reset_pre(1) [OF assms(1,2,3)] assms(4)] reset_pre(2) [OF assms(1,2,3)] by simp

lemma tree_begin_sys:
  assumes weak: "weak_inv br" and r: "tree_state_machines_begin fuel rounds t br = Some br'"
    and others: "\<And>p u. bridgeEnabled br \<Longrightarrow> p \<in> set (ports br) \<Longrightarrow> u \<in> set (trees br) \<Longrightarrow> u \<noteq> t \<Longrightarrow>
      ptp_inv br p u"
  shows "sys_inv br' \<and> bridge_core br' = bridge_core br"
proof (cases "bridgeEnabled br")
  case False
  with weak r show ?thesis by (simp add: tree_state_machines_begin_def sys_inv_def pre_inv_def)
next
  case True
  then obtain b where k: "keeps br b" and "tree_state_machines_begin fuel rounds t br =
    br_state_machines_run fuel rounds (reset_ptps (map (\<lambda>p. (p, t)) (ports br)) b)"
    by (rule tree_begin_form)
  with r have "br_state_machines_run fuel rounds (reset_ptps (map (\<lambda>p. (p, t)) (ports br)) b) = Some br'"
    by simp
  from reset_run_sys [OF weak k _ this] others [OF True] show ?thesis by auto
qed

lemma prt_begin_sys:
  assumes weak: "weak_inv br" and r: "prt_state_machines_begin fuel rounds p br = Some br'"
    and others: "\<And>q t. bridgeEnabled br \<Longrightarrow> q \<in> set (ports br) \<Longrightarrow> t \<in> set (trees br) \<Longrightarrow> q \<noteq> p \<Longrightarrow>
      ptp_inv br q t"
  shows "sys_inv br' \<and> bridge_core br' = bridge_core br"
proof (cases "bridgeEnabled br")
  case False
  with weak r show ?thesis by (simp add: prt_state_machines_begin_def sys_inv_def pre_inv_def)
next
  case True
  have "wf_bridge br" using weak by (simp add: weak_inv_def)
  from prt_begin_form(1) [OF True this r] obtain b where k: "keeps br b"
    and "br_state_machines_run fuel rounds (reset_ptps (map (Pair p) (trees br)) b) = Some br'" by blast
  from reset_run_sys [OF weak k _ this(2)] others [OF True] show ?thesis by auto
qed

lemma prt_begin_returns:
  assumes weak: "weak_inv br" and "trees br = [CIST]" "51 \<le> fuel"
    and others: "\<And>q t. bridgeEnabled br \<Longrightarrow> q \<in> set (ports br) \<Longrightarrow> t \<in> set (trees br) \<Longrightarrow> q \<noteq> p \<Longrightarrow>
      ptp_inv br q t"
  shows "\<exists>br'. prt_state_machines_begin fuel rounds p br = Some br'"
proof (cases "bridgeEnabled br")
  case False
  then show ?thesis by (simp add: prt_state_machines_begin_def)
next
  case True
  have "wf_bridge br" using weak by (simp add: weak_inv_def)
  moreover have "0 < fuel" using assms(3) by simp
  ultimately obtain b where k: "keeps br b" and r: "prt_state_machines_begin fuel rounds p br =
      br_state_machines_run fuel rounds (reset_ptps (map (Pair p) (trees br)) b)"
    using prt_begin_form(2) [OF True] by blast
  let ?b = "reset_ptps (map (Pair p) (trees br)) b"
  have out: "ptp_inv br q t" if "q \<in> set (ports br)" "t \<in> set (trees br)"
    "(q, t) \<notin> set (map (Pair p) (trees br))" for q t
    using others [OF True that(1,2)] that by auto
  note pre = reset_pre [of br b "map (Pair p) (trees br)", OF weak k out]
  from pre(2) have "trees ?b = [CIST]" using bridge_core_sel(2) assms(2) by metis
  with pre(1) show ?thesis using run_returns [of _ fuel rounds] r assms(3) by simp
qed

subsection \<open>Steps before the machines run\<close>

text \<open>\<open>quiet\<close>: what the invariants look at in an enabled bridge is unchanged.\<close>

definition quiet :: "bridge_t \<Rightarrow> bridge_t \<Rightarrow> bool" where
  "quiet br b \<longleftrightarrow> ports b = ports br \<and> trees b = trees br \<and> bridgeEnabled b = bridgeEnabled br
     \<and> (\<forall>q. deleted (port_at b q) = deleted (port_at br q))
     \<and> (\<forall>q u. PRTSM_core (ptp_at b q u) = PRTSM_core (ptp_at br q u)
            \<and> PSTSM_core (ptp_at b q u) = PSTSM_core (ptp_at br q u))"

lemma keeps_quiet: "keeps br b \<Longrightarrow> quiet br b"
  using bridge_core_sel(1,2,3,6) [of b br] by (simp add: keeps_def quiet_def)

lemma quiet_ptp_inv: "quiet br b \<Longrightarrow> ptp_inv b p t = ptp_inv br p t"
  using PRTSM_inv_core [of "ptp_at b p t" "ptp_at br p t"] PSTSM_inv_core [of "ptp_at b p t" "ptp_at br p t"]
  by (simp add: quiet_def ptp_inv_def)

lemma quiet_safe: "quiet br b \<Longrightarrow> safe_inv b = safe_inv br"
  using quiet_ptp_inv [of br b] by (simp add: quiet_def safe_inv_def wf_bridge_def)

lemma quiet_blocked: "quiet br b \<Longrightarrow> blocked b = blocked br"
  by (simp add: quiet_def blocked_def PRTSM_core_def PSTSM_core_def)

lemma quiet_pre: "quiet br b \<Longrightarrow> weak_inv b \<Longrightarrow> pre_inv br \<Longrightarrow> pre_inv b"
  using quiet_safe [of br b] by (simp add: pre_inv_def) (simp add: quiet_def)

lemma quiet_sys: "quiet br b \<Longrightarrow> weak_inv b \<Longrightarrow> sys_inv br \<Longrightarrow> sys_inv b"
  using quiet_pre [of br b] quiet_blocked [of br b] by (simp add: sys_inv_def) (simp add: quiet_def)

lemma sys_weak: "sys_inv br \<Longrightarrow> weak_inv br"
  by (simp add: sys_inv_def pre_inv_def)

lemma sys_pre: "sys_inv br \<Longrightarrow> pre_inv br"
  by (simp add: sys_inv_def)

lemma keeps_sys: "keeps br b \<Longrightarrow> sys_inv br \<Longrightarrow> sys_inv b"
  by (rule quiet_sys [OF keeps_quiet keeps_weak [OF _ sys_weak]])

lemma keeps_pre: "keeps br b \<Longrightarrow> pre_inv br \<Longrightarrow> pre_inv b"
  by (rule quiet_pre [OF keeps_quiet keeps_weak]) (auto simp: pre_inv_def)

end
