(* ===== verification/Mstp_Reach.thy ===== *)
theory Mstp_Reach
  imports Mstp_System
begin

section \<open>Every event keeps the invariant\<close>

text \<open>
  Each external event of \<open>mstp.c\<close>, from a state in which the invariant holds: the invariant holds
  again when the event has been handled, and on a bridge with the CIST alone the event is handled
  (51 nested calls are enough). The reachable states are those after any sequence of events on a
  bridge that was created by \<open>MSTP_IN_bridge_create\<close> (theory \<open>Mstp_Reachable\<close>).
\<close>

subsection \<open>Outcomes\<close>

text \<open>What an event leaves as it is, unless it is about just that: the tables with their digest, the list of
  ports and whether the bridge is enabled. An event that changes one of them is related to the bridge with
  the change made.\<close>

definition dig :: "bridge_t \<Rightarrow> (u8 list \<times> (nat \<Rightarrow> u16) \<times> (nat \<Rightarrow> u16)) \<times> portref list \<times> bool" where
  "dig br = ((configuration_digest (MstConfigId br), vid2fid br, fid2mstid br), ports br, bridgeEnabled br)"

definition ev_ok :: "nat \<Rightarrow> bridge_t \<Rightarrow> bridge_t option \<Rightarrow> bool" where
  "ev_ok fuel br r \<longleftrightarrow>
     (\<forall>br'. r = Some br' \<longrightarrow> sys_inv br' \<and> dig br' = dig br \<and> (trees br = [CIST] \<longrightarrow> trees br' = [CIST]))
     \<and> (trees br = [CIST] \<and> 51 \<le> fuel \<longrightarrow> r \<noteq> None)"

lemma dig_core: "bridge_core b = bridge_core br \<Longrightarrow> dig b = dig br"
  by (simp add: bridge_core_def bridge_config_def dig_def)

lemma dig_config: "bridge_config b = bridge_config br \<Longrightarrow> ports b = ports br \<Longrightarrow> dig b = dig br"
  by (simp add: bridge_config_def dig_def)

lemma ev_done:
  "sys_inv b \<Longrightarrow> dig b = dig br \<Longrightarrow> (trees br = [CIST] \<Longrightarrow> trees b = [CIST]) \<Longrightarrow> ev_ok fuel br (Some b)"
  by (simp add: ev_ok_def)

lemma ev_run:
  assumes "pre_inv b" "dig b = dig br" "trees br = [CIST] \<Longrightarrow> trees b = [CIST]"
  shows "ev_ok fuel br (br_state_machines_run fuel rounds b)"
  using run_sys [OF assms(1), of fuel rounds] run_returns [OF assms(1), of fuel rounds]
    bridge_core_sel(2) [of _ b] dig_core [of _ b] assms(2,3) by (fastforce simp: ev_ok_def)

lemma ev_begin:
  assumes "weak_inv b" "dig b = dig br" "trees br = [CIST] \<Longrightarrow> trees b = [CIST]"
  shows "ev_ok fuel br (br_state_machines_begin fuel rounds b)"
  using begin_sys [OF assms(1), of fuel rounds] begin_returns [OF assms(1), of fuel rounds]
    bridge_core_sel(2) [of _ b] dig_core [of _ b] assms(2,3) by (fastforce simp: ev_ok_def)

lemma ev_bind:
  assumes "ev_ok fuel br0 r" "trees br0 = trees br"
    and "\<And>b. sys_inv b \<Longrightarrow> dig b = dig br0 \<Longrightarrow> (trees br = [CIST] \<Longrightarrow> trees b = [CIST]) \<Longrightarrow> ev_ok fuel br (f b)"
  shows "ev_ok fuel br (Option.bind r f)"
  using assms by (cases r) (auto simp: ev_ok_def)

lemma ev_if: "(c \<Longrightarrow> ev_ok fuel br r) \<Longrightarrow> (\<not> c \<Longrightarrow> ev_ok fuel br r') \<Longrightarrow> ev_ok fuel br (if c then r else r')"
  by simp

lemma keeps_dig: "keeps br b \<Longrightarrow> dig b = dig br"
  by (rule dig_core) (simp add: keeps_def)

lemma ev_keeps_done: "sys_inv br \<Longrightarrow> keeps br b \<Longrightarrow> ev_ok fuel br (Some b)"
  using keeps_lists(2) [of br b] by (intro ev_done) (auto intro: keeps_sys keeps_dig)

lemma ev_keeps_run: "sys_inv br \<Longrightarrow> keeps br b \<Longrightarrow> ev_ok fuel br (br_state_machines_run fuel rounds b)"
  using keeps_lists(2) [of br b] by (intro ev_run) (auto intro: keeps_pre sys_pre keeps_dig)

lemmas ev_keeps = ev_if ev_keeps_done ev_keeps_run

subsection \<open>Links, the clock and BPDUs\<close>

lemma event_procedures_keep [keeps_intros]:
  "keeps a b \<Longrightarrow> keeps a (updtbrAssuRcvdInfoWhile p b)" "keeps a b \<Longrightarrow> keeps a (b\<lparr>uptime := u\<rparr>)"
  "keeps a b \<Longrightarrow> keeps a (MSTP_OUT_set_ageing_time w b)" "keeps a b \<Longrightarrow> keeps a (MSTP_OUT_shutdown_port p b)"
  by (erule keeps_trans, auto simp: updtbrAssuRcvdInfoWhile_def MSTP_OUT_set_ageing_time_def
      MSTP_OUT_shutdown_port_def keeps_defs bridge_config_def fun_eq_iff Let_def)+

lemma set_port_enable_ok:
  assumes "sys_inv br"
  shows "ev_ok fuel br (MSTP_IN_set_port_enable fuel rounds p up spd dplx br)"
  unfolding MSTP_IN_set_port_enable_def Let_def
  by (intro ev_keeps assms keeps_intros) (auto simp: ptp_same_defs)

lemma tick_keeps: "keeps br (tick_port p br)"
  by (auto simp: tick_port_def PTSM_tick_def tick_ptp_def Let_def ptp_same_defs intro!: keeps_intros)

lemma one_second_ok:
  assumes "sys_inv br"
  shows "ev_ok fuel br (MSTP_IN_one_second fuel rounds br)"
  unfolding MSTP_IN_one_second_def Let_def
  by (intro ev_keeps assms keeps_intros tick_keeps) (auto simp: tree_config_def)

lemma rx_bpdu_ok:
  assumes "sys_inv br"
  shows "ev_ok fuel br (MSTP_IN_rx_bpdu fuel rounds p b sz br)"
proof -
  have acc: "deleted (accept_bpdu v n b x) = deleted x" for v n x
    by (simp add: accept_bpdu_def Let_def split: option.split)
  show ?thesis
    unfolding MSTP_IN_rx_bpdu_def Let_def
    by (cases "rx_validate b sz")
      (auto simp: acc intro!: ev_keeps assms keeps_intros split: prod.split)
qed

lemma TCSM_run_keeps:
  "wf_bridge br \<Longrightarrow> TCSM_run fuel p t br False = Some (c, br') \<Longrightarrow> keeps br br'"
  using plain_job_keeps [of "JTCSM p t" br fuel c br'] by simp

lemma all_fids_flushed_ok:
  assumes inv: "sys_inv br" and t: "t \<in> set (trees br)"
  shows "ev_ok fuel br (MSTP_IN_all_fids_flushed fuel rounds p t br)"
proof -
  define b where "b = upd_ptp p t (\<lambda>x. x\<lparr>fdbFlush := False\<rparr>) br"
  have k: "keeps br b" unfolding b_def by (intro keeps_intros) (simp add: ptp_same_defs)
  have wf: "wf_bridge b" using keeps_weak [OF k sys_weak [OF inv]] by (simp add: weak_inv_def)
  show ?thesis
  proof (cases "TCSM_run fuel p t b False")
    case None
    have "\<not> (trees br = [CIST] \<and> 51 \<le> fuel)"
    proof
      assume "trees br = [CIST] \<and> 51 \<le> fuel"
      with t have "TCSM_ok p t b" "tc_rank (tc_view p t b) < fuel"
        using tc_rank_bound [of "tc_view p t b"] by (auto simp: TCSM_ok_def)
      with tcsm.run_total None show False by (fastforce simp: TCSM_run_def)
    qed
    with None inv k show ?thesis
      unfolding MSTP_IN_all_fids_flushed_def Let_def b_def [symmetric]
      by (intro ev_if ev_keeps_done) (auto simp: ev_ok_def)
  next
    case (Some r)
    then have "keeps br (snd r)"
      using keeps_trans [OF k TCSM_run_keeps [OF wf]] by (cases r) auto
    with Some inv k show ?thesis
      unfolding MSTP_IN_all_fids_flushed_def Let_def b_def [symmetric]
      by (intro ev_if ev_keeps_done) (auto intro: ev_keeps_run simp: split_beta)
  qed
qed

subsection \<open>Ports come and go\<close>

lemma ev_prt_begin:
  assumes weak: "weak_inv b" and t: "trees br = [CIST] \<Longrightarrow> trees b = [CIST]" and d: "dig b = dig br"
    and others: "\<And>q t. bridgeEnabled b \<Longrightarrow> q \<in> set (ports b) \<Longrightarrow> t \<in> set (trees b) \<Longrightarrow> q \<noteq> p \<Longrightarrow>
      ptp_inv b q t"
  shows "ev_ok fuel br (prt_state_machines_begin fuel rounds p b)"
  unfolding ev_ok_def
proof (intro conjI allI impI)
  fix br'
  assume r: "prt_state_machines_begin fuel rounds p b = Some br'"
  have s: "sys_inv br' \<and> bridge_core br' = bridge_core b"
    by (rule prt_begin_sys [OF weak r]) (rule others)
  then show "sys_inv br'" by simp
  show "dig br' = dig br" using s d dig_core [of br' b] by simp
  show "trees br' = [CIST]" if "trees br = [CIST]"
    using t [OF that] bridge_core_sel(2) [of br' b] s by simp
next
  assume "trees br = [CIST] \<and> 51 \<le> fuel"
  with t have "trees b = [CIST]" "51 \<le> fuel" by simp_all
  then have "\<exists>br'. prt_state_machines_begin fuel rounds p b = Some br'"
    by (rule prt_begin_returns [OF weak]) (rule others)
  then show "prt_state_machines_begin fuel rounds p b \<noteq> None" by auto
qed

lemma fold_create_ptp:
  "fold (\<lambda>t br. upd_ptp p t (\<lambda>_. create_ptp (tree_at br t) (port_at br p)) br) ts br =
     br\<lparr>ptp_at := (ptp_at br)(p := (\<lambda>t. if t \<in> set ts then create_ptp (tree_at br t) (port_at br p)
                                      else ptp_at br p t))\<rparr>"
  by (induction ts arbitrary: br) (auto simp: upd_ptp_def fun_eq_iff intro!: bridge_t.equality)

lemma create_ptp_ok:
  assumes "Hello_Time (BridgeTimes tree) \<noteq> 0"
  shows "hello_ok (create_ptp tree prt)" "role (create_ptp tree prt) = roleDisabled"
    "selectedRole (create_ptp tree prt) = roleDisabled"
  using assms
  by (simp_all add: create_ptp_def ptp_default_internal_vars_def zero_ptp_def hello_ok_def)

lemma port_create_ok:
  assumes inv: "sys_inv br" and new: "p \<notin> set (ports br)"
  shows "ev_ok fuel (br\<lparr>ports := ports br @ [p]\<rparr>) (MSTP_IN_port_create_and_add_tail fuel rounds p portno br)"
proof -
  let ?b1 = "upd_port p (init_port portno) br"
  define b where "b = (fold (\<lambda>t br. upd_ptp p t (\<lambda>_. create_ptp (tree_at br t) (port_at br p)) br)
    (trees br) ?b1)\<lparr>ports := ports br @ [p]\<rparr>"
  have b: "MSTP_IN_port_create_and_add_tail fuel rounds p portno br = prt_state_machines_begin fuel rounds p b"
    by (simp add: MSTP_IN_port_create_and_add_tail_def Let_def b_def fold_create_ptp)
  note weak = sys_weak [OF inv]
  have ptp: "ptp_at b q t = (if q = p \<and> t \<in> set (trees br) then create_ptp (tree_at br t) (port_at ?b1 p)
      else ptp_at br q t)" for q t
    by (simp add: b_def fold_create_ptp)
  have other: "ports b = ports br @ [p]" "trees b = trees br" "tree_at b = tree_at br"
    "bridge_config b = bridge_config br" "\<And>q. q \<noteq> p \<Longrightarrow> port_at b q = port_at br q"
    by (simp_all add: b_def fold_create_ptp bridge_config_def)
  have conf: "config_ok b"
    using weak other by (simp add: weak_inv_def config_ok_def ranges_ok_def table_inv_def times_of_def bridge_config_def)
  have CIST: "CIST \<in> set (trees br)" using weak by (simp add: weak_inv_def wf_bridge_def wf_trees_mem)
  have "Hello_Time (BridgeTimes (tree_at br CIST)) \<noteq> 0"
    using weak CIST config_hello_nz [of br] by (simp add: weak_inv_def config_ok_def times_of_def)
  then have "cist_port_ok b p" using CIST by (simp add: cist_port_ok_def ptp create_ptp_ok)
  moreover have "cist_port_ok b q" if "q \<in> set (ports br)" for q
  proof -
    have "q \<noteq> p" using that new by auto
    with weak that show ?thesis by (simp add: cist_port_ok_def weak_inv_def ptp)
  qed
  ultimately have wb: "weak_inv b"
    using weak new conf other by (auto simp: weak_inv_def wf_bridge_def)
  have "ptp_inv b q t" if "bridgeEnabled b" "q \<in> set (ports b)" "t \<in> set (trees b)" "q \<noteq> p" for q t
    using that inv other
    by (simp add: ptp_inv_def ptp sys_inv_def pre_inv_def safe_inv_def bridge_config_def)
  then show ?thesis
    unfolding b using other by (intro ev_prt_begin wb dig_config) (simp_all add: bridge_config_def)
qed

lemma PSTSM_inv_deleted: "PSTSM_inv d x \<Longrightarrow> PSTSM_inv True x"
  by (simp add: PSTSM_inv_def split: PSTSM_states_t.splits)

lemma mark_deleted_pre:
  assumes "pre_inv br"
  shows "pre_inv (upd_port p (\<lambda>x. x\<lparr>deleted := True, portEnabled := e x\<rparr>) br)"
    (is "pre_inv ?b")
proof -
  have "config_ok ?b"
    using assms by (simp add: pre_inv_def weak_inv_def config_ok_def ranges_ok_def table_inv_def times_of_def)
  moreover have "ptp_inv ?b q t" if "ptp_inv br q t" for q t
    using that PSTSM_inv_deleted by (auto simp: ptp_inv_def)
  ultimately show ?thesis
    using assms by (simp add: pre_inv_def weak_inv_def safe_inv_def wf_bridge_def cist_port_ok_def)
qed

lemma remove_port_pre:
  assumes "pre_inv br"
  shows "pre_inv (br\<lparr>ports := remove1 p (ports br)\<rparr>)"
proof -
  have "set (remove1 p (ports br)) \<subseteq> set (ports br)" by (rule set_remove1_subset)
  with assms show ?thesis
    by (auto simp: pre_inv_def weak_inv_def safe_inv_def wf_bridge_def cist_port_ok_def ptp_inv_def
        config_ok_def ranges_ok_def table_inv_def times_of_def)
qed

lemma delete_port_ok:
  assumes "sys_inv br"
  shows "ev_ok fuel (br\<lparr>ports := remove1 p (ports br)\<rparr>) (MSTP_IN_delete_port fuel rounds p br)"
    (is "ev_ok fuel ?br _")
proof -
  let ?d = "upd_port p (\<lambda>x. x\<lparr>deleted := True\<rparr>) br"
  have 1: "pre_inv ?d"
    using mark_deleted_pre [OF sys_pre [OF assms], of p portEnabled]
    by (rule back_subst [of pre_inv]) (simp add: upd_port_def)
  have 2: "pre_inv (upd_port p (\<lambda>x. x\<lparr>portEnabled := False\<rparr>) ?d)"
    by (rule keeps_pre [OF _ 1]) (intro keeps_intros, simp)
  have last: "ev_ok fuel ?br (br_state_machines_run fuel rounds (b\<lparr>ports := remove1 p (ports b)\<rparr>))"
    if "pre_inv b" "dig b = dig br" "trees br = [CIST] \<Longrightarrow> trees b = [CIST]" for b
    by (rule ev_run) (use remove_port_pre [OF that(1)] that(2,3) in \<open>simp_all add: dig_def\<close>)
  show ?thesis
  proof (cases "portEnabled (port_at ?d p)")
    case True
    have "ev_ok fuel br (br_state_machines_run fuel rounds (upd_port p (\<lambda>x. x\<lparr>portEnabled := False\<rparr>) ?d))"
      by (rule ev_run [OF 2]) (simp_all add: dig_def)
    then have "ev_ok fuel ?br (Option.bind (br_state_machines_run fuel rounds
        (upd_port p (\<lambda>x. x\<lparr>portEnabled := False\<rparr>) ?d))
        (\<lambda>b. br_state_machines_run fuel rounds (b\<lparr>ports := remove1 p (ports b)\<rparr>)))"
      by (rule ev_bind) (auto intro: last sys_pre)
    with True show ?thesis by (simp add: MSTP_IN_delete_port_def Let_def)
  next
    case False
    with last [OF 1] show ?thesis by (simp add: MSTP_IN_delete_port_def Let_def dig_def)
  qed
qed

subsection \<open>Addresses, enabling, identifiers\<close>

text \<open>\<open>same_weak\<close>: the parts of the store that \<open>weak_inv\<close> reads, apart from the ranges.\<close>

definition same_weak :: "bridge_t \<Rightarrow> bridge_t \<Rightarrow> bool" where
  "same_weak br b \<longleftrightarrow> dig b = dig br \<and> ports b = ports br \<and> trees b = trees br \<and> ranges_ok b = ranges_ok br
     \<and> times_of b = times_of br \<and> (table_inv br \<longrightarrow> table_inv b)
     \<and> (\<forall>t. BridgeTimes (tree_at b t) = BridgeTimes (tree_at br t))
     \<and> (\<forall>q. cist_port_ok br q \<longrightarrow> cist_port_ok b q)"

lemmas config_defs = ranges_ok_def times_of_def table_inv_def dig_def

lemma same_weak_refl: "same_weak br br"
  by (simp add: same_weak_def)

lemma same_weak_trans: "same_weak a b \<Longrightarrow> same_weak b c \<Longrightarrow> same_weak a c"
  by (auto simp: same_weak_def)

lemma same_weak_fold: "(\<And>x s. same_weak s (f x s)) \<Longrightarrow> same_weak s (fold f xs s)"
  by (induction xs arbitrary: s) (auto intro: same_weak_refl same_weak_trans)

lemma same_weak_inv: "same_weak br b \<Longrightarrow> weak_inv br \<Longrightarrow> weak_inv b"
  by (simp add: same_weak_def weak_inv_def wf_bridge_def config_ok_def)

lemma same_weak_begin:
  "weak_inv br \<Longrightarrow> same_weak br b \<Longrightarrow> ev_ok fuel br (br_state_machines_begin fuel rounds b)"
  by (rule ev_begin [OF same_weak_inv]) (auto simp: same_weak_def)

lemma set_bridge_address_ok:
  assumes inv: "sys_inv br"
  shows "ev_ok fuel br (MSTP_IN_set_bridge_address fuel rounds macaddr br)"
proof -
  let ?f = "\<lambda>t s. if bi_mac (BridgeIdentifier (tree_at s t)) \<noteq> macaddr then set_tree_address macaddr t s else s"
  let ?b = "fold ?f (trees br) br"
  have "same_weak s (set_tree_address macaddr t s)" for t s
    by (simp add: same_weak_def set_tree_address_def Let_def config_defs cist_port_ok_def)
  then have w: "same_weak br ?b" by (intro same_weak_fold) (simp add: same_weak_refl)
  have "?b = br" if "\<not> list_ex (\<lambda>t. bi_mac (BridgeIdentifier (tree_at br t)) \<noteq> macaddr) (trees br)"
    using that by (intro fold_inv [where I = "\<lambda>s. s = br"]) (auto simp: list_ex_iff)
  with inv show ?thesis
    unfolding MSTP_IN_set_bridge_address_def Let_def
    by (intro ev_if same_weak_begin [OF sys_weak [OF inv] w] ev_done) simp_all
qed

lemma reset_same_weak:
  "same_weak (br\<lparr>bridgeEnabled := up\<rparr>) (fold reset_port ps (fold (\<lambda>t. upd_tree t tree_default_internal_vars) ts
     (bridge_default_internal_vars (br\<lparr>bridgeEnabled := up\<rparr>))))"
proof -
  have reset: "same_weak s (reset_ptp p t s)" for p t s
  proof -
    have "same_weak s (MSTP_OUT_set_state p t x s)" for x
      by (cases x) (auto simp: same_weak_def MSTP_OUT_set_state_def Let_def config_defs cist_port_ok_def
          hello_ok_def)
    moreover have "same_weak s' (upd_ptp p t ptp_default_internal_vars s')" for s'
      by (auto simp: same_weak_def config_defs cist_port_ok_def hello_ok_def ptp_default_internal_vars_def)
    ultimately show ?thesis
      by (auto simp: reset_ptp_def Let_def intro: same_weak_trans)
  qed
  have port: "same_weak s (reset_port p s)" for p s
  proof -
    have "same_weak s (upd_port p port_default_internal_vars (MSTP_OUT_set_ageing_time w s))"
      "same_weak s (upd_port p port_default_internal_vars s)" for w
      by (simp_all add: same_weak_def config_defs cist_port_ok_def MSTP_OUT_set_ageing_time_def)
    then show ?thesis
      unfolding reset_port_def Let_def
      by (intro same_weak_trans [OF _ same_weak_fold [OF reset]]) simp
  qed
  have tree: "same_weak s (upd_tree t tree_default_internal_vars s)" for t s
    by (simp add: same_weak_def config_defs cist_port_ok_def tree_default_internal_vars_def)
  have first: "same_weak (br\<lparr>bridgeEnabled := up\<rparr>) (bridge_default_internal_vars (br\<lparr>bridgeEnabled := up\<rparr>))"
    by (simp add: same_weak_def config_defs cist_port_ok_def bridge_default_internal_vars_def)
  show ?thesis
    by (intro same_weak_trans [OF _ same_weak_fold [OF port]]
        same_weak_trans [OF first same_weak_fold [OF tree]])
qed

lemma weak_enable: "weak_inv br \<Longrightarrow> weak_inv (br\<lparr>bridgeEnabled := up\<rparr>)"
  by (simp add: weak_inv_def wf_bridge_def config_ok_def config_defs cist_port_ok_def)

lemma set_bridge_enable_ok:
  assumes inv: "sys_inv br"
  shows "ev_ok fuel (br\<lparr>bridgeEnabled := up\<rparr>) (MSTP_IN_set_bridge_enable fuel rounds up br)"
  unfolding MSTP_IN_set_bridge_enable_def Let_def
  by (intro ev_if same_weak_begin weak_enable sys_weak inv reset_same_weak ev_done [OF inv]) (auto simp: dig_def)

lemma set_msti_bridge_config_ok:
  assumes inv: "sys_inv br"
  shows "ev_ok fuel br (Some (snd (MSTP_IN_set_msti_bridge_config t pri br)))"
proof -
  let ?r = "\<lambda>x. x\<lparr>selected := False, reselect := True\<rparr>"
  have "same_weak br (foreach_ptp_in_tree t ?r (upd_tree t g br))
      \<and> quiet br (foreach_ptp_in_tree t ?r (upd_tree t g br))"
    if "\<And>x. BridgeTimes (g x) = BridgeTimes x" for g
    using that by (auto simp: same_weak_def quiet_def config_defs cist_port_ok_def hello_ok_def
        PRTSM_core_def PSTSM_core_def)
  then have "sys_inv (foreach_ptp_in_tree t ?r (upd_tree t g br))" if "\<And>x. BridgeTimes (g x) = BridgeTimes x" for g
    using that quiet_sys [OF _ same_weak_inv [OF _ sys_weak [OF inv]] inv] by blast
  then show ?thesis
    unfolding MSTP_IN_set_msti_bridge_config_def Let_def
    by (intro ev_done) (simp_all add: inv dig_def split: if_split)
qed

lemma set_mst_config_id_ok:
  assumes inv: "sys_inv br"
  shows "ev_ok fuel br (MSTP_IN_set_mst_config_id fuel rounds revision name br)"
  unfolding MSTP_IN_set_mst_config_id_def Let_def
  by (intro ev_if same_weak_begin sys_weak inv ev_done)
    (simp_all add: same_weak_def config_defs cist_port_ok_def)

subsection \<open>Bridge parameters\<close>

lemma quiet_refl: "quiet br br"
  by (simp add: quiet_def)

lemma quiet_trans: "quiet a b \<Longrightarrow> quiet b c \<Longrightarrow> quiet a c"
  by (simp add: quiet_def)

lemma quiet_fold: "(\<And>x s. quiet s (f x s)) \<Longrightarrow> quiet s (fold f xs s)"
  by (induction xs arbitrary: s) (auto intro: quiet_refl quiet_trans)

lemma finalize_one:
  "quiet s (finalize_times t s)" "bridge_config (finalize_times t s) = bridge_config s"
  "BridgeTimes (tree_at (finalize_times t s) u) =
     (if u = t then (times_of s)\<lparr>Message_Age := Message_Age (BridgeTimes (tree_at s t))\<rparr>
      else BridgeTimes (tree_at s u))"
  "br_Hello_Time s \<noteq> 0 \<Longrightarrow> cist_port_ok s q \<Longrightarrow> cist_port_ok (finalize_times t s) q"
  by (auto simp: finalize_times_def Let_def quiet_def times_of_def PRTSM_core_def PSTSM_core_def
      cist_port_ok_def hello_ok_def)

lemma finalize_all:
  fixes ts b
  defines "s \<equiv> fold finalize_times ts b"
  assumes hello: "br_Hello_Time b \<noteq> 0"
    and age: "\<And>t. t \<in> set ts \<Longrightarrow> Message_Age (BridgeTimes (tree_at b t)) = 0"
  shows "quiet b s" "bridge_config s = bridge_config b"
    and "\<And>t. t \<in> set ts \<Longrightarrow> BridgeTimes (tree_at s t) = times_of s"
    and "\<And>q. cist_port_ok b q \<Longrightarrow> cist_port_ok s q"
proof -
  let ?I = "\<lambda>s. quiet b s \<and> bridge_config s = bridge_config b
    \<and> (\<forall>t. Message_Age (BridgeTimes (tree_at s t)) = Message_Age (BridgeTimes (tree_at b t)))
    \<and> (\<forall>q. cist_port_ok b q \<longrightarrow> cist_port_ok s q)"
  let ?Q = "\<lambda>t s. Message_Age (BridgeTimes (tree_at b t)) = 0 \<longrightarrow> BridgeTimes (tree_at s t) = times_of s"
  have times: "times_of (finalize_times t s) = times_of s" for t s
    using finalize_one(2) [of t s] by (simp add: times_of_def bridge_config_def)
  have age0: "(times_of s)\<lparr>Message_Age := 0\<rparr> = times_of s" for s by (simp add: times_of_def)
  have "?I s \<and> (\<forall>t. t \<in> set ts \<or> ?Q t b \<longrightarrow> ?Q t s)"
    unfolding s_def
  proof (rule fold_establish [where I = ?I and Q = ?Q], goal_cases)
    case (1 t s)
    have "br_Hello_Time s \<noteq> 0" using 1 hello by (simp add: bridge_config_def)
    with 1 show ?case
      using quiet_trans [OF _ finalize_one(1)] by (auto simp: finalize_one)
  next
    case (2 t s)
    then show ?case by (simp add: finalize_one times age0)
  next
    case (3 t u s)
    then show ?case by (simp add: finalize_one times age0)
  qed (simp add: quiet_refl)
  then show "quiet b s" "bridge_config s = bridge_config b"
    "\<And>t. t \<in> set ts \<Longrightarrow> BridgeTimes (tree_at s t) = times_of s"
    "\<And>q. cist_port_ok b q \<Longrightarrow> cist_port_ok s q"
    using age by simp_all
qed

text \<open>The parameters after the assignments.\<close>

definition new_config :: "CIST_BridgeConfig \<Rightarrow> bridge_t \<Rightarrow> bridge_t \<Rightarrow> bool" where
  "new_config cfg br b \<longleftrightarrow>
     br_Max_Age b = case_option (br_Max_Age br) id (cfg_bridge_max_age cfg)
     \<and> br_Forward_Delay b = case_option (br_Forward_Delay br) id (cfg_bridge_forward_delay cfg)
     \<and> br_MaxHops b = case_option (br_MaxHops br) id (cfg_max_hops cfg)
     \<and> br_Hello_Time b = case_option (br_Hello_Time br) id (cfg_bridge_hello_time cfg)
     \<and> Transmit_Hold_Count b = case_option (Transmit_Hold_Count br) id (cfg_tx_hold_count cfg)
     \<and> Ageing_Time b = case_option (Ageing_Time br) id (cfg_bridge_ageing_time cfg)
     \<and> Migrate_Time b = Migrate_Time br \<and> dig b = dig br"

lemma new_config_ranges:
  assumes "cist_bridge_config_valid cfg br" "ranges_ok br" "new_config cfg br b"
  shows "ranges_ok b"
  using assms unfolding cist_bridge_config_valid_def new_config_def ranges_ok_def in_range_def Let_def
  by (cases "cfg_bridge_max_age cfg"; cases "cfg_bridge_forward_delay cfg"; cases "cfg_max_hops cfg";
      cases "cfg_bridge_hello_time cfg"; cases "cfg_tx_hold_count cfg"; cases "cfg_bridge_ageing_time cfg")
    simp_all

lemma map_snd_bind:
  "map_option snd (Option.bind r (\<lambda>b. Some (c, b))) = r" "map_option snd (map_option (Pair c) r) = r"
  by (cases r; simp)+

lemma assigned_config:
  assumes "set_times cfg br = (c1, b1)" "set_protocol_version v b1 = (c2, b2)"
    "set_tx_hold_count (cfg_tx_hold_count cfg) b2 = (c3, b3)"
    "b = b3\<lparr>Ageing_Time := case_option (Ageing_Time b3) id (cfg_bridge_ageing_time cfg)\<rparr>"
  shows "new_config cfg br b" "quiet br b" "tree_at b = tree_at br" "ptp_at b = ptp_at br"
    "\<not> c1 \<Longrightarrow> times_of b = times_of br"
proof -
  have b1: "br_Max_Age b1 = case_option (br_Max_Age br) id (cfg_bridge_max_age cfg)"
    "br_Forward_Delay b1 = case_option (br_Forward_Delay br) id (cfg_bridge_forward_delay cfg)"
    "br_MaxHops b1 = case_option (br_MaxHops br) id (cfg_max_hops cfg)"
    "br_Hello_Time b1 = case_option (br_Hello_Time br) id (cfg_bridge_hello_time cfg)"
    "Transmit_Hold_Count b1 = Transmit_Hold_Count br" "Ageing_Time b1 = Ageing_Time br"
    "Migrate_Time b1 = Migrate_Time br" "vid2fid b1 = vid2fid br" "fid2mstid b1 = fid2mstid br"
    "MstConfigId b1 = MstConfigId br"
    "port_at b1 = port_at br" "ptp_at b1 = ptp_at br"
    "tree_at b1 = tree_at br" "ports b1 = ports br" "trees b1 = trees br"
    "bridgeEnabled b1 = bridgeEnabled br" "\<not> c1 \<Longrightarrow> times_of b1 = times_of br"
    using assms(1) by (auto simp: set_times_def Let_def times_of_def)
  have b2: "\<exists>pv. b2 = b1\<lparr>ForceProtocolVersion := pv\<rparr>"
    using assms(2) by (auto simp: set_protocol_version_def split: option.splits if_splits
        intro: exI [of _ "ForceProtocolVersion b1"])
  let ?h = "case_option (Transmit_Hold_Count b2) id (cfg_tx_hold_count cfg)"
  have fold: "fold (\<lambda>p. upd_port p (\<lambda>x. x\<lparr>txCount := 0\<rparr>)) ps s =
      s\<lparr>port_at := (\<lambda>q. if q \<in> set ps then (port_at s q)\<lparr>txCount := 0\<rparr> else port_at s q)\<rparr>" for ps s
    by (induction ps arbitrary: s) (auto simp: upd_port_def fun_eq_iff intro!: bridge_t.equality)
  have b3: "\<exists>pa. b3 = b2\<lparr>Transmit_Hold_Count := ?h, port_at := pa\<rparr> \<and> (\<forall>q. deleted (pa q) = deleted (port_at b2 q))"
    using assms(3)
    by (auto simp: set_tx_hold_count_def fold split: option.splits if_splits
        intro!: exI [of _ "port_at b3"])
  from b1 b2 b3 assms(4) show "new_config cfg br b" "quiet br b" "tree_at b = tree_at br"
    "ptp_at b = ptp_at br" "\<not> c1 \<Longrightarrow> times_of b = times_of br"
    by (cases "cfg_tx_hold_count cfg"; cases "cfg_bridge_ageing_time cfg";
        auto simp: new_config_def quiet_def times_of_def dig_def)+
qed

text \<open>An accepted configuration: the assignments lead to a state \<open>s\<close> that has the new parameters,
  and the rest is a run or a restart of the machines from there.\<close>

lemma cist_config_form:
  assumes inv: "sys_inv br" and valid: "cist_bridge_config_valid cfg br"
  obtains s c i where "quiet br s" "weak_inv s" "new_config cfg br s"
    "\<And>fuel rounds. MSTP_IN_set_cist_bridge_config fuel rounds cfg br = map_option (Pair 0)
       (if c \<and> bridgeEnabled s then
          if i then br_state_machines_begin fuel rounds s else br_state_machines_run fuel rounds s
        else Some s)"
proof -
  obtain c1 b1 where 1: "set_times cfg br = (c1, b1)" by fastforce
  obtain c2 b2 where 2: "set_protocol_version (cfg_protocol_version cfg) b1 = (c2, b2)" by fastforce
  obtain c3 b3 where 3: "set_tx_hold_count (cfg_tx_hold_count cfg) b2 = (c3, b3)" by fastforce
  define b where "b = b3\<lparr>Ageing_Time := case_option (Ageing_Time b3) id (cfg_bridge_ageing_time cfg)\<rparr>"
  note new = assigned_config [OF 1 2 3 b_def]
  define s where "s = (if c1 then fold finalize_times (trees b) b else b)"
  note weak = sys_weak [OF inv]
  have times: "BridgeTimes (tree_at br t) = times_of br" if "t \<in> set (trees br)" for t
    using weak that by (simp add: weak_inv_def config_ok_def)
  have r: "ranges_ok b"
    using new_config_ranges [OF valid _ new(1)] weak by (simp add: weak_inv_def config_ok_def)
  have hello: "br_Hello_Time b \<noteq> 0" using r by (auto simp: ranges_ok_def)
  have age: "Message_Age (BridgeTimes (tree_at b t)) = 0" if "t \<in> set (trees b)" for t
    using that times [of t] new(2,3) by (simp add: quiet_def times_of_def)
  note fin = finalize_all [OF hello age, of "trees b"]
  have trees: "trees b = trees br" "ports b = ports br" using new(2) by (simp_all add: quiet_def)
  have q: "quiet br s" using new(2) fin(1) by (auto simp: s_def intro: quiet_trans)
  have cist: "cist_port_ok s q" if "cist_port_ok br q" for q
    using that fin(4) [of q] new(4) by (auto simp: s_def cist_port_ok_def)
  have conf: "bridge_config s = bridge_config b" using fin(2) by (simp add: s_def)
  then have rs: "ranges_ok s" using r by (simp add: ranges_ok_def bridge_config_def)
  have ns: "new_config cfg br s" using new(1) conf q by (simp add: new_config_def bridge_config_def dig_def quiet_def)
  then have tab: "table_inv s"
    using weak q by (simp add: weak_inv_def config_ok_def quiet_def table_inv_def new_config_def dig_def)
  have ts: "BridgeTimes (tree_at s t) = times_of s" if "t \<in> set (trees br)" for t
    using that fin(3) times [of t] new(3,5) trees by (auto simp: s_def)
  have ws: "weak_inv s"
    using weak q cist rs ts tab by (simp add: weak_inv_def config_ok_def quiet_def wf_bridge_def)
  have "MSTP_IN_set_cist_bridge_config fuel rounds cfg br = map_option (Pair 0)
      (if (c1 \<or> c2 \<or> c3) \<and> bridgeEnabled s then
         if c2 then br_state_machines_begin fuel rounds s else br_state_machines_run fuel rounds s
       else Some s)" for fuel rounds
    unfolding MSTP_IN_set_cist_bridge_config_def 1 2 3 Let_def prod.case b_def [symmetric] s_def [symmetric]
    using valid by (simp add: map_option_case split: option.split)
  then show thesis using that q ws ns by blast
qed

lemma set_cist_bridge_config_ok:
  assumes inv: "sys_inv br"
  shows "ev_ok fuel br (map_option snd (MSTP_IN_set_cist_bridge_config fuel rounds cfg br))"
proof (cases "cist_bridge_config_valid cfg br")
  case False
  then show ?thesis by (simp add: MSTP_IN_set_cist_bridge_config_def ev_done inv)
next
  case True
  obtain s c i where q: "quiet br s" and ws: "weak_inv s" and ns: "new_config cfg br s"
    and f: "\<And>fuel rounds. MSTP_IN_set_cist_bridge_config fuel rounds cfg br = map_option (Pair 0)
       (if c \<and> bridgeEnabled s then
          if i then br_state_machines_begin fuel rounds s else br_state_machines_run fuel rounds s
        else Some s)"
    by (rule cist_config_form [OF inv True]) blast
  have d: "dig s = dig br" "trees s = trees br" using ns q by (simp_all add: new_config_def quiet_def)
  show ?thesis unfolding f map_snd_bind
    by (auto simp: d intro!: ev_if ev_begin [OF ws] ev_run quiet_pre [OF q ws sys_pre [OF inv]]
        ev_done quiet_sys [OF q ws inv])
qed

lemma cist_config_result:
  assumes inv: "sys_inv br" and r: "MSTP_IN_set_cist_bridge_config fuel rounds cfg br = Some (res, br')"
  shows "if cist_bridge_config_valid cfg br then res = 0 \<and> new_config cfg br br' else res = -1 \<and> br' = br"
proof (cases "cist_bridge_config_valid cfg br")
  case False
  with r show ?thesis by (simp add: MSTP_IN_set_cist_bridge_config_def)
next
  case True
  obtain s c i where q: "quiet br s" and ws: "weak_inv s" and ns: "new_config cfg br s"
    and f: "\<And>fuel rounds. MSTP_IN_set_cist_bridge_config fuel rounds cfg br = map_option (Pair 0)
       (if c \<and> bridgeEnabled s then
          if i then br_state_machines_begin fuel rounds s else br_state_machines_run fuel rounds s
        else Some s)"
    by (rule cist_config_form [OF inv True]) blast
  have "bridge_core br' = bridge_core s"
    using r begin_sys(2) [OF ws] run_sys(2) [OF quiet_pre [OF q ws sys_pre [OF inv]]]
    by (auto simp: f split: if_splits)
  then have "new_config cfg br br'" using ns by (simp add: new_config_def bridge_core_def bridge_config_def dig_def)
  moreover have "res = 0" using r by (auto simp: f)
  ultimately show ?thesis using True by simp
qed

end
