(* ===== verification/Mstp_Reachable.thy ===== *)
theory Mstp_Reachable
  imports Mstp_Reach
begin

section \<open>Management events and the reachable states\<close>

text \<open>
  The management functions keep the invariant too. With them the events of \<open>mstp.c\<close> are complete:
  \<open>handle\<close> is the dispatch on events, \<open>reachable\<close> the states after any sequence of events. An event
  names a port or a tree of the bridge, as the callers in \<open>bridge_track.c\<close> look them up first, and a
  new port is a fresh object.
\<close>

subsection \<open>Port parameters\<close>

lemma set_if_keeps: "(\<And>x s. keeps s (put x s)) \<Longrightarrow> keeps br (snd (set_if v get put br))"
  by (simp add: set_if_def keeps_refl split: option.split)

lemma port_settings_keep:
  "keeps br (snd (set_external_cost v1 p br))" "keeps br (snd (set_admin_p2p v2 p br))"
  "keeps br (snd (set_edge v3 p br))" "keeps br (snd (set_network v3 p br))"
  "keeps br (snd (set_port_priority v4 p t br))" "keeps br (snd (set_internal_cost v1 p t br))"
  by (auto simp: set_external_cost_def set_admin_p2p_def set_edge_def set_network_def
      set_port_priority_def set_internal_cost_def Let_def ptp_same_defs
      intro!: keeps_intros set_if_keeps split: option.split)

lemma ev_let:
  assumes "keeps br b" "\<And>s. keeps s (snd (g s))"
    and "\<And>c s. keeps br s \<Longrightarrow> ev_ok fuel br (map_option snd (f c s))"
  shows "ev_ok fuel br (map_option snd (let (c, s) = g b in f c s))"
  using assms(3) [OF keeps_trans [OF assms(1) assms(2) [of b]]] by (simp add: split_beta)

lemma ev_last:
  assumes "sys_inv br" "keeps br s" "keeps br s'"
  shows "ev_ok fuel br (map_option snd (Option.bind
    (if c then br_state_machines_run fuel rounds s else Some s') (\<lambda>b. Some (r, b))))"
  by (auto simp: map_snd_bind intro!: ev_keeps assms)

lemma set_cist_port_config_ok:
  assumes inv: "sys_inv br"
  shows "ev_ok fuel br (map_option snd (MSTP_IN_set_cist_port_config fuel rounds p cfg br))"
  unfolding MSTP_IN_set_cist_port_config_def
  by (intro ev_let ev_last inv keeps_refl port_settings_keep set_if_keeps keeps_intros) simp_all

lemma set_msti_port_config_ok:
  assumes inv: "sys_inv br"
  shows "ev_ok fuel br (map_option snd (MSTP_IN_set_msti_port_config fuel rounds p t cfg br))"
proof (cases "case_option False (\<lambda>v. 15 < v) (cfg_port_priority cfg)")
  case True
  then show ?thesis by (simp add: MSTP_IN_set_msti_port_config_def ev_done inv)
next
  case False
  then show ?thesis
    unfolding MSTP_IN_set_msti_port_config_def if_not_P [OF False]
    by (intro ev_let ev_last inv keeps_refl port_settings_keep) (auto simp: ptp_same_defs intro!: keeps_intros)
qed

lemma port_mcheck_ok:
  assumes inv: "sys_inv br"
  shows "ev_ok fuel br (map_option snd (MSTP_IN_port_mcheck fuel rounds p br))"
  unfolding MSTP_IN_port_mcheck_def Let_def if_distrib [of "map_option snd"] map_snd_bind
  by (auto simp: ptp_same_defs intro!: ev_keeps inv keeps_intros)

subsection \<open>VLAN tables\<close>

definition tables :: "(nat \<Rightarrow> u16) \<Rightarrow> (nat \<Rightarrow> mstid) \<Rightarrow> bridge_t \<Rightarrow> bridge_t" where
  "tables v f br = br\<lparr>vid2fid := v, fid2mstid := f\<rparr>"

lemma tables_eqs:
  "br\<lparr>vid2fid := v\<rparr> = tables v (fid2mstid br) br" "br\<lparr>fid2mstid := f\<rparr> = tables (vid2fid br) f br"
  by (simp_all add: tables_def)

lemma tables_sel [simp]: "vid2fid (tables v f br) = v" "fid2mstid (tables v f br) = f"
  by (simp_all add: tables_def)

text \<open>\<open>ev_inv\<close> is \<open>ev_ok\<close> without the digest; \<open>digest_ok\<close>: the digest is the one of the tables.\<close>

definition ev_inv :: "nat \<Rightarrow> bridge_t \<Rightarrow> bridge_t option \<Rightarrow> bool" where
  "ev_inv fuel br r \<longleftrightarrow>
     (\<forall>br'. r = Some br' \<longrightarrow> sys_inv br' \<and> ports br' = ports br \<and> bridgeEnabled br' = bridgeEnabled br
        \<and> (trees br = [CIST] \<longrightarrow> trees br' = [CIST]))
     \<and> (trees br = [CIST] \<and> 51 \<le> fuel \<longrightarrow> r \<noteq> None)"

definition digest_ok :: "bridge_t \<Rightarrow> bool" where
  "digest_ok br \<longleftrightarrow> configuration_digest (MstConfigId br) = hmac_md5 (vid2mstid_image br) HMAC_KEY"

lemma digest_ok_dig: "dig b = dig br \<Longrightarrow> digest_ok b = digest_ok br"
  by (simp add: digest_ok_def dig_def vid2mstid_image_def)

lemma dig_lists: "dig b = dig br \<Longrightarrow> ports b = ports br \<and> bridgeEnabled b = bridgeEnabled br"
  by (simp add: dig_def)

lemma ev_ok_inv: "ev_ok fuel br r \<Longrightarrow> ev_inv fuel br r"
  unfolding ev_ok_def ev_inv_def using dig_lists by blast

lemma ev_inv_cong:
  "trees a = trees b \<Longrightarrow> ports a = ports b \<Longrightarrow> bridgeEnabled a = bridgeEnabled b \<Longrightarrow> ev_inv fuel a r = ev_inv fuel b r"
  by (simp add: ev_inv_def)

lemma ev_ok_digest: "ev_ok fuel br r \<Longrightarrow> r = Some br' \<Longrightarrow> digest_ok br \<Longrightarrow> digest_ok br'"
  unfolding ev_ok_def by (metis digest_ok_dig)

lemma image_vid2mstid:
  "(\<And>vid. 1 \<le> vid \<Longrightarrow> vid \<le> MAX_VID \<Longrightarrow> vid2mstid b vid = vid2mstid br vid) \<Longrightarrow>
     vid2mstid_image b = vid2mstid_image br"
  unfolding vid2mstid_image_def vid2mstid_def
  by (intro arg_cong2 [where f = append] arg_cong [where f = concat] map_cong refl) auto

text \<open>An event that sets the tables: the machines are restarted with a new digest, or nothing else
  happens, which is right only where the digest stays.\<close>

definition set_tables where
  "set_tables fuel rounds restart v f br =
     (if restart then digest_and_begin fuel rounds (tables v f br) else Some (tables v f br))"

lemma set_tables_ok:
  assumes inv: "sys_inv br" and tab: "table_inv (tables v f br)"
  shows "ev_inv fuel br (set_tables fuel rounds c v f br)"
    and "set_tables fuel rounds c v f br = Some br' \<Longrightarrow>
      vid2fid br' = v \<and> fid2mstid br' = f \<and> (c \<longrightarrow> digest_ok br')
      \<and> (\<not> c \<longrightarrow> configuration_digest (MstConfigId br') = configuration_digest (MstConfigId br))"
proof -
  let ?t = "tables v f br" and ?d = "RecalcConfigDigest (tables v f br)"
  note weak = sys_weak [OF inv]
  have w: "weak_inv ?d"
    using weak tab by (simp add: weak_inv_def wf_bridge_def config_ok_def config_defs cist_port_ok_def
        RecalcConfigDigest_def tables_def)
  have s: "sys_inv ?t"
    using inv tab by (simp add: sys_inv_def pre_inv_def weak_inv_def wf_bridge_def config_ok_def config_defs
        cist_port_ok_def safe_inv_def ptp_inv_def blocked_def tables_def)
  have trees: "trees ?t = trees br" "trees ?d = trees br" and lists: "ports ?t = ports br" "ports ?d = ports br"
    "bridgeEnabled ?t = bridgeEnabled br" "bridgeEnabled ?d = bridgeEnabled br"
    by (simp_all add: tables_def RecalcConfigDigest_def)
  have 1: "ev_ok fuel ?d (digest_and_begin fuel rounds ?t)"
    unfolding digest_and_begin_def by (rule ev_begin [OF w refl])
  then show "ev_inv fuel br (set_tables fuel rounds c v f br)"
    using ev_inv_cong [of ?d br fuel] ev_inv_cong [of ?t br fuel] ev_ok_inv [OF 1]
      ev_ok_inv [OF ev_done [OF s refl], of fuel] trees lists
    by (simp only: set_tables_def split: if_split) blast
  have img: "digest_ok ?d" by (simp add: digest_ok_def RecalcConfigDigest_def vid2mstid_image_def)
  assume r: "set_tables fuel rounds c v f br = Some br'"
  have "dig br' = dig ?d" if c using 1 r that by (simp add: set_tables_def ev_ok_def)
  then show "vid2fid br' = v \<and> fid2mstid br' = f \<and> (c \<longrightarrow> digest_ok br')
      \<and> (\<not> c \<longrightarrow> configuration_digest (MstConfigId br') = configuration_digest (MstConfigId br))"
    using r img digest_ok_dig [of br' ?d]
    by (cases c) (auto simp: set_tables_def dig_def tables_def RecalcConfigDigest_def)
qed

lemma sys_table: "sys_inv br \<Longrightarrow> table_inv br"
  by (simp add: sys_inv_def pre_inv_def weak_inv_def config_ok_def)

text \<open>The four functions in this form, with tables that are in range; where the machines are not
  restarted every VID keeps its tree.\<close>

definition new_tables where
  "new_tables br c v f \<longleftrightarrow> table_inv (tables v f br)
     \<and> (\<not> c \<longrightarrow> (\<forall>vid. 1 \<le> vid \<and> vid \<le> MAX_VID \<longrightarrow> f (unat (v vid)) = vid2mstid br vid))"

definition table_form where
  "table_form br g \<longleftrightarrow> (\<exists>ok. \<forall>fuel rounds. g fuel rounds = Some (ok :: bool, br))
     \<or> (\<exists>c v f. new_tables br c v f
          \<and> (\<forall>fuel rounds. g fuel rounds = map_option (Pair True) (set_tables fuel rounds c v f br)))"

lemma table_form_same: "g = (\<lambda>_ _. Some (ok, br)) \<Longrightarrow> table_form br g"
  by (auto simp: table_form_def)

lemma table_form_set:
  "new_tables br c v f \<Longrightarrow> g = (\<lambda>fuel rounds. map_option (Pair True) (set_tables fuel rounds c v f br)) \<Longrightarrow>
     table_form br g"
  by (auto simp: table_form_def)

lemma table_form_ok:
  assumes inv: "sys_inv br" and form: "table_form br g"
  shows "ev_inv fuel br (map_option snd (g fuel rounds))"
    and "g fuel rounds = Some (res, br') \<Longrightarrow> digest_ok br \<Longrightarrow> digest_ok br'"
proof -
  have "ev_inv fuel br (map_option snd (g fuel rounds))
    \<and> (\<forall>res br'. g fuel rounds = Some (res, br') \<longrightarrow> digest_ok br \<longrightarrow> digest_ok br')"
  proof (cases "\<exists>ok. g fuel rounds = Some (ok, br)")
    case True
    with inv show ?thesis by (auto simp: ev_inv_def)
  next
    case False
    then obtain c v f where n: "new_tables br c v f"
      and g: "g fuel rounds = map_option (Pair True) (set_tables fuel rounds c v f br)"
      using form unfolding table_form_def by metis
    have t: "table_inv (tables v f br)" using n by (simp add: new_tables_def)
    have "digest_ok br'" if d: "digest_ok br"
      and r: "set_tables fuel rounds c v f br = Some br'" for br'
    proof (cases c)
      case True
      with set_tables_ok(2) [OF inv t r] show ?thesis by simp
    next
      case False
      have "vid2mstid_image br' = vid2mstid_image br"
        by (rule image_vid2mstid)
          (use set_tables_ok(2) [OF inv t r] n False in \<open>auto simp: new_tables_def vid2mstid_def\<close>)
      with d set_tables_ok(2) [OF inv t r] False show ?thesis by (simp add: digest_ok_def)
    qed
    with set_tables_ok(1) [OF inv t] g show ?thesis by (auto simp: map_snd_bind)
  qed
  then show "ev_inv fuel br (map_option snd (g fuel rounds))"
    "g fuel rounds = Some (res, br') \<Longrightarrow> digest_ok br \<Longrightarrow> digest_ok br'" by auto
qed

lemma set_vid2fid_form:
  assumes inv: "sys_inv br"
  shows "table_form br (\<lambda>fuel rounds. MSTP_IN_set_vid2fid fuel rounds vid fid br)"
proof (cases "vid < 1 \<or> unat vid > MAX_VID \<or> unat fid > MAX_FID")
  case True
  then show ?thesis by (intro table_form_same) (auto simp: MSTP_IN_set_vid2fid_def)
next
  case False
  let ?c = "fid2mstid br (unat fid) \<noteq> vid2mstid br (unat vid)"
  have "new_tables br ?c ((vid2fid br)(unat vid := fid)) (fid2mstid br)"
    using sys_table [OF inv] False
    by (auto simp: new_tables_def table_inv_def tables_def vid2mstid_def not_less)
  then show ?thesis
    by (rule table_form_set, intro ext)
      (use False in \<open>simp add: MSTP_IN_set_vid2fid_def set_tables_def tables_eqs Let_def\<close>)
qed

lemma set_all_vids2fids_form:
  assumes inv: "sys_inv br"
  shows "table_form br (\<lambda>fuel rounds. MSTP_IN_set_all_vids2fids fuel rounds vf br)"
proof -
  let ?bad = "\<lambda>vid. unat (vf vid) > MAX_FID"
  let ?v = "\<lambda>vid. if 1 \<le> vid \<and> vid \<le> MAX_VID \<and> ?bad vid then vid2fid br vid
    else if vid \<le> MAX_VID then vf vid else vid2fid br vid"
  let ?c = "list_ex (\<lambda>vid. \<not> ?bad vid \<and> fid2mstid br (unat (vf vid)) \<noteq> vid2mstid br vid) [1 ..< MAX_VID + 1]"
  have "new_tables br ?c ?v (fid2mstid br)"
    using sys_table [OF inv]
    by (auto simp: new_tables_def table_inv_def tables_def vid2mstid_def not_less list_ex_iff)
  then show ?thesis
    by (rule table_form_set, intro ext)
      (simp add: MSTP_IN_set_all_vids2fids_def set_tables_def tables_eqs Let_def del: upt_Suc)
qed

lemma set_fid2mstid_form:
  assumes inv: "sys_inv br"
  shows "table_form br (\<lambda>fuel rounds. MSTP_IN_set_fid2mstid fuel rounds fid t br)"
proof (cases "unat fid > MAX_FID \<or> t \<notin> set (trees br) \<or> fid2mstid br (unat fid) = t")
  case True
  then show ?thesis
    by (intro table_form_same [where ok = "\<not> (unat fid > MAX_FID \<or> t \<notin> set (trees br))"])
      (intro ext, auto simp: MSTP_IN_set_fid2mstid_def)
next
  case False
  let ?f = "(fid2mstid br)(unat fid := t)"
  let ?c = "list_ex (\<lambda>vid. vid2fid br vid = fid) [1 ..< MAX_VID + 1]"
  have "new_tables br ?c (vid2fid br) ?f"
    using sys_table [OF inv] False
    by (auto simp: new_tables_def table_inv_def tables_def vid2mstid_def list_ex_iff unsigned_word_eqI)
  then show ?thesis
    by (rule table_form_set, intro ext)
      (use False in \<open>simp add: MSTP_IN_set_fid2mstid_def set_tables_def tables_eqs Let_def del: upt_Suc\<close>)
qed

lemma set_all_fids2mstids_form:
  assumes inv: "sys_inv br"
  shows "table_form br (\<lambda>fuel rounds. MSTP_IN_set_all_fids2mstids fuel rounds fm br)"
proof -
  let ?n = "\<lambda>fid. if unat (fm fid) > MAX_MSTID then fid2mstid br fid else fm fid"
  let ?f = "\<lambda>fid. if fid \<le> MAX_FID then ?n fid else fid2mstid br fid"
  show ?thesis
  proof (cases "list_ex (\<lambda>fid. ?n fid \<notin> set (trees br)) [0 ..< MAX_FID + 1]")
    case True
    then show ?thesis by (intro table_form_same) (auto simp: MSTP_IN_set_all_fids2mstids_def Let_def)
  next
    case False
    let ?c = "list_ex (\<lambda>vid. vid2mstid br vid \<noteq> vid2mstid (tables (vid2fid br) ?f br) vid) [1 ..< MAX_VID + 1]"
    have "?n fid \<in> set (trees br)" if "fid \<le> MAX_FID" for fid
      using False that by (auto simp: list_ex_iff simp del: upt_Suc)
    then have "table_inv (tables (vid2fid br) ?f br)"
      using sys_table [OF inv] by (simp add: table_inv_def tables_def)
    then have "new_tables br ?c (vid2fid br) ?f"
      by (auto simp: new_tables_def vid2mstid_def list_ex_iff)
    then show ?thesis
      by (rule table_form_set, intro ext)
        (use False in \<open>simp add: MSTP_IN_set_all_fids2mstids_def set_tables_def tables_eqs Let_def del: upt_Suc\<close>)
  qed
qed

lemmas vlan_forms = set_vid2fid_form set_all_vids2fids_form set_fid2mstid_form set_all_fids2mstids_form

subsection \<open>The list of MSTIs\<close>

lemma find_rev_upt:
  "k < n \<Longrightarrow> P k \<Longrightarrow> (\<And>j. k < j \<Longrightarrow> j < n \<Longrightarrow> \<not> P j) \<Longrightarrow> List.find P (rev [0 ..< n]) = Some k"
proof (induction n)
  case (Suc n)
  then show ?case by (cases "k = n") auto
qed simp

lemma find_rev_upt_None: "(\<And>j. j < n \<Longrightarrow> \<not> P j) \<Longrightarrow> List.find P (rev [0 ..< n]) = None"
  by (simp add: find_None_iff)

text \<open>The new MSTID goes where it keeps the list sorted.\<close>

lemma insert_tree_split:
  assumes "ts = us @ vs" "us \<noteq> []" "\<And>u. u \<in> set us \<Longrightarrow> u < t" "\<And>v. v \<in> set vs \<Longrightarrow> t < v"
  shows "insert_tree t ts = Some (us @ t # vs)"
proof -
  have "List.find (\<lambda>i. ts ! i < t) (rev [0 ..< length ts]) = Some (length us - 1)"
  proof (rule find_rev_upt)
    show "length us - 1 < length ts" using assms(1,2) by (cases us) auto
    have "ts ! (length us - 1) = last us" using assms(1,2) by (simp add: nth_append last_conv_nth)
    then show "ts ! (length us - 1) < t" using assms(2,3) by simp
    fix j
    assume j: "length us - 1 < j" "j < length ts"
    then have "length us \<le> j" using assms(2) by (cases us) auto
    then have "ts ! j \<in> set vs" using j(2) assms(1) by (simp add: nth_append)
    then show "\<not> ts ! j < t" using assms(4) [of "ts ! j"] by simp
  qed
  then show ?thesis using assms(1,2) by (cases us) (simp_all add: insert_tree_def)
qed

lemma insert_tree_wf:
  assumes wf: "wf_trees ts" and t: "t \<notin> set ts" "t \<noteq> CIST"
  obtains ts' where "insert_tree t ts = Some ts'" "wf_trees ts'" "set ts' = insert t (set ts)"
    "length ts' = Suc (length ts)"
proof -
  let ?us = "takeWhile (\<lambda>u. u < t) ts" and ?vs = "dropWhile (\<lambda>u. u < t) ts"
  obtain cs where ts: "ts = CIST # cs" using wf by (cases ts) (auto simp: wf_trees_def)
  have pos: "CIST < t" using t(2) by (simp add: CIST_def word_neq_0_conv)
  have sorted: "sorted_wrt (<) ts" using wf by (simp add: wf_trees_def)
  have gt: "t < v" if "v \<in> set ?vs" for v
  proof (cases ?vs)
    case (Cons w ws)
    then have "\<not> w < t" using hd_dropWhile [of "\<lambda>u. u < t" ts] by simp
    moreover have "w \<in> set ts" by (rule set_dropWhileD [of _ "\<lambda>u. u < t"]) (simp add: Cons)
    ultimately have "t < w" using t(1) by (metis neq_iff)
    moreover have "sorted_wrt (<) ?vs" using sorted by (metis sorted_wrt_append takeWhile_dropWhile_id)
    ultimately show ?thesis using Cons that by auto
  next
    case Nil
    then show ?thesis using that by (metis empty_iff empty_set)
  qed
  have us: "?us \<noteq> []" "hd ?us = CIST" using ts pos by simp_all
  have lt: "u < t" if "u \<in> set ?us" for u using that set_takeWhileD by fastforce
  have ins: "insert_tree t ts = Some (?us @ t # ?vs)"
    by (rule insert_tree_split) (simp_all add: us lt gt)
  have "sorted_wrt (<) (?us @ ?vs)" using sorted unfolding takeWhile_dropWhile_id .
  then have "sorted_wrt (<) ?us \<and> sorted_wrt (<) ?vs \<and> (\<forall>x \<in> set ?us. \<forall>y \<in> set ?vs. x < y)"
    unfolding sorted_wrt_append .
  then have "sorted_wrt (<) (?us @ t # ?vs)" using gt lt unfolding sorted_wrt_append sorted_wrt.simps by (metis set_ConsD)
  then have "wf_trees (?us @ t # ?vs)" using us by (simp add: wf_trees_def)
  moreover have "set (?us @ t # ?vs) = insert t (set ts)"
    by (metis Un_insert_right list.simps(15) set_append takeWhile_dropWhile_id)
  moreover have "length (?us @ t # ?vs) = Suc (length ts)"
    by (metis add_Suc_right length_Cons length_append takeWhile_dropWhile_id)
  ultimately show thesis using that ins by blast
qed

lemma create_tree_times: "BridgeTimes (create_tree br mac t) = times_of br"
  by (simp add: create_tree_def tree_default_internal_vars_def times_of_def Let_def)

lemma fold_create_ptps:
  "fold (\<lambda>p br. upd_ptp p t (\<lambda>_. create_ptp (tree_at br t) (port_at br p)) br) ps br =
     br\<lparr>ptp_at := (\<lambda>q u. if q \<in> set ps \<and> u = t then create_ptp (tree_at br t) (port_at br q)
                         else ptp_at br q u)\<rparr>"
  by (induction ps arbitrary: br) (auto simp: upd_ptp_def fun_eq_iff intro!: bridge_t.equality)

lemma create_msti_sys:
  assumes inv: "sys_inv br" and r: "MSTP_IN_create_msti fuel rounds t br = Some (res, br')"
  shows "sys_inv br' \<and> dig br' = dig br"
proof (cases "1 \<le> t \<and> unat t \<le> MAX_MSTID \<and> t \<notin> set (trees br)
    \<and> length (trees br) \<le> MAX_IMPLEMENTATION_MSTIS")
  case False
  with inv r show ?thesis
    by (auto simp: MSTP_IN_create_msti_def not_le not_less split: if_splits option.splits)
next
  case True
  note weak = sys_weak [OF inv]
  have t: "t \<noteq> CIST" using True by (auto simp: CIST_def)
  have "wf_trees (trees br)" using weak by (simp add: weak_inv_def wf_bridge_def)
  then obtain ts where ts: "insert_tree t (trees br) = Some ts" "wf_trees ts"
    "set ts = insert t (set (trees br))" "length ts = Suc (length (trees br))"
    by (rule insert_tree_wf) (use True t in auto)
  define b where "b = (fold (\<lambda>p br. upd_ptp p t (\<lambda>_. create_ptp (tree_at br t) (port_at br p)) br) (ports br)
    (upd_tree t (\<lambda>_. create_tree br (bi_mac (BridgeIdentifier (tree_at br (hd (trees br))))) t) br))\<lparr>trees := ts\<rparr>"
  have run: "tree_state_machines_begin fuel rounds t b = Some br'"
    using r True ts(1) by (auto simp: MSTP_IN_create_msti_def Let_def b_def not_le not_less
        split: if_splits)
  have same: "ports b = ports br" "trees b = ts" "bridge_config b = bridge_config br"
    "port_at b = port_at br" "\<And>q u. u \<noteq> t \<Longrightarrow> ptp_at b q u = ptp_at br q u"
    "\<And>u. BridgeTimes (tree_at b u) = (if u = t then times_of br else BridgeTimes (tree_at br u))"
    by (simp_all add: b_def fold_create_ptps bridge_config_def create_tree_times)
  have "table_inv b" using sys_table [OF inv] True ts same(2,3)
    by (auto simp: table_inv_def bridge_config_def)
  moreover have "ranges_ok b" "times_of b = times_of br"
    using weak same(3) by (simp_all add: weak_inv_def config_ok_def ranges_ok_def times_of_def bridge_config_def)
  ultimately have "config_ok b"
    using weak same ts(3) by (auto simp: config_ok_def weak_inv_def)
  then have wb: "weak_inv b"
    using weak same ts(2) t by (simp add: weak_inv_def wf_bridge_def cist_port_ok_def)
  have "ptp_inv b p u" if "bridgeEnabled b" "p \<in> set (ports b)" "u \<in> set (trees b)" "u \<noteq> t" for p u
    using that inv same ts(3)
    by (simp add: ptp_inv_def sys_inv_def pre_inv_def safe_inv_def bridge_config_def)
  then have "sys_inv br' \<and> bridge_core br' = bridge_core b" by (rule tree_begin_sys [OF wb run])
  then show ?thesis using dig_core [of br' b] dig_config [OF same(3,1)] by simp
qed

lemma remove_tree_pre:
  assumes inv: "sys_inv br" and t: "t \<noteq> CIST" "\<forall>f \<le> MAX_FID. fid2mstid br f \<noteq> t"
  shows "pre_inv (br\<lparr>trees := remove1 t (trees br)\<rparr>)"
proof -
  note weak = sys_weak [OF inv]
  have wf: "wf_trees (trees br)" using weak by (simp add: weak_inv_def wf_bridge_def)
  then have set: "set (remove1 t (trees br)) = set (trees br) - {t}"
    using wf_trees_distinct by (simp add: set_remove1_eq)
  obtain cs where "trees br = CIST # cs" using wf by (cases "trees br") (auto simp: wf_trees_def)
  then have "remove1 t (trees br) = CIST # remove1 t cs" using t(1) by simp
  moreover have "sorted_wrt (<) (remove1 t (trees br))"
    using wf strict_sorted_iff sorted_remove1 distinct_remove1 by (metis wf_trees_def)
  ultimately have "wf_trees (remove1 t (trees br))" by (simp add: wf_trees_def)
  moreover have "table_inv (br\<lparr>trees := remove1 t (trees br)\<rparr>)"
    using sys_table [OF inv] t(2) by (auto simp: table_inv_def set length_remove1)
  ultimately show ?thesis
    using weak inv
    by (auto simp: sys_inv_def pre_inv_def weak_inv_def safe_inv_def wf_bridge_def config_ok_def
        ranges_ok_def times_of_def cist_port_ok_def ptp_inv_def set)
qed

lemma delete_msti_ok:
  assumes inv: "sys_inv br"
  shows "ev_ok fuel br (map_option snd (MSTP_IN_delete_msti fuel rounds t br))"
proof (cases "t < 1 \<or> unat t > MAX_MSTID \<or> list_ex (\<lambda>fid. fid2mstid br fid = t) [0 ..< MAX_FID + 1]
    \<or> t \<notin> set (trees br)")
  case True
  then show ?thesis by (auto simp: MSTP_IN_delete_msti_def ev_done inv)
next
  case False
  then have t: "t \<noteq> CIST" "\<forall>f \<le> MAX_FID. fid2mstid br f \<noteq> t"
    by (auto simp: CIST_def list_ex_iff less_Suc_eq_le)
  have "map_option snd (MSTP_IN_delete_msti fuel rounds t br) =
      br_state_machines_run fuel rounds (br\<lparr>trees := remove1 t (trees br)\<rparr>)"
    unfolding MSTP_IN_delete_msti_def using False by (simp add: map_snd_bind)
  moreover have "ev_ok fuel br (br_state_machines_run fuel rounds (br\<lparr>trees := remove1 t (trees br)\<rparr>))"
    by (rule ev_run [OF remove_tree_pre [OF inv t]]) (use t(1) in \<open>simp_all add: dig_def\<close>)
  ultimately show ?thesis by simp
qed

subsection \<open>Events and reachable states\<close>

text \<open>The first two events are not calls of \<open>mstp.c\<close>: the rest of the daemon allocates a port before it is
  created, and it keeps the name, the speed and the duplex mode of a port in the port's struct.\<close>

datatype event =
    PortAlloc portref port_t
  | PortLink portref int int
  | PortCreate portref u16
  | PortDelete portref
  | BridgeAddress "48 word"
  | BridgeEnable bool
  | PortEnable portref bool int int
  | OneSecond
  | AllFidsFlushed portref mstid
  | RxBpdu portref bpdu_t u32
  | SetCistBridge CIST_BridgeConfig
  | SetMstiBridge mstid u8
  | SetCistPort portref CIST_PortConfig
  | SetMstiPort portref mstid MSTI_PortConfig
  | Mcheck portref
  | SetVid2Fid u16 u16
  | SetAllVids "nat \<Rightarrow> u16"
  | SetFid2Mstid u16 mstid
  | SetAllFids "nat \<Rightarrow> u16"
  | CreateMsti mstid
  | DeleteMsti mstid
  | SetMstConfigId u16 "u8 list"

definition handle ::
    "nat \<Rightarrow> nat \<Rightarrow> event \<Rightarrow> bridge_t \<Rightarrow> bridge_t option" where
  "handle fuel rounds ev br =
     (case ev of
        PortAlloc p x \<Rightarrow> Some (upd_port p (\<lambda>_. x) br)
      | PortLink p spd dplx \<Rightarrow> Some (upd_port p (\<lambda>x. x\<lparr>speed := spd, duplex := dplx\<rparr>) br)
      | PortCreate p n \<Rightarrow> MSTP_IN_port_create_and_add_tail fuel rounds p n br
      | PortDelete p \<Rightarrow> MSTP_IN_delete_port fuel rounds p br
      | BridgeAddress mac \<Rightarrow> MSTP_IN_set_bridge_address fuel rounds mac br
      | BridgeEnable up \<Rightarrow> MSTP_IN_set_bridge_enable fuel rounds up br
      | PortEnable p up spd dplx \<Rightarrow> MSTP_IN_set_port_enable fuel rounds p up spd dplx br
      | OneSecond \<Rightarrow> MSTP_IN_one_second fuel rounds br
      | AllFidsFlushed p t \<Rightarrow> MSTP_IN_all_fids_flushed fuel rounds p t br
      | RxBpdu p b sz \<Rightarrow> MSTP_IN_rx_bpdu fuel rounds p b sz br
      | SetCistBridge cfg \<Rightarrow> map_option snd (MSTP_IN_set_cist_bridge_config fuel rounds cfg br)
      | SetMstiBridge t pri \<Rightarrow> Some (snd (MSTP_IN_set_msti_bridge_config t pri br))
      | SetCistPort p cfg \<Rightarrow> map_option snd (MSTP_IN_set_cist_port_config fuel rounds p cfg br)
      | SetMstiPort p t cfg \<Rightarrow> map_option snd (MSTP_IN_set_msti_port_config fuel rounds p t cfg br)
      | Mcheck p \<Rightarrow> map_option snd (MSTP_IN_port_mcheck fuel rounds p br)
      | SetVid2Fid v f \<Rightarrow> map_option snd (MSTP_IN_set_vid2fid fuel rounds v f br)
      | SetAllVids vf \<Rightarrow> map_option snd (MSTP_IN_set_all_vids2fids fuel rounds vf br)
      | SetFid2Mstid f t \<Rightarrow> map_option snd (MSTP_IN_set_fid2mstid fuel rounds f t br)
      | SetAllFids fm \<Rightarrow> map_option snd (MSTP_IN_set_all_fids2mstids fuel rounds fm br)
      | CreateMsti t \<Rightarrow> map_option snd (MSTP_IN_create_msti fuel rounds t br)
      | DeleteMsti t \<Rightarrow> map_option snd (MSTP_IN_delete_msti fuel rounds t br)
      | SetMstConfigId rvn name \<Rightarrow> MSTP_IN_set_mst_config_id fuel rounds rvn name br)"

text \<open>The objects an event names are on the bridge; the object of a new port is not.\<close>

definition event_ok :: "event \<Rightarrow> bridge_t \<Rightarrow> bool" where
  "event_ok ev br =
     (case ev of
        PortAlloc p _ \<Rightarrow> p \<notin> set (ports br)
      | PortCreate p _ \<Rightarrow> p \<notin> set (ports br)
      | PortDelete p \<Rightarrow> p \<in> set (ports br)
      | PortEnable p _ _ _ \<Rightarrow> p \<in> set (ports br)
      | AllFidsFlushed p t \<Rightarrow> p \<in> set (ports br) \<and> t \<in> set (trees br)
      | RxBpdu p _ _ \<Rightarrow> p \<in> set (ports br)
      | SetMstiBridge t _ \<Rightarrow> t \<in> set (trees br)
      | SetCistPort p _ \<Rightarrow> p \<in> set (ports br)
      | SetMstiPort p t _ \<Rightarrow> p \<in> set (ports br) \<and> t \<in> set (trees br)
      | Mcheck p \<Rightarrow> p \<in> set (ports br)
      | _ \<Rightarrow> True)"

fun creates_msti :: "event \<Rightarrow> bool" where
  "creates_msti (CreateMsti t) = True"
| "creates_msti _ = False"

fun sets_tables :: "event \<Rightarrow> bool" where
  "sets_tables (SetVid2Fid v f) = True"
| "sets_tables (SetAllVids vf) = True"
| "sets_tables (SetFid2Mstid f t) = True"
| "sets_tables (SetAllFids fm) = True"
| "sets_tables _ = False"

text \<open>What an event is to do to the list of ports and to \<open>bridgeEnabled\<close>.\<close>

definition ports_after :: "event \<Rightarrow> portref list \<Rightarrow> portref list" where
  "ports_after ev ps = (case ev of PortCreate p _ \<Rightarrow> ps @ [p] | PortDelete p \<Rightarrow> remove1 p ps | _ \<Rightarrow> ps)"

definition enabled_after :: "event \<Rightarrow> bool \<Rightarrow> bool" where
  "enabled_after ev e = (case ev of BridgeEnable up \<Rightarrow> up | _ \<Rightarrow> e)"

definition after :: "event \<Rightarrow> bridge_t \<Rightarrow> bridge_t" where
  "after ev br = br\<lparr>ports := ports_after ev (ports br), bridgeEnabled := enabled_after ev (bridgeEnabled br)\<rparr>"

lemmas after_defs = after_def ports_after_def enabled_after_def

lemma after_digest: "digest_ok (after ev br) = digest_ok br"
  by (simp add: after_def digest_ok_def vid2mstid_image_def)

lemma port_struct_ok:
  "sys_inv br \<Longrightarrow> p \<notin> set (ports br) \<Longrightarrow> ev_ok fuel br (Some (upd_port p f br))"
  "sys_inv br \<Longrightarrow> ev_ok fuel br (Some (upd_port p (\<lambda>x. x\<lparr>speed := spd, duplex := dplx\<rparr>) br))"
proof -
  assume inv: "sys_inv br"
  have "sys_inv (upd_port p f br)" if "p \<notin> set (ports br)"
    using inv that by (fastforce simp: sys_inv_def pre_inv_def weak_inv_def safe_inv_def wf_bridge_def blocked_def
        config_ok_def config_defs cist_port_ok_def ptp_inv_def)
  then show "p \<notin> set (ports br) \<Longrightarrow> ev_ok fuel br (Some (upd_port p f br))"
    by (intro ev_done) (simp_all add: dig_def)
  show "ev_ok fuel br (Some (upd_port p (\<lambda>x. x\<lparr>speed := spd, duplex := dplx\<rparr>) br))"
    by (intro ev_keeps_done inv keeps_intros) simp
qed

lemma handle_ok:
  assumes inv: "sys_inv br" and ok: "event_ok ev br" and new: "\<not> creates_msti ev"
  shows "ev_inv fuel (after ev br) (handle fuel rounds ev br)"
    and "handle fuel rounds ev br = Some br' \<Longrightarrow> digest_ok br \<Longrightarrow> digest_ok br'"
proof -
  have "ev_inv fuel (after ev br) (handle fuel rounds ev br)
    \<and> (\<forall>br'. handle fuel rounds ev br = Some br' \<longrightarrow> digest_ok br \<longrightarrow> digest_ok br')"
  proof (cases "sets_tables ev")
    case True
    then show ?thesis
      by (cases ev) (auto simp: handle_def after_defs dest: table_form_ok(2) [OF inv vlan_forms(1) [OF inv]]
          table_form_ok(2) [OF inv vlan_forms(2) [OF inv]] table_form_ok(2) [OF inv vlan_forms(3) [OF inv]]
          table_form_ok(2) [OF inv vlan_forms(4) [OF inv]]
          intro: table_form_ok(1) [OF inv vlan_forms(1) [OF inv]] table_form_ok(1) [OF inv vlan_forms(2) [OF inv]]
          table_form_ok(1) [OF inv vlan_forms(3) [OF inv]] table_form_ok(1) [OF inv vlan_forms(4) [OF inv]])
  next
    case False
    with inv ok new have "ev_ok fuel (after ev br) (handle fuel rounds ev br)"
      by (cases ev) (simp_all add: handle_def event_ok_def after_defs port_struct_ok port_create_ok delete_port_ok
          set_bridge_address_ok set_bridge_enable_ok set_port_enable_ok one_second_ok all_fids_flushed_ok
          rx_bpdu_ok set_cist_bridge_config_ok set_msti_bridge_config_ok set_cist_port_config_ok
          set_msti_port_config_ok port_mcheck_ok delete_msti_ok set_mst_config_id_ok)
    then show ?thesis using ev_ok_inv ev_ok_digest after_digest by blast
  qed
  then show "ev_inv fuel (after ev br) (handle fuel rounds ev br)"
    "handle fuel rounds ev br = Some br' \<Longrightarrow> digest_ok br \<Longrightarrow> digest_ok br'" by auto
qed

lemma handle_sys:
  assumes "sys_inv br" "event_ok ev br" "handle fuel rounds ev br = Some br'"
  shows "sys_inv br' \<and> (digest_ok br \<longrightarrow> digest_ok br') \<and> ports br' = ports_after ev (ports br)
    \<and> bridgeEnabled br' = enabled_after ev (bridgeEnabled br)"
proof (cases "creates_msti ev")
  case True
  then obtain t where "ev = CreateMsti t" by (cases ev) auto
  then show ?thesis
    using assms(3) create_msti_sys [OF assms(1)] digest_ok_dig [of br' br]
    by (auto simp: handle_def after_defs dig_def)
next
  case False
  then show ?thesis using handle_ok [OF assms(1,2)] assms(3) by (simp add: ev_inv_def after_def)
qed

inductive reachable :: "bridge_t \<Rightarrow> bool" where
  created: "reachable (MSTP_IN_bridge_create mac br0)"
| handled: "reachable br \<Longrightarrow> event_ok ev br \<Longrightarrow> handle fuel rounds ev br = Some br' \<Longrightarrow>
     reachable br'"

lemma bridge_create_sys:
  "sys_inv (MSTP_IN_bridge_create mac br0)" "trees (MSTP_IN_bridge_create mac br0) = [CIST]"
  "digest_ok (MSTP_IN_bridge_create mac br0)"
proof -
  let ?b = "MSTP_IN_bridge_create mac br0"
  show "digest_ok ?b"
    by (simp add: MSTP_IN_bridge_create_def Let_def RecalcConfigDigest_def digest_ok_def
        bridge_default_internal_vars_def vid2mstid_image_def)
  show trees: "trees ?b = [CIST]"
    by (simp add: MSTP_IN_bridge_create_def Let_def RecalcConfigDigest_def
        bridge_default_internal_vars_def CIST_def)
  have fields: "ports ?b = []" "\<not> bridgeEnabled ?b" "vid2fid ?b = (\<lambda>_. 0)" "fid2mstid ?b = (\<lambda>_. 0)"
    "ranges_ok ?b" "BridgeTimes (tree_at ?b CIST) = times_of ?b"
    by (simp_all add: MSTP_IN_bridge_create_def Let_def RecalcConfigDigest_def
        bridge_default_internal_vars_def CIST_def ranges_ok_def create_tree_def
        tree_default_internal_vars_def times_of_def)
  have "table_inv ?b" using trees fields by (simp add: table_inv_def CIST_def)
  with trees fields show "sys_inv ?b"
    by (simp add: sys_inv_def pre_inv_def weak_inv_def config_ok_def wf_bridge_def wf_trees_def)
qed

lemma reachable_inv: "reachable br \<Longrightarrow> sys_inv br \<and> digest_ok br"
  by (induction rule: reachable.induct) (auto intro: bridge_create_sys dest: handle_sys)

lemma reachable_sys: "reachable br \<Longrightarrow> sys_inv br"
  by (simp add: reachable_inv)

text \<open>Without MSTIs every event is handled.\<close>

lemma rstp_handle:
  assumes "sys_inv br" "trees br = [CIST]" "event_ok ev br" "\<not> creates_msti ev" "51 \<le> fuel"
  obtains br' where "handle fuel rounds ev br = Some br'" "sys_inv br'" "trees br' = [CIST]"
  using handle_ok(1) [OF assms(1,3,4), of fuel rounds] assms(2,5) by (auto simp: ev_inv_def after_def)

end
