(* ===== verification/Mstp_Example.thy ===== *)
theory Mstp_Example
  imports Mstp_Reachable
begin

section \<open>Sample bridges\<close>

text \<open>
  Concrete objects at which the theorems are applied: memory as \<open>calloc\<close> leaves it, and bridges
  that the events of \<open>mstp.c\<close> produce from it.
\<close>

definition zero_port :: port_t where
  "zero_port = \<lparr>port_number = 0, mdelayWhile = 0, helloWhen = 0, edgeDelayWhile = 0, txCount = 0,
     operEdge = False, portEnabled = False, infoInternal = False, rcvdInternal = False,
     mcheck = False, rcvdBpdu = False, rcvdRSTP = False, rcvdSTP = False, rcvdTcAck = False,
     rcvdTcn = False, sendRSTP = False, tcAck = False, newInfo = False, newInfoMsti = False,
     operPointToPointMAC = False, restrictedRole = False, restrictedTcn = False,
     ExternalPortPathCost = 0, AdminExternalPortPathCost = 0, AdminP2P = p2pAuto,
     AdminEdgePort = False, AutoEdge = False, BpduGuardPort = False, BpduGuardError = False,
     NetworkPort = False, BaInconsistent = False, dontTxmtBpdu = False, bpduFilterPort = False,
     rapidAgeingWhile = 0, brAssuRcvdInfoWhile = 0, PRSM_state = PRSM_DISCARD,
     PPMSM_state = PPMSM_CHECKING_RSTP, BDSM_state = BDSM_EDGE, PTSM_state = PTSM_TRANSMIT_INIT,
     rcvdBpduData = blank_bpdu, rcvdBpduNumOfMstis = 0, deleted = False, if_name = ''lan1'',
     speed = 0, duplex = 0, num_rx_bpdu_filtered = 0, num_rx_bpdu = 0, num_rx_tcn = 0,
     num_tx_bpdu = 0, num_tx_tcn = 0, num_trans_fwd = 0, num_trans_blk = 0\<rparr>"

definition memory :: bridge_t where
  "memory = \<lparr>ports = [], trees = [], port_at = (\<lambda>_. zero_port), tree_at = (\<lambda>_. zero_tree),
     ptp_at = (\<lambda>_ _. zero_ptp), bridgeEnabled = False,
     MstConfigId = \<lparr>selector = 0, configuration_name = [], revision_level = 0, configuration_digest = []\<rparr>,
     ForceProtocolVersion = protoSTP, br_MaxHops = 0, br_Forward_Delay = 0, br_Max_Age = 0,
     br_Hello_Time = 0, Transmit_Hold_Count = 0, Migrate_Time = 0, Ageing_Time = 0,
     vid2fid = (\<lambda>_. 0), fid2mstid = (\<lambda>_. 0), uptime = 0, outs = []\<rparr>"

definition fresh_bridge :: bridge_t where
  "fresh_bridge = MSTP_IN_bridge_create 0x001122334455 memory"

lemma reset_port_keeps:
  "(bridgeEnabled (reset_port p br), \<lambda>q. deleted (port_at (reset_port p br) q)) =
     (bridgeEnabled br, \<lambda>q. deleted (port_at br q))"
proof -
  let ?C = "\<lambda>br. (bridgeEnabled br, \<lambda>q. deleted (port_at br q))"
  have "?C (reset_ptp p t s) = ?C s" for t s
    by (auto simp: reset_ptp_def Let_def MSTP_OUT_set_state_def fun_eq_iff split: br_state.split)
  then have "?C (fold (reset_ptp p) ts s) = ?C s" for ts s
    by (rule fold_keeps)
  then show ?thesis
    by (simp add: reset_port_def Let_def MSTP_OUT_set_ageing_time_def port_default_internal_vars_def
        fun_eq_iff)
qed

lemma enable_result:
  assumes inv: "sys_inv br" and r: "MSTP_IN_set_bridge_enable fuel rounds up br = Some br'"
  shows "bridgeEnabled br' = up \<and> ports br' = ports br \<and> trees br' = trees br
    \<and> deleted (port_at br' q) = deleted (port_at br q)"
proof (cases "bridgeEnabled br = up")
  case True
  with r show ?thesis by (simp add: MSTP_IN_set_bridge_enable_def)
next
  case False
  let ?C = "\<lambda>br. (bridgeEnabled br, \<lambda>q. deleted (port_at br q))"
  define s where "s = fold reset_port (ports br) (fold (\<lambda>t. upd_tree t tree_default_internal_vars)
    (trees br) (bridge_default_internal_vars (br\<lparr>bridgeEnabled := up\<rparr>)))"
  have [simp]: "ports (fold (\<lambda>t. upd_tree t f) ts b) = ports b" "?C (fold (\<lambda>t. upd_tree t f) ts b) = ?C b"
    for f ts b by (induction ts arbitrary: b) simp_all
  have w: "same_weak (br\<lparr>bridgeEnabled := up\<rparr>) s" unfolding s_def by (rule reset_same_weak)
  have "br_state_machines_begin fuel rounds s = Some br'"
    using r False by (simp add: MSTP_IN_set_bridge_enable_def Let_def s_def bridge_default_internal_vars_def)
  then have "bridge_core br' = bridge_core s"
    using begin_sys(2) same_weak_inv [OF w weak_enable [OF sys_weak [OF inv]]] by blast
  moreover have "?C s = (up, \<lambda>q. deleted (port_at br q))"
    using fold_keeps [where C = ?C and g = reset_port, OF reset_port_keeps]
    by (simp add: s_def bridge_default_internal_vars_def)
  ultimately show ?thesis using w
    by (simp add: same_weak_def bridge_core_def bridge_config_def fun_eq_iff)
qed

text \<open>A bridge with one port, enabled: it is reachable.\<close>

definition one_port :: bridge_t where
  "one_port = (upd_ptp 0 CIST (\<lambda>_. create_ptp (tree_at fresh_bridge CIST) (init_port 1 zero_port))
     (upd_port 0 (init_port 1) fresh_bridge))\<lparr>ports := [0]\<rparr>"

lemmas fresh_defs = fresh_bridge_def MSTP_IN_bridge_create_def RecalcConfigDigest_def
  bridge_default_internal_vars_def memory_def Let_def

lemma one_port_created: "handle 51 0 (PortCreate 0 1) fresh_bridge = Some one_port"
proof -
  have "ports fresh_bridge = []" "trees fresh_bridge = [CIST]" "\<not> bridgeEnabled fresh_bridge"
    "port_at fresh_bridge 0 = zero_port"
    by (simp_all add: fresh_defs CIST_def)
  then show ?thesis
    by (simp add: handle_def MSTP_IN_port_create_and_add_tail_def Let_def prt_state_machines_begin_def one_port_def)
qed

lemma one_port_reachable: "reachable one_port"
proof (rule reachable.handled [OF _ _ one_port_created])
  show "reachable fresh_bridge" unfolding fresh_bridge_def by (rule reachable.created)
  show "event_ok (PortCreate 0 1) fresh_bridge" by (simp add: event_ok_def fresh_defs)
qed

lemma one_port_lists: "ports one_port = [0]" "trees one_port = [CIST]" "\<not> bridgeEnabled one_port"
  by (simp_all add: one_port_def fresh_defs CIST_def)

lemma one_port_handle:
  assumes "event_ok ev one_port" "\<not> creates_msti ev"
  shows "\<exists>br. handle 51 0 ev one_port = Some br"
  using rstp_handle [OF reachable_sys [OF one_port_reachable] one_port_lists(2) assms, of 51 0]
  by blast

lemma enabled_sample:
  obtains br where "reachable br" "bridgeEnabled br" "ports br = [0]" "trees br = [CIST]"
    "\<not> deleted (port_at br 0)"
proof -
  have inv: "sys_inv one_port" by (rule reachable_sys [OF one_port_reachable])
  obtain br where r: "handle 51 0 (BridgeEnable True) one_port = Some br"
    by (rule rstp_handle [OF inv one_port_lists(2), of "BridgeEnable True" 51 0])
      (simp_all add: event_ok_def)
  have "reachable br"
    by (rule reachable.handled [OF one_port_reachable _ r]) (simp add: event_ok_def)
  moreover have "bridgeEnabled br \<and> ports br = ports one_port \<and> trees br = trees one_port
      \<and> deleted (port_at br 0) = deleted (port_at one_port 0)"
    using enable_result [OF inv, of 51 0 True br 0] r by (simp add: handle_def)
  moreover have "\<not> deleted (port_at one_port 0)"
    by (simp add: one_port_def init_port_def port_default_internal_vars_def)
  ultimately show thesis using that one_port_lists by simp
qed

text \<open>A bridge with two enabled designated ports and one MSTI.\<close>

definition sample :: bridge_t where
  "sample = memory\<lparr>ports := [0, 1], trees := [CIST, 1], bridgeEnabled := True,
     ForceProtocolVersion := protoMSTP, Transmit_Hold_Count := 6, Migrate_Time := 3,
     br_Hello_Time := 2, port_at := (\<lambda>_. zero_port\<lparr>portEnabled := True\<rparr>),
     ptp_at := (\<lambda>_ _. zero_ptp\<lparr>role := roleDesignated, selectedRole := roleDesignated,
       PRTSM_state := PRTSM_DESIGNATED_PORT, state := BR_STATE_BLOCKING, selected := True,
       synced := True, learn := True, forward := True, fdWhile := 15,
       portTimes := zero_times\<lparr>Hello_Time := 2\<rparr>\<rparr>)\<rparr>"

lemmas sample_defs = sample_def memory_def zero_port_def zero_ptp_def zero_times_def

lemma sample_wf: "wf_bridge sample"
  by (simp add: sample_defs wf_bridge_def wf_trees_def CIST_def)

text \<open>A bridge with one port that is down, in which no machine has anything to do.\<close>

definition idle_bridge :: bridge_t where
  "idle_bridge = memory\<lparr>ports := [0], trees := [CIST], bridgeEnabled := True,
     ForceProtocolVersion := protoRSTP, Transmit_Hold_Count := 6, Migrate_Time := 3,
     port_at := (\<lambda>_. zero_port\<lparr>edgeDelayWhile := 3, mdelayWhile := 3, BDSM_state := BDSM_NOT_EDGE,
       newInfo := True, newInfoMsti := True\<rparr>),
     tree_at := (\<lambda>_. zero_tree\<lparr>PRSSM_state := PRSSM_ROLE_SELECTION\<rparr>),
     ptp_at := (\<lambda>_ _. zero_ptp\<lparr>PRTSM_state := PRTSM_DISABLED_PORT, synced := True, selected := True,
       state := BR_STATE_BLOCKING, portTimes := zero_times\<lparr>Hello_Time := 2\<rparr>\<rparr>)\<rparr>"

end
