(* ===== verification/Mstp_Theorems.thy ===== *)
theory Mstp_Theorems
  imports Mstp_Example
begin

section \<open>Properties of the parts of the daemon\<close>

text \<open>
  What makes each component of \<open>mstp.c\<close> correct, stated over its definitions, with the sample
  bridges of \<open>Mstp_Example\<close> as witnesses. The properties of the bridge as a whole are in
  \<open>Spec2Isabelle\<close>.
\<close>

subsection \<open>Priority vectors and path costs\<close>

text \<open>C33: The chain of \<open>memcmp\<close> calls of \<open>betterorsamePriority\<close> decides the lexicographic order
  of the components of the priority vectors, read as numbers.\<close>

theorem betterorsamePriority_lexicographic:
  "betterorsamePriority v w p q cist \<longleftrightarrow> pri_key cist v p \<le> pri_key cist w q"
  by (rule betterorsame_key)

text \<open>Writing a priority into an identifier and reading it back gives the priority's upper four
  bits, and the other twelve bits of the identifier stay.\<close>

theorem priority_field_roundtrip:
  "GET_PRIORITY_FROM_IDENTIFIER (SET_PRIORITY_IN_IDENTIFIER pri ident) = pri AND 0xF0
     \<and> SET_PRIORITY_IN_IDENTIFIER pri ident AND 0x0FFF = ident AND 0x0FFF"
  by (simp add: get_set_priority set_priority_low_bits)

text \<open>The path cost of a link is between 1 and the maximum, and a faster link never costs
  more than a slower one.\<close>

theorem pcost_bounds:
  "1 \<le> unat (compute_pcost sp) \<and> unat (compute_pcost sp) \<le> 200000000
     \<and> (0 < a \<and> a \<le> b \<longrightarrow> unat (compute_pcost b) \<le> unat (compute_pcost a))"
proof -
  have pos: "1 \<le> 20000000 div s \<and> 20000000 div s \<le> 20000000" if "0 < s" "s < 20000000" for s :: int
    using zdiv_mono2 [of 20000000 s 20000000] zdiv_mono2 [of 20000000 1 s] that by simp
  have 1: "1 \<le> unat (compute_pcost s) \<and> unat (compute_pcost s) \<le> 20000000" if "0 < s" for s
    using unat_compute_pcost [OF that] pos [OF that] by (auto simp: nat_le_iff le_nat_iff split: if_splits)
  have 2: "unat (compute_pcost s) = 200000000" if "\<not> 0 < s" for s
    using that by (simp add: compute_pcost_def MAX_PATH_COST_def)
  have 3: "unat (compute_pcost b) \<le> unat (compute_pcost a)" if "0 < a" "a \<le> b"
  proof (cases "b < 20000000")
    case True
    then show ?thesis
      using unat_compute_pcost [of a] unat_compute_pcost [of b] that zdiv_mono2 [of 20000000 a b]
      by (simp add: nat_mono)
  next
    case False
    then show ?thesis using unat_compute_pcost [of b] 1 [of a] that by simp
  qed
  show ?thesis using 1 [of sp] 2 [of sp] 3 by (cases "0 < sp") auto
qed

theorem pcost_bounds_witness:
  "unat (compute_pcost 1000) \<le> unat (compute_pcost 100) \<and> unat (compute_pcost 0) \<le> 200000000"
  using pcost_bounds [of 0 100 1000] by simp

subsection \<open>BPDUs\<close>

text \<open>The flags octet of a BPDU carries what the port knows: the receiver reads back the
  encoded role and each of the flags the sender put in.\<close>

theorem tx_flags_roundtrip:
  "BPDU_FLAGS_ROLE_GET (tx_flags x) = role_num (message_role_from_port_role x)
     \<and> bit (tx_flags x) offsetTc = (tcWhile x \<noteq> 0) \<and> bit (tx_flags x) offsetProposal = proposing x
     \<and> bit (tx_flags x) offsetLearnig = learning x \<and> bit (tx_flags x) offsetForwarding = forwarding x
     \<and> bit (tx_flags x) offsetAgreement = agree x \<and> \<not> bit (tx_flags x) offsetTcAck"
  by (cases "message_role_from_port_role x"; cases "tcWhile x = 0"; cases "proposing x";
      cases "learning x"; cases "forwarding x"; cases "agree x";
      simp add: tx_flags_def flag_bit_def offset_defs BPDU_FLAGS_ROLE_SET_def BPDU_FLAGS_ROLE_GET_def)

lemma rx_validate_mst:
  assumes "protocolIdentifier b = 0" "bpduType b = bpduTypeRST" "protocolVersion b = proto_num protoMSTP"
    and "version1_len b = 0" "unat (version3_len b) = 64 + 16 * n" "n \<le> 64" "102 \<le> sz"
  shows "rx_validate b sz = Some (proto_num protoMSTP, Some n)"
proof -
  have "\<not> sz < 4" "\<not> sz < 35" "\<not> sz < 102"
    using assms(7) by (simp_all add: word_less_nat_alt word_le_nat_alt)
  with assms show ?thesis
    by (simp add: rx_validate_def Let_def bpduTypeRST_def bpduTypeTCN_def bpduTypeConfig_def
        MST_BPDU_SIZE_WO_MSTI_MSGS_def MST_BPDU_VER3LEN_WO_MSTI_MSGS_def CONFIG_BPDU_SIZE_def
        TCN_BPDU_SIZE_def sizeof_msti_configuration_message_def MAX_STANDARD_MSTIS_def)
qed

text \<open>C34: What \<open>txMstp\<close> sends for an MSTP bridge passes the validation of \<open>MSTP_IN_rx_bpdu\<close> as an
  MST BPDU with one message for each MSTI, and the vector the receiver records from it is the
  sender's designated priority vector.\<close>

theorem mst_bpdu_roundtrip:
  assumes "\<not> tx_suppressed p br" "ForceProtocolVersion br = protoMSTP"
    and "length (trees br) \<le> MAX_IMPLEMENTATION_MSTIS + 1"
  shows "\<exists>b sz. outs (txMstp p br) = outs br @ [OutTxBpdu p b sz]
    \<and> rx_validate b sz = Some (proto_num protoMSTP, Some (length (tl (trees br))))
    \<and> mstConfigurationIdentifier b = MstConfigId br
    \<and> mstConfiguration b = map (\<lambda>t. tx_msti_msg (ptp_at br p t)) (tl (trees br))
    \<and> msgPriority (record_cist_msg hops b x) = designatedPriority (cist_of br p)"
proof -
  let ?n = "length (tl (trees br))"
  define total :: u32 where "total = of_nat ?n * 16"
  have n: "?n \<le> 63" using assms(3) by (simp add: MAX_IMPLEMENTATION_MSTIS_def)
  have total: "unat total = 16 * ?n"
    using n by (simp add: total_def unat_word_ariths unat_of_nat)
  have v3: "unat (ucast (64 + total) :: u16) = 64 + 16 * ?n"
    using n total by (simp add: unat_word_ariths unsigned_ucast_eq take_bit_eq_mod)
  have sz: "102 \<le> 102 + total"
    using n total by (simp add: word_le_nat_alt unat_word_ariths)
  obtain b where b: "outs (txMstp p br) = outs br @ [OutTxBpdu p b (102 + total)]"
    "protocolIdentifier b = 0" "bpduType b = bpduTypeRST" "protocolVersion b = proto_num protoMSTP"
    "version1_len b = 0" "version3_len b = ucast (64 + total)"
    "mstConfigurationIdentifier b = MstConfigId br"
    "mstConfiguration b = map (\<lambda>t. tx_msti_msg (ptp_at br p t)) (tl (trees br))"
    "msgPriority (record_cist_msg hops b x) = designatedPriority (cist_of br p)"
    using assms(1,2)
    by (simp add: txMstp_def Let_def MSTP_OUT_tx_bpdu_def record_cist_msg_def
        MST_BPDU_SIZE_WO_MSTI_MSGS_def MST_BPDU_VER3LEN_WO_MSTI_MSGS_def
        sizeof_msti_configuration_message_def total_def)
  have "rx_validate b (102 + total) = Some (proto_num protoMSTP, Some ?n)"
    by (rule rx_validate_mst) (use b n sz v3 in simp_all)
  with b show ?thesis by blast
qed

theorem mst_bpdu_roundtrip_witness:
  "\<exists>b sz. outs (txMstp 0 sample) = [OutTxBpdu 0 b sz]
     \<and> rx_validate b sz = Some (proto_num protoMSTP, Some 1)"
proof -
  have "\<not> tx_suppressed 0 sample" "ForceProtocolVersion sample = protoMSTP"
    "length (trees sample) \<le> MAX_IMPLEMENTATION_MSTIS + 1"
    by (simp_all add: sample_defs tx_suppressed_def MAX_IMPLEMENTATION_MSTIS_def)
  from mst_bpdu_roundtrip [OF this, of 20 zero_ptp] show ?thesis by (auto simp: sample_defs)
qed

text \<open>The validation of received BPDUs accepts exactly: a TCN, a Config BPDU of at least 35
  octets, an RST BPDU of version 2 of at least 36 octets and one of a later MSTP version of at
  least 35, each with protocol identifier 0.\<close>

theorem rx_accepts:
  "rx_validate b sz \<noteq> None \<longleftrightarrow>
     TCN_BPDU_SIZE \<le> sz \<and> protocolIdentifier b = 0
     \<and> (bpduType b = bpduTypeTCN
        \<or> bpduType b = bpduTypeConfig \<and> CONFIG_BPDU_SIZE \<le> sz
        \<or> bpduType b = bpduTypeRST \<and>
            (if protocolVersion b = proto_num protoRSTP then RST_BPDU_SIZE \<le> sz
             else proto_num protoMSTP \<le> protocolVersion b \<and> CONFIG_BPDU_SIZE \<le> sz))"
  by (auto simp: rx_validate_def Let_def not_less bpduTypeTCN_def bpduTypeConfig_def bpduTypeRST_def)

text \<open>A BPDU that fails the validation changes nothing but the count of received BPDUs.\<close>

theorem rx_bpdu_invalid:
  assumes "rx_validate b sz = None" "\<not> BpduGuardPort (port_at br p)" "\<not> bpduFilterPort (port_at br p)"
  shows "MSTP_IN_rx_bpdu fuel rounds p b sz br =
    Some (upd_port p (\<lambda>x. x\<lparr>num_rx_bpdu := num_rx_bpdu x + 1\<rparr>) br)"
  using assms by (simp add: MSTP_IN_rx_bpdu_def Let_def)

theorem rx_bpdu_invalid_witness:
  "MSTP_IN_rx_bpdu 51 3 0 blank_bpdu 0 sample =
     Some (upd_port 0 (\<lambda>x. x\<lparr>num_rx_bpdu := num_rx_bpdu x + 1\<rparr>) sample)"
  by (rule rx_bpdu_invalid) (simp_all add: rx_validate_def TCN_BPDU_SIZE_def sample_defs)

text \<open>The length of an MST BPDU is taken from its version 3 length field alone: a frame of 102
  octets, which holds no MSTI message, is accepted with a count of 64.\<close>

theorem mst_length_overclaimed:
  "rx_validate (blank_bpdu\<lparr>bpduType := bpduTypeRST, protocolVersion := proto_num protoMSTP,
     version3_len := 1088\<rparr>) 102 = Some (proto_num protoMSTP, Some 64)"
  by (simp add: rx_validate_def blank_bpdu_def Let_def bpduTypeTCN_def bpduTypeConfig_def bpduTypeRST_def
      TCN_BPDU_SIZE_def CONFIG_BPDU_SIZE_def MST_BPDU_VER3LEN_WO_MSTI_MSGS_def MST_BPDU_SIZE_WO_MSTI_MSGS_def
      sizeof_msti_configuration_message_def MAX_STANDARD_MSTIS_def)

text \<open>\<open>rcvInfo\<close> never classifies a message as repeated designated information: a message
  with the same vector and times has the same designated bridge and port and is already taken for superior.\<close>

theorem rcvInfo_never_repeated:
  assumes "rcvInfo p t br = Some (info, br')"
  shows "info \<noteq> RepeatedDesignatedInfo"
proof -
  have "rcvInfo_classify d c x \<noteq> RepeatedDesignatedInfo" for d c x
    by (auto simp: rcvInfo_classify_def samePriorityAndTimers_iff Let_def)
  with assms show ?thesis
    by (auto simp: rcvInfo_def Let_def bind_eq_Some_conv split: if_splits option.splits)
qed

theorem rcvInfo_never_repeated_witness:
  "\<exists>info br'. rcvInfo 0 CIST sample = Some (info, br') \<and> info \<noteq> RepeatedDesignatedInfo"
proof -
  obtain info br' where "rcvInfo 0 CIST sample = Some (info, br')"
    using msg_procedures_total(6) [of CIST sample 0] by auto
  with rcvInfo_never_repeated [OF this] show ?thesis by blast
qed

text \<open>A topology change notified from outside the region does not reach the MSTIs of the port:
  their \<open>rcvdTc\<close> stays, and \<open>proposed\<close> is set instead.\<close>

theorem external_tc_lost:
  assumes "wf_bridge br" "t \<in> set (tl (trees br))" "\<not> rcvdInternal (port_at br p)"
    and "bit (flags (rcvdBpduData (port_at br p))) offsetTc" "setTcFlags p CIST br = Some br'"
  shows "rcvdTc (ptp_at br' p CIST) \<and> rcvdTc (ptp_at br' p t) = rcvdTc (ptp_at br p t)
    \<and> proposed (ptp_at br' p t)"
proof -
  have "t \<noteq> CIST" "CIST \<notin> set (tl (trees br))" using assms(1,2) wf_trees_tl by (auto simp: wf_bridge_def)
  with assms show ?thesis by (auto simp: setTcFlags_def Let_def split: if_splits)
qed

theorem external_tc_lost_witness:
  "\<exists>br'. setTcFlags 0 CIST (upd_port 0 (\<lambda>x. x\<lparr>rcvdBpduData := blank_bpdu\<lparr>flags := 1\<rparr>\<rparr>) sample) = Some br'
     \<and> rcvdTc (ptp_at br' 0 CIST) \<and> \<not> rcvdTc (ptp_at br' 0 1) \<and> proposed (ptp_at br' 0 1)"
proof -
  let ?b = "upd_port 0 (\<lambda>x. x\<lparr>rcvdBpduData := blank_bpdu\<lparr>flags := 1\<rparr>\<rparr>) sample"
  obtain br' where r: "setTcFlags 0 CIST ?b = Some br'"
    using msg_procedures_total(2) [of CIST ?b 0] by auto
  have "wf_bridge ?b" using sample_wf by (simp add: wf_bridge_def)
  from external_tc_lost [OF this _ _ _ r, of 1] r show ?thesis
    by (simp add: sample_defs offset_defs)
qed

subsection \<open>The state machines\<close>

definition sends :: "portref \<Rightarrow> nat \<Rightarrow> bridge_t \<Rightarrow> bridge_t \<Rightarrow> bool" where
  "sends p n br s \<longleftrightarrow> (\<exists>es. outs s = outs br @ es \<and> length es \<le> n
     \<and> (\<forall>e \<in> set es. \<exists>b sz. e = OutTxBpdu p b sz))"

lemma sends_step:
  assumes "sends p n a b" "sends p k b c"
  shows "sends p (n + k) a c"
proof -
  obtain es fs where "outs b = outs a @ es" "length es \<le> n" "\<forall>e \<in> set es. \<exists>b sz. e = OutTxBpdu p b sz"
    "outs c = outs b @ fs" "length fs \<le> k" "\<forall>e \<in> set fs. \<exists>b sz. e = OutTxBpdu p b sz"
    using assms unfolding sends_def by blast
  then show ?thesis unfolding sends_def by (intro exI [of _ "es @ fs"]) auto
qed

lemma tx_sends:
  "outs b = outs br \<Longrightarrow> sends p 1 br (txConfig p b)" "outs b = outs br \<Longrightarrow> sends p 1 br (txTcn p b)"
  "outs b = outs br \<Longrightarrow> sends p 1 br (txMstp p b)"
  by (auto simp: sends_def txConfig_def txTcn_def txMstp_def MSTP_OUT_tx_bpdu_def Let_def)

lemma tx_enabled:
  "portEnabled (port_at (txConfig p br) q) = portEnabled (port_at br q)"
  "portEnabled (port_at (txTcn p br) q) = portEnabled (port_at br q)"
  "portEnabled (port_at (txMstp p br) q) = portEnabled (port_at br q)"
  by (simp_all add: txConfig_def txTcn_def txMstp_def MSTP_OUT_tx_bpdu_def Let_def)

lemma sends_outs: "outs s' = outs s \<Longrightarrow> sends p n br s' = sends p n br s"
  by (simp add: sends_def)

lemma PTSM_step_sends:
  assumes "portEnabled (port_at br p)" "PTSM_step p br = Move s' m a"
  shows "portEnabled (port_at s' p) \<and> (\<exists>k. sends p k br s' \<and> k + PTSM_credit p s' \<le> PTSM_credit p br)"
proof -
  have tx: "portEnabled (port_at s p) \<and> sends p 1 br s \<and> 1 + PTSM_credit p s \<le> PTSM_credit p br"
    if "txCount (port_at br p) < Transmit_Hold_Count br"
      "s \<in> {PTSM_to_TRANSMIT_RSTP p br, PTSM_to_TRANSMIT_CONFIG p br, PTSM_to_TRANSMIT_TCN p br}" for s
  proof -
    have "Transmit_Hold_Count s = Transmit_Hold_Count br" "txCount (port_at s p) = txCount (port_at br p) + 1"
      "portEnabled (port_at s p)" "sends p 1 br s"
      using that(2) assms(1) tx_sends
      by (auto simp: PTSM_to_defs tx_enabled sends_outs [of "upd_port q f b" b for q f b])
    moreover have "unat (txCount (port_at br p)) < unat (Transmit_Hold_Count br)"
      using that(1) by (simp add: word_less_nat_alt)
    ultimately show ?thesis using unat_inc [OF that(1)] by (simp add: PTSM_credit_def)
  qed
  have none: "sends p 0 br (PTSM_to_IDLE p br)" "sends p 0 br (PTSM_to_TRANSMIT_PERIODIC p br)"
    by (simp_all add: sends_def PTSM_to_IDLE_def PTSM_to_TRANSMIT_PERIODIC_def)
  have "m" using assms by (simp add: PTSM_step_def Let_def split: if_splits)
  with PTSM_step_Move [OF assms(2)] consider "s' = PTSM_to_IDLE p br" | "s' = PTSM_to_TRANSMIT_PERIODIC p br"
    | "txCount (port_at br p) < Transmit_Hold_Count br"
      "s' \<in> {PTSM_to_TRANSMIT_RSTP p br, PTSM_to_TRANSMIT_CONFIG p br, PTSM_to_TRANSMIT_TCN p br}"
    by blast
  then show ?thesis
  proof cases
    case 3
    with tx show ?thesis by blast
  qed (use none assms(1) in \<open>auto simp: PTSM_credit_def PTSM_to_IDLE_def PTSM_to_TRANSMIT_PERIODIC_def
      intro!: exI [of _ 0]\<close>)
qed

text \<open>C35: The port transmit machine ends, after at most two calls for each BPDU it may still send
  and three more, and it sends no more BPDUs than \<open>Transmit_Hold_Count\<close> has left.\<close>

theorem transmit_limit:
  assumes "portEnabled (port_at br p)" "Hello_Time (portTimes (cist_of br p)) \<noteq> 0"
    and "2 * unat (Transmit_Hold_Count br) + 3 \<le> fuel"
  shows "\<exists>br' es. PTSM_run fuel p br False = Some (False, br') \<and> outs br' = outs br @ es
    \<and> length es \<le> unat (Transmit_Hold_Count br) - unat (txCount (port_at br p))
    \<and> (\<forall>e \<in> set es. \<exists>b sz. e = OutTxBpdu p b sz)"
proof -
  have "PTSM_rank p br \<le> 2 * unat (Transmit_Hold_Count br) + 2"
    by (auto simp: PTSM_rank_def PTSM_credit_def)
  then have "PTSM_rank p br < fuel" using assms(3) by simp
  then obtain br' where r: "PTSM_run fuel p br False = Some (False, br')"
    using ptsm.run_total [of p br fuel] assms(2) by (auto simp: PTSM_ok_def PTSM_run_def)
  define I where "I s \<longleftrightarrow> portEnabled (port_at s p)
    \<and> (\<exists>k. sends p k br s \<and> k + PTSM_credit p s \<le> PTSM_credit p br)" for s
  have step: "I s'" if I: "I s" and st: "PTSM_step p s = Move s' m a" for s s' m a
  proof -
    obtain k where k: "portEnabled (port_at s p)" "sends p k br s" "k + PTSM_credit p s \<le> PTSM_credit p br"
      using I unfolding I_def by blast
    obtain j where "portEnabled (port_at s' p)" "sends p j s s'" "j + PTSM_credit p s' \<le> PTSM_credit p s"
      using PTSM_step_sends [OF k(1) st] by blast
    with k sends_step [OF k(2), of j s'] show ?thesis by (auto simp: I_def intro!: exI [of _ "k + j"])
  qed
  have "I br" using assms(1) by (auto simp: I_def sends_def)
  then have "I br'"
    by (rule sm_run_inv [where step = "PTSM_step p", rotated])
      (use step r in \<open>auto simp: PTSM_run_def\<close>)
  then obtain k where "sends p k br br'" "k \<le> PTSM_credit p br" by (auto simp: I_def)
  with r show ?thesis unfolding sends_def PTSM_credit_def by (meson le_trans)
qed

theorem transmit_limit_witness:
  "\<exists>br' es. PTSM_run 15 0 sample False = Some (False, br') \<and> outs br' = es \<and> length es \<le> 6"
proof -
  have "portEnabled (port_at sample 0)" "Hello_Time (portTimes (cist_of sample 0)) \<noteq> 0"
    "2 * unat (Transmit_Hold_Count sample) + 3 \<le> 15" by (simp_all add: sample_defs)
  from transmit_limit [OF this] show ?thesis by (auto simp: sample_defs)
qed

text \<open>The port state transition machine ends and makes the port learn and forward exactly as the role
  transition machine asks, in the protocol's flags and in the kernel.\<close>

theorem PSTSM_follows:
  assumes "PSTSM_inv (deleted (port_at br p)) (ptp_at br p t)"
    and "forward (ptp_at br p t) \<Longrightarrow> learn (ptp_at br p t)" "4 \<le> fuel"
  shows "\<exists>br'. PSTSM_run fuel p t br False = Some (False, br')
    \<and> learning (ptp_at br' p t) = learn (ptp_at br p t)
    \<and> forwarding (ptp_at br' p t) = forward (ptp_at br p t)
    \<and> (\<not> deleted (port_at br p) \<longrightarrow> state (ptp_at br' p t) =
         (if forward (ptp_at br p t) then BR_STATE_FORWARDING
          else if learn (ptp_at br p t) then BR_STATE_LEARNING else BR_STATE_BLOCKING))"
proof -
  obtain k where k: "fuel = Suc (Suc (Suc (Suc k)))" using assms(3) by (intro that [of "fuel - 4"]) simp
  show ?thesis
    using assms(1,2) unfolding PSTSM_run_def k
    by (cases "PSTSM_state (ptp_at br p t)"; cases "learn (ptp_at br p t)"; cases "forward (ptp_at br p t)")
      (auto simp: PSTSM_step_def PSTSM_inv_def PSTSM_defs)
qed

theorem PSTSM_follows_witness:
  "\<exists>br'. PSTSM_run 4 0 CIST sample False = Some (False, br') \<and> forwarding (ptp_at br' 0 CIST)
     \<and> state (ptp_at br' 0 CIST) = BR_STATE_FORWARDING"
proof -
  have "PSTSM_inv (deleted (port_at sample 0)) (ptp_at sample 0 CIST)"
    by (simp add: sample_defs PSTSM_inv_def)
  from PSTSM_follows [OF this, of 4] show ?thesis by (auto simp: sample_defs)
qed

text \<open>The port information machine ends within 15 nested calls and is settled when it returns,
  for any received message.\<close>

theorem PISM_settles:
  assumes "PISM_ok p t br" "15 \<le> fuel" "0 < k"
  shows "\<exists>br'. PISM_run fuel p t br False = Some (False, br') \<and> PISM_run k p t br' True = Some (False, br')"
proof -
  have "PISM_rank p t br < fuel" using PISM_rank_bound [of p t br] assms(2) by linarith
  then obtain br' where r: "sm_run (PISM_step p t) fuel br False = Some (False, br')"
    using pism.run_total [OF assms(1)] by blast
  with pism.run_settles [OF assms(1) r assms(3)] show ?thesis by (auto simp: PISM_run_def)
qed

theorem PISM_settles_witness:
  "\<exists>br'. PISM_run 15 0 CIST sample False = Some (False, br') \<and> PISM_run 1 0 CIST br' True = Some (False, br')"
  by (rule PISM_settles) (simp_all add: PISM_ok_def PISM_msg_ok_def)

text \<open>C36: Outside the master role the role transition machine ends within 51 nested calls,
  and a role that was selected has then been taken up.\<close>

theorem PRTSM_terminates:
  assumes "PRTSM_ok p t br" "51 \<le> fuel"
  shows "\<exists>br'. PRTSM_run fuel p t br False = Some (False, br') \<and> PRTSM_inv (ptp_at br' p t)
    \<and> \<not> role_pending (ptp_at br' p t)"
proof -
  let ?d = "PRTSM_delays p br"
  have "PRTSM_rank ?d p t br < fuel"
    using PRTSM_rank_bound [of ?d "BaInconsistent (port_at br p)" "ptp_at br p t"] assms(2)
    by (simp add: PRTSM_rank_def split: if_splits)
  then obtain br' where r: "sm_run (PRTSM_step ?d p t) fuel br False = Some (False, br')" "PRTSM_ok p t br'"
    using prtsm.run_total [OF assms(1)] by blast
  moreover have "sm_run (PRTSM_step ?d p t) (Suc 0) br' True = Some (False, br')"
    by (rule prtsm.run_settles [OF assms(1) r(1)]) simp
  then have "\<not> role_pending (ptp_at br' p t)"
    by (auto simp: PRTSM_step_def split: if_splits)
  ultimately show ?thesis by (auto simp: PRTSM_run_def PRTSM_ok_def)
qed

theorem PRTSM_terminates_witness:
  "\<exists>br'. PRTSM_run 51 0 CIST sample False = Some (False, br') \<and> \<not> role_pending (ptp_at br' 0 CIST)"
proof -
  have "PRTSM_ok 0 CIST sample" by (simp add: PRTSM_ok_def PRTSM_inv_defs sample_defs)
  from PRTSM_terminates [OF this, of 51] show ?thesis by auto
qed

text \<open>The topology change machine of the CIST ends within 23 nested calls, from any state.\<close>

theorem TCSM_terminates: "\<exists>br'. TCSM_run 23 p CIST br False = Some (False, br')"
  using tcsm.run_total [of p CIST br 23] tc_rank_bound
  by (auto simp: TCSM_ok_def TCSM_run_def simp del: sm_run.simps)



text \<open>The role transition machine of a master port never returns when the port is to be retired
  (\<open>reRoot\<close> while \<open>rrWhile\<close> runs) and all ports are synced: it learns, forwards and discards in turn.\<close>

theorem PRTSM_master_diverges:
  assumes "PRTSM_state (ptp_at br p t) = PRTSM_MASTER_PORT" "role (ptp_at br p t) = roleMaster"
    and "selectedRole (ptp_at br p t) = roleMaster" "selected (ptp_at br p t)" "\<not> updtInfo (ptp_at br p t)"
    and "reRoot (ptp_at br p t)" "rrWhile (ptp_at br p t) \<noteq> 0" "synced (ptp_at br p t)"
    and "\<not> sync (ptp_at br p t)" "agree (ptp_at br p t)" "\<not> proposed (ptp_at br p t)"
    and "\<not> operEdge (port_at br p)" "allSynced p t br"
  shows "PRTSM_run fuel p t br False = None"
  unfolding PRTSM_run_def
  by (rule sm_run_diverges [of "master_loop p t", OF master_loop_step])
    (use assms in \<open>simp_all add: master_loop_def\<close>)

theorem PRTSM_master_diverges_witness:
  "PRTSM_run 1000 0 1 (upd_ptp 0 1 (\<lambda>x. x\<lparr>PRTSM_state := PRTSM_MASTER_PORT, role := roleMaster,
     selectedRole := roleMaster, reRoot := True, rrWhile := 1, agree := True\<rparr>) sample) False = None"
  by (rule PRTSM_master_diverges) (simp_all add: sample_defs allSynced_def)





subsection \<open>Role selection\<close>

text \<open>C24: The root priority vector is optimal: no root candidate among the ports and not the bridge's own
  vector is better, and the root port, if there is one, is a candidate with exactly that vector.\<close>

theorem root_vector_optimal:
  assumes "select_root t br = (v, i, r)"
  shows "pri_key (t = CIST) v i \<le> pri_key (t = CIST) (BridgePriority (tree_at br t)) 0
    \<and> (\<forall>p \<in> set (ports br). root_candidate t br p \<longrightarrow>
        pri_key (t = CIST) v i \<le> pri_key (t = CIST) (root_path_priority t br p) (portId (ptp_at br p t)))
    \<and> (case r of None \<Rightarrow> v = BridgePriority (tree_at br t)
       | Some p \<Rightarrow> p \<in> set (ports br) \<and> root_candidate t br p \<and> v = root_path_priority t br p
           \<and> i = portId (ptp_at br p t))"
proof -
  have "\<forall>p \<in> set (ports br). root_candidate t br p \<longrightarrow>
    betterorsamePriority v (root_path_priority t br p) i (portId (ptp_at br p t)) (t = CIST)"
    using select_root_best(2) [OF assms] by blast
  then show ?thesis
    using select_root_best(1) [OF assms] select_root_source [OF assms]
    unfolding betterorsame_key by (cases r) auto
qed

theorem root_vector_optimal_witness:
  "\<exists>v i r. select_root CIST sample = (v, i, r)
     \<and> pri_key True v i \<le> pri_key True (BridgePriority (tree_at sample CIST)) 0"
proof -
  obtain v i r where "select_root CIST sample = (v, i, r)" using select_root_ex by blast
  with root_vector_optimal [OF this] show ?thesis by auto
qed

text \<open>C9: Role selection implements the specification of the roles: each port gets the role that
  \<open>role_spec\<close> gives for the information it holds and the vector it would send, and the tree gets the
  root vector.\<close>

theorem roles_refine_spec:
  assumes "wf_bridge br" "select_root t br = (v, i, r)" "p \<in> set (ports br)"
  shows "selectedRole (ptp_at (updtRolesTree t br) p t) = role_spec t br (designated_vector t br v p) r p
    \<and> designatedPriority (ptp_at (updtRolesTree t br) p t) = designated_vector t br v p
    \<and> rootPriority (tree_at (updtRolesTree t br) t) = v"
  using updtRolesTree_roles(1,2) [OF assms] updtRolesTree_tree(1) [OF assms(1,2)] by simp

theorem roles_refine_spec_witness:
  "selectedRole (ptp_at (updtRolesTree CIST sample) 0 CIST) = roleDisabled"
proof -
  obtain v i r where "select_root CIST sample = (v, i, r)" using select_root_ex by blast
  from roles_refine_spec [OF sample_wf this, of 0] show ?thesis
    by (simp add: role_spec_def Let_def sample_defs)
qed

text \<open>Role selection gives at most one port of a tree the root role.\<close>

theorem one_root_port:
  assumes "wf_bridge br"
  shows "length (filter (\<lambda>p. selectedRole (ptp_at (updtRolesTree t br) p t) = roleRoot) (ports br)) \<le> 1"
proof -
  obtain v i r where sel: "select_root t br = (v, i, r)" using select_root_ex by blast
  have "r = Some p" if "p \<in> set (ports br)"
    "selectedRole (ptp_at (updtRolesTree t br) p t) = roleRoot" for p
    using that(2) updtRolesTree_roles(1) [OF assms sel that(1)]
    by (simp add: role_spec_def Let_def split: if_splits)
  then have "set (filter (\<lambda>p. selectedRole (ptp_at (updtRolesTree t br) p t) = roleRoot) (ports br)) \<subseteq> {the r}"
    by force
  moreover have "distinct (filter (\<lambda>p. selectedRole (ptp_at (updtRolesTree t br) p t) = roleRoot) (ports br))"
    using assms by (simp add: wf_bridge_def)
  ultimately show ?thesis by (metis card.empty card_insert_disjoint card_mono distinct_card
        empty_iff finite.emptyI finite.insertI One_nat_def)
qed

theorem one_root_port_witness:
  "length (filter (\<lambda>p. selectedRole (ptp_at (updtRolesTree CIST sample) p CIST) = roleRoot) [0, 1]) \<le> 1"
proof -
  have "ports sample = [0, 1]" by (simp add: sample_defs)
  then show ?thesis using one_root_port [OF sample_wf, of CIST] by (simp only:)
qed

subsection \<open>Timers\<close>

lemma unat_dec: "unat (dec x) = unat x - 1"
  by (cases "x = 0") (simp_all add: dec_def unat_sub word_le_nat_alt unat_gt_0 Suc_leI)

text \<open>A tick of the port timers counts each running timer of the port down by one, leaves
  those that have run out at zero, and touches no other port.\<close>

theorem tick_timers:
  assumes "wf_bridge br" "t \<in> set (trees br)"
  shows "unat (fdWhile (ptp_at (PTSM_tick p br) p t)) = unat (fdWhile (ptp_at br p t)) - 1
    \<and> unat (rrWhile (ptp_at (PTSM_tick p br) p t)) = unat (rrWhile (ptp_at br p t)) - 1
    \<and> unat (rbWhile (ptp_at (PTSM_tick p br) p t)) = unat (rbWhile (ptp_at br p t)) - 1
    \<and> unat (tcWhile (ptp_at (PTSM_tick p br) p t)) = unat (tcWhile (ptp_at br p t)) - 1
    \<and> unat (rcvdInfoWhile (ptp_at (PTSM_tick p br) p t)) = unat (rcvdInfoWhile (ptp_at br p t)) - 1
    \<and> unat (helloWhen (port_at (PTSM_tick p br) p)) = unat (helloWhen (port_at br p)) - 1
    \<and> (q \<noteq> p \<longrightarrow> ptp_at (PTSM_tick p br) q = ptp_at br q \<and> port_at (PTSM_tick p br) q = port_at br q)"
proof -
  let ?b = "upd_port p (\<lambda>x. x\<lparr>helloWhen := dec (helloWhen x),
            mdelayWhile := dec (mdelayWhile x), edgeDelayWhile := dec (edgeDelayWhile x),
            txCount := dec (txCount x),
            brAssuRcvdInfoWhile := dec (brAssuRcvdInfoWhile x)\<rparr>) br"
  have tick: "PTSM_tick p br = fold (tick_ptp p) (trees br) ?b" by (simp add: PTSM_tick_def)
  have own: "ptp_at (tick_ptp p u s) q v = (if q = p \<and> v = u
      then (ptp_at s p u)\<lparr>fdWhile := dec (fdWhile (ptp_at s p u)), rrWhile := dec (rrWhile (ptp_at s p u)),
        rbWhile := dec (rbWhile (ptp_at s p u)), tcWhile := dec (tcWhile (ptp_at s p u)),
        rcvdInfoWhile := dec (rcvdInfoWhile (ptp_at s p u))\<rparr> else ptp_at s q v)"
    and port: "port_at (tick_ptp p u s) = port_at s" for u s q v
    by (simp_all add: tick_ptp_def Let_def)
  have d: "distinct (trees br)" using assms(1) wf_trees_distinct by (simp add: wf_bridge_def)
  have "ptp_at (fold (tick_ptp p) (trees br) ?b) p t = ptp_at (tick_ptp p t ?b) p t"
    by (rule fold_row [where R = "\<lambda>b. ptp_at b p t" and C = "\<lambda>_. ()"]) (simp_all add: own d assms(2))
  moreover have "port_at (fold (tick_ptp p) (trees br) ?b) = port_at ?b"
    by (rule fold_keeps) (simp add: port)
  moreover have "ptp_at (fold (tick_ptp p) (trees br) ?b) q = ptp_at ?b q" if "q \<noteq> p"
    by (rule fold_keeps) (use that in \<open>simp add: own fun_eq_iff\<close>)
  ultimately show ?thesis by (simp add: tick own unat_dec)
qed

theorem tick_timers_witness:
  "unat (fdWhile (ptp_at (PTSM_tick 0 sample) 0 CIST)) = 14"
proof -
  have "CIST \<in> set (trees sample)" by (simp add: sample_defs)
  from tick_timers [OF sample_wf this, of 0] show ?thesis by (simp add: sample_defs)
qed

subsection \<open>Management\<close>

text \<open>A new MSTI is put where it keeps the list of trees sorted by MSTID, the CIST first.\<close>

theorem insert_tree_sorted:
  assumes "sorted_wrt (<) ts" "ts \<noteq> []" "hd ts = CIST" "t \<notin> set ts"
  shows "\<exists>ts'. insert_tree t ts = Some ts' \<and> sorted_wrt (<) ts' \<and> hd ts' = CIST
    \<and> set ts' = insert t (set ts) \<and> length ts' = Suc (length ts)"
proof -
  have "wf_trees ts" "t \<noteq> CIST" using assms list.set_sel(1) [of ts] by (auto simp: wf_trees_def)
  then obtain ts' where "insert_tree t ts = Some ts'" "wf_trees ts'" "set ts' = insert t (set ts)"
    "length ts' = Suc (length ts)"
    using insert_tree_wf assms(4) by blast
  then show ?thesis by (auto simp: wf_trees_def)
qed

theorem insert_tree_sorted_witness:
  "\<exists>ts'. insert_tree 3 [0, 2, 5] = Some ts' \<and> sorted_wrt (<) ts' \<and> set ts' = {0, 2, 3, 5}"
  using insert_tree_sorted [of "[0, 2, 5]" 3] by (auto simp: CIST_def)

end
