(* ===== verification/Autorestart.thy ===== *)
theory Autorestart
  imports Pack_Prelude
begin

section \<open>The PoE restart daemon\<close>

text \<open>
  \<open>src/tf_ar_poe/src/autorestartd\<close>: for each of eight ports a test (link, ping or speed) runs every few
  seconds; a port whose test fails often enough is switched off and on again through the PoE daemon,
  a limited number of times. A client may ask for a restart, and a port may be switched by the clock.

  The records are the structs of \<open>port_module.h\<close>; error codes and events are bit sets in words. What a
  function reads from outside is an argument: the contents of \<open>operstate\<close>, the answer of \<open>ping\<close>, the
  counter of received octets, the strings of the UCI configuration, the clock (\<open>now\<close>; the calls of
  \<open>time\<close> within one handler return one value) and the calendar (\<open>clock_ops\<close>, which stands for
  \<open>localtime\<close> and \<open>mktime\<close>). Commands to the PoE daemon are recorded in \<open>poe_calls\<close>. A result \<open>None\<close>
  is a write outside a buffer or array. Three threads call the handlers; each handler of a port is one step.
\<close>

definition NUM_PORTS :: nat where "NUM_PORTS = 8"
definition MIN_SPEED :: u32 where "MIN_SPEED = 10"
definition MAX_SPEED :: u32 where "MAX_SPEED = 1000000"

subsection \<open>Data\<close>

datatype bool_t = disable | enable | max_bool

datatype test_type = test_disable | test_link | test_ping | test_speed | test_max

definition ERR_PORT_DISABLE :: u32 where "ERR_PORT_DISABLE = 0x00001"
definition ERR_TEST_TYPE :: u32 where "ERR_TEST_TYPE = 0x00002"
definition ERR_TEST_LINK :: u32 where "ERR_TEST_LINK = 0x00004"
definition ERR_TEST_PING :: u32 where "ERR_TEST_PING = 0x00008"
definition ERR_TEST_SPEED :: u32 where "ERR_TEST_SPEED = 0x00010"
definition ERR_TEST_DISABLE :: u32 where "ERR_TEST_DISABLE = 0x00040"
definition ERR_POE_DOWN :: u32 where "ERR_POE_DOWN = 0x00080"
definition ERR_NULL_OBJ :: u32 where "ERR_NULL_OBJ = 0x00200"
definition ERR_IP_NOT_VALID :: u32 where "ERR_IP_NOT_VALID = 0x01000"
definition ERR_PoE_DISABLE :: u32 where "ERR_PoE_DISABLE = 0x02000"
definition ERR_TIME_NOT_VALID :: u32 where "ERR_TIME_NOT_VALID = 0x04000"
definition ERR_SPEED_VALUE :: u32 where "ERR_SPEED_VALUE = 0x08000"
definition ERR_OK :: u32 where "ERR_OK = 0x10000"
definition ERR_PORT_SHUTDOWN :: u32 where "ERR_PORT_SHUTDOWN = 0x20000"
definition ERR_MANUAL_REBOOT :: u32 where "ERR_MANUAL_REBOOT = 0x40000"
definition ERR_REBOOTING :: u32 where "ERR_REBOOTING = 0x80000"

datatype AR_STATE = IDLE_STATE | REGULAR_STATE | REBOOT_STATE

definition TEST_OK :: u32 where "TEST_OK = 1"
definition AUTO_RESTART :: u32 where "AUTO_RESTART = 2"
definition MANUAL_RESTART :: u32 where "MANUAL_RESTART = 4"

datatype REBOOT_STATE_e =
  REBOOT_STATE_IDLE | REBOOT_STATE_INIT | REBOOT_STATE_POE_DOWN | REBOOT_STATE_POE_UP

definition REBOOT_EVENT_START :: u32 where "REBOOT_EVENT_START = 1"
definition REBOOT_EVENT_TIMER_STOP :: u32 where "REBOOT_EVENT_TIMER_STOP = 2"

text \<open>Setting, clearing and testing bits, as \<open>|= b\<close>, \<open>&= ~b\<close> and \<open>& b\<close> do.\<close>

definition setb :: "u32 \<Rightarrow> u32 \<Rightarrow> u32" where "setb b w = w OR b"
definition clrb :: "u32 \<Rightarrow> u32 \<Rightarrow> u32" where "clrb b w = w AND NOT b"
definition hasb :: "u32 \<Rightarrow> u32 \<Rightarrow> bool" where "hasb b w \<longleftrightarrow> w AND b \<noteq> 0"

record time_h_m =
  alarm_status :: bool_t
  time_H :: u8
  time_M :: u8
  targetTime :: u32
  remainTime :: u32

record port_config_info =
  host :: string
  timeAlarm_up :: time_h_m
  timeAlarm_down :: time_h_m
  min_speed :: u32
  max_speed :: u32
  reply_time :: u32
  rx_byte_prev :: u32
  rx_byte_current :: u32
  rx_delta_byte :: u32
  rx_speed_Kbit :: u32
  time_current :: u32
  time_prev :: u32
  alarm :: bool_t
  portNum :: u8
  ptest :: test_type
  cfg_poe_state :: u8
  timeStr :: string

record port_reset_info =
  resetCount :: u8
  totalResetCount :: u8
  errorTestCount :: u8
  errorCode :: u32
  ar_event :: u32
  ar_state :: AR_STATE

record port_state_info =
  port_state_en :: bool_t
  poe_state_en :: bool_t

record port_reboot_info =
  rebootState :: REBOOT_STATE_e
  rebootEvent :: u32
  rebootDelay :: u32
  rebootTimeStart :: u32

record portInfo =
  portConfigInfo :: port_config_info
  portResetInfo :: port_reset_info
  portStateInfo :: port_state_info
  portRebootInfo :: port_reboot_info

text \<open>A port of the daemon together with the commands given to the PoE daemon for it.\<close>

record ar_port = portInfo +
  poe_calls :: "bool list"

text \<open>The options of the daemon (\<open>init_configOptions\<close>).\<close>

record ar_options =
  TEST_DELAY :: u8
  TEST_NUM :: u8
  MAX_RESET :: u8

record clock_ops =
  at_time :: "u32 \<Rightarrow> nat \<Rightarrow> u8 \<Rightarrow> u8 \<Rightarrow> u32"
  next_day :: "u32 \<Rightarrow> u32"

abbreviation upd_reset :: "(port_reset_info \<Rightarrow> port_reset_info) \<Rightarrow> ar_port \<Rightarrow> ar_port" where
  "upd_reset f x \<equiv> x\<lparr>portResetInfo := f (portResetInfo x)\<rparr>"

abbreviation upd_conf :: "(port_config_info \<Rightarrow> port_config_info) \<Rightarrow> ar_port \<Rightarrow> ar_port" where
  "upd_conf f x \<equiv> x\<lparr>portConfigInfo := f (portConfigInfo x)\<rparr>"

abbreviation upd_reboot :: "(port_reboot_info \<Rightarrow> port_reboot_info) \<Rightarrow> ar_port \<Rightarrow> ar_port" where
  "upd_reboot f x \<equiv> x\<lparr>portRebootInfo := f (portRebootInfo x)\<rparr>"

definition upd_err :: "(u32 \<Rightarrow> u32) \<Rightarrow> ar_port \<Rightarrow> ar_port" where
  "upd_err f = upd_reset (\<lambda>r. r\<lparr>errorCode := f (errorCode r)\<rparr>)"

definition upd_event :: "(u32 \<Rightarrow> u32) \<Rightarrow> ar_port \<Rightarrow> ar_port" where
  "upd_event f = upd_reset (\<lambda>r. r\<lparr>ar_event := f (ar_event r)\<rparr>)"

abbreviation err :: "ar_port \<Rightarrow> u32" where "err x \<equiv> errorCode (portResetInfo x)"
abbreviation event_of :: "ar_port \<Rightarrow> u32" where "event_of x \<equiv> ar_event (portResetInfo x)"
abbreviation state_of :: "ar_port \<Rightarrow> AR_STATE" where "state_of x \<equiv> ar_state (portResetInfo x)"
abbreviation reboot_of :: "ar_port \<Rightarrow> REBOOT_STATE_e" where "reboot_of x \<equiv> rebootState (portRebootInfo x)"

subsection \<open>Tests\<close>

definition mark_ok :: "ar_port \<Rightarrow> ar_port" where
  "mark_ok x = (if state_of x = IDLE_STATE then upd_event (setb TEST_OK) x else x)"

definition port_runTestDisable :: "ar_port \<Rightarrow> ar_port" where
  "port_runTestDisable x = upd_err (\<lambda>e. setb ERR_TEST_DISABLE (clrb ERR_OK e)) x"

definition port_runTestLink :: "string \<Rightarrow> ar_port \<Rightarrow> ar_port" where
  "port_runTestLink output x =
     (let x = upd_err (\<lambda>e. setb ERR_OK (clrb ERR_TEST_LINK e)) x
      in if output \<noteq> ''up'' @ [CHR 0x0A] then upd_err (\<lambda>e. setb ERR_TEST_LINK (clrb ERR_OK e)) x
         else if ptest (portConfigInfo x) = test_link then mark_ok x
         else x)"

text \<open>\<open>reply\<close> is the time of an answer to the ping, \<open>None\<close> where \<open>ping\<close> fails.\<close>

definition port_runTestPing :: "u32 option \<Rightarrow> ar_port \<Rightarrow> ar_port" where
  "port_runTestPing reply x =
     (let reply = (if hasb ERR_TEST_LINK (err x) then None else reply);
          x = upd_conf (\<lambda>c. c\<lparr>reply_time := case_option 0 id reply\<rparr>) x
      in case reply of
           None \<Rightarrow> upd_err (\<lambda>e. setb ERR_TEST_PING (clrb ERR_OK e)) x
         | Some _ \<Rightarrow> mark_ok (upd_err (\<lambda>_. ERR_OK) x))"

definition port_runTestSpeed :: "u32 \<Rightarrow> u32 \<Rightarrow> ar_port \<Rightarrow> ar_port" where
  "port_runTestSpeed now rx x =
     (let c = portConfigInfo x;
          delta_byte = rx - rx_byte_prev c;
          down = hasb ERR_TEST_LINK (err x);
          delta_time = (if down then 0 else now - time_prev c);
          rx_delta_bit = (if down then 0 else delta_byte * 8);
          x = (if down then x
               else upd_conf (\<lambda>c. c\<lparr>rx_byte_current := rx, rx_delta_byte := delta_byte, rx_byte_prev := rx,
                      time_current := now, time_prev := now\<rparr>)
                    (upd_err (\<lambda>e. setb ERR_OK (clrb ERR_TEST_SPEED e)) x));
          speed = (if delta_time = 0 then rx_delta_bit else rx_delta_bit div delta_time div 1000);
          x = (if delta_time = 0 \<or> speed < min_speed c \<or> speed > max_speed c
               then upd_err (\<lambda>e. setb ERR_TEST_SPEED (clrb ERR_OK e)) x
               else mark_ok x)
      in upd_conf (\<lambda>c. c\<lparr>rx_speed_Kbit := speed\<rparr>) x)"

text \<open>The strings \<open>state\<close> and \<open>poe\<close> of the port's section, empty where they cannot be read.\<close>

definition get_PortAndPoeState :: "string \<Rightarrow> string \<Rightarrow> ar_port \<Rightarrow> ar_port" where
  "get_PortAndPoeState state_str poe_str x =
     (let off = (\<lambda>b x. upd_reset (\<lambda>r. r\<lparr>errorCode := setb b (clrb ERR_OK (errorCode r)), ar_state := IDLE_STATE\<rparr>) x);
          x = (if state_str = ''enable'' then x\<lparr>portStateInfo := (portStateInfo x)\<lparr>port_state_en := enable\<rparr>\<rparr>
               else off ERR_PORT_DISABLE (x\<lparr>portStateInfo := (portStateInfo x)\<lparr>port_state_en := disable\<rparr>\<rparr>))
      in if poe_str = ''enable'' then x\<lparr>portStateInfo := (portStateInfo x)\<lparr>poe_state_en := enable\<rparr>\<rparr>
         else off ERR_PoE_DISABLE (x\<lparr>portStateInfo := (portStateInfo x)\<lparr>poe_state_en := disable\<rparr>\<rparr>))"

text \<open>What a round of tests reads for a port.\<close>

record test_input =
  ti_state :: string
  ti_poe :: string
  ti_operstate :: string
  ti_ping :: "u32 option"
  ti_now :: u32
  ti_rx :: u32

text \<open>One port in \<open>test_main\<close>: its state is read and then the test of its type runs. \<open>getPortParam\<close>
  never stores \<open>test_max\<close>, for which the code has no test.\<close>

definition test_port :: "test_input \<Rightarrow> ar_port \<Rightarrow> ar_port" where
  "test_port i x =
     (let x = get_PortAndPoeState (ti_state i) (ti_poe i) x
      in case ptest (portConfigInfo x) of
           test_disable \<Rightarrow> port_runTestDisable x
         | test_link \<Rightarrow> port_runTestLink (ti_operstate i) x
         | test_ping \<Rightarrow> port_runTestPing (ti_ping i) (port_runTestLink (ti_operstate i) x)
         | test_speed \<Rightarrow> port_runTestSpeed (ti_now i) (ti_rx i) (port_runTestLink (ti_operstate i) x)
         | test_max \<Rightarrow> x)"

subsection \<open>Restarting\<close>

definition poe_Control :: "bool \<Rightarrow> ar_port \<Rightarrow> ar_port" where
  "poe_Control up x = x\<lparr>poe_calls := poe_calls x @ [up]\<rparr>"

definition set_errorHandler :: "ar_port \<Rightarrow> ar_port" where
  "set_errorHandler x =
     (if hasb ERR_IP_NOT_VALID (err x) \<or> hasb ERR_TIME_NOT_VALID (err x) \<or> hasb ERR_SPEED_VALUE (err x)
         \<or> hasb ERR_PORT_DISABLE (err x)
      then upd_conf (\<lambda>c. c\<lparr>ptest := test_disable\<rparr>) x else x)"

definition autoResetHandler :: "string \<Rightarrow> u8 \<Rightarrow> ar_port \<Rightarrow> ar_port" where
  "autoResetHandler date maxReset x =
     (let x = upd_err (clrb ERR_OK) (upd_conf (\<lambda>c. c\<lparr>timeStr := date\<rparr>) x)
      in if resetCount (portResetInfo x) \<ge> maxReset
         then set_errorHandler (upd_reset (\<lambda>r. r\<lparr>ar_state := IDLE_STATE\<rparr>)
                (upd_reboot (\<lambda>b. b\<lparr>rebootState := REBOOT_STATE_IDLE\<rparr>)
                  (upd_err (\<lambda>e. setb ERR_PORT_SHUTDOWN (clrb ERR_REBOOTING e)) x)))
         else upd_reboot (\<lambda>b. b\<lparr>rebootState := REBOOT_STATE_INIT\<rparr>)
                (upd_reset (\<lambda>r. r\<lparr>errorTestCount := 0, resetCount := resetCount r + 1,
                    totalResetCount := totalResetCount r + 1, errorCode := setb ERR_REBOOTING (errorCode r)\<rparr>) x))"

definition manualResetHandler :: "string \<Rightarrow> ar_port \<Rightarrow> ar_port" where
  "manualResetHandler date x =
     (let x = upd_conf (\<lambda>c. c\<lparr>timeStr := date\<rparr>) x;
          x = upd_err (\<lambda>e. setb ERR_MANUAL_REBOOT (clrb ERR_PORT_SHUTDOWN (clrb ERR_OK e))) x;
          x = upd_reset (\<lambda>r. r\<lparr>totalResetCount := totalResetCount r + 1, resetCount := 0, errorTestCount := 0\<rparr>) x
      in upd_reboot (\<lambda>b. b\<lparr>rebootState := REBOOT_STATE_INIT\<rparr>) x)"

definition powered :: "ar_port \<Rightarrow> bool" where
  "powered x \<longleftrightarrow> port_state_en (portStateInfo x) = enable \<and> poe_state_en (portStateInfo x) = enable"

text \<open>The state \<open>REBOOT_STATE_POE_DOWN\<close>: the port is switched off when it is entered, and the timer is read.\<close>

definition poe_down_start :: "u32 \<Rightarrow> ar_port \<Rightarrow> ar_port" where
  "poe_down_start now x =
     (if hasb REBOOT_EVENT_START (rebootEvent (portRebootInfo x))
      then upd_reboot (\<lambda>b. b\<lparr>rebootEvent := clrb REBOOT_EVENT_START (rebootEvent b),
             rebootTimeStart := rebootDelay b + now\<rparr>) (poe_Control False x)
      else x)"

definition poe_down_timer :: "u32 \<Rightarrow> ar_port \<Rightarrow> ar_port" where
  "poe_down_timer now x =
     (let e = rebootEvent (portRebootInfo x);
          e = (if now \<ge> rebootTimeStart (portRebootInfo x) then setb REBOOT_EVENT_TIMER_STOP e else e);
          x = upd_reboot (\<lambda>b. b\<lparr>rebootEvent := e\<rparr>) x
      in if hasb REBOOT_EVENT_TIMER_STOP e
         then upd_reboot (\<lambda>b. b\<lparr>rebootState := REBOOT_STATE_POE_UP\<rparr>) x else x)"

text \<open>\<open>reload\<close> is \<open>getPortParam\<close> with \<open>isReboot\<close> set, for the configuration of the port.\<close>

definition rebootHandler :: "(ar_port \<Rightarrow> ar_port option) \<Rightarrow> string \<Rightarrow> u32 \<Rightarrow> ar_options \<Rightarrow> ar_port \<Rightarrow> ar_port option" where
  "rebootHandler reload date now opts x =
     (case reboot_of x of
        REBOOT_STATE_IDLE \<Rightarrow>
          let x = (if hasb AUTO_RESTART (event_of x)
                   then autoResetHandler date (MAX_RESET opts) (upd_event (clrb AUTO_RESTART) x) else x)
          in Some (if hasb MANUAL_RESTART (event_of x) \<and> powered x
                   then upd_event (clrb MANUAL_RESTART) (manualResetHandler date x) else x)
      | REBOOT_STATE_INIT \<Rightarrow>
          Some (upd_reboot (\<lambda>b. b\<lparr>rebootState := REBOOT_STATE_POE_DOWN,
            rebootEvent := setb REBOOT_EVENT_START (rebootEvent b)\<rparr>) x)
      | REBOOT_STATE_POE_DOWN \<Rightarrow>
          Some (poe_down_timer now (poe_down_start now x))
      | REBOOT_STATE_POE_UP \<Rightarrow>
          let x = upd_reboot (\<lambda>b. b\<lparr>rebootEvent := clrb REBOOT_EVENT_TIMER_STOP (rebootEvent b)\<rparr>) x;
              x = (if powered x then poe_Control True x else x);
              x = upd_reset (\<lambda>r. r\<lparr>ar_state := REGULAR_STATE,
                    errorCode := clrb ERR_MANUAL_REBOOT (clrb ERR_REBOOTING (errorCode r))\<rparr>)
                    (upd_reboot (\<lambda>b. b\<lparr>rebootState := REBOOT_STATE_IDLE\<rparr>) x)
          in if hasb MANUAL_RESTART (event_of x)
             then reload (upd_err (clrb ERR_PORT_SHUTDOWN) (upd_event (clrb MANUAL_RESTART) x))
             else Some x)"

text \<open>The two parts of \<open>test_ErrorHandler\<close>: counting down after a good test, counting up after a bad one.\<close>

definition recover :: "ar_port \<Rightarrow> ar_port" where
  "recover x =
     (let n = (if errorTestCount (portResetInfo x) > 0 then errorTestCount (portResetInfo x) - 1 else 0);
          x = upd_reset (\<lambda>r. r\<lparr>errorTestCount := n\<rparr>) x
      in if n = 0
         then upd_reset (\<lambda>r. r\<lparr>errorCode := clrb ERR_PORT_SHUTDOWN (errorCode r), resetCount := 0\<rparr>) x
         else x)"

definition switched_off :: "u32 \<Rightarrow> bool" where
  "switched_off e \<longleftrightarrow> hasb ERR_PORT_DISABLE e \<or> hasb ERR_TEST_DISABLE e \<or> hasb ERR_PORT_SHUTDOWN e
     \<or> hasb ERR_POE_DOWN e \<or> hasb ERR_PoE_DISABLE e"

definition count_failure :: "ar_options \<Rightarrow> ar_port \<Rightarrow> ar_port" where
  "count_failure opts x =
     (let n = errorTestCount (portResetInfo x) + 1;
          x = upd_reset (\<lambda>r. r\<lparr>errorTestCount := n\<rparr>) x
      in if n \<ge> TEST_NUM opts \<and> state_of x \<noteq> REBOOT_STATE
         then upd_reset (\<lambda>r. r\<lparr>ar_state := REBOOT_STATE, ar_event := setb AUTO_RESTART (ar_event r)\<rparr>) x
         else x)"

definition test_ErrorHandler :: "ar_options \<Rightarrow> ar_port \<Rightarrow> ar_port" where
  "test_ErrorHandler opts x =
     (let x = (if hasb ERR_OK (err x) then recover x else x)
      in if switched_off (err x) then x
         else if hasb ERR_TEST_LINK (err x) \<or> hasb ERR_TEST_SPEED (err x) \<or> hasb ERR_TEST_PING (err x)
         then count_failure opts x
         else x)"

definition port_timeAlarm :: "clock_ops \<Rightarrow> u32 \<Rightarrow> time_h_m \<Rightarrow> time_h_m" where
  "port_timeAlarm clk now a =
     (if now \<ge> targetTime a
      then a\<lparr>targetTime := next_day clk now, remainTime := 0, alarm_status := enable\<rparr>
      else a\<lparr>remainTime := targetTime a - now\<rparr>)"

definition alarmHandler :: "clock_ops \<Rightarrow> string \<Rightarrow> u32 \<Rightarrow> ar_port \<Rightarrow> ar_port" where
  "alarmHandler clk date now x =
     (let x = upd_conf (\<lambda>c. c\<lparr>timeAlarm_up := port_timeAlarm clk now (timeAlarm_up c),
            timeAlarm_down := port_timeAlarm clk now (timeAlarm_down c)\<rparr>) x
      in if state_of x = REBOOT_STATE then x
         else
           let x = (if alarm_status (timeAlarm_down (portConfigInfo x)) = enable
                    then upd_conf (\<lambda>c. c\<lparr>timeAlarm_down := (timeAlarm_down c)\<lparr>alarm_status := disable\<rparr>,
                           cfg_poe_state := 0, timeStr := date\<rparr>)
                         (upd_reset (\<lambda>r. r\<lparr>totalResetCount := totalResetCount r + 1,
                              errorCode := setb ERR_POE_DOWN (errorCode r)\<rparr>) (poe_Control False x))
                    else x)
           in if alarm_status (timeAlarm_up (portConfigInfo x)) = enable
              then upd_conf (\<lambda>c. c\<lparr>timeAlarm_up := (timeAlarm_up c)\<lparr>alarm_status := disable\<rparr>, cfg_poe_state := 1\<rparr>)
                     (upd_err (clrb ERR_POE_DOWN) (poe_Control True x))
              else x)"

text \<open>One port in \<open>eventsHandler\<close>.\<close>

definition events_port :: "(ar_port \<Rightarrow> ar_port option) \<Rightarrow> clock_ops \<Rightarrow> string \<Rightarrow> u32 \<Rightarrow> ar_options \<Rightarrow>
    ar_port \<Rightarrow> ar_port option" where
  "events_port reload clk date now opts x =
     map_option (\<lambda>x. if alarm (portConfigInfo x) = enable then alarmHandler clk date now x else x)
       (case state_of x of
          REGULAR_STATE \<Rightarrow> Some (test_ErrorHandler opts x)
        | REBOOT_STATE \<Rightarrow> rebootHandler reload date now opts x
        | IDLE_STATE \<Rightarrow>
            Some (if hasb TEST_OK (event_of x)
                  then upd_reset (\<lambda>r. r\<lparr>ar_event := clrb TEST_OK (ar_event r), ar_state := REGULAR_STATE,
                         errorCode := clrb ERR_PORT_SHUTDOWN (errorCode r)\<rparr>) x
                  else x))"

subsection \<open>Requests of a client\<close>

text \<open>The effect of \<open>cmd_rebootHandler\<close> on the port, and the status it answers.\<close>

definition cmd_rebootHandler :: "ar_port \<Rightarrow> nat \<times> ar_port" where
  "cmd_rebootHandler x =
     (if state_of x \<noteq> REBOOT_STATE then
        if powered x
        then (1, upd_reset (\<lambda>r. r\<lparr>ar_state := REBOOT_STATE, ar_event := setb MANUAL_RESTART (ar_event r)\<rparr>) x)
        else (3, x)
      else (2, upd_event (clrb MANUAL_RESTART) x))"

text \<open>The five octets of a message: the type of the command, in the byte order of the switch, and the port.
  The table of commands has four entries, of which the first and the last are empty.\<close>

definition clientHandler :: "u32 \<Rightarrow> u8 \<Rightarrow> ar_port list \<Rightarrow> (nat option \<times> ar_port list) option" where
  "clientHandler cmdType port ps =
     (if cmdType = 0 \<or> cmdType = 3 then Some (None, ps)
      else if cmdType = 1 then Some (Some 0, ps)
      else if cmdType = 2 then
        (if 1 \<le> unat port \<and> unat port \<le> NUM_PORTS
         then let (st, x) = cmd_rebootHandler (ps ! (unat port - 1))
              in Some (Some st, ps[unat port - 1 := x])
         else None)
      else None)"

end
