(* ===== verification/Autorestart_Init.thy ===== *)
theory Autorestart_Init
  imports Autorestart C_Strings
begin

section \<open>The PoE restart daemon: configuration\<close>

text \<open>
  \<open>init_module.c\<close>, the \<open>port_set*Param\<close> functions of \<open>port_module.c\<close> and the parsing functions of
  \<open>utils_module.c\<close>. The configuration of a port is the JSON text that \<open>ubus call uci get\<close> prints.
  \<open>getValueFromJson\<close> searches the text itself; \<open>getData_formJson\<close> uses the library jansson, which is
  the parameter \<open>json\<close>: the string of an option among the values of the text, or nothing. A value that
  does not fit its buffer is \<open>None\<close>. \<open>junk\<close> is the variable \<open>errorCode\<close> of \<open>setSpeed\<close>, which is used
  without a value.
\<close>

type_synonym json = "string \<Rightarrow> string \<Rightarrow> string option"

subsection \<open>Parsing\<close>

text \<open>The value is searched as text; the inner option says whether \<open>value\<close> is written.\<close>

definition getValueFromJson :: "string \<Rightarrow> string \<Rightarrow> string option option" where
  "getValueFromJson txt name =
     (case strstr txt name of
        None \<Rightarrow> Some None
      | Some p \<Rightarrow>
          Option.bind (strchr p (CHR '':'')) (\<lambda>q.
          Option.bind (strchr q (CHR 0x22)) (\<lambda>r.
            let v = take 9 (takeWhile (\<lambda>c. c \<noteq> CHR 0x22) (tl r))
            in Some (if v = [] then None else Some v))))"

definition getCmdKey :: "string \<Rightarrow> test_type" where
  "getCmdKey s =
     (if s = ''disable'' then test_disable else if s = ''link'' then test_link
      else if s = ''ping'' then test_ping else if s = ''speed'' then test_speed else test_max)"

definition getAlarmSate :: "string \<Rightarrow> bool_t" where
  "getAlarmSate s = (if s = ''disable'' then disable else if s = ''enable'' then enable else max_bool)"

fun split_at :: "char \<Rightarrow> string \<Rightarrow> string list" where
  "split_at c [] = [[]]"
| "split_at c (x # xs) =
     (if x = c then [] # split_at c xs
      else case split_at c xs of [] \<Rightarrow> [[x]] | w # ws \<Rightarrow> (x # w) # ws)"

text \<open>The regular expression \<open>^([0-9]{1,3}\.){3}[0-9]{1,3}$\<close>.\<close>

definition checkValidIp :: "string \<Rightarrow> u32" where
  "checkValidIp s =
     (let parts = split_at (CHR ''.'') s
      in if length parts = 4 \<and> list_all (\<lambda>p. 1 \<le> length p \<and> length p \<le> 3 \<and> list_all (is_digit 10) p) parts
         then 0 else ERR_IP_NOT_VALID)"

definition isValidTime :: "string \<Rightarrow> (u8 \<times> u8) option" where
  "isValidTime s =
     Option.bind (scan_d s) (\<lambda>(hour, r).
       case r of
         [] \<Rightarrow> None
       | c # r \<Rightarrow>
           if c \<noteq> CHR '':'' then None
           else Option.bind (scan_d r) (\<lambda>(minute, _).
                  if hour < 0 \<or> hour > 23 \<or> minute < 0 \<or> minute > 59 then None
                  else Some (of_int hour, of_int minute)))"

subsection \<open>Parameters of a test\<close>

definition port_setHostParam :: "string \<Rightarrow> port_config_info \<Rightarrow> u32 \<times> port_config_info" where
  "port_setHostParam h c = (checkValidIp h, c\<lparr>host := h\<rparr>)"

definition port_setSpeedParam :: "u32 \<Rightarrow> u32 \<Rightarrow> port_config_info \<Rightarrow> u32 \<times> port_config_info" where
  "port_setSpeedParam smax smin c =
     (if smin > smax then (ERR_SPEED_VALUE, c)
      else if smax < MIN_SPEED \<or> smax > MAX_SPEED then (ERR_SPEED_VALUE, c)
      else
        let c = c\<lparr>max_speed := smax\<rparr>
        in if smin < MIN_SPEED \<or> smin > MAX_SPEED then (ERR_SPEED_VALUE, c)
           else (ERR_OK, c\<lparr>min_speed := smin\<rparr>))"

definition set_alarm :: "clock_ops \<Rightarrow> u32 \<Rightarrow> u8 \<times> u8 \<Rightarrow> time_h_m \<Rightarrow> time_h_m" where
  "set_alarm clk now hm a =
     (let t = at_time clk now 0 (fst hm) (snd hm)
      in a\<lparr>time_H := fst hm, time_M := snd hm,
           targetTime := if now \<ge> t then at_time clk now 1 (fst hm) (snd hm) else t\<rparr>)"

definition port_setTimeParam :: "clock_ops \<Rightarrow> u32 \<Rightarrow> string \<Rightarrow> string \<Rightarrow> port_config_info \<Rightarrow>
    u32 \<times> port_config_info" where
  "port_setTimeParam clk now up down c =
     (case isValidTime up of
        None \<Rightarrow> (setb ERR_TIME_NOT_VALID ERR_OK, c)
      | Some u \<Rightarrow>
          let c = c\<lparr>timeAlarm_up := set_alarm clk now u (timeAlarm_up c)\<rparr>
          in case isValidTime down of
               None \<Rightarrow> (setb ERR_TIME_NOT_VALID ERR_OK, c)
             | Some d \<Rightarrow> (ERR_OK, c\<lparr>timeAlarm_down := set_alarm clk now d (timeAlarm_down c)\<rparr>))"

definition setHost :: "json \<Rightarrow> string \<Rightarrow> port_config_info \<Rightarrow> (u32 \<times> port_config_info) option" where
  "setHost json txt c =
     (case json txt ''host'' of
        None \<Rightarrow> Some (ERR_IP_NOT_VALID, c)
      | Some h \<Rightarrow> if length h < 16 then Some (port_setHostParam h c) else None)"

definition fits :: "nat \<Rightarrow> string option \<Rightarrow> bool" where
  "fits k v = (case v of None \<Rightarrow> True | Some s \<Rightarrow> length s < k)"

definition speed_value :: "string option \<Rightarrow> u16" where
  "speed_value v = (case v of None \<Rightarrow> 0 | Some s \<Rightarrow> of_int (strtol10 s))"

definition setSpeed :: "u32 \<Rightarrow> json \<Rightarrow> string \<Rightarrow> port_config_info \<Rightarrow> (u32 \<times> port_config_info) option" where
  "setSpeed junk json txt c =
     (let smax = json txt ''max_speed''; smin = json txt ''min_speed'';
          e = (if smax = None \<or> smin = None then ERR_SPEED_VALUE else junk)
      in if \<not> fits 64 smax \<or> \<not> fits 64 smin then None
         else if e \<noteq> ERR_SPEED_VALUE
         then Some (port_setSpeedParam (ucast (speed_value smax)) (ucast (speed_value smin)) c)
         else Some (e, c))"

definition setTime :: "json \<Rightarrow> clock_ops \<Rightarrow> u32 \<Rightarrow> string \<Rightarrow> port_config_info \<Rightarrow> (u32 \<times> port_config_info) option" where
  "setTime json clk now txt c =
     (let up = json txt ''timeUp''; down = json txt ''timeDown''
      in if \<not> fits 5 up \<or> \<not> fits 5 down then None
         else case (up, down) of
                (Some u, Some d) \<Rightarrow> Some (port_setTimeParam clk now u d c)
              | _ \<Rightarrow> Some (setb ERR_TIME_NOT_VALID ERR_OK, c))"

subsection \<open>A port\<close>

definition setConfigZeroValue :: "u32 \<Rightarrow> bool \<Rightarrow> port_config_info \<Rightarrow> port_config_info" where
  "setConfigZeroValue now isReboot c =
     (let c = c\<lparr>min_speed := 0, max_speed := 0, rx_delta_byte := 0, rx_byte_current := 0,
            rx_byte_prev := 0, rx_speed_Kbit := 0, time_current := now\<rparr>
      in if isReboot then c
         else c\<lparr>host := ''0.0.0.0'',
                timeAlarm_down := (timeAlarm_down c)\<lparr>alarm_status := disable, time_H := 25, time_M := 61\<rparr>,
                timeAlarm_up := (timeAlarm_up c)\<lparr>alarm_status := disable, time_H := 27, time_M := 62\<rparr>,
                timeStr := []\<rparr>)"

definition setResetZeroValue :: "bool \<Rightarrow> port_reset_info \<Rightarrow> port_reset_info" where
  "setResetZeroValue isReboot r =
     r\<lparr>errorCode := ERR_OK, totalResetCount := if isReboot then totalResetCount r else 0, resetCount := 0,
       errorTestCount := 0, ar_state := REGULAR_STATE, ar_event := 0\<rparr>"

text \<open>\<open>setTestConfig\<close>: the test's own parameters.\<close>

definition set_test :: "u32 \<Rightarrow> json \<Rightarrow> string \<Rightarrow> test_type \<Rightarrow> port_config_info \<Rightarrow> (u32 \<times> port_config_info) option" where
  "set_test junk json txt t c =
     (case t of
        test_link \<Rightarrow> Some (ERR_OK, c)
      | test_ping \<Rightarrow> setHost json txt c
      | test_speed \<Rightarrow> setSpeed junk json txt c
      | _ \<Rightarrow> Some (ERR_PORT_DISABLE, c))"

text \<open>The two parts of \<open>getPortParam\<close> that read the parameters of the test and of the alarm.\<close>

definition config_test :: "u32 \<Rightarrow> json \<Rightarrow> string \<Rightarrow> test_type \<Rightarrow> ar_port \<Rightarrow> ar_port option" where
  "config_test junk json txt typeOfTest x =
     (if typeOfTest = test_max then Some (upd_err (\<lambda>e. setb ERR_TEST_TYPE (clrb ERR_OK e)) x)
      else if typeOfTest = test_disable then Some (upd_err (\<lambda>e. setb ERR_TEST_DISABLE (clrb ERR_OK e)) x)
      else map_option (\<lambda>(e, c). x\<lparr>portConfigInfo := c, portResetInfo := (portResetInfo x)\<lparr>errorCode := e\<rparr>\<rparr>)
             (set_test junk json txt typeOfTest ((portConfigInfo x)\<lparr>ptest := typeOfTest\<rparr>)))"

definition config_alarm :: "json \<Rightarrow> clock_ops \<Rightarrow> u32 \<Rightarrow> string \<Rightarrow> ar_port \<Rightarrow> ar_port option" where
  "config_alarm json clk now txt x =
     (if alarm (portConfigInfo x) = enable
      then map_option (\<lambda>(e, c). x\<lparr>portConfigInfo := if hasb ERR_NULL_OBJ e then c\<lparr>alarm := disable\<rparr> else c\<rparr>)
             (setTime json clk now txt (portConfigInfo x))
      else Some x)"

definition getPortParam :: "u32 \<Rightarrow> json \<Rightarrow> clock_ops \<Rightarrow> u32 \<Rightarrow> nat \<Rightarrow> string \<Rightarrow> bool \<Rightarrow> ar_port \<Rightarrow> ar_port option" where
  "getPortParam junk json clk now index txt isReboot x =
     Option.bind (if length txt < 256 then getValueFromJson txt ''state'' else None) (\<lambda>st.
     Option.bind (getValueFromJson txt ''alarm'') (\<lambda>al.
       let x = upd_conf (\<lambda>c. setConfigZeroValue now isReboot (c\<lparr>portNum := of_nat (index + 1),
                 ptest := test_disable, alarm := getAlarmSate (case_option [] id al)\<rparr>)) x;
           x = upd_reset (setResetZeroValue isReboot) x
       in Option.bind (config_test junk json txt (getCmdKey (case_option [] id st)) x) (\<lambda>x.
          map_option set_errorHandler (config_alarm json clk now txt x))))"

definition rebootParamInit :: "ar_port \<Rightarrow> ar_port" where
  "rebootParamInit x =
     x\<lparr>portRebootInfo := \<lparr>rebootState = REBOOT_STATE_IDLE, rebootEvent = 0, rebootDelay = 15, rebootTimeStart = 0\<rparr>\<rparr>"

subsection \<open>The daemon's options\<close>

definition str_ubusCall :: string where
  "str_ubusCall = ''ubus call uci get '' @ [CHR 0x27] @ ''{'' @ [CHR 0x22] @ ''config'' @ [CHR 0x22] @ '':''
     @ [CHR 0x22] @ ''tf_autorestart'' @ [CHR 0x22] @ '', '' @ [CHR 0x22] @ ''section'' @ [CHR 0x22] @ '':''
     @ [CHR 0x22] @ ''ar_demon'' @ [CHR 0x22] @ ''}'' @ [CHR 0x27]"

text \<open>A value that is not found keeps what the buffer holds, the argument \<open>old\<close>.\<close>

definition option_value :: "string \<Rightarrow> string \<Rightarrow> string \<Rightarrow> u8 \<Rightarrow> u8 option" where
  "option_value txt old name dflt =
     map_option (\<lambda>v. let n = of_int (strtol10 (case_option old id v)) :: u8 in if n > 60 then dflt else n)
       (getValueFromJson txt name)"

definition getConfig :: "string \<Rightarrow> string \<Rightarrow> string \<Rightarrow> string \<Rightarrow> ar_options option" where
  "getConfig txt old0 old1 old2 =
     (if length str_ubusCall < 64 then
        Option.bind (option_value txt old0 ''test_delay'' 3) (\<lambda>d.
        Option.bind (option_value txt old1 ''test_num'' 10) (\<lambda>n.
        Option.bind (option_value txt old2 ''max_reset'' 3) (\<lambda>m.
          Some \<lparr>TEST_DELAY = d, TEST_NUM = n, MAX_RESET = m\<rparr>)))
      else None)"

end
