(* ===== verification/Autorestart_Safety.thy ===== *)
theory Autorestart_Safety
  imports Autorestart_Init
begin

section \<open>The PoE restart daemon: runs\<close>

text \<open>
  Sequences of steps of a port: a round of events, a round of tests, a request of a client. The lemmas
  say which steps keep what, for the properties in \<open>Autorestart_Theorems\<close>.
\<close>

subsection \<open>Bits\<close>

lemma hasb_setb [simp]: "hasb b (setb c w) \<longleftrightarrow> hasb b w \<or> hasb b c"
  by (simp add: hasb_def setb_def bit.conj_disj_distrib2 or_eq_0_iff)

lemma hasb_clrb_same [simp]: "\<not> hasb b (clrb b w)"
  by (simp add: hasb_def clrb_def and.assoc)

lemma hasb_clrb: "c AND b = 0 \<Longrightarrow> hasb b (clrb c w) \<longleftrightarrow> hasb b w"
proof -
  assume "c AND b = 0"
  then have "bit (c AND b) n = bit 0 n" for n by simp
  then have "NOT c AND b = b" by (intro bit_word_eqI) (auto simp: bit_simps)
  then show ?thesis by (simp add: hasb_def clrb_def and.assoc)
qed

lemmas bit_defs = ERR_PORT_DISABLE_def ERR_TEST_TYPE_def ERR_TEST_LINK_def ERR_TEST_PING_def
  ERR_TEST_SPEED_def ERR_TEST_DISABLE_def ERR_POE_DOWN_def ERR_NULL_OBJ_def ERR_IP_NOT_VALID_def
  ERR_PoE_DISABLE_def ERR_TIME_NOT_VALID_def ERR_SPEED_VALUE_def ERR_OK_def ERR_PORT_SHUTDOWN_def
  ERR_MANUAL_REBOOT_def ERR_REBOOTING_def TEST_OK_def AUTO_RESTART_def MANUAL_RESTART_def
  REBOOT_EVENT_START_def REBOOT_EVENT_TIMER_STOP_def

lemma hasb_const:
  "hasb (numeral a) (numeral b) \<longleftrightarrow> numeral b AND numeral a \<noteq> (0 :: u32)"
  "hasb 1 (numeral b) \<longleftrightarrow> numeral b AND 1 \<noteq> (0 :: u32)" "hasb (numeral a) 1 \<longleftrightarrow> 1 AND numeral a \<noteq> (0 :: u32)"
  "hasb 1 1" "\<not> hasb w 0"
  by (simp_all add: hasb_def)

lemmas bits = hasb_clrb hasb_const bit_defs

subsection \<open>Runs\<close>

datatype ar_step = Events u32 | Test test_input | Request

definition ar_do :: "(ar_port \<Rightarrow> ar_port option) \<Rightarrow> clock_ops \<Rightarrow> string \<Rightarrow> ar_options \<Rightarrow> ar_step \<Rightarrow>
    ar_port \<Rightarrow> ar_port option" where
  "ar_do reload clk date opts s x =
     (case s of
        Events now \<Rightarrow> events_port reload clk date now opts x
      | Test i \<Rightarrow> Some (test_port i x)
      | Request \<Rightarrow> Some (snd (cmd_rebootHandler x)))"

abbreviation ar_run :: "(ar_port \<Rightarrow> ar_port option) \<Rightarrow> clock_ops \<Rightarrow> string \<Rightarrow> ar_options \<Rightarrow> ar_step list \<Rightarrow>
    ar_port \<Rightarrow> ar_port option" where
  "ar_run reload clk date opts \<equiv> ofold (ar_do reload clk date opts)"

text \<open>An invariant of single steps is one of runs; the steps are those that \<open>ok\<close> allows.\<close>

locale kept =
  fixes ok :: "ar_step \<Rightarrow> bool" and I :: "ar_port \<Rightarrow> bool"
    and reload :: "ar_port \<Rightarrow> ar_port option" and clk :: clock_ops and date :: string and opts :: ar_options
  assumes step: "ok s \<Longrightarrow> I x \<Longrightarrow> ar_do reload clk date opts s x = Some x' \<Longrightarrow> I x'"
begin

lemma run_keeps: "list_all ok ss \<Longrightarrow> I x \<Longrightarrow> ar_run reload clk date opts ss x = Some x' \<Longrightarrow> I x'"
  by (induction ss arbitrary: x) (auto simp: bind_eq_Some_conv intro: step)

end

text \<open>Both the port and its PoE are switched on in the configuration.\<close>

definition port_on :: "ar_step \<Rightarrow> bool" where
  "port_on s = (case s of Test i \<Rightarrow> ti_state i = ''enable'' \<and> ti_poe i = ''enable'' | _ \<Rightarrow> True)"

subsection \<open>Wedged by a second request\<close>

definition wedged :: "bool list \<Rightarrow> ar_port \<Rightarrow> bool" where
  "wedged calls x \<longleftrightarrow> state_of x = REBOOT_STATE \<and> reboot_of x = REBOOT_STATE_IDLE
     \<and> \<not> hasb AUTO_RESTART (event_of x) \<and> \<not> hasb MANUAL_RESTART (event_of x)
     \<and> alarm (portConfigInfo x) \<noteq> enable \<and> poe_calls x = calls"

lemmas test_defs = test_port_def get_PortAndPoeState_def port_runTestDisable_def port_runTestLink_def
  port_runTestPing_def port_runTestSpeed_def mark_ok_def upd_err_def upd_event_def Let_def

lemma test_core:
  assumes "ti_state i = ''enable''" "ti_poe i = ''enable''"
  shows "state_of (test_port i x) = state_of x" "portRebootInfo (test_port i x) = portRebootInfo x"
    "poe_calls (test_port i x) = poe_calls x" "alarm (portConfigInfo (test_port i x)) = alarm (portConfigInfo x)"
    "ptest (portConfigInfo (test_port i x)) = ptest (portConfigInfo x)"
    "hasb AUTO_RESTART (event_of (test_port i x)) = hasb AUTO_RESTART (event_of x)"
    "hasb MANUAL_RESTART (event_of (test_port i x)) = hasb MANUAL_RESTART (event_of x)"
    "resetCount (portResetInfo (test_port i x)) = resetCount (portResetInfo x)" "powered (test_port i x)"
  using assms by (simp_all add: test_defs powered_def bits split: test_type.split option.split)

lemmas test_core_bits = test_core [unfolded AUTO_RESTART_def MANUAL_RESTART_def]

interpretation wedge: kept port_on "wedged calls" reload clk date opts for calls reload clk date opts
proof
  fix s x x'
  assume "port_on s" "wedged calls x" "ar_do reload clk date opts s x = Some x'"
  then show "wedged calls x'"
    by (cases s) (auto simp: port_on_def ar_do_def wedged_def test_core_bits events_port_def rebootHandler_def
        cmd_rebootHandler_def upd_event_def bits)
qed

subsection \<open>Latched by a disabled port\<close>

definition latched :: "bool list \<Rightarrow> ar_port \<Rightarrow> bool" where
  "latched calls x \<longleftrightarrow> hasb ERR_PORT_DISABLE (err x) \<and> ptest (portConfigInfo x) = test_link
     \<and> state_of x \<noteq> REBOOT_STATE \<and> \<not> hasb MANUAL_RESTART (event_of x)
     \<and> alarm (portConfigInfo x) \<noteq> enable \<and> poe_calls x = calls"

definition no_request :: "ar_step \<Rightarrow> bool" where
  "no_request s \<longleftrightarrow> s \<noteq> Request"

lemma test_latched: "latched calls x \<Longrightarrow> latched calls (test_port i x)"
  by (auto simp: latched_def test_defs bits)

lemma recover_same:
  "portConfigInfo (recover x) = portConfigInfo x" "portRebootInfo (recover x) = portRebootInfo x"
  "portStateInfo (recover x) = portStateInfo x" "poe_calls (recover x) = poe_calls x"
  "state_of (recover x) = state_of x" "event_of (recover x) = event_of x"
  "err (recover x) = err x \<or> err (recover x) = clrb ERR_PORT_SHUTDOWN (err x)"
  "resetCount (portResetInfo (recover x)) \<in> {0, resetCount (portResetInfo x)}"
  by (simp_all add: recover_def Let_def)

lemma count_failure_same:
  "portConfigInfo (count_failure opts x) = portConfigInfo x" "portRebootInfo (count_failure opts x) = portRebootInfo x"
  "portStateInfo (count_failure opts x) = portStateInfo x" "poe_calls (count_failure opts x) = poe_calls x"
  "err (count_failure opts x) = err x" "resetCount (portResetInfo (count_failure opts x)) = resetCount (portResetInfo x)"
  "event_of (count_failure opts x) = event_of x \<or> event_of (count_failure opts x) = setb AUTO_RESTART (event_of x)"
  by (simp_all add: count_failure_def Let_def)

lemma test_ErrorHandler_same:
  "portConfigInfo (test_ErrorHandler opts x) = portConfigInfo x"
  "portRebootInfo (test_ErrorHandler opts x) = portRebootInfo x"
  "portStateInfo (test_ErrorHandler opts x) = portStateInfo x"
  "poe_calls (test_ErrorHandler opts x) = poe_calls x"
  by (simp_all add: test_ErrorHandler_def Let_def recover_same count_failure_same)

lemma test_ErrorHandler_err:
  "err (test_ErrorHandler opts x) = err x \<or> err (test_ErrorHandler opts x) = clrb ERR_PORT_SHUTDOWN (err x)"
  using recover_same(7) [of x] by (simp add: test_ErrorHandler_def Let_def count_failure_same)

lemma test_ErrorHandler_event:
  "event_of (test_ErrorHandler opts x) = event_of x \<or> event_of (test_ErrorHandler opts x) = setb AUTO_RESTART (event_of x)"
  using count_failure_same(7) [of opts x] count_failure_same(7) [of opts "recover x"]
  by (simp add: test_ErrorHandler_def Let_def recover_same)

lemma test_ErrorHandler_count:
  "resetCount (portResetInfo (test_ErrorHandler opts x)) = resetCount (portResetInfo x)
   \<or> hasb ERR_OK (err x) \<and> resetCount (portResetInfo (test_ErrorHandler opts x)) = 0"
  using recover_same(8) [of x] by (auto simp: test_ErrorHandler_def Let_def count_failure_same)

lemma test_ErrorHandler_off:
  assumes "hasb ERR_PORT_DISABLE (err x)"
  shows "state_of (test_ErrorHandler opts x) = state_of x" "event_of (test_ErrorHandler opts x) = event_of x"
proof -
  have "hasb ERR_PORT_DISABLE (err (recover x))" using assms recover_same(7) [of x] by (auto simp: bits)
  then show "state_of (test_ErrorHandler opts x) = state_of x" "event_of (test_ErrorHandler opts x) = event_of x"
    using assms by (simp_all add: test_ErrorHandler_def Let_def switched_off_def recover_same)
qed

lemma events_latched:
  "latched calls x \<Longrightarrow> events_port reload clk date now opts x = Some x' \<Longrightarrow> latched calls x'"
  using test_ErrorHandler_err [of opts x] test_ErrorHandler_off [of x opts]
  by (cases "state_of x") (auto simp: latched_def events_port_def test_ErrorHandler_same bits split: if_splits)

interpretation latch: kept no_request "latched calls" reload clk date opts for calls reload clk date opts
  by unfold_locales (auto simp: no_request_def ar_do_def test_latched events_latched split: ar_step.splits)

subsection \<open>The number of restarts\<close>

definition resets_ok :: "ar_options \<Rightarrow> ar_port \<Rightarrow> bool" where
  "resets_ok opts x \<longleftrightarrow> resetCount (portResetInfo x) \<le> MAX_RESET opts"

text \<open>A port that never passes its test: the link is down in every round, and no alarm is set.\<close>

definition link_fails :: "ar_step \<Rightarrow> bool" where
  "link_fails s = (case s of Test i \<Rightarrow> ti_operstate i \<noteq> ''up'' @ [CHR 0x0A] | Request \<Rightarrow> False | _ \<Rightarrow> True)"

definition downs :: "ar_port \<Rightarrow> nat" where
  "downs x = length (filter Not (poe_calls x))"

text \<open>A restart that has begun but not yet switched the port off.\<close>

definition begun :: "ar_port \<Rightarrow> nat" where
  "begun x = (if reboot_of x = REBOOT_STATE_INIT
       \<or> reboot_of x = REBOOT_STATE_POE_DOWN \<and> hasb REBOOT_EVENT_START (rebootEvent (portRebootInfo x))
     then 1 else 0)"

lemma test_fails:
  assumes "ti_operstate i \<noteq> ''up'' @ [CHR 0x0A]"
  shows "\<not> hasb ERR_OK (err (test_port i x)) \<or> ptest (portConfigInfo x) = test_max"
    "portRebootInfo (test_port i x) = portRebootInfo x" "poe_calls (test_port i x) = poe_calls x"
    "resetCount (portResetInfo (test_port i x)) = resetCount (portResetInfo x)"
    "alarm (portConfigInfo (test_port i x)) = alarm (portConfigInfo x)"
    "event_of (test_port i x) = event_of x"
  using assms by (simp_all add: test_defs bits split: test_type.split)

lemma auto_same:
  "alarm (portConfigInfo (autoResetHandler date m x)) = alarm (portConfigInfo x)"
  "event_of (autoResetHandler date m x) = event_of x" "poe_calls (autoResetHandler date m x) = poe_calls x"
  "rebootEvent (portRebootInfo (autoResetHandler date m x)) = rebootEvent (portRebootInfo x)"
  by (simp_all add: autoResetHandler_def set_errorHandler_def upd_err_def Let_def)

lemma auto_reset:
  "\<not> hasb ERR_OK (err (autoResetHandler date m x))"
  "reboot_of (autoResetHandler date m x) = (if resetCount (portResetInfo x) \<ge> m then REBOOT_STATE_IDLE else REBOOT_STATE_INIT)"
  "resetCount (portResetInfo (autoResetHandler date m x)) =
     (if resetCount (portResetInfo x) \<ge> m then resetCount (portResetInfo x) else resetCount (portResetInfo x) + 1)"
  by (simp_all add: autoResetHandler_def set_errorHandler_def upd_err_def Let_def bits)

lemma u8_inc: "(a :: u8) < b \<Longrightarrow> a + 1 \<le> b \<and> unat (a + 1) = unat a + 1"
  using unsigned_less [where ?'a = nat, of b]
  by (simp add: word_less_nat_alt word_le_nat_alt unat_word_ariths(1))

text \<open>The four states of a restart, when no request of a client is pending.\<close>

lemma reboot_steps:
  assumes "\<not> hasb MANUAL_RESTART (event_of x)"
  shows "reboot_of x = REBOOT_STATE_IDLE \<Longrightarrow> rebootHandler reload date now opts x =
      Some (if hasb AUTO_RESTART (event_of x)
            then autoResetHandler date (MAX_RESET opts) (upd_event (clrb AUTO_RESTART) x) else x)"
    and "reboot_of x = REBOOT_STATE_POE_UP \<Longrightarrow> rebootHandler reload date now opts x =
      Some (upd_reset (\<lambda>r. r\<lparr>ar_state := REGULAR_STATE,
          errorCode := clrb ERR_MANUAL_REBOOT (clrb ERR_REBOOTING (errorCode r))\<rparr>)
        (upd_reboot (\<lambda>b. b\<lparr>rebootState := REBOOT_STATE_IDLE, rebootEvent := clrb REBOOT_EVENT_TIMER_STOP (rebootEvent b)\<rparr>)
          (x\<lparr>poe_calls := poe_calls x @ (if powered x then [True] else [])\<rparr>)))"
  using assms by (auto simp: rebootHandler_def auto_same upd_event_def poe_Control_def powered_def Let_def bits)

lemma test_keeps_type: "ptest (portConfigInfo (test_port i x)) = ptest (portConfigInfo x)"
proof -
  have "ptest (portConfigInfo (mark_ok y)) = ptest (portConfigInfo y)" for y
    by (simp add: mark_ok_def upd_event_def)
  then have "ptest (portConfigInfo (port_runTestDisable y)) = ptest (portConfigInfo y)"
    "ptest (portConfigInfo (port_runTestLink s y)) = ptest (portConfigInfo y)"
    "ptest (portConfigInfo (port_runTestPing r y)) = ptest (portConfigInfo y)"
    "ptest (portConfigInfo (port_runTestSpeed a b y)) = ptest (portConfigInfo y)" for s r a b y
    by (simp_all add: port_runTestDisable_def port_runTestLink_def port_runTestPing_def port_runTestSpeed_def
        upd_err_def Let_def split: option.split)
  moreover have "ptest (portConfigInfo (get_PortAndPoeState a b x)) = ptest (portConfigInfo x)" for a b
    by (simp add: get_PortAndPoeState_def Let_def)
  ultimately show ?thesis by (simp add: test_port_def Let_def split: test_type.split)
qed

definition failing :: "ar_options \<Rightarrow> nat \<Rightarrow> ar_port \<Rightarrow> bool" where
  "failing opts n x \<longleftrightarrow> downs x + begun x \<le> n + unat (resetCount (portResetInfo x))
     \<and> resetCount (portResetInfo x) \<le> MAX_RESET opts
     \<and> (hasb ERR_OK (err x) \<longrightarrow> downs x + begun x \<le> n)
     \<and> \<not> hasb MANUAL_RESTART (event_of x) \<and> alarm (portConfigInfo x) \<noteq> enable
     \<and> ptest (portConfigInfo x) \<noteq> test_max
     \<and> (reboot_of x \<noteq> REBOOT_STATE_POE_DOWN \<longrightarrow> \<not> hasb REBOOT_EVENT_START (rebootEvent (portRebootInfo x)))"

lemma test_failing:
  assumes "failing opts n x" "ti_operstate i \<noteq> ''up'' @ [CHR 0x0A]"
  shows "failing opts n (test_port i x)"
proof -
  show ?thesis
    using assms(1) test_fails [OF assms(2), of x] test_keeps_type [of i x]
    by (auto simp: failing_def downs_def begun_def)
qed

lemma idle_failing:
  assumes "failing opts n x"
  shows "failing opts n (upd_reset (\<lambda>r. r\<lparr>ar_event := clrb TEST_OK (ar_event r), ar_state := REGULAR_STATE,
    errorCode := clrb ERR_PORT_SHUTDOWN (errorCode r)\<rparr>) x)"
  using assms by (auto simp: failing_def downs_def begun_def bits)

lemma regular_failing:
  assumes "failing opts n x"
  shows "failing opts n (test_ErrorHandler opts x)"
  using assms test_ErrorHandler_err [of opts x] test_ErrorHandler_event [of opts x] test_ErrorHandler_count [of opts x]
  by (auto simp: failing_def downs_def begun_def test_ErrorHandler_same bits)

lemma reboot_down:
  assumes "reboot_of x = REBOOT_STATE_POE_DOWN" "rebootHandler reload date now opts x = Some x'"
  shows "portResetInfo x' = portResetInfo x" "portConfigInfo x' = portConfigInfo x" "portStateInfo x' = portStateInfo x"
    "poe_calls x' = poe_calls x @ (if hasb REBOOT_EVENT_START (rebootEvent (portRebootInfo x)) then [False] else [])"
    "\<not> hasb REBOOT_EVENT_START (rebootEvent (portRebootInfo x'))"
    "reboot_of x' \<in> {REBOOT_STATE_POE_DOWN, REBOOT_STATE_POE_UP}"
proof -
  have x': "x' = poe_down_timer now (poe_down_start now x)" using assms by (simp add: rebootHandler_def)
  let ?y = "poe_down_start now x"
  have y: "portResetInfo ?y = portResetInfo x" "portConfigInfo ?y = portConfigInfo x" "portStateInfo ?y = portStateInfo x"
    "poe_calls ?y = poe_calls x @ (if hasb REBOOT_EVENT_START (rebootEvent (portRebootInfo x)) then [False] else [])"
    "\<not> hasb REBOOT_EVENT_START (rebootEvent (portRebootInfo ?y))" "reboot_of ?y = reboot_of x"
    by (simp_all add: poe_down_start_def poe_Control_def)
  have "\<not> hasb REBOOT_EVENT_START REBOOT_EVENT_TIMER_STOP" by (simp add: bits)
  then show "portResetInfo x' = portResetInfo x" "portConfigInfo x' = portConfigInfo x" "portStateInfo x' = portStateInfo x"
    "poe_calls x' = poe_calls x @ (if hasb REBOOT_EVENT_START (rebootEvent (portRebootInfo x)) then [False] else [])"
    "\<not> hasb REBOOT_EVENT_START (rebootEvent (portRebootInfo x'))"
    "reboot_of x' \<in> {REBOOT_STATE_POE_DOWN, REBOOT_STATE_POE_UP}"
    using y assms(1) by (simp_all add: x' poe_down_timer_def Let_def)
qed

lemma reboot_failing:
  assumes f: "failing opts n x" and r: "rebootHandler reload date now opts x = Some x'"
  shows "failing opts n x'"
proof -
  have m: "\<not> hasb MANUAL_RESTART (event_of x)" using f by (simp add: failing_def)
  show ?thesis
  proof (cases "reboot_of x")
    case REBOOT_STATE_IDLE
    let ?y = "upd_event (clrb AUTO_RESTART) x"
    show ?thesis
    proof (cases "hasb AUTO_RESTART (event_of x)")
      case True
      then have x': "x' = autoResetHandler date (MAX_RESET opts) ?y"
        using r by (simp add: reboot_steps(1) [OF m REBOOT_STATE_IDLE])
      have "ptest (portConfigInfo x') = ptest (portConfigInfo x) \<or> ptest (portConfigInfo x') = test_disable"
        by (simp add: x' autoResetHandler_def set_errorHandler_def upd_err_def upd_event_def Let_def)
      moreover have "\<not> resetCount (portResetInfo x) \<ge> MAX_RESET opts \<Longrightarrow>
          resetCount (portResetInfo x) + 1 \<le> MAX_RESET opts
          \<and> unat (resetCount (portResetInfo x) + 1) = unat (resetCount (portResetInfo x)) + 1"
        by (intro u8_inc) (simp add: not_le)
      ultimately show ?thesis
        using f REBOOT_STATE_IDLE
        by (auto simp: failing_def x' auto_same auto_reset [unfolded ERR_OK_def] downs_def begun_def upd_event_def bits)
    next
      case False
      then show ?thesis using f r by (simp add: reboot_steps(1) [OF m REBOOT_STATE_IDLE])
    qed
  next
    case REBOOT_STATE_INIT
    then show ?thesis using f r by (auto simp: rebootHandler_def failing_def downs_def begun_def bits)
  next
    case REBOOT_STATE_POE_DOWN
    then show ?thesis
      using f reboot_down [OF REBOOT_STATE_POE_DOWN r] by (auto simp: failing_def downs_def begun_def)
  next
    case REBOOT_STATE_POE_UP
    then show ?thesis
      using f r by (auto simp: reboot_steps(2) [OF m REBOOT_STATE_POE_UP] failing_def downs_def begun_def poe_Control_def bits)
  qed
qed

lemma reboot_alarm:
  assumes "rebootHandler reload date now opts x = Some x'" "\<not> hasb MANUAL_RESTART (event_of x)"
  shows "alarm (portConfigInfo x') = alarm (portConfigInfo x)"
proof (cases "reboot_of x")
  case REBOOT_STATE_IDLE
  from assms(1) show ?thesis
    unfolding reboot_steps(1) [OF assms(2) REBOOT_STATE_IDLE] by (auto simp: auto_same upd_event_def)
next
  case REBOOT_STATE_POE_UP
  from assms(1) show ?thesis
    unfolding reboot_steps(2) [OF assms(2) REBOOT_STATE_POE_UP] by (auto simp: poe_Control_def)
next
  case REBOOT_STATE_POE_DOWN
  then show ?thesis using reboot_down(2) assms(1) by metis
qed (use assms in \<open>auto simp: rebootHandler_def\<close>)

lemma events_failing:
  assumes f: "failing opts n x" and r: "events_port reload clk date now opts x = Some x'"
  shows "failing opts n x'"
proof -
  have a: "alarm (portConfigInfo x) \<noteq> enable" and m: "\<not> hasb MANUAL_RESTART (event_of x)"
    using f by (simp_all add: failing_def)
  show ?thesis
  proof (cases "state_of x")
    case REBOOT_STATE
    with r a m obtain y where y: "rebootHandler reload date now opts x = Some y" "x' = y"
      by (auto simp: events_port_def reboot_alarm split: if_splits)
    then show ?thesis using reboot_failing [OF f] by simp
  next
    case IDLE_STATE
    then show ?thesis using r a f idle_failing [OF f] by (auto simp: events_port_def split: if_splits)
  next
    case REGULAR_STATE
    then show ?thesis using r a regular_failing [OF f] by (simp add: events_port_def test_ErrorHandler_same)
  qed
qed

interpretation fails: kept link_fails "failing opts n" reload clk date opts for n reload clk date opts
  by unfold_locales (auto simp: link_fails_def ar_do_def test_failing events_failing split: ar_step.splits)

end
