(* ===== verification/Autorestart_Theorems.thy ===== *)
theory Autorestart_Theorems
  imports Autorestart_Safety
begin

section \<open>The PoE restart daemon: properties\<close>

text \<open>
  A restart, once begun, is completed; a failing port is restarted a limited number of times; and four
  ways in which the daemon does not do what it means to.
\<close>

subsection \<open>A restart\<close>



















subsection \<open>An example\<close>

definition no_alarm :: time_h_m where
  "no_alarm = \<lparr>alarm_status = disable, time_H = 0, time_M = 0, targetTime = 0, remainTime = 0\<rparr>"

definition sample_port :: "AR_STATE \<Rightarrow> u32 \<Rightarrow> u32 \<Rightarrow> ar_port" where
  "sample_port st ev e =
     \<lparr>portConfigInfo = \<lparr>host = [], timeAlarm_up = no_alarm, timeAlarm_down = no_alarm, min_speed = 0,
        max_speed = 0, reply_time = 0, rx_byte_prev = 0, rx_byte_current = 0, rx_delta_byte = 0,
        rx_speed_Kbit = 0, time_current = 0, time_prev = 0, alarm = disable, portNum = 1,
        ptest = test_link, cfg_poe_state = 1, timeStr = []\<rparr>,
      portResetInfo = \<lparr>resetCount = 0, totalResetCount = 0, errorTestCount = 0, errorCode = e,
        ar_event = ev, ar_state = st\<rparr>,
      portStateInfo = \<lparr>port_state_en = enable, poe_state_en = enable\<rparr>,
      portRebootInfo = \<lparr>rebootState = REBOOT_STATE_IDLE, rebootEvent = 0, rebootDelay = 15, rebootTimeStart = 0\<rparr>,
      poe_calls = []\<rparr>"

definition sample_opts :: ar_options where
  "sample_opts = \<lparr>TEST_DELAY = 3, TEST_NUM = 3, MAX_RESET = 3\<rparr>"

definition sample_clock :: clock_ops where
  "sample_clock = \<lparr>at_time = (\<lambda>now k h m. now + 1), next_day = (\<lambda>now. now + 86400)\<rparr>"

definition link_test :: "string \<Rightarrow> ar_step" where
  "link_test s = Test \<lparr>ti_state = ''enable'', ti_poe = ''enable'', ti_operstate = s, ti_ping = None, ti_now = 0, ti_rx = 0\<rparr>"

subsection \<open>The properties\<close>





text \<open>A second request of a client before the first is handled wedges the port: the second request
  withdraws the first but leaves the port in the reboot state, and from then on, as long as port and
  PoE are switched on, no sequence of tests, events and further requests ever switches the port or leaves
  this state. It is neither restarted on request nor when its test fails.\<close>

theorem second_request_wedges:
  assumes "state_of x \<noteq> REBOOT_STATE" "powered x" "reboot_of x = REBOOT_STATE_IDLE"
    and "\<not> hasb AUTO_RESTART (event_of x)" "alarm (portConfigInfo x) \<noteq> enable"
    and "list_all port_on ss" "ar_run reload clk date opts (Request # Request # ss) x = Some x'"
  shows "state_of x' = REBOOT_STATE \<and> reboot_of x' = REBOOT_STATE_IDLE \<and> poe_calls x' = poe_calls x"
proof -
  let ?y = "snd (cmd_rebootHandler (snd (cmd_rebootHandler x)))"
  have "wedged (poe_calls x) ?y"
    using assms(1-5) by (simp add: cmd_rebootHandler_def wedged_def upd_event_def bits)
  moreover have "ar_run reload clk date opts ss ?y = Some x'" using assms(7) by (simp add: ar_do_def)
  ultimately have "wedged (poe_calls x) x'" using wedge.run_keeps [OF assms(6)] by blast
  then show ?thesis by (simp add: wedged_def)
qed

theorem second_request_wedges_witness:
  "\<exists>x'. ar_run (\<lambda>_. None) sample_clock [] sample_opts
       (Request # Request # concat (replicate 5 [link_test ''down'', Events 100])) (sample_port REGULAR_STATE 0 ERR_OK) = Some x'
     \<and> state_of x' = REBOOT_STATE \<and> poe_calls x' = []"
proof -
  let ?x = "sample_port REGULAR_STATE 0 ERR_OK"
  let ?ss = "concat (replicate 5 [link_test ''down'', Events 100])"
  have "map_option (\<lambda>_. ()) (ar_run (\<lambda>_. None) sample_clock [] sample_opts (Request # Request # ?ss) ?x) = Some ()"
    by code_simp
  then obtain x' where "ar_run (\<lambda>_. None) sample_clock [] sample_opts (Request # Request # ?ss) ?x = Some x'" by auto
  moreover have "list_all port_on ?ss" by code_simp
  ultimately show ?thesis
    using second_request_wedges [of ?x ?ss "\<lambda>_. None" sample_clock "[]" sample_opts x']
    by (simp add: sample_port_def powered_def bits)
qed

text \<open>A port that has once been seen disabled is not restarted any more, even when it is enabled again:
  nothing clears \<open>ERR_PORT_DISABLE\<close> of a port with the link test, so whatever its tests find, the daemon
  never switches it.\<close>

theorem disabled_port_latched:
  assumes "ti_state i \<noteq> ''enable''" "ptest (portConfigInfo x) = test_link" "\<not> hasb MANUAL_RESTART (event_of x)"
    and "alarm (portConfigInfo x) \<noteq> enable" "list_all no_request ss"
    and "ar_run reload clk date opts (Test i # ss) x = Some x'"
  shows "poe_calls x' = poe_calls x \<and> hasb ERR_PORT_DISABLE (err x')"
proof -
  have "latched (poe_calls x) (test_port i x)"
    using assms(1-4) by (simp add: latched_def test_defs bits)
  moreover have "ar_run reload clk date opts ss (test_port i x) = Some x'" using assms(6) by (simp add: ar_do_def)
  ultimately have "latched (poe_calls x) x'" using latch.run_keeps [OF assms(5)] by blast
  then show ?thesis by (simp add: latched_def)
qed

definition disabled_round :: test_input where
  "disabled_round = \<lparr>ti_state = ''disable'', ti_poe = ''enable'', ti_operstate = ''down'', ti_ping = None, ti_now = 0, ti_rx = 0\<rparr>"

theorem disabled_port_latched_witness:
  "\<exists>x'. ar_run (\<lambda>_. None) sample_clock [] sample_opts
       (Test disabled_round # link_test (''up'' @ [CHR 0x0A]) # Events 100
         # concat (replicate 5 [link_test ''down'', Events 100])) (sample_port REGULAR_STATE 0 ERR_OK) = Some x'
     \<and> poe_calls x' = [] \<and> hasb ERR_PORT_DISABLE (err x')"
proof -
  let ?x = "sample_port REGULAR_STATE 0 ERR_OK"
  let ?ss = "link_test (''up'' @ [CHR 0x0A]) # Events 100 # concat (replicate 5 [link_test ''down'', Events 100])"
  have "map_option (\<lambda>_. ()) (ar_run (\<lambda>_. None) sample_clock [] sample_opts (Test disabled_round # ?ss) ?x) = Some ()"
    by code_simp
  then obtain x' where "ar_run (\<lambda>_. None) sample_clock [] sample_opts (Test disabled_round # ?ss) ?x = Some x'" by auto
  moreover have "list_all no_request ?ss" by code_simp
  ultimately show ?thesis
    using disabled_port_latched [of disabled_round ?x ?ss "\<lambda>_. None" sample_clock "[]" sample_opts x']
    by (simp add: sample_port_def disabled_round_def bits)
qed

text \<open>The limits of the speed test are cut to 16 bits on their way from the configuration, although they
  may be up to 1000000: an accepted maximum is always below 65536.\<close>

theorem speed_limit_truncated:
  assumes "setSpeed junk json txt c = Some (ERR_OK, c')"
  shows "unat (max_speed c') < 65536 \<and> min_speed c' \<le> max_speed c'"
proof -
  have u16: "unat (ucast (w :: u16) :: u32) < 65536" for w
    using unsigned_less [where ?'a = nat, of w] by (simp add: unsigned_ucast_eq take_bit_nat_def)
  show ?thesis
    using assms u16
    by (auto simp: setSpeed_def port_setSpeedParam_def Let_def ERR_SPEED_VALUE_def ERR_OK_def split: if_splits)
qed

theorem speed_limit_truncated_witness:
  "\<exists>c'. setSpeed 0 (\<lambda>txt opt. if opt = ''max_speed'' then Some ''100000'' else Some ''1000'') []
       (portConfigInfo (sample_port REGULAR_STATE 0 ERR_OK)) = Some (ERR_OK, c')
     \<and> max_speed c' = 34464 \<and> unat (max_speed c') < 65536"
proof -
  let ?j = "\<lambda>txt opt. if opt = ''max_speed'' then Some ''100000'' else Some ''1000''"
  let ?c = "portConfigInfo (sample_port REGULAR_STATE 0 ERR_OK)"
  have "strtol10 ''100000'' = 100000" "strtol10 ''1000'' = 1000"
    by (simp_all add: strtol10_def strip_sign_def c_isspace_def is_digit_def digit_val_def digits_val_def Let_def)
  then have "map_option (\<lambda>(e, c). (e, max_speed c)) (setSpeed 0 ?j [] ?c) = Some (ERR_OK, 34464)"
    by (simp add: setSpeed_def fits_def speed_value_def port_setSpeedParam_def MIN_SPEED_def MAX_SPEED_def
        ERR_SPEED_VALUE_def ERR_OK_def Let_def)
  then obtain c' where "setSpeed 0 ?j [] ?c = Some (ERR_OK, c')" "max_speed c' = 34464" by auto
  then show ?thesis using speed_limit_truncated [of 0 ?j "[]" ?c c'] by (auto simp: ERR_OK_def)
qed

text \<open>Reading the times of an alarm writes past the buffer of five characters whenever a time is
  given in full, as two digits for the hour and two for the minute.\<close>

theorem alarm_time_overflows:
  assumes "json txt ''timeUp'' = Some up" "5 \<le> length up"
  shows "setTime json clk now txt c = None"
  using assms by (simp add: setTime_def fits_def)

theorem alarm_time_overflows_witness:
  "setTime (\<lambda>txt opt. Some ''22:35'') sample_clock 0 [] (portConfigInfo (sample_port REGULAR_STATE 0 ERR_OK)) = None"
  by (rule alarm_time_overflows [where up = "''22:35''"]) simp_all

subsection \<open>What a configuration is checked for\<close>











end
