(* ===== verification/Poe_Daemon.thy ===== *)
theory Poe_Daemon
  imports Pack_Prelude Complex_Main
begin

section \<open>The PoE daemon: packets, queue and replies\<close>

text \<open>
  \<open>src/realtek-poe-tfortis/src/main.c\<close> talks to the microcontroller (MCU) that drives the PoE chips,
  by packets of 12 octets over a serial line: a command identifier, a sequence number, arguments,
  0xff for the rest and a checksum. Commands wait in the queue \<open>cmd_pending\<close>; the first of them is
  the one the MCU is working on.

  The state is the code's: the queue, the sequence number, the struct \<open>state\<close> and the map of command
  identifiers; \<open>written\<close> is what has been given to \<open>ustream_write\<close>, packet by packet, and
  \<open>error_pending\<close> is the member \<open>pending\<close> of the timer \<open>mcu_error_timeout\<close>. The values of type
  \<open>float\<close> that are reported (watts, volts, degrees) are the exact rational numbers of the code's
  formulas; the budget and its guard, which go to the MCU as tenths of a watt, are kept as these tenths.
  A result \<open>None\<close> is an access outside an array. Logging is left out.
\<close>

definition MAX_PORT :: nat where "MAX_PORT = 24"
definition MAX_RETRIES :: nat where "MAX_RETRIES = 5"
definition EBUSY :: int where "EBUSY = 16"

subsection \<open>Data\<close>

record port_config =
  pc_name :: string
  pc_valid :: bool
  pc_enable :: bool
  pc_priority :: u8
  pc_power_up_mode :: u8
  pc_power_budget :: u8

record poe_config =
  budget :: u16
  budget_guard :: u16
  port_count :: nat
  pse_id_set_budget_mask :: u8
  config_ports :: "port_config list"

record port_state =
  status_str :: "string option"
  status :: u8
  status_old :: u8
  watt :: rat
  voltage :: rat
  current :: u32
  temperature :: rat
  poe_mode :: "string option"

record poe_state =
  sys_mode :: "string option"
  sys_version :: u8
  sys_mcu :: "string option"
  sys_status :: "string option"
  sys_ext_version :: u8
  power_consumption :: rat
  num_detected_ports :: u32
  state_ports :: "port_state list"

record poe_cmd =
  cmd :: "u8 list"
  num_retries :: nat

record poe =
  cmd_pending :: "poe_cmd list"
  cmd_seq :: u8
  bcm_to_rtl_map :: "u8 list"
  poe_state :: poe_state
  error_pending :: bool
  poe_config :: poe_config
  written :: "u8 list list"

definition GET_STR :: "nat \<Rightarrow> string list \<Rightarrow> string option" where
  "GET_STR a b = (if a < length b then Some (b ! a) else None)"

definition status_names :: "string list" where
  "status_names = [''Disabled'', ''Searching'', ''Delivering power'', ''rsvd'', ''Fault'',
     ''Other fault'', ''Requesting power'']"

subsection \<open>Command identifiers\<close>

text \<open>In the loop \<open>map[cmd] = i\<close> an identifier of 0 stands for no entry.\<close>

definition close_map :: "u8 list \<Rightarrow> u8 list" where
  "close_map m = fold (\<lambda>i m. if m ! i \<noteq> 0 then m[unat (m ! i) := of_nat i] else m) [0 ..< 256] m"

definition map_cmd_id :: "u8 list \<Rightarrow> u8 \<Rightarrow> u8" where
  "map_cmd_id m c = (if m ! unat c \<noteq> 0 then m ! unat c else c)"

definition bcm_to_rtl_cmd_id :: "poe \<Rightarrow> u8 \<Rightarrow> u8" where
  "bcm_to_rtl_cmd_id p c = map_cmd_id (bcm_to_rtl_map p) c"

definition rtl_to_bcm_cmd_id :: "poe \<Rightarrow> u8 \<Rightarrow> u8" where
  "rtl_to_bcm_cmd_id p c = bcm_to_rtl_cmd_id p c"

definition read16_be :: "u8 list \<Rightarrow> nat \<Rightarrow> u16" where
  "read16_be raw k = push_bit 8 (ucast (raw ! k)) OR ucast (raw ! (k + 1))"

definition write16_be :: "u16 \<Rightarrow> u8 list" where
  "write16_be v = [ucast (drop_bit 8 v), ucast (v AND 0xff)]"

subsection \<open>The queue\<close>

definition poe_cmd_send :: "poe_cmd \<Rightarrow> poe \<Rightarrow> int \<times> poe" where
  "poe_cmd_send c p =
     (if error_pending p then (- EBUSY, p) else (0, p\<lparr>written := written p @ [cmd c]\<rparr>))"

definition poe_cmd_next :: "poe \<Rightarrow> int \<times> poe" where
  "poe_cmd_next p = (case cmd_pending p of [] \<Rightarrow> (-1, p) | c # _ \<Rightarrow> poe_cmd_send c p)"

definition make_packet :: "poe \<Rightarrow> u8 list \<Rightarrow> u8 \<Rightarrow> u8 list" where
  "make_packet p c seq =
     (let c = c @ replicate (12 - length c) 0xff;
          c = c[0 := bcm_to_rtl_cmd_id p (c ! 0)];
          c = c[1 := seq]
      in c[11 := sum_list (take 11 c)])"

definition poe_cmd_queue :: "u8 list \<Rightarrow> poe \<Rightarrow> int \<times> poe" where
  "poe_cmd_queue c p =
     (let empty = (cmd_pending p = []);
          seq = cmd_seq p + 1;
          new = \<lparr>cmd = make_packet p c seq, num_retries = 0\<rparr>;
          p = p\<lparr>cmd_seq := seq, cmd_pending := cmd_pending p @ [new]\<rparr>
      in if empty then poe_cmd_send new p else (0, p))"

definition poet_cmd_4_port :: "u8 \<Rightarrow> u8 list \<Rightarrow> u8 list \<Rightarrow> poe \<Rightarrow> int \<times> poe" where
  "poet_cmd_4_port cmd_id port data =
     poe_cmd_queue [cmd_id, 0, port ! 0, data ! 0, port ! 1, data ! 1, port ! 2, data ! 2,
       port ! 3, data ! 3]"

definition poe_cmd_port_enable :: "u8 \<Rightarrow> bool \<Rightarrow> poe \<Rightarrow> int \<times> poe" where
  "poe_cmd_port_enable port enable = poe_cmd_queue [0x01, 0x00, port, of_bool enable]"

definition poe_cmd_port_mapping_enable :: "bool \<Rightarrow> poe \<Rightarrow> int \<times> poe" where
  "poe_cmd_port_mapping_enable enable = poe_cmd_queue [0x02, 0x00, of_bool enable]"

definition poe_cmd_port_detection_type :: "u8 \<Rightarrow> u8 \<Rightarrow> poe \<Rightarrow> int \<times> poe" where
  "poe_cmd_port_detection_type port type = poe_cmd_queue [0x09, 0x00, port, type]"

definition poe_cmd_port_classification :: "u8 list \<Rightarrow> u8 list \<Rightarrow> poe \<Rightarrow> int \<times> poe" where
  "poe_cmd_port_classification port enable = poet_cmd_4_port 0x11 port enable"

definition poe_cmd_port_disconnect_type :: "u8 \<Rightarrow> u8 \<Rightarrow> poe \<Rightarrow> int \<times> poe" where
  "poe_cmd_port_disconnect_type port type = poe_cmd_queue [0x0F, 0x00, port, type]"

definition poe_cmd_port_power_limit_type :: "u8 list \<Rightarrow> u8 list \<Rightarrow> poe \<Rightarrow> int \<times> poe" where
  "poe_cmd_port_power_limit_type port limit = poet_cmd_4_port 0x12 port limit"

definition poe_cmd_port_power_budget :: "u8 \<Rightarrow> u8 \<Rightarrow> poe \<Rightarrow> int \<times> poe" where
  "poe_cmd_port_power_budget port bud = poe_cmd_queue [0x13, 0x00, port, bud]"

definition poe_cmd_power_mgmt_mode :: "u8 \<Rightarrow> poe \<Rightarrow> int \<times> poe" where
  "poe_cmd_power_mgmt_mode mode = poe_cmd_queue [0x10, 0x00, mode]"

definition poe_cmd_global_power_budget :: "u8 \<Rightarrow> u16 \<Rightarrow> u16 \<Rightarrow> poe \<Rightarrow> int \<times> poe" where
  "poe_cmd_global_power_budget pse bud guard =
     poe_cmd_queue ([0x18, 0x00, pse] @ write16_be bud @ write16_be guard)"

definition poe_set_port_priority :: "u8 list \<Rightarrow> u8 list \<Rightarrow> poe \<Rightarrow> int \<times> poe" where
  "poe_set_port_priority port priority = poet_cmd_4_port 0x15 port priority"

definition poe_set_port_power_up_mode :: "u8 list \<Rightarrow> u8 list \<Rightarrow> poe \<Rightarrow> int \<times> poe" where
  "poe_set_port_power_up_mode port mode = poet_cmd_4_port 0x1c port mode"

definition poe_cmd_status :: "poe \<Rightarrow> int \<times> poe" where
  "poe_cmd_status = poe_cmd_queue [0x40]"

definition poe_cmd_power_stats :: "poe \<Rightarrow> int \<times> poe" where
  "poe_cmd_power_stats = poe_cmd_queue [0x41]"

definition poe_cmd_port_config :: "u8 \<Rightarrow> poe \<Rightarrow> int \<times> poe" where
  "poe_cmd_port_config port = poe_cmd_queue [0x48, 0x00, port]"

definition poe_cmd_port_ext_config :: "u8 \<Rightarrow> poe \<Rightarrow> int \<times> poe" where
  "poe_cmd_port_ext_config port = poe_cmd_queue [0x49, 0x00, port]"

definition poe_cmd_4_port_status :: "u8 \<Rightarrow> poe \<Rightarrow> int \<times> poe" where
  "poe_cmd_4_port_status grp = poe_cmd_queue [0x43, 0x00, grp]"

definition poe_cmd_port_power_stats :: "u8 \<Rightarrow> poe \<Rightarrow> int \<times> poe" where
  "poe_cmd_port_power_stats port = poe_cmd_queue [0x44, 0x00, port]"

subsection \<open>Replies\<close>

type_synonym reply_result = "(int \<times> poe_state) option"

definition poe_reply_status :: "u8 list \<Rightarrow> poe_state \<Rightarrow> reply_result" where
  "poe_reply_status reply s =
     Some (0, s\<lparr>
       sys_mode := GET_STR (unat (reply ! 2))
         [''Semi-auto I2C'', ''Semi-auto UART'', ''Auto I2C'', ''Auto UART''],
       num_detected_ports := ucast (reply ! 3),
       sys_version := reply ! 7,
       sys_mcu := GET_STR (unat (reply ! 8))
         [''GigaDevice GD32F310'', ''GigaDevice GD32E230'', ''GigaDevice GD32F303'',
          ''GigaDevice GD32E103''],
       sys_status := GET_STR (unat (reply ! 9))
         [''Global Disable pin is de-asserted:No system reset from the previous query cmd:Configuration saved'',
          ''Global Disable pin is de-asserted:No system reset from the previous query cmd:Configuration Dirty'',
          ''Global Disable pin is de-asserted:System reseted:Configuration saved'',
          ''Global Disable pin is de-asserted:System reseted:Configuration Dirty'',
          ''Global Disable Pin is asserted:No system reset from the previous query cmd:Configuration saved'',
          ''Global Disable Pin is asserted:No system reset from the previous query cmd:Configuration Dirty'',
          ''Global Disable Pin is asserted:System reseted:Configuration saved'',
          ''Global Disable Pin is asserted:System reseted:Configuration Dirty''],
       sys_ext_version := reply ! 10\<rparr>)"

definition poe_reply_power_stats :: "u8 list \<Rightarrow> poe_state \<Rightarrow> reply_result" where
  "poe_reply_power_stats reply s =
     Some (0, s\<lparr>power_consumption := of_nat (unat (read16_be reply 7)) * (1 / 10)\<rparr>)"

definition upd_state_port :: "nat \<Rightarrow> (port_state \<Rightarrow> port_state) \<Rightarrow> poe_state \<Rightarrow> poe_state option" where
  "upd_state_port k f s =
     (if k < MAX_PORT then Some (s\<lparr>state_ports := (state_ports s)[k := f (state_ports s ! k)]\<rparr>) else None)"

definition poe_reply_port_ext_config :: "u8 list \<Rightarrow> poe_state \<Rightarrow> reply_result" where
  "poe_reply_port_ext_config reply s =
     map_option (Pair 0) (upd_state_port (unat (reply ! 2)) (\<lambda>x. x\<lparr>poe_mode :=
       GET_STR (unat (reply ! 3)) [''PoE'', ''Legacy'', ''pre-PoE+'', ''PoE+'']\<rparr>) s)"

definition poe_reply_port_config :: "u8 list \<Rightarrow> poe_state \<Rightarrow> reply_result" where
  "poe_reply_port_config reply s = Some (0, s)"

text \<open>The loop over the four ports of a group, from \<open>i\<close> on.\<close>

fun four_port_status :: "nat list \<Rightarrow> u8 list \<Rightarrow> poe_state \<Rightarrow> reply_result" where
  "four_port_status [] reply s = Some (0, s)"
| "four_port_status (i # is) reply s =
     (let port = unat (reply ! 2) * 4 + i;
          pstate = reply ! (3 + i * 2)
      in if port = 0xff then four_port_status is reply s
         else if port \<ge> MAX_PORT then Some (-1, s)
         else Option.bind (upd_state_port port (\<lambda>x. x\<lparr>
                status_str := GET_STR (unat (pstate AND 0xf)) status_names,
                status := pstate AND 0xf\<rparr>) s) (four_port_status is reply))"

definition poe_reply_4_port_status :: "u8 list \<Rightarrow> poe_state \<Rightarrow> reply_result" where
  "poe_reply_4_port_status reply s = four_port_status [0, 1, 2, 3] reply s"

definition poe_reply_port_power_stats :: "u8 list \<Rightarrow> poe_state \<Rightarrow> reply_result" where
  "poe_reply_port_power_stats reply s =
     map_option (Pair 0) (upd_state_port (unat (reply ! 2)) (\<lambda>x. x\<lparr>
       voltage := of_nat (unat (read16_be reply 3)) * (6545 / 100000),
       current := ucast (read16_be reply 5),
       temperature := (of_nat (unat (read16_be reply 7)) - 120) * (- (5 / 4)) + 125,
       watt := of_nat (unat (read16_be reply 9)) * (1 / 10)\<rparr>) s)"

text \<open>
  The table of handlers has entries up to 0x49. The code's check lets the index 0x4a through, which
  is one past the end.
\<close>

definition reply_handler_size :: nat where "reply_handler_size = 0x4a"

definition reply_handler :: "u8 \<Rightarrow> (u8 list \<Rightarrow> poe_state \<Rightarrow> reply_result) option" where
  "reply_handler i =
     (if i = 0x40 then Some poe_reply_status
      else if i = 0x41 then Some poe_reply_power_stats
      else if i = 0x48 then Some poe_reply_port_config
      else if i = 0x49 then Some poe_reply_port_ext_config
      else if i = 0x43 then Some poe_reply_4_port_status
      else if i = 0x44 then Some poe_reply_port_power_stats
      else None)"

definition handle_poe_f0_reply :: "poe_cmd \<Rightarrow> u8 list \<Rightarrow> poe \<Rightarrow> poe" where
  "handle_poe_f0_reply c reply p =
     (if error_pending p then p\<lparr>cmd_pending := c # cmd_pending p\<rparr>
      else let c = c\<lparr>num_retries := num_retries c + 1\<rparr>
           in if num_retries c > MAX_RETRIES then p
              else p\<lparr>error_pending := True, cmd_pending := c # cmd_pending p\<rparr>)"

definition poe_reply_consume :: "u8 list \<Rightarrow> poe \<Rightarrow> (int \<times> poe) option" where
  "poe_reply_consume reply p =
     (case cmd_pending p of
        [] \<Rightarrow> Some (-1, p)
      | c # rest \<Rightarrow>
          let p = p\<lparr>cmd_pending := rest\<rparr>;
              cmd_id = rtl_to_bcm_cmd_id p (cmd c ! 0);
              id = rtl_to_bcm_cmd_id p (reply ! 0)
          in if reply ! 11 \<noteq> sum_list (take 11 reply) then Some (-1, p)
             else if reply ! 0 AND 0xf0 = 0xf0 then Some (-1, handle_poe_f0_reply c reply p)
             else if id \<noteq> cmd_id \<or> unat id > reply_handler_size then Some (-1, p)
             else if reply ! 1 \<noteq> cmd c ! 1 then Some (-1, p)
             else if unat id = reply_handler_size then None
             else (case reply_handler id of
                     None \<Rightarrow> Some (0, p)
                   | Some h \<Rightarrow>
                       (case h (reply[0 := id]) (poe_state p) of
                          None \<Rightarrow> None
                        | Some (r, s) \<Rightarrow> Some (r, p\<lparr>poe_state := s\<rparr>))))"

text \<open>
  The read callback: \<open>buf\<close> is what the stream has buffered; the result says how many octets are consumed.
\<close>

definition poe_stream_msg_cb :: "u8 list \<Rightarrow> poe \<Rightarrow> (nat \<times> poe) option" where
  "poe_stream_msg_cb buf p =
     (if length buf < 12 then Some (0, p)
      else case poe_reply_consume (take 12 buf) p of
             None \<Rightarrow> None
           | Some (_, p) \<Rightarrow> Some (12, snd (poe_cmd_next p)))"

definition mcu_clear_timeout :: "poe \<Rightarrow> poe" where
  "mcu_clear_timeout p = snd (poe_cmd_next p)"

end
