(* ===== verification/Poe_Setup.thy ===== *)
theory Poe_Setup
  imports Poe_Daemon C_Strings
begin

section \<open>The PoE daemon: configuration, setup and requests\<close>

text \<open>
  The rest of \<open>src/realtek-poe-tfortis/src/main.c\<close>: reading the UCI configuration, the commands sent at
  start and on a reload, the periodic query and the ubus methods. A UCI package is the list of its
  sections, or \<open>None\<close> when it cannot be loaded; a section has a type and options. The two floats of
  \<open>load_global_config\<close> are the parameter \<open>global_budget\<close>: the tenths of a watt that budget and guard
  of a section amount to.
\<close>

record uci_section =
  sec_type :: string
  sec_option :: "string \<Rightarrow> string option"

subsection \<open>Configuration\<close>

definition zero_port_config :: port_config where
  "zero_port_config = \<lparr>pc_name = replicate 16 (CHR 0x00), pc_valid = False, pc_enable = False,
     pc_priority = 0, pc_power_up_mode = 0, pc_power_budget = 0\<rparr>"

definition strncpy16 :: "string \<Rightarrow> string" where
  "strncpy16 s = take 16 (s @ replicate 16 (CHR 0x00))"

definition load_port_config :: "uci_section \<Rightarrow> poe_config \<Rightarrow> poe_config" where
  "load_port_config s cfg =
     (case (sec_option s ''id'', sec_option s ''name'') of
        (Some id_str, Some name) \<Rightarrow>
          let id = fst (strtoul id_str 0)
          in if id = 0 \<or> unat id > MAX_PORT then cfg
             else
               let k = unat id - 1;
                   prio = (case sec_option s ''priority'' of None \<Rightarrow> 0 | Some x \<Rightarrow> ucast (fst (strtoul x 0)));
                   plus = (case sec_option s ''poe_plus'' of None \<Rightarrow> False | Some x \<Rightarrow> x = ''1'');
                   old = config_ports cfg ! k
               in cfg\<lparr>port_count := max (port_count cfg) (unat id),
                      config_ports := (config_ports cfg)[k := old\<lparr>pc_name := strncpy16 name,
                        pc_valid := True, pc_priority := if prio > 3 then 3 else prio,
                        pc_enable := True,
                        pc_power_up_mode := if plus then 3 else pc_power_up_mode old\<rparr>]\<rparr>
      | _ \<Rightarrow> cfg)"

definition load_port_state_config :: "uci_section \<Rightarrow> nat \<Rightarrow> poe_config \<Rightarrow> poe_config option" where
  "load_port_state_config s port cfg =
     (if port < MAX_PORT
      then Some (cfg\<lparr>config_ports := (config_ports cfg)[port := (config_ports cfg ! port)\<lparr>pc_enable :=
             (case sec_option s ''poe'' of None \<Rightarrow> False | Some x \<Rightarrow> x = ''enable'')\<rparr>]\<rparr>)
      else None)"

definition load_global_config :: "(uci_section \<Rightarrow> u16 \<times> u16) \<Rightarrow> uci_section \<Rightarrow> poe_config \<Rightarrow> poe_config" where
  "load_global_config global_budget s cfg =
     cfg\<lparr>budget := fst (global_budget s), budget_guard := snd (global_budget s)\<rparr>"

fun load_lan_sections :: "uci_section list \<Rightarrow> nat \<Rightarrow> poe_config \<Rightarrow> poe_config option" where
  "load_lan_sections [] port cfg = Some cfg"
| "load_lan_sections (s # ss) port cfg =
     (if sec_type s = ''lan''
      then Option.bind (load_port_state_config s port cfg) (load_lan_sections ss (port + 1))
      else load_lan_sections ss port cfg)"

definition config_load :: "(uci_section \<Rightarrow> u16 \<times> u16) \<Rightarrow> bool \<Rightarrow> uci_section list option \<Rightarrow>
    uci_section list option \<Rightarrow> poe_config \<Rightarrow> poe_config option" where
  "config_load global_budget init poe_pkg port_pkg cfg =
     (let cfg = cfg\<lparr>config_ports := replicate MAX_PORT zero_port_config\<rparr>;
          cfg = (case poe_pkg of
                   None \<Rightarrow> cfg
                 | Some ss \<Rightarrow>
                     let cfg = (if init then fold (load_global_config global_budget)
                                  (filter (\<lambda>s. sec_type s = ''global'') ss) cfg else cfg)
                     in fold load_port_config (filter (\<lambda>s. sec_type s = ''port'') ss) cfg)
      in case port_pkg of None \<Rightarrow> Some cfg | Some ss \<Rightarrow> load_lan_sections ss 0 cfg)"

definition config_apply_quirks :: "string option \<Rightarrow> poe_config \<Rightarrow> poe_config" where
  "config_apply_quirks compatible cfg =
     (if compatible = Some ''zyxel,gs1900-24hp-v1'' then cfg\<lparr>pse_id_set_budget_mask := 0xff\<rparr> else cfg)"

subsection \<open>Setup\<close>

text \<open>Commands are issued one after the other and their results ignored.\<close>

definition issue :: "(poe \<Rightarrow> int \<times> poe) list \<Rightarrow> poe \<Rightarrow> poe" where
  "issue fs = fold (\<lambda>f p. snd (f p)) fs"

text \<open>The inner loop of \<open>poet_setup\<close>: the value of \<open>i\<close> at its end and the ports collected.\<close>

function poet_group :: "port_config list \<Rightarrow> nat \<Rightarrow> nat \<Rightarrow> nat list \<Rightarrow> nat \<times> nat list" where
  "poet_group ports num_ports i acc =
     (if i < num_ports then
        if \<not> pc_enable (ports ! i) then poet_group ports num_ports (i + 1) acc
        else if length acc + 1 = 4 then (i, acc @ [i])
        else poet_group ports num_ports (i + 1) (acc @ [i])
      else (i, acc))"
  by pat_completeness auto
termination by (relation "measure (\<lambda>(ports, n, i, acc). n - i)") auto

declare poet_group.simps [simp del]

lemma poet_group_ge: "i \<le> fst (poet_group ports n i acc)"
  by (induction ports n i acc rule: poet_group.induct) (subst poet_group.simps, auto)

lemma poet_group_result: "(i', ids) = poet_group ports n i acc \<Longrightarrow> i \<le> i'"
  by (metis poet_group_ge fst_conv)

definition pad4 :: "u8 list \<Rightarrow> u8 list" where
  "pad4 xs = xs @ replicate (4 - length xs) 0xff"

function poet_setup_from :: "port_config list \<Rightarrow> nat \<Rightarrow> nat \<Rightarrow> u8 list \<Rightarrow> poe \<Rightarrow> poe" where
  "poet_setup_from ports num_ports i enable_all p =
     (let (i', ids) = poet_group ports num_ports i [];
          port_ids = pad4 (map of_nat ids);
          priorities = pad4 (map (\<lambda>k. pc_priority (ports ! k)) ids);
          limit_type = pad4 (map (\<lambda>k. if pc_power_budget (ports ! k) \<noteq> 0 then 2 else 1) ids);
          enable_all = pad4 (take (length ids) enable_all);
          p = issue [poe_set_port_priority port_ids priorities,
                     poe_cmd_port_classification port_ids enable_all,
                     poe_cmd_port_power_limit_type port_ids limit_type] p
      in if i' + 1 < num_ports then poet_setup_from ports num_ports (i' + 1) enable_all p else p)"
  by pat_completeness auto
termination
  by (relation "measure (\<lambda>(ports, n, i, e, p). n - i)")
    (auto dest!: poet_group_result)

declare poet_setup_from.simps [simp del]

definition poet_setup :: "port_config list \<Rightarrow> nat \<Rightarrow> poe \<Rightarrow> poe" where
  "poet_setup ports num_ports = poet_setup_from ports num_ports 0 [1, 1, 1, 1]"

definition poe_port_setup :: "poe \<Rightarrow> poe" where
  "poe_port_setup p =
     (let ports = config_ports (poe_config p);
          n = port_count (poe_config p);
          p = issue (concat (map (\<lambda>i. if \<not> pc_enable (ports ! i) \<or> pc_power_budget (ports ! i) = 0 then []
                 else [poe_cmd_port_disconnect_type (of_nat i) 2, poe_cmd_port_detection_type (of_nat i) 3,
                       poe_cmd_port_power_budget (of_nat i) (pc_power_budget (ports ! i))]) [0 ..< n])) p;
          p = poet_setup ports n p
      in issue (map (\<lambda>i. poe_cmd_port_enable (of_nat i) (pc_enable (ports ! i))) [0 ..< n]) p)"

definition poe_set_power_budget :: "poe \<Rightarrow> poe" where
  "poe_set_power_budget p =
     (let c = poe_config p
      in issue (map (\<lambda>pse. poe_cmd_global_power_budget (of_nat pse) (budget c) (budget_guard c))
           (filter (bit (pse_id_set_budget_mask c)) [0 ..< 8])) p)"

definition poe_initial_setup :: "poe \<Rightarrow> poe" where
  "poe_initial_setup p =
     (let p = issue [poe_cmd_status, poe_cmd_power_mgmt_mode 2, poe_cmd_port_mapping_enable False] p;
          p = poe_set_power_budget p
      in poe_port_setup p)"

definition note_status :: "nat \<Rightarrow> poe \<Rightarrow> poe" where
  "note_status i p =
     p\<lparr>poe_state := (poe_state p)\<lparr>state_ports := (state_ports (poe_state p))[i :=
        (state_ports (poe_state p) ! i)\<lparr>status_old := status (state_ports (poe_state p) ! i)\<rparr>]\<rparr>\<rparr>"

definition state_timeout_cb :: "poe \<Rightarrow> poe" where
  "state_timeout_cb p =
     (let n = port_count (poe_config p);
          p = snd (poe_cmd_power_stats p);
          p = issue (map (\<lambda>g. poe_cmd_4_port_status (of_nat g)) [0 ..< (n + 3) div 4]) p
      in fold (\<lambda>i p. note_status i (issue [poe_cmd_port_config (of_nat i),
             poe_cmd_port_ext_config (of_nat i), poe_cmd_port_power_stats (of_nat i)] p)) [0 ..< n] p)"

subsection \<open>Requests over ubus\<close>

definition UBUS_STATUS_OK :: int where "UBUS_STATUS_OK = 0"
definition UBUS_STATUS_INVALID_ARGUMENT :: int where "UBUS_STATUS_INVALID_ARGUMENT = 2"

text \<open>The loop of \<open>ubus_poe_sendframe_cb\<close>: the octets of the frame, at most nine.\<close>

function parse_frame :: "string \<Rightarrow> u8 list \<Rightarrow> u8 list option" where
  "parse_frame frame c =
     (if frame \<noteq> [] \<and> length c < 9 then
        let (byte_val, next, err) = strtoul frame 16
        in if err \<or> frame = next \<or> byte_val > 0xff then None
           else parse_frame next (c @ [ucast byte_val])
      else Some c)"
  by pat_completeness auto
termination by (relation "measure (\<lambda>(frame, c). 9 - length c)") auto

declare parse_frame.simps [simp del]

definition ubus_poe_sendframe_cb :: "string option \<Rightarrow> poe \<Rightarrow> int \<times> poe" where
  "ubus_poe_sendframe_cb frame p =
     (case Option.bind frame (\<lambda>f. parse_frame f []) of
        None \<Rightarrow> (UBUS_STATUS_INVALID_ARGUMENT, p)
      | Some c \<Rightarrow> poe_cmd_queue c p)"

definition ubus_poe_reload_cb :: "(uci_section \<Rightarrow> u16 \<times> u16) \<Rightarrow> uci_section list option \<Rightarrow>
    uci_section list option \<Rightarrow> poe \<Rightarrow> (int \<times> poe) option" where
  "ubus_poe_reload_cb global_budget poe_pkg port_pkg p =
     (case config_load global_budget False poe_pkg port_pkg (poe_config p) of
        None \<Rightarrow> None
      | Some cfg \<Rightarrow> Some (UBUS_STATUS_OK, poe_port_setup (p\<lparr>poe_config := cfg\<rparr>)))"

text \<open>\<open>strcmp\<close> with the 16 octets of a name, which need not be terminated.\<close>

definition name_matches :: "string \<Rightarrow> string \<Rightarrow> bool option" where
  "name_matches s name =
     (if CHR 0x00 \<in> set name then Some (s = takeWhile (\<lambda>c. c \<noteq> CHR 0x00) name)
      else if take (length name) s = name then None else Some False)"

fun manage_ports :: "nat list \<Rightarrow> string \<Rightarrow> bool \<Rightarrow> poe \<Rightarrow> (int \<times> poe) option" where
  "manage_ports [] name enable p = Some (UBUS_STATUS_INVALID_ARGUMENT, p)"
| "manage_ports (i # is) name enable p =
     (let port = config_ports (poe_config p) ! i
      in if \<not> pc_enable port then manage_ports is name enable p
         else case name_matches name (pc_name port) of
                None \<Rightarrow> None
              | Some True \<Rightarrow> Some (poe_cmd_port_enable (of_nat i) enable p)
              | Some False \<Rightarrow> manage_ports is name enable p)"

definition ubus_poe_manage_cb :: "string option \<Rightarrow> bool option \<Rightarrow> poe \<Rightarrow> (int \<times> poe) option" where
  "ubus_poe_manage_cb port enable p =
     (case (port, enable) of
        (Some name, Some e) \<Rightarrow> manage_ports [0 ..< port_count (poe_config p)] name e p
      | _ \<Rightarrow> Some (UBUS_STATUS_INVALID_ARGUMENT, p))"

subsection \<open>Start\<close>

definition zero_port_state :: port_state where
  "zero_port_state = \<lparr>status_str = None, status = 0, status_old = 0, watt = 0, voltage = 0,
     current = 0, temperature = 0, poe_mode = None\<rparr>"

definition poe_static :: poe where
  "poe_static = \<lparr>cmd_pending = [], cmd_seq = 0, bcm_to_rtl_map = replicate 256 0,
     poe_state = \<lparr>sys_mode = None, sys_version = 0, sys_mcu = None, sys_status = None,
       sys_ext_version = 0, power_consumption = 0, num_detected_ports = 0,
       state_ports = replicate MAX_PORT zero_port_state\<rparr>,
     error_pending = False,
     poe_config = \<lparr>budget = 650, budget_guard = 70, port_count = 0, pse_id_set_budget_mask = 1,
       config_ports = replicate MAX_PORT zero_port_config\<rparr>,
     written = []\<rparr>"

definition poe_main :: "(uci_section \<Rightarrow> u16 \<times> u16) \<Rightarrow> uci_section list option \<Rightarrow>
    uci_section list option \<Rightarrow> string option \<Rightarrow> poe option" where
  "poe_main global_budget poe_pkg port_pkg compatible =
     (let p = poe_static\<lparr>bcm_to_rtl_map := close_map (bcm_to_rtl_map poe_static)\<rparr>
      in case config_load global_budget True poe_pkg port_pkg (poe_config p) of
           None \<Rightarrow> None
         | Some cfg \<Rightarrow> Some (poe_initial_setup (p\<lparr>poe_config := config_apply_quirks compatible cfg\<rparr>)))"

end
