(* ===== verification/Poe_Protocol.thy ===== *)
theory Poe_Protocol
  imports Poe_Setup
begin

section \<open>The PoE daemon: the protocol with the MCU\<close>

text \<open>
  The daemon together with the serial line: what the daemon has written, what it has buffered of the
  MCU's answers and how many octets of answers the MCU still owes. The MCU answers each packet with
  one packet and sends nothing else. Octets arrive in any pieces.

  The lemmas show that the protocol is stop-and-wait (the packet the daemon waits for is the head of its
  queue, sent once more after each rejection), that it never gets stuck while commands wait, and that every
  packet is well formed.
\<close>

subsection \<open>Well-formed states\<close>

definition packet_ok :: "u8 list \<Rightarrow> bool" where
  "packet_ok c \<longleftrightarrow> length c = 12 \<and> c ! 11 = sum_list (take 11 c)"

definition poe_config_ok :: "poe_config \<Rightarrow> bool" where
  "poe_config_ok cfg \<longleftrightarrow> length (config_ports cfg) = MAX_PORT \<and> port_count cfg \<le> MAX_PORT
     \<and> (\<forall>x \<in> set (config_ports cfg). pc_priority x \<le> 3 \<and> length (pc_name x) = 16)"

definition poe_wf :: "poe \<Rightarrow> bool" where
  "poe_wf p \<longleftrightarrow> (\<forall>c \<in> set (cmd_pending p). packet_ok (cmd c) \<and> num_retries c \<le> MAX_RETRIES)
     \<and> (\<forall>w \<in> set (written p). packet_ok w)
     \<and> length (state_ports (poe_state p)) = MAX_PORT \<and> poe_config_ok (poe_config p)"

text \<open>The octets of answers to come, on the line or in the buffer, and the packet they answer.\<close>

definition expected :: "poe \<Rightarrow> nat" where
  "expected p = (if error_pending p \<or> cmd_pending p = [] then 0 else 12)"

definition head_sent :: "poe \<Rightarrow> bool" where
  "head_sent p \<longleftrightarrow> (expected p \<noteq> 0 \<longrightarrow> written p \<noteq> [] \<and> last (written p) = cmd (hd (cmd_pending p)))"

subsection \<open>Issuing commands\<close>

text \<open>A part of the daemon that only queues commands, sending the first of them when it can.\<close>

definition issues :: "poe \<Rightarrow> poe \<Rightarrow> bool" where
  "issues p p' \<longleftrightarrow> (\<exists>ws. written p' = written p @ ws \<and> expected p' = expected p + 12 * length ws)
     \<and> (\<exists>qs. cmd_pending p' = cmd_pending p @ qs)
     \<and> (head_sent p \<longrightarrow> head_sent p') \<and> (poe_wf p \<longrightarrow> poe_wf p')
     \<and> error_pending p' = error_pending p \<and> poe_config p' = poe_config p"

lemma issues_refl [simp]: "issues p p"
  by (simp add: issues_def)

lemma issues_trans [trans]: "issues p q \<Longrightarrow> issues q r \<Longrightarrow> issues p r"
  unfolding issues_def by (elim conjE exE) (intro conjI exI, auto)

lemma make_packet_ok: "length c \<le> 12 \<Longrightarrow> packet_ok (make_packet p c seq)"
  by (simp add: make_packet_def packet_ok_def Let_def)

lemma queue_issues:
  assumes "length c \<le> 12"
  shows "issues p (snd (poe_cmd_queue c p))"
proof -
  note ok = make_packet_ok [OF assms, of p "cmd_seq p + 1"]
  show ?thesis
    using ok by (auto simp: issues_def poe_cmd_queue_def poe_cmd_send_def Let_def expected_def head_sent_def
        poe_wf_def hd_append)
qed

locale command =
  fixes f :: "poe \<Rightarrow> int \<times> poe"
  assumes queues: "\<exists>c. length c \<le> 12 \<and> f = poe_cmd_queue c"
begin

lemma issuing: "issues p (snd (f p))"
  using queues queue_issues by auto

end

lemma issue_issues: "\<forall>f \<in> set fs. command f \<Longrightarrow> issues p (issue fs p)"
proof (induction fs arbitrary: p)
  case (Cons f fs)
  then have "issues p (snd (f p))" using command.issuing by simp
  also have "issues (snd (f p)) (issue (f # fs) p)" using Cons by (simp add: issue_def)
  finally show ?case .
qed (simp add: issue_def)

lemma commandI: "length c \<le> 12 \<Longrightarrow> f = poe_cmd_queue c \<Longrightarrow> command f"
  by unfold_locales auto

lemmas command_defs = poet_cmd_4_port_def poe_cmd_port_enable_def poe_cmd_port_mapping_enable_def
  poe_cmd_port_detection_type_def poe_cmd_port_classification_def poe_cmd_port_disconnect_type_def
  poe_cmd_port_power_limit_type_def poe_cmd_port_power_budget_def poe_cmd_power_mgmt_mode_def
  poe_cmd_global_power_budget_def poe_set_port_priority_def poe_cmd_status_def poe_cmd_power_stats_def
  poe_cmd_port_config_def poe_cmd_port_ext_config_def poe_cmd_4_port_status_def
  poe_cmd_port_power_stats_def write16_be_def

interpretation four_port: command "poet_cmd_4_port cmd_id port data" for cmd_id port data
  by (rule commandI [rotated], simp only: command_defs) simp

interpretation port_enable: command "poe_cmd_port_enable port enable" for port enable
  by (rule commandI [rotated], simp only: command_defs) simp

interpretation port_mapping: command "poe_cmd_port_mapping_enable enable" for enable
  by (rule commandI [rotated], simp only: command_defs) simp

interpretation detection: command "poe_cmd_port_detection_type port type" for port type
  by (rule commandI [rotated], simp only: command_defs) simp

interpretation disconnect: command "poe_cmd_port_disconnect_type port type" for port type
  by (rule commandI [rotated], simp only: command_defs) simp

interpretation port_budget: command "poe_cmd_port_power_budget port bud" for port bud
  by (rule commandI [rotated], simp only: command_defs) simp

interpretation mgmt_mode: command "poe_cmd_power_mgmt_mode mode" for mode
  by (rule commandI [rotated], simp only: command_defs) simp

interpretation global_budget: command "poe_cmd_global_power_budget pse bud guard" for pse bud guard
  by (rule commandI [rotated], simp only: command_defs) simp

interpretation system_status: command poe_cmd_status
  by (rule commandI [rotated], simp only: command_defs) simp

interpretation power_stats: command poe_cmd_power_stats
  by (rule commandI [rotated], simp only: command_defs) simp

interpretation get_config: command "poe_cmd_port_config port" for port
  by (rule commandI [rotated], simp only: command_defs) simp

interpretation get_ext_config: command "poe_cmd_port_ext_config port" for port
  by (rule commandI [rotated], simp only: command_defs) simp

interpretation get_status: command "poe_cmd_4_port_status grp" for grp
  by (rule commandI [rotated], simp only: command_defs) simp

interpretation port_stats: command "poe_cmd_port_power_stats port" for port
  by (rule commandI [rotated], simp only: command_defs) simp

lemmas commands = four_port.command_axioms port_enable.command_axioms port_mapping.command_axioms
  detection.command_axioms disconnect.command_axioms port_budget.command_axioms mgmt_mode.command_axioms
  global_budget.command_axioms system_status.command_axioms power_stats.command_axioms
  get_config.command_axioms get_ext_config.command_axioms get_status.command_axioms
  port_stats.command_axioms

lemma poet_setup_issues: "issues p (poet_setup_from ports n i e p)"
proof (induction ports n i e p rule: poet_setup_from.induct)
  case (1 ports n i e p)
  obtain i' ids where g: "poet_group ports n i [] = (i', ids)" by fastforce
  let ?cs = "\<lambda>e. [poe_set_port_priority (pad4 (map of_nat ids)) (pad4 (map (\<lambda>k. pc_priority (ports ! k)) ids)),
    poe_cmd_port_classification (pad4 (map of_nat ids)) e,
    poe_cmd_port_power_limit_type (pad4 (map of_nat ids))
      (pad4 (map (\<lambda>k. if pc_power_budget (ports ! k) \<noteq> 0 then 2 else 1) ids))]"
  have "issues p (issue (?cs e') p)" for e'
    by (rule issue_issues) (simp add: commands poe_set_port_priority_def poe_cmd_port_classification_def
        poe_cmd_port_power_limit_type_def)
  then show ?case
    using 1 [OF g [symmetric] refl refl refl refl refl refl] issues_trans
    by (subst poet_setup_from.simps) (auto simp: g Let_def)
qed

lemma poe_port_setup_issues: "issues p (poe_port_setup p)"
  unfolding poe_port_setup_def Let_def poet_setup_def
  by (intro issues_trans [OF issues_trans [OF issue_issues poet_setup_issues] issue_issues])
    (auto simp: commands split: if_splits)

lemma poe_initial_setup_issues: "issues p (poe_initial_setup p)"
  unfolding poe_initial_setup_def poe_set_power_budget_def Let_def
  by (intro issues_trans [OF issues_trans [OF issue_issues issue_issues] poe_port_setup_issues])
    (auto simp: commands)

lemma note_status_issues: "issues p (note_status i p)"
  by (auto simp: issues_def note_status_def expected_def head_sent_def poe_wf_def)

lemma fold_issues: "(\<And>x p. issues p (g x p)) \<Longrightarrow> issues p (fold g xs p)"
  by (induction xs arbitrary: p) (auto intro: issues_trans)

lemma state_timeout_issues: "issues p (state_timeout_cb p)"
proof -
  let ?n = "port_count (poe_config p)"
  let ?q = "snd (poe_cmd_power_stats p)"
  let ?r = "issue (map (\<lambda>g. poe_cmd_4_port_status (of_nat g)) [0 ..< (?n + 3) div 4]) ?q"
  have "issues p ?q" by (rule power_stats.issuing)
  also have "issues ?q ?r" by (rule issue_issues) (auto simp: commands)
  also have "issues ?r (state_timeout_cb p)"
    unfolding state_timeout_cb_def Let_def
  proof (rule fold_issues)
    show "issues q (note_status i (issue [poe_cmd_port_config (of_nat i),
        poe_cmd_port_ext_config (of_nat i), poe_cmd_port_power_stats (of_nat i)] q))" for i q
      by (rule issues_trans [OF issue_issues note_status_issues]) (simp add: commands)
  qed
  finally show ?thesis .
qed

lemma parse_frame_length: "parse_frame frame c = Some d \<Longrightarrow> length c \<le> 9 \<Longrightarrow> length d \<le> 9"
proof (induction frame c rule: parse_frame.induct)
  case (1 frame c)
  obtain v nx err where st: "strtoul frame 16 = (v, nx, err)" by (metis prod_cases3)
  show ?case
  proof (cases "frame \<noteq> [] \<and> length c < 9")
    case True
    then have "parse_frame frame c =
        (if err \<or> frame = nx \<or> 0xff < v then None else parse_frame nx (c @ [ucast v]))"
      by (simp add: parse_frame.simps [of frame] st)
    with 1(2) have "parse_frame nx (c @ [ucast v]) = Some d" "\<not> (err \<or> frame = nx \<or> 0xff < v)"
      by (simp_all only: option.distinct simp_thms split: if_splits)
    then show ?thesis using 1(1) [OF True st [symmetric] refl refl] True by simp
  next
    case False
    then show ?thesis using 1(2,3) parse_frame.simps [of frame c] by (simp only: option.inject split: if_splits)
  qed
qed

lemma sendframe_issues: "issues p (snd (ubus_poe_sendframe_cb frame p))"
proof (cases "Option.bind frame (\<lambda>f. parse_frame f [])")
  case (Some c)
  then have "length c \<le> 12" using parse_frame_length [of _ "[]" c] by (fastforce simp: bind_eq_Some_conv)
  with Some queue_issues show ?thesis by (simp add: ubus_poe_sendframe_cb_def)
qed (simp add: ubus_poe_sendframe_cb_def)

lemma manage_issues: "ubus_poe_manage_cb port enable p = Some (r, p') \<Longrightarrow> issues p p'"
proof -
  have "manage_ports is name e p = Some (r, p') \<Longrightarrow> issues p p'" for "is" name e
  proof (induction "is")
    case (Cons i "is")
    then show ?case
      using port_enable.issuing [of p "of_nat i" e]
      by (auto simp: Let_def split: if_splits option.splits bool.splits)
  qed simp
  then show "ubus_poe_manage_cb port enable p = Some (r, p') \<Longrightarrow> issues p p'"
    by (auto simp: ubus_poe_manage_cb_def split: option.splits)
qed

subsection \<open>Handlers\<close>

text \<open>What the dispatcher relies on: the handler stays within the array of ports exactly for the replies
  that are \<open>fit\<close>, and keeps the size of the array.\<close>

locale handler =
  fixes h :: "u8 list \<Rightarrow> poe_state \<Rightarrow> reply_result" and fit :: "u8 list \<Rightarrow> bool"
  assumes fits: "fit reply \<Longrightarrow> \<exists>r s'. h reply s = Some (r, s') \<and> length (state_ports s') = length (state_ports s)"
    and outside: "\<not> fit reply \<Longrightarrow> h reply s = None"
begin

lemma result_ports: "h reply s = Some (r, s') \<Longrightarrow> length (state_ports s') = length (state_ports s)"
  using fits [of reply s] outside [of reply s] by (cases "fit reply") auto

lemma none_iff: "h reply s = None \<longleftrightarrow> \<not> fit reply"
  using fits [of reply s] outside [of reply s] by (cases "fit reply") auto

end

definition names_port :: "u8 list \<Rightarrow> bool" where
  "names_port reply \<longleftrightarrow> unat (reply ! 2) < MAX_PORT"

lemma four_port_status_returns:
  "\<exists>r s'. four_port_status is reply s = Some (r, s') \<and> length (state_ports s') = length (state_ports s)"
proof (induction "is" arbitrary: s)
  case (Cons i "is")
  show ?case
  proof (cases "unat (reply ! 2) * 4 + i = 0xff \<or> unat (reply ! 2) * 4 + i \<ge> MAX_PORT")
    case False
    then obtain s1 where "upd_state_port (unat (reply ! 2) * 4 + i) (\<lambda>x. x\<lparr>
        status_str := GET_STR (unat (reply ! (3 + i * 2) AND 0xf)) status_names,
        status := reply ! (3 + i * 2) AND 0xf\<rparr>) s = Some s1" "length (state_ports s1) = length (state_ports s)"
      by (simp add: upd_state_port_def)
    with False Cons [of s1] show ?thesis by (simp add: Let_def)
  qed (use Cons in \<open>auto simp: Let_def\<close>)
qed simp

interpretation reply_status: handler poe_reply_status "\<lambda>_. True"
  by unfold_locales (simp_all add: poe_reply_status_def)

interpretation reply_power: handler poe_reply_power_stats "\<lambda>_. True"
  by unfold_locales (simp_all add: poe_reply_power_stats_def)

interpretation reply_config: handler poe_reply_port_config "\<lambda>_. True"
  by unfold_locales (simp_all add: poe_reply_port_config_def)

interpretation reply_four: handler poe_reply_4_port_status "\<lambda>_. True"
  by unfold_locales (simp_all only: poe_reply_4_port_status_def four_port_status_returns simp_thms)

interpretation reply_ext: handler poe_reply_port_ext_config names_port
  by unfold_locales (auto simp: poe_reply_port_ext_config_def upd_state_port_def names_port_def)

interpretation reply_stats: handler poe_reply_port_power_stats names_port
  by unfold_locales (auto simp: poe_reply_port_power_stats_def upd_state_port_def names_port_def)

lemma reply_handler_ports:
  "reply_handler i = Some h \<Longrightarrow> h reply s = Some (r, s') \<Longrightarrow> length (state_ports s') = length (state_ports s)"
  by (auto simp: reply_handler_def split: if_splits dest: reply_status.result_ports reply_power.result_ports
      reply_config.result_ports reply_four.result_ports reply_ext.result_ports reply_stats.result_ports)

subsection \<open>Replies\<close>

lemma reply_consume_cases:
  assumes "poe_reply_consume reply p = Some (r, p')" "poe_wf p"
  shows "poe_wf p' \<and> written p' = written p \<and> poe_config p' = poe_config p
    \<and> (cmd_pending p' = tl (cmd_pending p) \<and> error_pending p' = error_pending p
       \<or> (\<exists>c rest. cmd_pending p = c # rest \<and> error_pending p'
           \<and> cmd_pending p' = (if error_pending p then c else c\<lparr>num_retries := num_retries c + 1\<rparr>) # rest))"
proof (cases "cmd_pending p")
  case (Cons c rest)
  have w: "poe_wf (p\<lparr>cmd_pending := rest\<rparr>)" using assms(2) Cons by (simp add: poe_wf_def)
  have f0: "poe_wf (handle_poe_f0_reply c reply (p\<lparr>cmd_pending := rest\<rparr>))"
    using assms(2) Cons by (auto simp: handle_poe_f0_reply_def poe_wf_def Let_def)
  have h: "length (state_ports s') = length (state_ports s)"
    if "reply_handler i = Some h" "h x s = Some (r, s')" for i h x s r s'
    using that by (rule reply_handler_ports)
  show ?thesis
    using assms(1) w f0 h Cons
    by (fastforce simp: poe_reply_consume_def Let_def handle_poe_f0_reply_def poe_wf_def
        split: if_splits option.splits prod.splits)
qed (use assms in \<open>auto simp: poe_reply_consume_def\<close>)

subsection \<open>The line\<close>

lemma cmd_next_sends:
  "snd (poe_cmd_next p) = (if error_pending p then p else p\<lparr>written := written p @ map cmd (take 1 (cmd_pending p))\<rparr>)"
  by (simp add: poe_cmd_next_def poe_cmd_send_def split: list.split)

text \<open>The daemon, the octets it has buffered and the octets of answers the MCU still owes.\<close>

definition sent :: "poe \<Rightarrow> poe \<Rightarrow> nat" where
  "sent p p' = 12 * (length (written p') - length (written p))"

inductive poe_reach :: "(uci_section \<Rightarrow> u16 \<times> u16) \<Rightarrow> poe \<Rightarrow> u8 list \<Rightarrow> nat \<Rightarrow> bool"
  for global_budget where
  start: "poe_main global_budget poe_pkg port_pkg compatible = Some p \<Longrightarrow>
    poe_reach global_budget p [] (12 * length (written p))"
| receive: "poe_reach global_budget p buf owed \<Longrightarrow> length bs \<le> owed \<Longrightarrow>
    poe_stream_msg_cb (buf @ bs) p = Some (n, p') \<Longrightarrow>
    poe_reach global_budget p' (drop n (buf @ bs)) (owed - length bs + sent p p')"
| error_timeout: "poe_reach global_budget p buf owed \<Longrightarrow> error_pending p \<Longrightarrow>
    p' = mcu_clear_timeout (p\<lparr>error_pending := False\<rparr>) \<Longrightarrow>
    poe_reach global_budget p' buf (owed + sent p p')"
| state_timeout: "poe_reach global_budget p buf owed \<Longrightarrow> p' = state_timeout_cb p \<Longrightarrow>
    poe_reach global_budget p' buf (owed + sent p p')"
| sendframe: "poe_reach global_budget p buf owed \<Longrightarrow> p' = snd (ubus_poe_sendframe_cb frame p) \<Longrightarrow>
    poe_reach global_budget p' buf (owed + sent p p')"
| manage: "poe_reach global_budget p buf owed \<Longrightarrow> ubus_poe_manage_cb port enable p = Some (r, p') \<Longrightarrow>
    poe_reach global_budget p' buf (owed + sent p p')"
| reload: "poe_reach global_budget p buf owed \<Longrightarrow>
    ubus_poe_reload_cb global_budget poe_pkg port_pkg p = Some (r, p') \<Longrightarrow>
    poe_reach global_budget p' buf (owed + sent p p')"

definition line_ok :: "poe \<Rightarrow> u8 list \<Rightarrow> nat \<Rightarrow> bool" where
  "line_ok p buf owed \<longleftrightarrow> poe_wf p \<and> head_sent p \<and> owed + length buf = expected p \<and> length buf < 12"

lemma issues_line: "issues p p' \<Longrightarrow> line_ok p buf owed \<Longrightarrow> line_ok p' buf (owed + sent p p')"
  by (auto simp: issues_def line_ok_def sent_def)

lemma receive_line:
  assumes ok: "line_ok p buf owed" and len: "length bs \<le> owed"
    and r: "poe_stream_msg_cb (buf @ bs) p = Some (n, p')"
  shows "line_ok p' (drop n (buf @ bs)) (owed - length bs + sent p p')"
proof (cases "length (buf @ bs) < 12")
  case True
  with ok len r show ?thesis by (auto simp: poe_stream_msg_cb_def line_ok_def sent_def)
next
  case False
  then obtain i q where c: "poe_reply_consume (take 12 (buf @ bs)) p = Some (i, q)"
    and p': "p' = snd (poe_cmd_next q)" and n: "n = 12"
    using r by (auto simp: poe_stream_msg_cb_def split: if_splits option.splits)
  have "expected p = 12" "owed = length bs" "length (buf @ bs) = 12"
    using ok len False by (auto simp: line_ok_def expected_def split: if_splits)
  then have live: "\<not> error_pending p" "cmd_pending p \<noteq> []" by (auto simp: expected_def split: if_splits)
  have "poe_wf p" using ok by (simp add: line_ok_def)
  note q = reply_consume_cases [OF c this]
  have "poe_wf p'"
    using q by (cases "cmd_pending q") (auto simp: p' cmd_next_sends poe_wf_def)
  moreover have "head_sent p' \<and> expected p' = sent p p'"
    using q live by (cases "cmd_pending q") (auto simp: p' cmd_next_sends sent_def expected_def head_sent_def)
  ultimately show ?thesis
    using \<open>owed = length bs\<close> \<open>length (buf @ bs) = 12\<close> by (simp add: line_ok_def n)
qed

lemma error_timeout_line:
  assumes "line_ok p buf owed" "error_pending p" "p' = mcu_clear_timeout (p\<lparr>error_pending := False\<rparr>)"
  shows "line_ok p' buf (owed + sent p p')"
  using assms by (cases "cmd_pending p")
    (auto simp: line_ok_def mcu_clear_timeout_def cmd_next_sends sent_def expected_def head_sent_def poe_wf_def)

subsection \<open>Configurations\<close>

lemma load_port_ok: "poe_config_ok cfg \<Longrightarrow> poe_config_ok (load_port_config s cfg)"
  by (auto simp: load_port_config_def poe_config_ok_def Let_def strncpy16_def MAX_PORT_def nth_mem
      split: option.split dest!: set_update_subset_insert [THEN subsetD])

lemma load_lan_ok: "poe_config_ok cfg \<Longrightarrow> load_lan_sections ss k cfg = Some cfg' \<Longrightarrow> poe_config_ok cfg'"
proof (induction ss k cfg rule: load_lan_sections.induct)
  case (2 s ss k cfg)
  have "poe_config_ok c" if "load_port_state_config s k cfg = Some c" for c
    using that 2(3) by (auto simp: load_port_state_config_def poe_config_ok_def nth_mem split: if_splits
        dest!: set_update_subset_insert [THEN subsetD])
  then show ?case using 2 by (auto simp: bind_eq_Some_conv split: if_splits)
qed simp

lemma fold_config: "(\<And>x c. poe_config_ok c \<Longrightarrow> poe_config_ok (g x c)) \<Longrightarrow> poe_config_ok cfg \<Longrightarrow> poe_config_ok (fold g xs cfg)"
  by (induction xs arbitrary: cfg) auto

lemma config_load_ok:
  assumes "port_count cfg \<le> MAX_PORT" "config_load global_budget init poe_pkg port_pkg cfg = Some cfg'"
  shows "poe_config_ok cfg'"
proof -
  define c0 where "c0 = cfg\<lparr>config_ports := replicate MAX_PORT zero_port_config\<rparr>"
  define c1 where "c1 = (case poe_pkg of None \<Rightarrow> c0 | Some ss \<Rightarrow>
      fold load_port_config (filter (\<lambda>s. sec_type s = ''port'') ss)
        (if init then fold (load_global_config global_budget) (filter (\<lambda>s. sec_type s = ''global'') ss) c0 else c0))"
  have "poe_config_ok c0" using assms(1) by (simp add: c0_def poe_config_ok_def zero_port_config_def)
  moreover have "poe_config_ok (load_global_config global_budget s c)" if "poe_config_ok c" for s c
    using that by (simp add: load_global_config_def poe_config_ok_def)
  ultimately have "poe_config_ok c1"
    unfolding c1_def by (auto split: option.split intro!: fold_config load_port_ok)
  moreover have "config_load global_budget init poe_pkg port_pkg cfg =
      (case port_pkg of None \<Rightarrow> Some c1 | Some ss \<Rightarrow> load_lan_sections ss 0 c1)"
    by (simp only: config_load_def Let_def c1_def c0_def)
  ultimately show ?thesis using assms(2) load_lan_ok by (auto split: option.splits)
qed

lemma poe_main_line:
  assumes "poe_main global_budget poe_pkg port_pkg compatible = Some p"
  shows "line_ok p [] (12 * length (written p))"
proof -
  obtain cfg where c: "config_load global_budget True poe_pkg port_pkg (poe_config poe_static) = Some cfg"
    and p: "p = poe_initial_setup (poe_static\<lparr>bcm_to_rtl_map := close_map (bcm_to_rtl_map poe_static),
       poe_config := config_apply_quirks compatible cfg\<rparr>)" (is "_ = poe_initial_setup ?s")
    using assms by (auto simp: poe_main_def Let_def split: option.splits)
  have "poe_config_ok cfg" using config_load_ok [OF _ c] by (simp add: poe_static_def)
  then have "line_ok ?s [] 0"
    by (auto simp: line_ok_def poe_wf_def poe_static_def config_apply_quirks_def poe_config_ok_def
        head_sent_def expected_def)
  from issues_line [OF poe_initial_setup_issues this] show ?thesis
    by (simp add: p sent_def poe_static_def)
qed

lemma reload_line:
  assumes ok: "line_ok p buf owed" and r: "ubus_poe_reload_cb global_budget poe_pkg port_pkg p = Some (r, p')"
  shows "line_ok p' buf (owed + sent p p')"
proof -
  obtain cfg where c: "config_load global_budget False poe_pkg port_pkg (poe_config p) = Some cfg"
    and p': "p' = poe_port_setup (p\<lparr>poe_config := cfg\<rparr>)"
    using r by (auto simp: ubus_poe_reload_cb_def split: option.splits)
  have "poe_config_ok cfg" using config_load_ok [OF _ c] ok by (simp add: line_ok_def poe_wf_def poe_config_ok_def)
  then have "line_ok (p\<lparr>poe_config := cfg\<rparr>) buf owed"
    using ok by (simp add: line_ok_def poe_wf_def head_sent_def expected_def)
  from issues_line [OF poe_port_setup_issues this] show ?thesis by (simp add: p' sent_def)
qed

lemma reach_line: "poe_reach global_budget p buf owed \<Longrightarrow> line_ok p buf owed"
  by (induction rule: poe_reach.induct)
    (blast intro: poe_main_line receive_line error_timeout_line issues_line state_timeout_issues
      sendframe_issues manage_issues reload_line)+

end
