(* ===== verification/Poe_Theorems.thy ===== *)
theory Poe_Theorems
  imports Poe_Protocol
begin

section \<open>The PoE daemon: properties\<close>

text \<open>
  The protocol as a whole (\<open>poe_reach\<close>), retries, dispatch of replies, the setup of the ports, the map
  of command identifiers and frames given by hand.
\<close>

subsection \<open>A small daemon\<close>

definition no_budget :: "uci_section \<Rightarrow> u16 \<times> u16" where
  "no_budget s = (0, 0)"

definition idle_poe :: poe where
  "idle_poe = poe_initial_setup (poe_static\<lparr>bcm_to_rtl_map := close_map (bcm_to_rtl_map poe_static)\<rparr>)"

lemma idle_poe_started: "poe_main no_budget None None None = Some idle_poe"
  by (simp add: poe_main_def config_load_def config_apply_quirks_def idle_poe_def Let_def poe_static_def)

lemma idle_poe_reach: "poe_reach no_budget idle_poe [] (12 * length (written idle_poe))"
  by (rule poe_reach.start [OF idle_poe_started])

lemma idle_poe_queue: "length (cmd_pending idle_poe) = 7 \<and> \<not> error_pending idle_poe"
  by code_simp

subsection \<open>Retries\<close>

definition rejection :: "u8 list \<Rightarrow> bool" where
  "rejection reply \<longleftrightarrow> packet_ok reply \<and> reply ! 0 AND 0xf0 = 0xf0"

text \<open>The MCU rejects the packet and, where the daemon waits for it to recover, the timer fires.\<close>

definition reject :: "u8 list \<Rightarrow> poe \<Rightarrow> poe" where
  "reject reply p =
     (case poe_stream_msg_cb reply p of
        None \<Rightarrow> p
      | Some (_, q) \<Rightarrow> if error_pending q then mcu_clear_timeout (q\<lparr>error_pending := False\<rparr>) else q)"

lemma reject_step:
  assumes "rejection reply" "cmd_pending p = c # rest" "\<not> error_pending p"
  shows "reject reply p =
    (if num_retries c < MAX_RETRIES
     then p\<lparr>error_pending := False, cmd_pending := c\<lparr>num_retries := num_retries c + 1\<rparr> # rest, written := written p @ [cmd c]\<rparr>
     else p\<lparr>cmd_pending := rest, written := written p @ map cmd (take 1 rest)\<rparr>)"
  using assms
  by (auto simp: reject_def rejection_def packet_ok_def poe_stream_msg_cb_def poe_reply_consume_def Let_def
      handle_poe_f0_reply_def mcu_clear_timeout_def cmd_next_sends)

lemma reject_steps:
  assumes "rejection reply" "cmd_pending p = c # rest" "\<not> error_pending p" "num_retries c = 0" "k \<le> MAX_RETRIES"
  shows "(reject reply ^^ k) p =
    p\<lparr>error_pending := False, cmd_pending := c\<lparr>num_retries := k\<rparr> # rest, written := written p @ replicate k (cmd c)\<rparr>"
  using assms(5)
proof (induction k)
  case 0
  then show ?case using assms by simp
next
  case (Suc k)
  then have "(reject reply ^^ Suc k) p = reject reply (p\<lparr>error_pending := False,
      cmd_pending := c\<lparr>num_retries := k\<rparr> # rest, written := written p @ replicate k (cmd c)\<rparr>)"
    by simp
  also have "\<dots> = p\<lparr>error_pending := False, cmd_pending := c\<lparr>num_retries := Suc k\<rparr> # rest,
      written := written p @ replicate (Suc k) (cmd c)\<rparr>"
    using Suc.prems by (subst reject_step [OF assms(1)]) (auto simp: replicate_append_same)
  finally show ?case .
qed

subsection \<open>Dispatch\<close>

text \<open>The reply is taken for the answer to the command that waits: checksum, no rejection, identifier and sequence number.\<close>

definition answers :: "poe \<Rightarrow> u8 list \<Rightarrow> bool" where
  "answers p reply \<longleftrightarrow> (\<exists>c rest. cmd_pending p = c # rest \<and> reply ! 11 = sum_list (take 11 reply)
     \<and> reply ! 0 AND 0xf0 \<noteq> 0xf0 \<and> rtl_to_bcm_cmd_id p (reply ! 0) = rtl_to_bcm_cmd_id p (cmd c ! 0)
     \<and> unat (rtl_to_bcm_cmd_id p (reply ! 0)) \<le> reply_handler_size \<and> reply ! 1 = cmd c ! 1)"

lemma cmd_id_queue [simp]: "rtl_to_bcm_cmd_id (p\<lparr>cmd_pending := q\<rparr>) c = rtl_to_bcm_cmd_id p c"
  by (simp add: rtl_to_bcm_cmd_id_def bcm_to_rtl_cmd_id_def)

lemma reply_consume_answer:
  assumes "answers p reply"
  shows "poe_reply_consume reply p =
    (let i = rtl_to_bcm_cmd_id p (reply ! 0); p = p\<lparr>cmd_pending := tl (cmd_pending p)\<rparr>
     in if unat i = reply_handler_size then None
        else case reply_handler i of
               None \<Rightarrow> Some (0, p)
             | Some h \<Rightarrow> map_option (map_prod id (\<lambda>s. p\<lparr>poe_state := s\<rparr>)) (h (reply[0 := i]) (poe_state p)))"
  using assms
  by (auto simp: answers_def poe_reply_consume_def Let_def split: option.split)

lemma reply_consume_other:
  assumes "\<not> answers p reply"
  shows "\<exists>p'. poe_reply_consume reply p = Some (-1, p') \<and> poe_state p' = poe_state p"
proof (cases "cmd_pending p")
  case (Cons c rest)
  then show ?thesis
    using assms by (auto simp: answers_def poe_reply_consume_def Let_def handle_poe_f0_reply_def)
qed (simp add: poe_reply_consume_def)

subsection \<open>Setup of the ports\<close>

definition enabled_ports :: "port_config list \<Rightarrow> nat \<Rightarrow> nat \<Rightarrow> nat list" where
  "enabled_ports ports i n = filter (\<lambda>k. pc_enable (ports ! k)) [i ..< n]"

definition group_commands :: "port_config list \<Rightarrow> nat list \<Rightarrow> (poe \<Rightarrow> int \<times> poe) list" where
  "group_commands ports g =
     [poe_set_port_priority (pad4 (map of_nat g)) (pad4 (map (\<lambda>k. pc_priority (ports ! k)) g)),
      poe_cmd_port_classification (pad4 (map of_nat g)) (pad4 (map (\<lambda>k. 1) g)),
      poe_cmd_port_power_limit_type (pad4 (map of_nat g))
        (pad4 (map (\<lambda>k. if pc_power_budget (ports ! k) \<noteq> 0 then 2 else 1) g))]"

lemma poet_group_spec:
  assumes "poet_group ports n i acc = (i', ids)" "i \<le> n" "length acc < 4"
  shows "ids @ enabled_ports ports (i' + 1) n = acc @ enabled_ports ports i n \<and> length ids \<le> 4
    \<and> (length ids < 4 \<longrightarrow> i' = n)"
  using assms
proof (induction ports n i acc arbitrary: i' ids rule: poet_group.induct)
  case (1 ports n i acc)
  show ?case
  proof (cases "i < n")
    case True
    then have e: "enabled_ports ports i n =
        (if pc_enable (ports ! i) then [i] else []) @ enabled_ports ports (i + 1) n"
      by (simp add: enabled_ports_def upt_conv_Cons)
    show ?thesis
    proof (cases "pc_enable (ports ! i) \<and> length acc + 1 = 4")
      case True
      with 1(3) \<open>i < n\<close> have "i' = i" "ids = acc @ [i]" by (auto simp: poet_group.simps [of ports n i])
      with e True show ?thesis by simp
    next
      case False
      let ?acc = "if pc_enable (ports ! i) then acc @ [i] else acc"
      have "poet_group ports n (i + 1) ?acc = (i', ids)"
        using 1(3) \<open>i < n\<close> False by (auto simp: poet_group.simps [of ports n i])
      moreover have "i + 1 \<le> n" "length ?acc < 4" using 1(5) \<open>i < n\<close> False by auto
      ultimately have "ids @ enabled_ports ports (i' + 1) n = ?acc @ enabled_ports ports (i + 1) n
          \<and> length ids \<le> 4 \<and> (length ids < 4 \<longrightarrow> i' = n)"
        using 1(1,2) \<open>i < n\<close> False by (cases "pc_enable (ports ! i)") auto
      with e show ?thesis by auto
    qed
  next
    case False
    then show ?thesis using 1(3-5) by (auto simp: poet_group.simps [of ports n n] enabled_ports_def)
  qed
qed

lemma poet_setup_groups:
  assumes "i \<le> n"
  shows "\<exists>gs. concat gs = enabled_ports ports i n \<and> gs \<noteq> [] \<and> (\<forall>g \<in> set gs. length g \<le> 4)
    \<and> (\<forall>g \<in> set (butlast gs). length g = 4)
    \<and> poet_setup_from ports n i [1, 1, 1, 1] p = issue (concat (map (group_commands ports) gs)) p"
  using assms
proof (induction "n - i" arbitrary: i p rule: less_induct)
  case less
  obtain i' ids where g: "poet_group ports n i [] = (i', ids)" by fastforce
  note spec = poet_group_spec [OF g less.prems]
  have en: "pad4 (take (length ids) [1, 1, 1, 1]) = pad4 (map (\<lambda>k. 1) ids)"
    using spec by (auto simp: le_Suc_eq numeral_eq_Suc length_Suc_conv)
  let ?p = "issue (group_commands ports ids) p"
  have step: "poet_setup_from ports n i [1, 1, 1, 1] p =
      (if i' + 1 < n then poet_setup_from ports n (i' + 1) (pad4 (map (\<lambda>k. 1) ids)) ?p else ?p)"
    by (subst poet_setup_from.simps) (simp add: g Let_def en group_commands_def)
  show ?case
  proof (cases "i' + 1 < n")
    case True
    then have l: "length ids = 4" using spec by auto
    then have "pad4 (map (\<lambda>k. 1) ids) = [1, 1, 1, 1]"
      by (auto simp: pad4_def numeral_eq_Suc length_Suc_conv)
    moreover have "n - (i' + 1) < n - i" using True poet_group_ge [of i ports n "[]"] g by simp
    with less.hyps [of "i' + 1" ?p] True obtain gs where gs: "concat gs = enabled_ports ports (i' + 1) n"
      "gs \<noteq> []" "\<forall>g \<in> set gs. length g \<le> 4" "\<forall>g \<in> set (butlast gs). length g = 4"
      "poet_setup_from ports n (i' + 1) [1, 1, 1, 1] ?p = issue (concat (map (group_commands ports) gs)) ?p"
      by auto
    ultimately show ?thesis
      using spec l True step by (intro exI [of _ "ids # gs"]) (auto simp: issue_def)
  next
    case False
    then have "enabled_ports ports (i' + 1) n = []" by (simp add: enabled_ports_def)
    then show ?thesis
      using spec step False by (intro exI [of _ "[ids]"]) auto
  qed
qed

subsection \<open>The map of identifiers\<close>

text \<open>What the comment in the code assumes of the table, and that 0, which stands for no entry, is not used.\<close>

definition dialects_apart :: "u8 list \<Rightarrow> bool" where
  "dialects_apart m \<longleftrightarrow> length m = 256 \<and> m ! 0 = 0
     \<and> (\<forall>i < 256. m ! i \<noteq> 0 \<longrightarrow> m ! unat (m ! i) = 0)
     \<and> (\<forall>i < 256. \<forall>j < 256. m ! i \<noteq> 0 \<longrightarrow> m ! i = m ! j \<longrightarrow> i = j)"

definition closed_to :: "u8 list \<Rightarrow> nat \<Rightarrow> u8 list \<Rightarrow> bool" where
  "closed_to m n M \<longleftrightarrow> length M = 256 \<and> (\<forall>k < 256. m ! k \<noteq> 0 \<longrightarrow> M ! k = m ! k)
     \<and> (\<forall>k < 256. m ! k = 0 \<longrightarrow> M ! k \<noteq> 0 \<longrightarrow> k \<noteq> 0 \<and> m ! unat (M ! k) = of_nat k)
     \<and> (\<forall>i < n. m ! i \<noteq> 0 \<longrightarrow> M ! unat (m ! i) = of_nat i)"

lemma u8_index: "unat (b :: u8) < 256"
  using unsigned_less [where ?'a = nat, of b] by simp

lemma u8_of_nat: "k < 256 \<Longrightarrow> unat (of_nat k :: u8) = k"
  using unat_of_nat [where 'a = 8, of k] by simp

lemma u8_of_nat_zero: "k < 256 \<Longrightarrow> (of_nat k :: u8) = 0 \<longleftrightarrow> k = 0"
  by (simp add: u8_of_nat flip: unat_eq_0)

lemma close_step:
  assumes d: "dialects_apart m" and c: "closed_to m n M" and n: "n < 256"
  shows "closed_to m (Suc n) (if M ! n \<noteq> 0 then M[unat (M ! n) := of_nat n] else M)"
proof (cases "m ! n = 0")
  case True
  show ?thesis
  proof (cases "M ! n = 0")
    case False
    then have k: "m ! unat (M ! n) = of_nat n" "n \<noteq> 0" using c n True by (auto simp: closed_to_def)
    then have "m ! unat (M ! n) \<noteq> 0" using n by (simp add: u8_of_nat_zero)
    then have "M ! unat (M ! n) = of_nat n" using c k u8_index by (metis closed_to_def)
    then have "M[unat (M ! n) := of_nat n] = M" by (metis list_update_id)
    then show ?thesis using c True by (auto simp: closed_to_def less_Suc_eq)
  qed (use c True in \<open>auto simp: closed_to_def less_Suc_eq\<close>)
next
  case False
  let ?r = "unat (m ! n)"
  have M: "M ! n = m ! n" and l: "length M = 256" using c n False by (auto simp: closed_to_def)
  have r: "?r < 256" "m ! ?r = 0" "?r \<noteq> 0"
    using d n False u8_index by (auto simp: dialects_apart_def unat_eq_0)
  have inj: "i = n" if "i < 256" "m ! i \<noteq> 0" "unat (m ! i) = ?r" for i
    using d n that unsigned_word_eqI [OF that(3)] by (auto simp: dialects_apart_def)
  let ?M = "M[?r := of_nat n]"
  have "?M ! k = m ! k" if "k < 256" "m ! k \<noteq> 0" for k
    using c r that by (auto simp: closed_to_def nth_list_update l)
  moreover have "k \<noteq> 0 \<and> m ! unat (?M ! k) = of_nat k" if "k < 256" "m ! k = 0" "?M ! k \<noteq> 0" for k
    using c r l n that by (cases "k = ?r") (auto simp: closed_to_def u8_of_nat)
  moreover have "?M ! unat (m ! i) = of_nat i" if "i < Suc n" "m ! i \<noteq> 0" for i
  proof (cases "i = n")
    case True
    then show ?thesis using r l by simp
  next
    case False
    with that n have "unat (m ! i) \<noteq> ?r" using inj [of i] by auto
    then show ?thesis using c that False by (simp add: closed_to_def)
  qed
  moreover have "M ! n \<noteq> 0" using M False by simp
  ultimately show ?thesis using l by (simp add: closed_to_def M)
qed

lemma close_map_closed:
  assumes "dialects_apart m"
  shows "closed_to m 256 (close_map m)"
proof -
  let ?f = "\<lambda>i m. if m ! i \<noteq> 0 then m[unat (m ! i) := of_nat i] else m"
  have "n \<le> 256 \<Longrightarrow> closed_to m n (fold ?f [0 ..< n] m)" for n
  proof (induction n)
    case 0
    then show ?case using assms by (auto simp: closed_to_def dialects_apart_def)
  next
    case (Suc n)
    then show ?case using close_step [OF assms, of n] by simp
  qed
  then show ?thesis by (simp add: close_map_def)
qed

lemma map_cmd_id_involution:
  assumes "dialects_apart m"
  shows "map_cmd_id (close_map m) (map_cmd_id (close_map m) c) = c"
proof -
  let ?M = "close_map m"
  note cl = close_map_closed [OF assms]
  show ?thesis
  proof (cases "?M ! unat c = 0")
    case False
    have "?M ! unat (?M ! unat c) = c \<and> c \<noteq> 0"
    proof (cases "m ! unat c = 0")
      case True
      with False cl have k: "unat c \<noteq> 0" "m ! unat (?M ! unat c) = c"
        using u8_index [of c] by (auto simp: closed_to_def)
      then have "m ! unat (?M ! unat c) \<noteq> 0" by auto
      with k cl show ?thesis using u8_index by (metis closed_to_def unat_0)
    next
      case False
      then have "?M ! unat c = m ! unat c" "?M ! unat (m ! unat c) = c"
        using cl u8_index [of c] by (auto simp: closed_to_def)
      moreover have "c \<noteq> 0" using False assms by (auto simp: dialects_apart_def)
      ultimately show ?thesis by simp
    qed
    then show ?thesis using False by (simp add: map_cmd_id_def)
  qed (simp add: map_cmd_id_def)
qed

subsection \<open>Frames\<close>

definition hex_char :: "nat \<Rightarrow> char" where
  "hex_char d = char_of (if d < 10 then 48 + d else 87 + d)"

definition show_octet :: "u8 \<Rightarrow> string" where
  "show_octet b = [hex_char (unat b div 16), hex_char (unat b mod 16)]"

definition show_frame :: "u8 list \<Rightarrow> string" where
  "show_frame bs = concat (map (\<lambda>b. CHR '' '' # show_octet b) bs)"

lemma hex_char_props:
  assumes "d < 16"
  shows "digit_val (hex_char d) = Some d" "\<not> c_isspace (hex_char d)"
    "hex_char d \<noteq> CHR ''-''" "hex_char d \<noteq> CHR ''+''" "hex_char d \<noteq> CHR ''x''" "hex_char d \<noteq> CHR ''X''"
proof -
  have n: "(of_char (hex_char d) :: nat) = (if d < 10 then 48 + d else 87 + d)"
    using assms by (simp add: hex_char_def)
  show "digit_val (hex_char d) = Some d" using assms by (simp add: digit_val_def n)
  show "\<not> c_isspace (hex_char d)" using assms n by (auto simp: c_isspace_def split: if_splits)
  show "hex_char d \<noteq> CHR ''-''" "hex_char d \<noteq> CHR ''+''" "hex_char d \<noteq> CHR ''x''" "hex_char d \<noteq> CHR ''X''"
    using assms n by (auto split: if_splits)
qed

lemma u8_hex: "unat (b :: u8) div 16 < 16" "unat b mod 16 < 16" "unat b div 16 * 16 + unat b mod 16 = unat b"
  using u8_index [of b] by (auto simp: less_mult_imp_div_less)

lemma strtoul_octet:
  assumes "rest = [] \<or> hd rest = CHR '' ''"
  shows "strtoul (CHR '' '' # show_octet b @ rest) 16 = (ucast b, rest, False)"
proof -
  have sp: "c_isspace (CHR '' '')" "\<not> is_digit 16 (CHR '' '')"
    by (simp_all add: c_isspace_def is_digit_def digit_val_def)
  then have r: "takeWhile (is_digit 16) rest = []" "dropWhile (is_digit 16) rest = rest"
    using assms by (cases rest; auto)+
  have u: "(of_nat (unat b) :: u32) = ucast b" by simp
  have "unat b < 2 ^ 32" using u8_index [of b] by simp
  then show ?thesis
    using hex_char_props [OF u8_hex(1) [of b]] hex_char_props [OF u8_hex(2) [of b]] u8_hex [of b] r sp u
    by (simp add: strtoul_def show_octet_def strip_sign_def strip_base_def has_hex_prefix_def is_digit_def
        digits_val_def Let_def)
qed

lemma parse_show_frame: "length (c @ bs) \<le> 9 \<Longrightarrow> parse_frame (show_frame bs) c = Some (c @ bs)"
proof (induction bs arbitrary: c)
  case (Cons b bs)
  have f: "show_frame (b # bs) = CHR '' '' # show_octet b @ show_frame bs" by (simp add: show_frame_def)
  have "show_frame bs = [] \<or> hd (show_frame bs) = CHR '' ''" by (cases bs) (simp_all add: show_frame_def)
  then have s: "strtoul (show_frame (b # bs)) 16 = (ucast b, show_frame bs, False)"
    unfolding f by (rule strtoul_octet)
  have "length (show_frame bs) < length (show_frame (b # bs))" by (simp add: f)
  then have "show_frame (b # bs) \<noteq> show_frame bs" "show_frame (b # bs) \<noteq> []" by auto
  moreover have "unat (ucast b :: u32) = unat b"
    using u8_index [of b] by (simp add: unsigned_ucast_eq take_bit_nat_eq_self)
  then have "\<not> 0xff < (ucast b :: u32)" using u8_index [of b] by (simp add: word_less_nat_alt)
  moreover have "ucast (ucast b :: u32) = b" by (rule bit_word_eqI) (simp add: bit_simps)
  ultimately show ?case
    using Cons by (simp add: parse_frame.simps [of "show_frame (b # bs)"] s)
qed (simp add: parse_frame.simps show_frame_def)

subsection \<open>The properties\<close>

text \<open>C7: The protocol with the MCU is stop-and-wait and does not get stuck. In every reachable state,
  with answers arriving in any pieces, the octets of answers still to come or buffered are none when
  no command waits or the daemon lets the MCU recover, and exactly one packet otherwise; then the last packet
  written is the command at the head of the queue. So no packet is sent before the one before is
  answered, and while commands wait there is always an answer or a timer to come.\<close>

theorem poe_stop_and_wait:
  assumes "poe_reach global_budget p buf owed"
  shows "owed + length buf = (if error_pending p \<or> cmd_pending p = [] then 0 else 12)
    \<and> (\<not> error_pending p \<and> cmd_pending p \<noteq> [] \<longrightarrow>
         written p \<noteq> [] \<and> last (written p) = cmd (hd (cmd_pending p)))"
  using reach_line [OF assms] by (auto simp: line_ok_def expected_def head_sent_def)

theorem poe_stop_and_wait_witness:
  "length (cmd_pending idle_poe) = 7 \<and> length (written idle_poe) = 1
     \<and> last (written idle_poe) = cmd (hd (cmd_pending idle_poe))"
  using poe_stop_and_wait [OF idle_poe_reach] idle_poe_queue by (auto split: if_splits)



text \<open>C29: A command that the MCU keeps rejecting is sent again after each of the first five rejections
  and given up at the sixth; then the next command is sent. The other commands keep their order.\<close>

theorem poe_retries_bounded:
  assumes "rejection reply" "cmd_pending p = c # rest" "\<not> error_pending p" "num_retries c = 0" "k \<le> MAX_RETRIES"
  shows "written ((reject reply ^^ k) p) = written p @ replicate k (cmd c)
    \<and> cmd_pending ((reject reply ^^ Suc MAX_RETRIES) p) = rest
    \<and> written ((reject reply ^^ Suc MAX_RETRIES) p) =
        written p @ replicate MAX_RETRIES (cmd c) @ map cmd (take 1 rest)"
proof -
  let ?q = "p\<lparr>error_pending := False, cmd_pending := c\<lparr>num_retries := MAX_RETRIES\<rparr> # rest,
    written := written p @ replicate MAX_RETRIES (cmd c)\<rparr>"
  have "(reject reply ^^ Suc MAX_RETRIES) p = reject reply ?q"
    using reject_steps [OF assms(1-4) order.refl] by simp
  then show ?thesis
    using reject_steps [OF assms] by (simp add: reject_step [OF assms(1)])
qed

theorem poe_retries_bounded_witness:
  "\<exists>c rest reply. cmd_pending idle_poe = c # rest
     \<and> written ((reject reply ^^ 3) idle_poe) = written idle_poe @ replicate 3 (cmd c)
     \<and> cmd_pending ((reject reply ^^ Suc MAX_RETRIES) idle_poe) = rest"
proof -
  let ?r = "[0xfd, 0, 0, 0, 0, 0, 0, 0, 0, 0, 0, 0xfd] :: u8 list"
  obtain c rest where q: "cmd_pending idle_poe = c # rest"
    using idle_poe_queue by (cases "cmd_pending idle_poe") auto
  moreover have "num_retries (hd (cmd_pending idle_poe)) = 0" by code_simp
  moreover have "rejection ?r" by (simp add: rejection_def packet_ok_def)
  ultimately show ?thesis
    using poe_retries_bounded [of ?r idle_poe c rest 3] idle_poe_queue
    by (auto simp: MAX_RETRIES_def simp del: funpow.simps)
qed

text \<open>A reply changes what the daemon knows of the system and its ports only when it is the answer to
  the command that waits: right checksum, no rejection, the command's identifier and its sequence number.
  The command leaves the queue. Every other reply is refused with -1.\<close>

theorem poe_reply_matches:
  "(poe_reply_consume reply p = Some (r, p') \<and> answers p reply \<longrightarrow> cmd_pending p' = tl (cmd_pending p))
   \<and> (\<not> answers p reply \<longrightarrow> (\<exists>q. poe_reply_consume reply p = Some (-1, q) \<and> poe_state q = poe_state p))"
proof -
  have "cmd_pending p' = tl (cmd_pending p)" if "poe_reply_consume reply p = Some (r, p')" "answers p reply"
    using that by (auto simp: reply_consume_answer Let_def split: if_splits option.splits)
  then show ?thesis using reply_consume_other by blast
qed

theorem poe_reply_matches_witness:
  "\<exists>q. poe_reply_consume (replicate 12 0) poe_static = Some (-1, q) \<and> poe_state q = poe_state poe_static"
  using poe_reply_matches [of "replicate 12 0" poe_static]
  by (simp add: answers_def poe_static_def)

text \<open>C30: Exactly which replies make the daemon access memory outside its arrays: an answer to the command
  0x4a, which is one past the end of the table of handlers, and an answer to 0x44 or 0x49 that names
  a port of 24 or more, since these two handlers do not check the port.\<close>

theorem poe_reply_faults_iff:
  "poe_reply_consume reply p = None \<longleftrightarrow>
     answers p reply \<and> (rtl_to_bcm_cmd_id p (reply ! 0) = 0x4a
       \<or> rtl_to_bcm_cmd_id p (reply ! 0) \<in> {0x44, 0x49} \<and> \<not> unat (reply ! 2) < MAX_PORT)"
proof (cases "answers p reply")
  case True
  have "unat (0x4a :: u8) = reply_handler_size" by (simp add: reply_handler_size_def)
  then have id: "unat b = reply_handler_size \<longleftrightarrow> b = 0x4a" for b :: u8
    by (metis unsigned_word_eqI)
  show ?thesis
    using True
    by (auto simp: reply_consume_answer Let_def id reply_handler_def reply_status.none_iff
        reply_power.none_iff reply_config.none_iff reply_four.none_iff reply_ext.none_iff
        reply_stats.none_iff names_port_def)
next
  case False
  then show ?thesis using reply_consume_other by fastforce
qed

text \<open>The setup of the ports names each enabled port exactly once, in ascending order, in groups of four
  of which only the last may be smaller, and each group is given its priorities, its classification
  and its power limits.\<close>

theorem poet_setup_covers:
  "\<exists>gs. concat gs = filter (\<lambda>k. pc_enable (ports ! k)) [0 ..< n] \<and> list_all (\<lambda>g. length g \<le> 4) gs
     \<and> list_all (\<lambda>g. length g = 4) (butlast gs)
     \<and> poet_setup ports n p = issue (concat (map (group_commands ports) gs)) p"
  using poet_setup_groups [of 0 n ports p]
  by (auto simp: poet_setup_def enabled_ports_def list_all_iff)

text \<open>One table serves both directions, as the comment in the code says: when the Realtek identifiers
  are not used as Broadcom identifiers and no two commands share one, translating there and back gives
  the identifier again.\<close>

theorem cmd_id_roundtrip:
  assumes "dialects_apart m" "bcm_to_rtl_map p = close_map m"
  shows "rtl_to_bcm_cmd_id p (bcm_to_rtl_cmd_id p c) = c"
  using map_cmd_id_involution [OF assms(1)] by (simp add: rtl_to_bcm_cmd_id_def bcm_to_rtl_cmd_id_def assms(2))

theorem cmd_id_roundtrip_witness:
  "rtl_to_bcm_cmd_id (poe_static\<lparr>bcm_to_rtl_map := close_map ((replicate 256 0)[0x20 := 0x40])\<rparr>)
     (bcm_to_rtl_cmd_id (poe_static\<lparr>bcm_to_rtl_map := close_map ((replicate 256 0)[0x20 := 0x40])\<rparr>) 0x20) = 0x20"
  by (rule cmd_id_roundtrip [of "(replicate 256 0)[0x20 := 0x40]"])
    (auto simp: dialects_apart_def nth_list_update split: if_splits)

text \<open>A frame of up to nine octets given in hexadecimal is queued as these octets; the packet has the
  octets with the identifier translated, the next sequence number and the checksum.\<close>

theorem sendframe_roundtrip:
  assumes "length bs \<le> 9"
  shows "ubus_poe_sendframe_cb (Some (show_frame bs)) p = poe_cmd_queue bs p"
  using parse_show_frame [of "[]" bs] assms by (simp add: ubus_poe_sendframe_cb_def)

theorem sendframe_roundtrip_witness:
  "show_frame [0x44, 0, 3] = '' 44 00 03''
     \<and> ubus_poe_sendframe_cb (Some '' 44 00 03'') poe_static = poe_cmd_queue [0x44, 0, 3] poe_static"
proof -
  have "show_frame [0x44, 0, 3] = '' 44 00 03''" by code_simp
  then show ?thesis using sendframe_roundtrip [of "[0x44, 0, 3]" poe_static] by simp
qed

end
