(* ===== verification/Restart_Power.thy ===== *)
theory Restart_Power
  imports Autorestart_Theorems Poe_Theorems
begin

section \<open>The restart daemon and the PoE daemon together\<close>













end
