(* ===== verification/Bpdu_Frame.thy ===== *)
theory Bpdu_Frame
  imports Mstp_Events
begin

section \<open>BPDUs as octets\<close>

text \<open>
  The packed structs of \<open>mstp.h\<close> as they are in memory and on the wire, and the header that
  \<open>MSTP_OUT_tx_bpdu\<close> puts in front. A received frame is cast to \<open>bpdu_t\<close>: \<open>bpdu_of\<close> reads the fields from
  the octets of the buffer, whatever the length of the frame; \<open>bpdu_bytes\<close> writes them.
\<close>

definition be_word :: "u8 list \<Rightarrow> 'a::len word" where
  "be_word bs = of_nat (be_val bs)"

definition field :: "nat \<Rightarrow> nat \<Rightarrow> u8 list \<Rightarrow> u8 list" where
  "field k n bs = take n (drop k bs)"

subsection \<open>The structs\<close>

definition bid_bytes :: "bridge_identifier_t \<Rightarrow> u8 list" where
  "bid_bytes i = be_bytes 2 (bi_priority i) @ be_bytes 6 (bi_mac i)"

definition bid_of :: "u8 list \<Rightarrow> bridge_identifier_t" where
  "bid_of bs = \<lparr>bi_priority = be_word (field 0 2 bs), bi_mac = be_word (field 2 6 bs)\<rparr>"

definition mst_id_bytes :: "mst_configuration_identifier_t \<Rightarrow> u8 list" where
  "mst_id_bytes c = selector c # configuration_name c @ be_bytes 2 (revision_level c) @ configuration_digest c"

definition mst_id_of :: "u8 list \<Rightarrow> mst_configuration_identifier_t" where
  "mst_id_of bs = \<lparr>selector = bs ! 0, configuration_name = field 1 32 bs, revision_level = be_word (field 33 2 bs),
     configuration_digest = field 35 16 bs\<rparr>"

definition msti_bytes :: "msti_configuration_message_t \<Rightarrow> u8 list" where
  "msti_bytes m = msti_flags m # bid_bytes (mstiRRootID m) @ be_bytes 4 (mstiIntRootPathCost m)
     @ [bridgeIdentifierPriority m, portIdentifierPriority m, msti_remainingHops m]"

definition msti_of :: "u8 list \<Rightarrow> msti_configuration_message_t" where
  "msti_of bs = \<lparr>msti_flags = bs ! 0, mstiRRootID = bid_of (field 1 8 bs),
     mstiIntRootPathCost = be_word (field 9 4 bs), bridgeIdentifierPriority = bs ! 13,
     portIdentifierPriority = bs ! 14, msti_remainingHops = bs ! 15\<rparr>"

definition bpdu_head :: "bpdu_t \<Rightarrow> u8 list" where
  "bpdu_head b = be_bytes 2 (protocolIdentifier b) @ [protocolVersion b, bpduType b, flags b]
     @ bid_bytes (cistRootID b) @ be_bytes 4 (cistExtRootPathCost b) @ bid_bytes (cistRRootID b)
     @ be_bytes 2 (cistPortID b) @ [fst (MessageAge b), snd (MessageAge b), fst (MaxAge b), snd (MaxAge b),
        fst (HelloTime b), snd (HelloTime b), fst (ForwardDelay b), snd (ForwardDelay b), version1_len b]
     @ be_bytes 2 (version3_len b) @ mst_id_bytes (mstConfigurationIdentifier b)
     @ be_bytes 4 (cistIntRootPathCost b) @ bid_bytes (cistBridgeID b) @ [cistRemainingHops b]"

definition bpdu_bytes :: "bpdu_t \<Rightarrow> u8 list" where
  "bpdu_bytes b = bpdu_head b @ concat (map msti_bytes (mstConfiguration b))"

definition bpdu_of :: "u8 list \<Rightarrow> bpdu_t" where
  "bpdu_of bs =
     \<lparr>protocolIdentifier = be_word (field 0 2 bs), protocolVersion = bs ! 2, bpduType = bs ! 3, flags = bs ! 4,
      cistRootID = bid_of (field 5 8 bs), cistExtRootPathCost = be_word (field 13 4 bs),
      cistRRootID = bid_of (field 17 8 bs), cistPortID = be_word (field 25 2 bs),
      MessageAge = (bs ! 27, bs ! 28), MaxAge = (bs ! 29, bs ! 30), HelloTime = (bs ! 31, bs ! 32),
      ForwardDelay = (bs ! 33, bs ! 34), version1_len = bs ! 35, version3_len = be_word (field 36 2 bs),
      mstConfigurationIdentifier = mst_id_of (field 38 51 bs), cistIntRootPathCost = be_word (field 89 4 bs),
      cistBridgeID = bid_of (field 93 8 bs), cistRemainingHops = bs ! 101,
      mstConfiguration = map (\<lambda>i. msti_of (field (102 + 16 * i) 16 bs)) [0 ..< MAX_STANDARD_MSTIS]\<rparr>"

text \<open>The strings of the configuration identifier have their sizes.\<close>

definition bpdu_ok :: "bpdu_t \<Rightarrow> bool" where
  "bpdu_ok b \<longleftrightarrow> length (configuration_name (mstConfigurationIdentifier b)) = 32
     \<and> length (configuration_digest (mstConfigurationIdentifier b)) = 16
     \<and> length (mstConfiguration b) \<le> MAX_STANDARD_MSTIS"

subsection \<open>Reading back\<close>

lemma be_word_bytes: "LENGTH('a) \<le> 8 * n \<Longrightarrow> be_word (be_bytes n (w :: 'a::len word)) = w"
  by (simp add: be_word_def be_val_be_bytes)

lemma nat_bytes_be_val: "nat_bytes (length bs) (be_val bs) = bs"
proof (induction bs rule: rev_induct)
  case (snoc b bs)
  have "unat b < 256" using unsigned_less [where ?'a = nat, of b] by simp
  then have "(be_val (bs @ [b])) div 256 = be_val bs" by (simp add: be_val_append)
  moreover have "of_nat (be_val (bs @ [b])) = of_nat (be_val bs) * (256 :: u8) + b" by (simp add: be_val_append)
  moreover have z: "(256 :: u8) = 0" by code_simp
  have "of_nat (be_val bs) * (256 :: u8) = 0" unfolding z by simp
  ultimately show ?case using snoc by simp
qed simp

lemma be_bytes_word:
  assumes "length bs = n" "8 * n \<le> LENGTH('a)"
  shows "be_bytes n (be_word bs :: 'a::len word) = bs"
proof -
  have "(256::nat) ^ n \<le> 2 ^ LENGTH('a)"
    using power_increasing [OF assms(2), of "2::nat"] by (simp add: power_mult)
  then have "be_val bs < 2 ^ LENGTH('a)" using be_val_bound [of bs] assms(1) by simp
  then show ?thesis
    using nat_bytes_be_val [of bs] assms(1) by (simp add: be_bytes_def be_word_def unat_of_nat take_bit_nat_eq_self)
qed

lemma length_bid_bytes [simp]: "length (bid_bytes i) = 8"
  by (simp add: bid_bytes_def)

lemma bid_of_bytes [simp]: "bid_of (bid_bytes i) = i"
  by (simp add: bid_of_def bid_bytes_def field_def be_word_bytes)

lemma length_msti_bytes [simp]: "length (msti_bytes m) = 16"
  by (simp add: msti_bytes_def)

lemma length_head: "bpdu_ok b \<Longrightarrow> length (bpdu_head b) = 102"
  by (simp add: bpdu_head_def bpdu_ok_def mst_id_bytes_def)


lemma field_append:
  "length xs \<le> k \<Longrightarrow> field k n (xs @ ys) = field (k - length xs) n ys"
  "n \<le> length xs \<Longrightarrow> field 0 n (xs @ ys) = take n xs"
  "0 < k \<Longrightarrow> field k n (x # ys) = field (k - 1) n ys"
  by (simp_all add: field_def drop_Cons')

lemma field_all: "length xs = n \<Longrightarrow> field 0 n xs = xs"
  by (simp add: field_def)

lemmas read_simps = field_append field_all be_word_bytes nth_append nth_Cons'

lemma msti_of_bytes [simp]: "msti_of (msti_bytes m) = m"
  by (simp add: msti_of_def msti_bytes_def read_simps)

lemma mst_id_of_bytes:
  "length (configuration_name c) = 32 \<Longrightarrow> length (configuration_digest c) = 16 \<Longrightarrow> mst_id_of (mst_id_bytes c) = c"
  by (simp add: mst_id_of_def mst_id_bytes_def read_simps)

lemma field_concat:
  assumes "\<And>x. x \<in> set xs \<Longrightarrow> length (f x) = n" "i < length xs"
  shows "field (n * i) n (concat (map f xs) @ ys) = f (xs ! i)"
  using assms
proof (induction xs arbitrary: i)
  case (Cons x xs)
  then show ?case by (cases i) (simp_all add: field_append)
qed simp

lemma bpdu_msgs_eq: "x\<lparr>mstConfiguration := []\<rparr> = y\<lparr>mstConfiguration := []\<rparr> \<Longrightarrow> x = y\<lparr>mstConfiguration := mstConfiguration x\<rparr>"
  by (cases x; cases y) simp

lemma length_mst_id:
  "length (configuration_name c) = 32 \<Longrightarrow> length (configuration_digest c) = 16 \<Longrightarrow> length (mst_id_bytes c) = 51"
  by (simp add: mst_id_bytes_def)

text \<open>Reading the octets of a BPDU, with anything behind them, gives its fields and its MSTI messages.\<close>

lemma bpdu_of_bytes:
  assumes "bpdu_ok b"
  shows "\<exists>ms. bpdu_of (bpdu_bytes b @ junk) = b\<lparr>mstConfiguration := mstConfiguration b @ ms\<rparr>"
proof -
  let ?n = "length (mstConfiguration b)" and ?d = "bpdu_bytes b @ junk"
  define ms where "ms = drop ?n (mstConfiguration (bpdu_of ?d))"
  have len: "length (mstConfiguration (bpdu_of ?d)) = MAX_STANDARD_MSTIS" by (simp add: bpdu_of_def)
  have "mstConfiguration (bpdu_of ?d) ! i = mstConfiguration b ! i" if "i < ?n" for i
    using that assms field_concat [of "mstConfiguration b" msti_bytes 16 i junk]
    by (simp add: bpdu_of_def bpdu_bytes_def bpdu_ok_def field_append length_head)
  then have "take ?n (mstConfiguration (bpdu_of ?d)) = mstConfiguration b"
    using assms len by (intro nth_equalityI) (simp_all add: bpdu_ok_def)
  then have "mstConfiguration (bpdu_of ?d) = mstConfiguration b @ ms"
    unfolding ms_def by (metis append_take_drop_id)
  moreover have "(bpdu_of ?d)\<lparr>mstConfiguration := []\<rparr> = b\<lparr>mstConfiguration := []\<rparr>"
    using assms
    by (simp add: bpdu_of_def bpdu_bytes_def bpdu_head_def bpdu_ok_def read_simps mst_id_of_bytes length_mst_id)
  then have "bpdu_of ?d = b\<lparr>mstConfiguration := mstConfiguration (bpdu_of ?d)\<rparr>" by (rule bpdu_msgs_eq)
  ultimately show ?thesis by metis
qed

text \<open>The validation of a received BPDU depends only on the octets of the frame.\<close>

lemma rx_validate_frame:
  assumes "take n d = take n d'" "n < 2 ^ 32"
  shows "rx_validate (bpdu_of d) (of_nat n) = rx_validate (bpdu_of d') (of_nat n)"
proof -
  have f: "field k m d = field k m d'" if "k + m \<le> n" for k m
    using arg_cong [OF assms(1), of "\<lambda>x. take m (drop k x)"] that by (simp add: field_def take_drop min_def)
  have nth: "d ! k = d' ! k" if "k < n" for k
    using arg_cong [OF assms(1), of "\<lambda>x. x ! k"] that by simp
  have sz: "of_nat n < (numeral m :: u32) \<longleftrightarrow> n < unat (numeral m :: u32)" for m
    using assms(2) by (simp add: word_less_nat_alt unat_of_nat take_bit_nat_eq_self)
  show ?thesis
  proof (cases "n < 4")
    case True
    then show ?thesis by (simp add: rx_validate_def TCN_BPDU_SIZE_def sz)
  next
    case False
    then have head: "protocolIdentifier (bpdu_of d) = protocolIdentifier (bpdu_of d')"
      "bpduType (bpdu_of d) = bpduType (bpdu_of d')" "protocolVersion (bpdu_of d) = protocolVersion (bpdu_of d')"
      using f [of 0 2] nth [of 2] nth [of 3] by (simp_all add: bpdu_of_def)
    have "n < 102 \<or> version1_len (bpdu_of d) = version1_len (bpdu_of d') \<and> version3_len (bpdu_of d) = version3_len (bpdu_of d')"
      using f [of 36 2] nth [of 35] by (auto simp: bpdu_of_def)
    then show ?thesis
      by (auto simp: rx_validate_def head sz TCN_BPDU_SIZE_def CONFIG_BPDU_SIZE_def RST_BPDU_SIZE_def
        MST_BPDU_SIZE_WO_MSTI_MSGS_def Let_def)
  qed
qed

lemma rx_validate_msgs: "rx_validate (b\<lparr>mstConfiguration := ms\<rparr>) sz = rx_validate b sz"
  by (simp add: rx_validate_def)

lemma rx_validate_sent:
  assumes "bpdu_ok b" "n \<le> length (bpdu_bytes b)" "n < 2 ^ 32"
  shows "rx_validate (bpdu_of (take n (bpdu_bytes b) @ junk)) (of_nat n) = rx_validate b (of_nat n)"
proof -
  obtain ms where "bpdu_of (bpdu_bytes b @ []) = b\<lparr>mstConfiguration := mstConfiguration b @ ms\<rparr>"
    using bpdu_of_bytes [OF assms(1)] by blast
  moreover have "rx_validate (bpdu_of (take n (bpdu_bytes b) @ junk)) (of_nat n) = rx_validate (bpdu_of (bpdu_bytes b @ [])) (of_nat n)"
    using assms(2,3) by (intro rx_validate_frame) simp_all
  ultimately show ?thesis by (simp add: rx_validate_msgs)
qed

subsection \<open>Frames\<close>

definition bridge_group_address :: "48 word" where "bridge_group_address = 0x0180c2000000"
definition LLC_PDU_LEN_U :: nat where "LLC_PDU_LEN_U = 3"
definition LLC_PDU_TYPE_U :: u8 where "LLC_PDU_TYPE_U = 3"
definition LLC_SAP_BSPAN :: u8 where "LLC_SAP_BSPAN = 0x42"

record llc_header =
  dest_addr :: "48 word"
  src_addr :: "48 word"
  len8023 :: u16
  d_sap :: u8
  s_sap :: u8
  llc_ctrl :: u8

definition llc_bytes :: "llc_header \<Rightarrow> u8 list" where
  "llc_bytes h = be_bytes 6 (dest_addr h) @ be_bytes 6 (src_addr h) @ be_bytes 2 (len8023 h)
     @ [d_sap h, s_sap h, llc_ctrl h]"

definition llc_of :: "u8 list \<Rightarrow> llc_header" where
  "llc_of bs = \<lparr>dest_addr = be_word (field 0 6 bs), src_addr = be_word (field 6 6 bs), len8023 = be_word (field 12 2 bs),
     d_sap = bs ! 14, s_sap = bs ! 15, llc_ctrl = bs ! 16\<rparr>"

text \<open>The frame that \<open>MSTP_OUT_tx_bpdu\<close> sends for a BPDU of \<open>sz\<close> octets.\<close>

definition tx_frame :: "48 word \<Rightarrow> bpdu_t \<Rightarrow> nat \<Rightarrow> u8 list" where
  "tx_frame mac b sz =
     llc_bytes \<lparr>dest_addr = bridge_group_address, src_addr = mac, len8023 = of_nat (sz + LLC_PDU_LEN_U),
       d_sap = LLC_SAP_BSPAN, s_sap = LLC_SAP_BSPAN, llc_ctrl = LLC_PDU_TYPE_U\<rparr> @ take sz (bpdu_bytes b)"

text \<open>The checks of \<open>bridge_bpdu_rcv\<close> on the headers: \<open>data\<close> is the buffer, of which \<open>len\<close> octets were
  received. The result is the size of the BPDU.\<close>

definition llc_check :: "u8 list \<Rightarrow> nat \<Rightarrow> nat option" where
  "llc_check data len =
     (let h = llc_of data; l = unat (len8023 h)
      in if len > 17 \<and> dest_addr h = bridge_group_address
            \<and> l \<le> 1500 \<and> l \<le> len - 14 \<and> l \<ge> LLC_PDU_LEN_U
            \<and> d_sap h = LLC_SAP_BSPAN \<and> s_sap h = LLC_SAP_BSPAN \<and> llc_ctrl h AND 3 = LLC_PDU_TYPE_U
         then Some (l - LLC_PDU_LEN_U) else None)"

lemma length_llc_bytes [simp]: "length (llc_bytes h) = 17"
  by (simp add: llc_bytes_def)

lemma llc_of_bytes [simp]: "llc_of (llc_bytes h @ bs) = h"
  by (simp add: llc_of_def llc_bytes_def read_simps)

text \<open>A frame as it is sent is accepted with its size, whatever the padding and the rest of the buffer.\<close>

lemma llc_check_sent:
  assumes "0 < sz" "sz \<le> 1497" "17 + sz \<le> len"
  shows "llc_check (tx_frame mac b sz @ junk) len = Some sz"
proof -
  have "unat (of_nat (sz + 3) :: u16) = sz + 3"
    using assms(2) by (simp add: unat_of_nat take_bit_nat_eq_self del: of_nat_add)
  then show ?thesis
    using assms by (simp add: llc_check_def tx_frame_def LLC_PDU_LEN_U_def LLC_PDU_TYPE_U_def Let_def)
qed

end
