(* ===== verification/Bridge_Track.thy ===== *)
theory Bridge_Track
  imports Mstp_Example Bpdu_Frame
begin

section \<open>Tracking bridges and interfaces\<close>

text \<open>
  \<open>bridge_track.c\<close>: the daemon's list of bridges, the notifications of the kernel about links, received
  frames, and the commands of the control program. It is the caller of \<open>mstp.c\<close>.

  What the daemon asks the kernel for (\<open>netif_utils.c\<close>: names, addresses, port numbers, flags, speed and duplex
  mode) is the record \<open>env\<close>, with the bounds for the state machines; the answers do not change during one
  notification or command. A bridge of the list is a \<open>tracked\<close>: its \<open>sysdeps\<close>, those of its ports, and its
  \<open>bridge_t\<close>. The name, the speed and the duplex mode of a port are in its \<open>port_t\<close>. A new port gets an address
  that was not used before, \<open>next_ref\<close>; memory comes zeroed. The two functions for the name of an index are the
  same call of \<open>if_indextoname\<close>, and the requests to the driver (\<open>driver_deps.c\<close>) are always accepted. A result \<open>None\<close> is a state machine that does not
  return within \<open>env_fuel\<close> nested calls.
\<close>

subsection \<open>Data\<close>

record env =
  index_to_name :: "int \<Rightarrow> string option"
  get_hwaddr :: "string \<Rightarrow> 48 word option"
  get_bridge_portno :: "string \<Rightarrow> int"
  get_flags :: "string \<Rightarrow> int"
  ethtool_get_speed_duplex :: "string \<Rightarrow> (int \<times> int) option"
  env_fuel :: nat
  env_rounds :: nat

record sysdep_br_data =
  sbr_index :: int
  sbr_mac :: "48 word"
  sbr_name :: string
  sbr_up :: bool

record sysdep_if_data =
  sif_index :: int
  sif_mac :: "48 word"
  sif_up :: bool

record tracked =
  sysdeps :: sysdep_br_data
  if_sysdeps :: "portref \<Rightarrow> sysdep_if_data"
  bridge :: bridge_t

record track =
  bridges :: "tracked list"
  next_ref :: portref

abbreviation br_index_of :: "tracked \<Rightarrow> int" where "br_index_of b \<equiv> sbr_index (sysdeps b)"

definition if_index_of :: "tracked \<Rightarrow> portref \<Rightarrow> int" where
  "if_index_of b p = sif_index (if_sysdeps b p)"

text \<open>Writing a bridge back into the list; the index identifies it.\<close>

definition put_br :: "tracked \<Rightarrow> track \<Rightarrow> track" where
  "put_br b d = d\<lparr>bridges := map (\<lambda>c. if br_index_of c = br_index_of b then b else c) (bridges d)\<rparr>"

subsection \<open>Bridges and ports\<close>

definition create_br :: "env \<Rightarrow> int \<Rightarrow> track \<Rightarrow> (tracked \<times> track) option" where
  "create_br e if_index d = do {
     name \<leftarrow> index_to_name e if_index;
     mac \<leftarrow> get_hwaddr e name;
     let b = \<lparr>sysdeps = \<lparr>sbr_index = if_index, sbr_mac = mac, sbr_name = name, sbr_up = False\<rparr>,
           if_sysdeps = (\<lambda>_. \<lparr>sif_index = 0, sif_mac = 0, sif_up = False\<rparr>),
           bridge = MSTP_IN_bridge_create mac memory\<rparr>;
     Some (b, d\<lparr>bridges := bridges d @ [b]\<rparr>)
   }"

definition find_br :: "int \<Rightarrow> track \<Rightarrow> tracked option" where
  "find_br if_index d = List.find (\<lambda>b. br_index_of b = if_index) (bridges d)"

definition find_if :: "tracked \<Rightarrow> int \<Rightarrow> portref option" where
  "find_if b if_index = List.find (\<lambda>p. if_index_of b p = if_index) (ports (bridge b))"

text \<open>The name, address and number of a new port, when the kernel has them.\<close>

definition new_port :: "env \<Rightarrow> int \<Rightarrow> (string \<times> 48 word \<times> int) option" where
  "new_port e if_index = do {
     name \<leftarrow> index_to_name e if_index;
     mac \<leftarrow> get_hwaddr e name;
     let portno = get_bridge_portno e name;
     if portno \<le> 0 \<or> portno > int MAX_PORT_NUMBER then None else Some (name, mac, portno)
   }"

definition create_if :: "env \<Rightarrow> portref \<Rightarrow> int \<Rightarrow> tracked \<Rightarrow> (bool \<times> tracked) option" where
  "create_if e p if_index b =
     (case new_port e if_index of
        None \<Rightarrow> Some (False, b)
      | Some (name, mac, portno) \<Rightarrow>
          map_option (\<lambda>br. (True, b\<lparr>if_sysdeps := (if_sysdeps b)(p := \<lparr>sif_index = if_index, sif_mac = mac,
              sif_up = False\<rparr>), bridge := br\<rparr>))
            (MSTP_IN_port_create_and_add_tail (env_fuel e) (env_rounds e) p (of_int portno)
              (upd_port p (\<lambda>_. zero_port\<lparr>if_name := name\<rparr>) (bridge b))))"

definition delete_if :: "env \<Rightarrow> portref \<Rightarrow> tracked \<Rightarrow> tracked option" where
  "delete_if e p b =
     map_option (\<lambda>br. b\<lparr>bridge := br\<rparr>) (MSTP_IN_delete_port (env_fuel e) (env_rounds e) p (bridge b))"

definition delete_if_byindex :: "env \<Rightarrow> int \<Rightarrow> tracked \<Rightarrow> (bool \<times> tracked) option" where
  "delete_if_byindex e if_index b =
     (case find_if b if_index of
        None \<Rightarrow> Some (False, b)
      | Some p \<Rightarrow> map_option (Pair True) (delete_if e p b))"

definition delete_br_byindex :: "env \<Rightarrow> int \<Rightarrow> track \<Rightarrow> (bool \<times> track) option" where
  "delete_br_byindex e if_index d =
     (case find_br if_index d of
        None \<Rightarrow> Some (False, d)
      | Some b \<Rightarrow> map_option (\<lambda>_. (True, d\<lparr>bridges := remove1 b (bridges d)\<rparr>))
          (MSTP_IN_delete_bridge (env_fuel e) (env_rounds e) (bridge b)))"

text \<open>The loops that take an interface away from the first other bridge that has it.\<close>

fun delete_elsewhere :: "env \<Rightarrow> int option \<Rightarrow> int \<Rightarrow> tracked list \<Rightarrow> tracked list option" where
  "delete_elsewhere e skip if_index [] = Some []"
| "delete_elsewhere e skip if_index (b # bs) =
     (if skip = Some (br_index_of b) then map_option (Cons b) (delete_elsewhere e skip if_index bs)
      else case delete_if_byindex e if_index b of
             None \<Rightarrow> None
           | Some (True, b') \<Rightarrow> Some (b' # bs)
           | Some (False, b') \<Rightarrow> map_option (Cons b') (delete_elsewhere e skip if_index bs))"

definition bridge_one_second :: "env \<Rightarrow> track \<Rightarrow> track option" where
  "bridge_one_second e d =
     map_option (\<lambda>bs. d\<lparr>bridges := bs\<rparr>)
       (those (map (\<lambda>b. map_option (\<lambda>br. b\<lparr>bridge := br\<rparr>)
         (MSTP_IN_one_second (env_fuel e) (env_rounds e) (bridge b))) (bridges d)))"

subsection \<open>State of a bridge and of a port\<close>

definition check_mac_address :: "env \<Rightarrow> string \<Rightarrow> 48 word \<Rightarrow> bool \<times> 48 word" where
  "check_mac_address e name addr =
     (case get_hwaddr e name of None \<Rightarrow> (False, addr) | Some m \<Rightarrow> (m \<noteq> addr, m))"

text \<open>The address of the bridge is read again, and \<open>mstp.c\<close> told when it has changed.\<close>

definition refresh_br_mac :: "env \<Rightarrow> tracked \<Rightarrow> tracked option" where
  "refresh_br_mac e b =
     (let (changed, mac) = check_mac_address e (sbr_name (sysdeps b)) (sbr_mac (sysdeps b));
          b = b\<lparr>sysdeps := (sysdeps b)\<lparr>sbr_mac := mac\<rparr>\<rparr>
      in if changed
         then map_option (\<lambda>br. b\<lparr>bridge := br\<rparr>)
                (MSTP_IN_set_bridge_address (env_fuel e) (env_rounds e) mac (bridge b))
         else Some b)"

definition set_br_up :: "env \<Rightarrow> bool \<Rightarrow> tracked \<Rightarrow> tracked option" where
  "set_br_up e up b = do {
     let changed = (up \<noteq> sbr_up (sysdeps b));
     b \<leftarrow> refresh_br_mac e (b\<lparr>sysdeps := (sysdeps b)\<lparr>sbr_up := up\<rparr>\<rparr>);
     if changed
     then map_option (\<lambda>br. b\<lparr>bridge := br\<rparr>)
            (MSTP_IN_set_bridge_enable (env_fuel e) (env_rounds e) up (bridge b))
     else Some b
   }"

text \<open>Speed and duplex mode of an interface that is up, with the defaults of the code.\<close>

definition link_of :: "env \<Rightarrow> string \<Rightarrow> int \<times> int" where
  "link_of e name =
     (case ethtool_get_speed_duplex e name of
        None \<Rightarrow> (10, 0)
      | Some (spd, dplx) \<Rightarrow> (if spd < 0 then 10 else spd, if dplx < 0 then 0 else dplx))"

definition set_if_up :: "env \<Rightarrow> portref \<Rightarrow> bool \<Rightarrow> tracked \<Rightarrow> tracked option" where
  "set_if_up e p up b = do {
     let (moved, mac) = check_mac_address e (if_name (port_at (bridge b) p)) (sif_mac (if_sysdeps b p));
     let b = b\<lparr>if_sysdeps := (if_sysdeps b)(p := (if_sysdeps b p)\<lparr>sif_mac := mac\<rparr>)\<rparr>;
     b \<leftarrow> (if moved then refresh_br_mac e b else Some b);
     let prt = port_at (bridge b) p;
     let (spd, dplx) = (if up then link_of e (if_name prt) else (speed prt, duplex prt));
     let changed = (spd \<noteq> speed prt \<or> dplx \<noteq> duplex prt \<or> up \<noteq> sif_up (if_sysdeps b p));
     let b = b\<lparr>if_sysdeps := (if_sysdeps b)(p := (if_sysdeps b p)\<lparr>sif_up := up\<rparr>),
           bridge := upd_port p (\<lambda>x. x\<lparr>speed := spd, duplex := dplx\<rparr>) (bridge b)\<rparr>;
     if changed
     then map_option (\<lambda>br. b\<lparr>bridge := br\<rparr>)
            (MSTP_IN_set_port_enable (env_fuel e) (env_rounds e) p up spd dplx (bridge b))
     else Some b
   }"

subsection \<open>Notifications\<close>

text \<open>An interface comes to a bridge: it is taken from any other bridge and a port is created. The boolean says
  whether the port could be created, and the address is the port's.\<close>

definition attach_if :: "env \<Rightarrow> int \<Rightarrow> tracked \<Rightarrow> track \<Rightarrow> (bool \<times> portref \<times> tracked \<times> track) option" where
  "attach_if e if_index b d = do {
     bs \<leftarrow> delete_elsewhere e (Some (br_index_of b)) if_index (bridges d);
     let p = next_ref d;
     (ok, b) \<leftarrow> create_if e p if_index b;
     Some (ok, p, b, put_br b (d\<lparr>bridges := bs, next_ref := p + 1\<rparr>))
   }"

definition notify_slave :: "env \<Rightarrow> tracked \<Rightarrow> int \<Rightarrow> bool \<Rightarrow> bool \<Rightarrow> track \<Rightarrow> (int \<times> track) option" where
  "notify_slave e b if_index newlink running d =
     (case find_if b if_index of
        None \<Rightarrow>
          if \<not> newlink then Some (-1, d)
          else do {
            (ok, p, b, d) \<leftarrow> attach_if e if_index b d;
            if \<not> ok then Some (-1, d)
            else map_option (\<lambda>b. (0, put_br b d)) (set_if_up e p running b)
          }
      | Some p \<Rightarrow>
          map_option (\<lambda>b. (0, put_br b d)) (if newlink then set_if_up e p running b else delete_if e p b))"

definition notify_other :: "env \<Rightarrow> int \<Rightarrow> int \<Rightarrow> bool \<Rightarrow> bool \<Rightarrow> track \<Rightarrow> (int \<times> track) option" where
  "notify_other e br_index if_index newlink up d =
     (if \<not> newlink then do {
        (found, d) \<leftarrow> delete_br_byindex e if_index d;
        if found then Some (0, d)
        else map_option (\<lambda>bs. (0, d\<lparr>bridges := bs\<rparr>)) (delete_elsewhere e None if_index (bridges d))
      }
      else if br_index = if_index then
        (case find_br br_index d of
           None \<Rightarrow> Some (-2, d)
         | Some b \<Rightarrow> map_option (\<lambda>b. (0, put_br b d)) (set_br_up e up b))
      else Some (0, d))"

text \<open>Bit 0 of the flags is \<open>IFF_UP\<close>, bit 6 is \<open>IFF_RUNNING\<close>.\<close>

definition bridge_notify :: "env \<Rightarrow> int \<Rightarrow> int \<Rightarrow> bool \<Rightarrow> u32 \<Rightarrow> track \<Rightarrow> (int \<times> track) option" where
  "bridge_notify e br_index if_index newlink fl d =
     (let up = bit fl 0; running = (up \<and> bit fl 6)
      in if br_index \<ge> 0 \<and> br_index \<noteq> if_index then
           (case find_br br_index d of
              None \<Rightarrow> Some (-2, d)
            | Some b \<Rightarrow> do {
                let br_flags = get_flags e (sbr_name (sysdeps b));
                b \<leftarrow> (if br_flags \<ge> 0 then set_br_up e (bit br_flags 0) b else Some b);
                notify_slave e b if_index newlink running (put_br b d)
              })
         else notify_other e br_index if_index newlink up d)"

text \<open>A received frame; \<open>data\<close> is the buffer of \<open>packet_rcv\<close>.\<close>

definition bridge_bpdu_rcv :: "env \<Rightarrow> int \<Rightarrow> u8 list \<Rightarrow> nat \<Rightarrow> track \<Rightarrow> track option" where
  "bridge_bpdu_rcv e if_index data len d =
     (case List.find (\<lambda>b. find_if b if_index \<noteq> None) (bridges d) of
        None \<Rightarrow> Some d
      | Some b \<Rightarrow>
          let p = the (find_if b if_index)
          in if \<not> sif_up (if_sysdeps b p) then Some d
             else case llc_check data len of
                    None \<Rightarrow> Some d
                  | Some sz \<Rightarrow>
                      map_option (\<lambda>br. put_br (b\<lparr>bridge := br\<rparr>) d)
                        (MSTP_IN_rx_bpdu (env_fuel e) (env_rounds e) p (bpdu_of (drop 17 data)) (of_nat sz) (bridge b)))"

subsection \<open>Commands\<close>

text \<open>The checks \<open>CTL_CHECK_*\<close>: a bridge, a port or a tree that is not found is answered with -1.\<close>

definition ctl_bridge :: "int \<Rightarrow> (bridge_t \<Rightarrow> (int \<times> bridge_t) option) \<Rightarrow> track \<Rightarrow> (int \<times> track) option" where
  "ctl_bridge br_index f d =
     (case find_br br_index d of
        None \<Rightarrow> Some (-1, d)
      | Some b \<Rightarrow> map_option (\<lambda>(r, br). (r, put_br (b\<lparr>bridge := br\<rparr>) d)) (f (bridge b)))"

definition ctl_port ::
    "int \<Rightarrow> int \<Rightarrow> (portref \<Rightarrow> bridge_t \<Rightarrow> (int \<times> bridge_t) option) \<Rightarrow> track \<Rightarrow> (int \<times> track) option" where
  "ctl_port br_index port_index f d =
     (case find_br br_index d of
        None \<Rightarrow> Some (-1, d)
      | Some b \<Rightarrow>
          (case find_if b port_index of
             None \<Rightarrow> Some (-1, d)
           | Some p \<Rightarrow> ctl_bridge br_index (f p) d))"

definition in_tree :: "mstid \<Rightarrow> (bridge_t \<Rightarrow> (int \<times> bridge_t) option) \<Rightarrow> bridge_t \<Rightarrow> (int \<times> bridge_t) option" where
  "in_tree t f br = (if t \<in> set (trees br) then f br else Some (-1, br))"

text \<open>The answer 0 or -1 for a function that returns a boolean.\<close>

definition ok_or_error :: "(bool \<times> bridge_t) option \<Rightarrow> (int \<times> bridge_t) option" where
  "ok_or_error r = map_option (\<lambda>(ok, br). (if ok then 0 else -1, br)) r"

definition CTL_set_cist_bridge_config :: "env \<Rightarrow> int \<Rightarrow> CIST_BridgeConfig \<Rightarrow> track \<Rightarrow> (int \<times> track) option" where
  "CTL_set_cist_bridge_config e i cfg = ctl_bridge i (MSTP_IN_set_cist_bridge_config (env_fuel e) (env_rounds e) cfg)"

definition CTL_set_msti_bridge_config :: "int \<Rightarrow> mstid \<Rightarrow> u8 \<Rightarrow> track \<Rightarrow> (int \<times> track) option" where
  "CTL_set_msti_bridge_config i t pri = ctl_bridge i (in_tree t (\<lambda>br. Some (MSTP_IN_set_msti_bridge_config t pri br)))"

definition CTL_set_cist_port_config :: "env \<Rightarrow> int \<Rightarrow> int \<Rightarrow> CIST_PortConfig \<Rightarrow> track \<Rightarrow> (int \<times> track) option" where
  "CTL_set_cist_port_config e i j cfg =
     ctl_port i j (\<lambda>p. MSTP_IN_set_cist_port_config (env_fuel e) (env_rounds e) p cfg)"

definition CTL_set_msti_port_config ::
    "env \<Rightarrow> int \<Rightarrow> int \<Rightarrow> mstid \<Rightarrow> MSTI_PortConfig \<Rightarrow> track \<Rightarrow> (int \<times> track) option" where
  "CTL_set_msti_port_config e i j t cfg =
     ctl_port i j (\<lambda>p. in_tree t (MSTP_IN_set_msti_port_config (env_fuel e) (env_rounds e) p t cfg))"

definition CTL_port_mcheck :: "env \<Rightarrow> int \<Rightarrow> int \<Rightarrow> track \<Rightarrow> (int \<times> track) option" where
  "CTL_port_mcheck e i j = ctl_port i j (MSTP_IN_port_mcheck (env_fuel e) (env_rounds e))"

definition CTL_create_msti :: "env \<Rightarrow> int \<Rightarrow> mstid \<Rightarrow> track \<Rightarrow> (int \<times> track) option" where
  "CTL_create_msti e i t = ctl_bridge i (\<lambda>br. ok_or_error (MSTP_IN_create_msti (env_fuel e) (env_rounds e) t br))"

definition CTL_delete_msti :: "env \<Rightarrow> int \<Rightarrow> mstid \<Rightarrow> track \<Rightarrow> (int \<times> track) option" where
  "CTL_delete_msti e i t = ctl_bridge i (\<lambda>br. ok_or_error (MSTP_IN_delete_msti (env_fuel e) (env_rounds e) t br))"

definition CTL_set_mstconfid :: "env \<Rightarrow> int \<Rightarrow> u16 \<Rightarrow> u8 list \<Rightarrow> track \<Rightarrow> (int \<times> track) option" where
  "CTL_set_mstconfid e i revision name =
     ctl_bridge i (\<lambda>br. map_option (Pair 0) (MSTP_IN_set_mst_config_id (env_fuel e) (env_rounds e) revision name br))"

definition CTL_set_vid2fid :: "env \<Rightarrow> int \<Rightarrow> u16 \<Rightarrow> u16 \<Rightarrow> track \<Rightarrow> (int \<times> track) option" where
  "CTL_set_vid2fid e i vid fid =
     ctl_bridge i (\<lambda>br. ok_or_error (MSTP_IN_set_vid2fid (env_fuel e) (env_rounds e) vid fid br))"

definition CTL_set_fid2mstid :: "env \<Rightarrow> int \<Rightarrow> u16 \<Rightarrow> mstid \<Rightarrow> track \<Rightarrow> (int \<times> track) option" where
  "CTL_set_fid2mstid e i fid t =
     ctl_bridge i (\<lambda>br. ok_or_error (MSTP_IN_set_fid2mstid (env_fuel e) (env_rounds e) fid t br))"

definition CTL_set_vids2fids :: "env \<Rightarrow> int \<Rightarrow> (nat \<Rightarrow> u16) \<Rightarrow> track \<Rightarrow> (int \<times> track) option" where
  "CTL_set_vids2fids e i vf =
     ctl_bridge i (\<lambda>br. ok_or_error (MSTP_IN_set_all_vids2fids (env_fuel e) (env_rounds e) vf br))"

definition CTL_set_fids2mstids :: "env \<Rightarrow> int \<Rightarrow> (nat \<Rightarrow> u16) \<Rightarrow> track \<Rightarrow> (int \<times> track) option" where
  "CTL_set_fids2mstids e i fm =
     ctl_bridge i (\<lambda>br. ok_or_error (MSTP_IN_set_all_fids2mstids (env_fuel e) (env_rounds e) fm br))"

text \<open>Commands that only read.\<close>

definition CTL_get_mstilist :: "int \<Rightarrow> track \<Rightarrow> mstid list option" where
  "CTL_get_mstilist i d = map_option (\<lambda>b. MSTP_IN_get_mstilist (bridge b)) (find_br i d)"

definition CTL_get_mstconfid :: "int \<Rightarrow> track \<Rightarrow> mst_configuration_identifier_t option" where
  "CTL_get_mstconfid i d = map_option (\<lambda>b. MstConfigId (bridge b)) (find_br i d)"

definition CTL_get_vids2fids :: "int \<Rightarrow> track \<Rightarrow> (nat \<Rightarrow> u16) option" where
  "CTL_get_vids2fids i d = map_option (\<lambda>b. vid2fid (bridge b)) (find_br i d)"

definition CTL_get_fids2mstids :: "int \<Rightarrow> track \<Rightarrow> (nat \<Rightarrow> u16) option" where
  "CTL_get_fids2mstids i d = map_option (\<lambda>b. fid2mstid (bridge b)) (find_br i d)"

definition CTL_bridge_is_added :: "int \<Rightarrow> track \<Rightarrow> bool" where
  "CTL_bridge_is_added i d \<longleftrightarrow> find_br i d \<noteq> None"

definition CTL_bridge_port_is_added :: "int \<Rightarrow> int \<Rightarrow> track \<Rightarrow> bool" where
  "CTL_bridge_port_is_added i j d = (case find_br i d of None \<Rightarrow> False | Some b \<Rightarrow> find_if b j \<noteq> None)"

text \<open>\<open>CTL_add_bridges\<close>: a bridge with the list of its interfaces. Ports that are not in the list are deleted,
  new ones are created; an interface for which no port can be created is left out.\<close>

definition add_iface :: "env \<Rightarrow> int \<Rightarrow> int \<Rightarrow> track \<Rightarrow> track option" where
  "add_iface e br_index if_index d =
     (case find_br br_index d of
        None \<Rightarrow> Some d
      | Some b \<Rightarrow>
          if find_if b if_index \<noteq> None then Some d
          else do {
            (ok, p, b, d) \<leftarrow> attach_if e if_index b d;
            let if_flags = get_flags e (if_name (port_at (bridge b) p));
            if ok \<and> if_flags \<ge> 0
            then map_option (\<lambda>b. put_br b d) (set_if_up e p (bit if_flags 0 \<and> bit if_flags 6) b)
            else Some d
          })"

definition drop_ifaces :: "env \<Rightarrow> int list \<Rightarrow> tracked \<Rightarrow> tracked option" where
  "drop_ifaces e ifs b =
     ofold (\<lambda>p b. if if_index_of b p \<in> set ifs then Some b else delete_if e p b) (ports (bridge b)) b"

definition get_or_create_br :: "env \<Rightarrow> int \<Rightarrow> track \<Rightarrow> (tracked \<times> track) option option" where
  "get_or_create_br e i d =
     (case find_br i d of
        Some b \<Rightarrow> Some (Some (b, d))
      | None \<Rightarrow>
          (case create_br e i d of
             None \<Rightarrow> Some None
           | Some (b, d) \<Rightarrow>
               let br_flags = get_flags e (sbr_name (sysdeps b))
               in if br_flags \<ge> 0
                  then map_option (\<lambda>b. Some (b, put_br b d)) (set_br_up e (bit br_flags 0) b)
                  else Some (Some (b, d))))"

fun CTL_add_bridges :: "env \<Rightarrow> (int \<times> int list) list \<Rightarrow> track \<Rightarrow> (int \<times> track) option" where
  "CTL_add_bridges e [] d = Some (0, d)"
| "CTL_add_bridges e ((i, ifs) # rest) d =
     (case get_or_create_br e i d of
        None \<Rightarrow> None
      | Some None \<Rightarrow> Some (-1, d)
      | Some (Some (b, d)) \<Rightarrow> do {
          b \<leftarrow> drop_ifaces e ifs b;
          d \<leftarrow> ofold (add_iface e i) ifs (put_br b d);
          CTL_add_bridges e rest d
        })"

definition CTL_del_bridges :: "env \<Rightarrow> int list \<Rightarrow> track \<Rightarrow> track option" where
  "CTL_del_bridges e = ofold (\<lambda>i d. map_option snd (delete_br_byindex e i d))"

definition bridge_track_fini :: "env \<Rightarrow> track \<Rightarrow> track option" where
  "bridge_track_fini e d =
     map_option (\<lambda>bs. d\<lparr>bridges := bs\<rparr>) (those (map (set_br_up e False) (bridges d)))"

end
