(* ===== verification/Bridge_Track_Inv.thy ===== *)
theory Bridge_Track_Inv
  imports Bridge_Track
begin

section \<open>What the daemon keeps of its bridges\<close>

text \<open>
  The invariant of the list of bridges, and that every notification, frame and command keeps it. A small
  calculus of outcomes, \<open>outcome\<close>, says at once what holds of a result and when there is one: with \<open>z\<close> no bridge has
  an MSTI, and then 51 nested calls are enough.
\<close>

subsection \<open>Outcomes\<close>

definition outcome :: "env \<Rightarrow> bool \<Rightarrow> ('a \<Rightarrow> bool) \<Rightarrow> 'a option \<Rightarrow> bool" where
  "outcome e z I r \<longleftrightarrow> (\<forall>x. r = Some x \<longrightarrow> I x) \<and> (z \<and> 51 \<le> env_fuel e \<longrightarrow> r \<noteq> None)"

lemma res_Some: "I x \<Longrightarrow> outcome e z I (Some x)"
  by (simp add: outcome_def)

lemma res_bind: "outcome e z I r \<Longrightarrow> (\<And>x. I x \<Longrightarrow> outcome e z J (f x)) \<Longrightarrow> outcome e z J (Option.bind r f)"
  by (cases r) (auto simp: outcome_def)

lemma res_map: "outcome e z I r \<Longrightarrow> (\<And>x. I x \<Longrightarrow> J (g x)) \<Longrightarrow> outcome e z J (map_option g r)"
  by (cases r) (auto simp: outcome_def)

lemma res_if: "(c \<Longrightarrow> outcome e z I r) \<Longrightarrow> (\<not> c \<Longrightarrow> outcome e z I r') \<Longrightarrow> outcome e z I (if c then r else r')"
  by simp

lemma res_weaken: "outcome e z I r \<Longrightarrow> (\<And>x. I x \<Longrightarrow> J x) \<Longrightarrow> outcome e z J r"
  by (auto simp: outcome_def)

lemma res_ofold: "(\<And>x s. x \<in> set xs \<Longrightarrow> I s \<Longrightarrow> outcome e z I (f x s)) \<Longrightarrow> I s \<Longrightarrow> outcome e z I (ofold f xs s)"
  by (induction xs arbitrary: s) (auto intro: res_Some res_bind)

lemma res_those:
  "(\<And>x. x \<in> set xs \<Longrightarrow> outcome e z (R x) (f x)) \<Longrightarrow> outcome e z (list_all2 R xs) (those (map f xs))"
proof (induction xs)
  case (Cons x xs)
  then have "outcome e z (R x) (f x)" "outcome e z (list_all2 R xs) (those (map f xs))" by simp_all
  then show ?case by (cases "f x"; cases "those (map f xs)") (auto simp: outcome_def)
qed (simp add: outcome_def)

lemmas res_intros = res_Some res_if res_bind res_map

subsection \<open>The invariant\<close>

definition if_indices :: "tracked \<Rightarrow> int list" where
  "if_indices b = map (if_index_of b) (ports (bridge b))"

definition br_ok :: "bool \<Rightarrow> portref \<Rightarrow> tracked \<Rightarrow> bool" where
  "br_ok z n b \<longleftrightarrow> reachable (bridge b) \<and> (z \<longrightarrow> trees (bridge b) = [CIST]) \<and> distinct (if_indices b)
     \<and> (\<forall>p \<in> set (ports (bridge b)). p < n)"

definition br_inv :: "bool \<Rightarrow> portref \<Rightarrow> tracked \<Rightarrow> bool" where
  "br_inv z n b \<longleftrightarrow> br_ok z n b \<and> bridgeEnabled (bridge b) = sbr_up (sysdeps b)"

definition apart :: "tracked \<Rightarrow> tracked \<Rightarrow> bool" where
  "apart b c \<longleftrightarrow> br_index_of b \<noteq> br_index_of c \<longrightarrow> set (if_indices b) \<inter> set (if_indices c) = {}"

definition bridges_inv :: "bool \<Rightarrow> portref \<Rightarrow> tracked list \<Rightarrow> bool" where
  "bridges_inv z n bs \<longleftrightarrow> distinct (map br_index_of bs) \<and> (\<forall>b \<in> set bs. br_inv z n b \<and> (\<forall>c \<in> set bs. apart b c))"

definition track_inv :: "bool \<Rightarrow> track \<Rightarrow> bool" where
  "track_inv z d \<longleftrightarrow> bridges_inv z (next_ref d) (bridges d)"

text \<open>A bridge with the same ports, and one with the same or fewer.\<close>

definition same_ifs :: "tracked \<Rightarrow> tracked \<Rightarrow> bool" where
  "same_ifs b b' \<longleftrightarrow> br_index_of b' = br_index_of b \<and> ports (bridge b') = ports (bridge b)
     \<and> (\<forall>p. if_index_of b' p = if_index_of b p)"

definition fewer_ifs :: "tracked \<Rightarrow> tracked \<Rightarrow> bool" where
  "fewer_ifs b b' \<longleftrightarrow> br_index_of b' = br_index_of b \<and> set (if_indices b') \<subseteq> set (if_indices b)"

lemma same_ifs_refl: "same_ifs b b"
  by (simp add: same_ifs_def)

lemma same_ifs_trans: "same_ifs a b \<Longrightarrow> same_ifs b c \<Longrightarrow> same_ifs a c"
  by (simp add: same_ifs_def)

lemma same_ifs_indices: "same_ifs b b' \<Longrightarrow> if_indices b' = if_indices b"
  by (simp add: same_ifs_def if_indices_def)

lemma same_fewer: "same_ifs b b' \<Longrightarrow> fewer_ifs b b'"
  using same_ifs_indices [of b b'] by (simp add: fewer_ifs_def same_ifs_def)

lemma fewer_ifs_trans: "fewer_ifs a b \<Longrightarrow> fewer_ifs b c \<Longrightarrow> fewer_ifs a c"
  by (auto simp: fewer_ifs_def)

lemma fewer_apart: "apart b c \<Longrightarrow> fewer_ifs b b' \<Longrightarrow> apart b' c"
  by (auto simp: apart_def fewer_ifs_def)

lemma apart_sym: "apart b c \<Longrightarrow> apart c b"
  by (auto simp: apart_def)

lemma replace_inv:
  assumes "bridges_inv z n bs" "br_inv z n b'" "\<And>c. c \<in> set bs \<Longrightarrow> apart b' c"
  shows "bridges_inv z n (map (\<lambda>c. if br_index_of c = br_index_of b' then b' else c) bs)"
proof -
  define f where "f c = (if br_index_of c = br_index_of b' then b' else c)" for c
  have m: "map br_index_of (map f bs) = map br_index_of bs"
    by (induction bs) (auto simp: f_def)
  have old: "br_inv z n b" "c \<in> set bs \<Longrightarrow> apart b c" if "b \<in> set bs" for b c
    using assms(1) that by (auto simp: bridges_inv_def)
  have "br_inv z n (f b) \<and> apart (f b) (f c)" if "b \<in> set bs" "c \<in> set bs" for b c
    using old [OF that(1)] that assms(2) assms(3) [OF that(1)] assms(3) [OF that(2)] apart_sym [of b' b]
    by (auto simp: f_def apart_def [of b' b'])
  then have "bridges_inv z n (map f bs)"
    unfolding bridges_inv_def m using assms(1) by (simp add: bridges_inv_def)
  moreover have "map f bs = map (\<lambda>c. if br_index_of c = br_index_of b' then b' else c) bs" by (simp add: f_def)
  ultimately show ?thesis by simp
qed

lemma put_inv:
  assumes "track_inv z d" "b \<in> set (bridges d)" "br_inv z (next_ref d) b'" "fewer_ifs b b'"
  shows "track_inv z (put_br b' d)"
proof -
  have "apart b' c" if "c \<in> set (bridges d)" for c
    using fewer_apart [OF _ assms(4), of c] assms(1,2) that by (simp add: track_inv_def bridges_inv_def)
  then show ?thesis
    using replace_inv [of z "next_ref d" "bridges d" b'] assms(1,3) by (simp add: track_inv_def put_br_def)
qed

lemma find_br_mem: "find_br i d = Some b \<Longrightarrow> b \<in> set (bridges d) \<and> br_index_of b = i"
  unfolding find_br_def by (metis (mono_tags, lifting) find_Some_iff nth_mem)

lemma find_if_mem: "find_if b i = Some p \<Longrightarrow> p \<in> set (ports (bridge b)) \<and> if_index_of b p = i"
  unfolding find_if_def by (metis (mono_tags, lifting) find_Some_iff nth_mem)

lemma find_if_None: "find_if b i = None \<longleftrightarrow> i \<notin> set (if_indices b)"
  by (auto simp: find_if_def if_indices_def find_None_iff)

lemma track_br: "track_inv z d \<Longrightarrow> find_br i d = Some b \<Longrightarrow> br_inv z (next_ref d) b \<and> b \<in> set (bridges d) \<and> br_index_of b = i"
  using find_br_mem [of i d b] by (auto simp: track_inv_def bridges_inv_def)

subsection \<open>Calls of the protocol\<close>

lemma if_index_upd [simp]:
  "if_index_of (b\<lparr>bridge := br\<rparr>) = if_index_of b" "if_index_of (b\<lparr>sysdeps := s\<rparr>) = if_index_of b"
  by (simp_all add: if_index_of_def fun_eq_iff)

lemma res_call:
  assumes "br_ok z n b" "event_ok ev (bridge b)" "z \<Longrightarrow> \<not> creates_msti ev"
  shows "outcome e z (\<lambda>br. reachable br \<and> (z \<longrightarrow> trees br = [CIST]) \<and> ports br = ports_after ev (ports (bridge b))
      \<and> bridgeEnabled br = enabled_after ev (bridgeEnabled (bridge b)))
    (handle (env_fuel e) (env_rounds e) ev (bridge b))"
proof -
  have r: "reachable (bridge b)" and t: "z \<Longrightarrow> trees (bridge b) = [CIST]" using assms(1) by (simp_all add: br_ok_def)
  have 1: "reachable br \<and> ports br = ports_after ev (ports (bridge b))
      \<and> bridgeEnabled br = enabled_after ev (bridgeEnabled (bridge b))"
    if "handle (env_fuel e) (env_rounds e) ev (bridge b) = Some br" for br
    using handle_sys [OF reachable_sys [OF r] assms(2) that] reachable.handled [OF r assms(2) that] by simp
  have inv: "ev_inv (env_fuel e) (after ev (bridge b)) (handle (env_fuel e) (env_rounds e) ev (bridge b))" if z
    using handle_ok(1) [OF reachable_sys [OF r] assms(2) assms(3) [OF that]] .
  have "trees br = [CIST]" if z "handle (env_fuel e) (env_rounds e) ev (bridge b) = Some br" for br
    using inv [OF that(1)] t [OF that(1)] that(2) by (simp add: ev_inv_def after_def)
  moreover have "handle (env_fuel e) (env_rounds e) ev (bridge b) \<noteq> None" if z "51 \<le> env_fuel e"
    using inv [OF that(1)] t [OF that(1)] that(2) by (simp add: ev_inv_def after_def)
  ultimately show ?thesis using 1 unfolding outcome_def by blast
qed

text \<open>An event that leaves the ports alone, on a bridge of the list.\<close>

lemma call_same:
  assumes "br_ok z n b" "event_ok ev (bridge b)" "z \<Longrightarrow> \<not> creates_msti ev" "\<And>ps. ports_after ev ps = ps"
  shows "outcome e z (\<lambda>b'. br_ok z n b' \<and> same_ifs b b' \<and> sysdeps b' = sysdeps b \<and> if_sysdeps b' = if_sysdeps b
      \<and> bridgeEnabled (bridge b') = enabled_after ev (bridgeEnabled (bridge b)))
    (map_option (\<lambda>br. b\<lparr>bridge := br\<rparr>) (handle (env_fuel e) (env_rounds e) ev (bridge b)))"
proof (rule res_map [OF res_call [OF assms(1,2)]], rule assms(3), assumption)
  fix br
  assume "reachable br \<and> (z \<longrightarrow> trees br = [CIST]) \<and> ports br = ports_after ev (ports (bridge b))
    \<and> bridgeEnabled br = enabled_after ev (bridgeEnabled (bridge b))"
  then show "br_ok z n (b\<lparr>bridge := br\<rparr>) \<and> same_ifs b (b\<lparr>bridge := br\<rparr>) \<and> sysdeps (b\<lparr>bridge := br\<rparr>) = sysdeps b
      \<and> if_sysdeps (b\<lparr>bridge := br\<rparr>) = if_sysdeps b
      \<and> bridgeEnabled (bridge (b\<lparr>bridge := br\<rparr>)) = enabled_after ev (bridgeEnabled (bridge b))"
    using assms(1) by (simp add: br_ok_def same_ifs_def if_indices_def assms(4))
qed

subsection \<open>Operations on one bridge\<close>

text \<open>The calls are events.\<close>

lemma call_events:
  "MSTP_IN_set_bridge_address f r mac br = handle f r (BridgeAddress mac) br"
  "MSTP_IN_set_bridge_enable f r up br = handle f r (BridgeEnable up) br"
  "MSTP_IN_set_port_enable f r p up spd dplx br = handle f r (PortEnable p up spd dplx) br"
  "MSTP_IN_one_second f r br = handle f r OneSecond br"
  "MSTP_IN_rx_bpdu f r p bpdu sz br = handle f r (RxBpdu p bpdu sz) br"
  "MSTP_IN_delete_port f r p br = handle f r (PortDelete p) br"
  "MSTP_IN_port_create_and_add_tail f r p portno br = handle f r (PortCreate p portno) br"
  by (simp_all add: handle_def)

definition stable :: "bool \<Rightarrow> portref \<Rightarrow> tracked \<Rightarrow> tracked \<Rightarrow> bool" where
  "stable z n b b' \<longleftrightarrow> br_ok z n b' \<and> same_ifs b b' \<and> sbr_up (sysdeps b') = sbr_up (sysdeps b)
     \<and> if_sysdeps b' = if_sysdeps b \<and> bridgeEnabled (bridge b') = bridgeEnabled (bridge b)"

lemma br_ok_sysdeps: "br_ok z n (b\<lparr>sysdeps := s\<rparr>) = br_ok z n b"
  by (simp add: br_ok_def if_indices_def)

lemma refresh_ok:
  assumes "br_ok z n b"
  shows "outcome e z (stable z n b) (refresh_br_mac e b)"
proof -
  obtain c mac where m: "check_mac_address e (sbr_name (sysdeps b)) (sbr_mac (sysdeps b)) = (c, mac)" by fastforce
  let ?b = "b\<lparr>sysdeps := (sysdeps b)\<lparr>sbr_mac := mac\<rparr>\<rparr>"
  have b: "br_ok z n ?b" "same_ifs b ?b" using assms by (simp_all add: br_ok_sysdeps same_ifs_def if_index_of_def)
  show ?thesis
    unfolding refresh_br_mac_def m Let_def prod.case call_events
    by (intro res_if res_weaken [OF call_same [OF b(1)]] res_Some)
      (use b in \<open>auto simp: stable_def event_ok_def after_defs intro: same_ifs_trans\<close>)
qed

lemma set_br_up_ok:
  assumes "br_inv z n b"
  shows "outcome e z (\<lambda>b'. br_inv z n b' \<and> same_ifs b b' \<and> sbr_up (sysdeps b') = up) (set_br_up e up b)"
proof -
  let ?b = "b\<lparr>sysdeps := (sysdeps b)\<lparr>sbr_up := up\<rparr>\<rparr>"
  have b: "br_ok z n ?b" "same_ifs b ?b"
    using assms by (simp_all add: br_inv_def br_ok_sysdeps same_ifs_def if_index_of_def)
  show ?thesis
    unfolding set_br_up_def Let_def
  proof (rule res_bind [OF refresh_ok [OF b(1)]])
    fix b1
    assume 1: "stable z n ?b b1"
    then have ok: "br_ok z n b1" "same_ifs b b1" using b(2) by (auto simp: stable_def intro: same_ifs_trans)
    show "outcome e z (\<lambda>b'. br_inv z n b' \<and> same_ifs b b' \<and> sbr_up (sysdeps b') = up)
      (if up \<noteq> sbr_up (sysdeps b) then map_option (\<lambda>br. b1\<lparr>bridge := br\<rparr>)
         (MSTP_IN_set_bridge_enable (env_fuel e) (env_rounds e) up (bridge b1)) else Some b1)"
      unfolding call_events
      by (intro res_if res_weaken [OF call_same [OF ok(1)]] res_Some)
        (use 1 ok assms in \<open>auto simp: stable_def br_inv_def event_ok_def after_defs intro: same_ifs_trans\<close>)
  qed
qed

lemma delete_if_ok:
  assumes "br_inv z n b" "p \<in> set (ports (bridge b))"
  shows "outcome e z (\<lambda>b'. br_inv z n b' \<and> br_index_of b' = br_index_of b \<and> if_sysdeps b' = if_sysdeps b
    \<and> ports (bridge b') = remove1 p (ports (bridge b))) (delete_if e p b)"
proof -
  have ok: "br_ok z n b" using assms(1) by (simp add: br_inv_def)
  have "distinct (map (if_index_of b) (remove1 p (ports (bridge b))))"
    using ok by (simp add: br_ok_def if_indices_def distinct_map inj_on_def)
  then show ?thesis
    unfolding delete_if_def call_events
    by (intro res_map [OF res_call [OF ok]])
      (use assms in \<open>auto simp: br_inv_def br_ok_def if_indices_def event_ok_def after_defs dest: notin_set_remove1\<close>)
qed

lemma set_if_up_ok:
  assumes "br_inv z n b" "p \<in> set (ports (bridge b))"
  shows "outcome e z (\<lambda>b'. br_inv z n b' \<and> same_ifs b b' \<and> sif_up (if_sysdeps b' p) = up) (set_if_up e p up b)"
proof -
  obtain c mac where m: "check_mac_address e (if_name (port_at (bridge b) p)) (sif_mac (if_sysdeps b p)) = (c, mac)"
    by fastforce
  define b0 where "b0 = b\<lparr>if_sysdeps := (if_sysdeps b)(p := (if_sysdeps b p)\<lparr>sif_mac := mac\<rparr>)\<rparr>"
  have "if_index_of b0 = if_index_of b" by (auto simp: b0_def if_index_of_def fun_eq_iff)
  then have b0: "br_ok z n b0" "same_ifs b b0" "bridgeEnabled (bridge b0) = sbr_up (sysdeps b0)"
    using assms(1) by (simp_all add: b0_def br_inv_def br_ok_def same_ifs_def if_indices_def)
  have "outcome e z (stable z n b0) (if c then refresh_br_mac e b0 else Some b0)"
    using refresh_ok [OF b0(1)] b0(1) by (auto simp: stable_def same_ifs_refl intro: res_Some)
  then show ?thesis
    unfolding set_if_up_def m Let_def prod.case b0_def [symmetric]
  proof (rule res_bind, goal_cases)
    case (1 b1)
    obtain spd dplx where l: "(if up then link_of e (if_name (port_at (bridge b1) p))
        else (speed (port_at (bridge b1) p), duplex (port_at (bridge b1) p))) = (spd, dplx)" by fastforce
    define b2 where "b2 = b1\<lparr>if_sysdeps := (if_sysdeps b1)(p := (if_sysdeps b1 p)\<lparr>sif_up := up\<rparr>),
      bridge := upd_port p (\<lambda>x. x\<lparr>speed := spd, duplex := dplx\<rparr>) (bridge b1)\<rparr>"
    have "handle 0 0 (PortLink p spd dplx) (bridge b1) = Some (bridge b2)" by (simp add: handle_def b2_def)
    then have "reachable (bridge b2)"
      using 1 by (auto simp: stable_def br_ok_def event_ok_def intro: reachable.handled [of _ "PortLink p spd dplx"])
    moreover have "if_index_of b2 = if_index_of b1" by (auto simp: b2_def if_index_of_def fun_eq_iff)
    ultimately have 2: "br_ok z n b2" "same_ifs b b2" "bridgeEnabled (bridge b2) = sbr_up (sysdeps b2)"
        "p \<in> set (ports (bridge b2))"
      using 1 b0 assms(2) by (auto simp: b2_def stable_def br_ok_def same_ifs_def if_indices_def)
    have up: "sif_up (if_sysdeps b2 p) = up" by (simp add: b2_def)
    show ?case
      unfolding l prod.case b2_def [symmetric] call_events
      by (intro res_if res_weaken [OF call_same [OF 2(1)]] res_Some)
        (use 2 up in \<open>auto simp: br_inv_def event_ok_def after_defs intro: same_ifs_trans\<close>)
  qed
qed

lemma create_if_ok:
  assumes "br_inv z n b" "i \<notin> set (if_indices b)"
  shows "outcome e z (\<lambda>(ok, b'). br_inv z (n + 1) b' \<and> br_index_of b' = br_index_of b
      \<and> if_indices b' = if_indices b @ (if ok then [i] else []) \<and> (ok \<longrightarrow> n \<in> set (ports (bridge b')) \<and> if_index_of b' n = i))
    (create_if e n i b)"
proof (cases "new_port e i")
  case None
  with assms(1) show ?thesis
    by (auto simp: create_if_def br_inv_def br_ok_def intro!: res_Some)
next
  case (Some t)
  obtain name mac portno where t: "t = (name, mac, portno)" by (metis prod_cases3)
  define b0 where "b0 = b\<lparr>bridge := upd_port n (\<lambda>_. zero_port\<lparr>if_name := name\<rparr>) (bridge b)\<rparr>"
  have n: "n \<notin> set (ports (bridge b))" using assms(1) by (auto simp: br_inv_def br_ok_def)
  have "handle 0 0 (PortAlloc n (zero_port\<lparr>if_name := name\<rparr>)) (bridge b) = Some (bridge b0)"
    by (simp add: handle_def b0_def)
  then have "reachable (bridge b0)"
    using assms(1) n by (auto simp: br_inv_def br_ok_def event_ok_def
        intro: reachable.handled [of _ "PortAlloc n (zero_port\<lparr>if_name := name\<rparr>)"])
  then have b0: "br_ok z n b0" using assms(1) by (simp add: b0_def br_inv_def br_ok_def if_indices_def)
  define b1 where "b1 = b\<lparr>if_sysdeps := (if_sysdeps b)(n := \<lparr>sif_index = i, sif_mac = mac, sif_up = False\<rparr>)\<rparr>"
  have b1: "if_index_of b1 q = (if q = n then i else if_index_of b q)" "sysdeps b1 = sysdeps b" for q
    by (simp_all add: b1_def if_index_of_def)
  then have m: "map (if_index_of b1) (ports (bridge b)) = if_indices b" using n by (auto simp: if_indices_def)
  have "b\<lparr>if_sysdeps := (if_sysdeps b)(n := \<lparr>sif_index = i, sif_mac = mac, sif_up = False\<rparr>), bridge := br\<rparr> = b1\<lparr>bridge := br\<rparr>" for br
    by (simp add: b1_def)
  moreover have "upd_port n (\<lambda>_. zero_port\<lparr>if_name := name\<rparr>) (bridge b) = bridge b0" by (simp add: b0_def)
  moreover have "ports (bridge b0) = ports (bridge b)" "bridgeEnabled (bridge b0) = bridgeEnabled (bridge b)"
    by (simp_all add: b0_def)
  ultimately show ?thesis
    unfolding create_if_def Some t option.case prod.case call_events
    using assms b0 n
    by (simp only:) (intro res_map [OF res_call [OF b0]],
      auto simp: br_inv_def br_ok_def if_indices_def [of "b1\<lparr>bridge := br\<rparr>" for br] event_ok_def after_defs b1 m)
qed

lemma removed_index:
  assumes "br_inv z n b" "find_if b i = Some p" "if_sysdeps b' = if_sysdeps b" "br_index_of b' = br_index_of b"
    "ports (bridge b') = remove1 p (ports (bridge b))"
  shows "fewer_ifs b b' \<and> i \<notin> set (if_indices b')"
proof -
  have p: "p \<in> set (ports (bridge b))" "if_index_of b p = i" using find_if_mem [OF assms(2)] by simp_all
  have idx: "if_index_of b' = if_index_of b" by (simp add: if_index_of_def fun_eq_iff assms(3))
  have d: "distinct (ports (bridge b))" "inj_on (if_index_of b) (set (ports (bridge b)))"
    using assms(1) by (simp_all add: br_inv_def br_ok_def if_indices_def distinct_map)
  then show ?thesis
    using p assms(4,5) by (auto simp: fewer_ifs_def if_indices_def idx inj_on_def)
qed

lemma delete_if_byindex_ok:
  assumes "br_inv z n b"
  shows "outcome e z (\<lambda>(found, b'). br_inv z n b' \<and> fewer_ifs b b' \<and> i \<notin> set (if_indices b') \<and> found = (i \<in> set (if_indices b)))
    (delete_if_byindex e i b)"
proof (cases "find_if b i")
  case None
  with assms show ?thesis
    using find_if_None [of b i] same_fewer [OF same_ifs_refl] by (auto simp: delete_if_byindex_def intro!: res_Some)
next
  case (Some p)
  have "i \<in> set (if_indices b)" using Some find_if_None [of b i] by auto
  then show ?thesis
    unfolding delete_if_byindex_def Some option.case
    using removed_index [OF assms Some]
    by (intro res_map [OF delete_if_ok [OF assms]]) (use find_if_mem [OF Some] in auto)
qed

definition inv_fewer :: "bool \<Rightarrow> portref \<Rightarrow> tracked \<Rightarrow> tracked \<Rightarrow> bool" where
  "inv_fewer z n b b' \<longleftrightarrow> br_inv z n b' \<and> fewer_ifs b b'"

lemma all2_inv:
  assumes "bridges_inv z n bs" "list_all2 (inv_fewer z n) bs bs'"
  shows "bridges_inv z n bs'"
proof -
  have len: "length bs' = length bs" and el: "\<And>k. k < length bs \<Longrightarrow> inv_fewer z n (bs ! k) (bs' ! k)"
    using assms(2) by (simp_all add: list_all2_conv_all_nth)
  have "map br_index_of bs' = map br_index_of bs"
    using len el by (intro nth_equalityI) (auto simp: inv_fewer_def fewer_ifs_def)
  moreover have "br_inv z n b' \<and> apart b' c'" if bc: "b' \<in> set bs'" "c' \<in> set bs'" for b' c'
  proof -
    obtain k l where kl: "b' = bs' ! k" "k < length bs" "c' = bs' ! l" "l < length bs"
      using bc len by (auto simp: in_set_conv_nth)
    then have a: "apart (bs ! k) (bs ! l)" using assms(1) by (simp add: bridges_inv_def)
    have f: "fewer_ifs (bs ! k) b'" "fewer_ifs (bs ! l) c'" using el kl by (simp_all add: inv_fewer_def)
    have "apart b' c'" by (rule apart_sym [OF fewer_apart [OF apart_sym [OF fewer_apart [OF a f(1)]] f(2)]])
    with kl el [of k] show ?thesis by (simp add: inv_fewer_def)
  qed
  ultimately show ?thesis using assms(1) by (auto simp: bridges_inv_def)
qed

lemma inv_fewer_refl: "br_inv z n b \<Longrightarrow> inv_fewer z n b b"
  by (simp add: inv_fewer_def fewer_ifs_def)

definition gone :: "int option \<Rightarrow> int \<Rightarrow> tracked \<Rightarrow> tracked \<Rightarrow> bool" where
  "gone skip i b b' \<longleftrightarrow> (if skip = Some (br_index_of b) then b' = b else i \<notin> set (if_indices b'))"

lemma delete_elsewhere_ok:
  assumes "bridges_inv z n bs"
  shows "outcome e z (\<lambda>bs'. list_all2 (inv_fewer z n) bs bs'
      \<and> list_all2 (gone skip i) bs bs')
    (delete_elsewhere e skip i bs)"
  using assms
proof (induction bs)
  case Nil
  then show ?case by (simp add: res_Some)
next
  case (Cons b bs)
  have b: "br_inv z n b" and bs: "bridges_inv z n bs" using Cons.prems by (auto simp: bridges_inv_def)
  note IH = Cons.IH [OF bs]
  show ?case
  proof (cases "skip = Some (br_index_of b)")
    case True
    then have "delete_elsewhere e skip i (b # bs) = map_option (Cons b) (delete_elsewhere e skip i bs)" by simp
    moreover have "gone skip i b b" "inv_fewer z n b b" using True b by (simp_all add: gone_def inv_fewer_refl)
    ultimately show ?thesis by (simp only:) (rule res_map [OF IH], simp)
  next
    case False
    have rest: "list_all2 (gone skip i) bs bs"
        "list_all2 (inv_fewer z n) bs bs" if "i \<in> set (if_indices b)"
      using Cons.prems bs that
      by (force simp: bridges_inv_def apart_def list_all2_same gone_def intro: inv_fewer_refl)+
    have "outcome e z (\<lambda>bs'. list_all2 (inv_fewer z n) (b # bs) bs'
        \<and> list_all2 (gone skip i) (b # bs) bs')
      (Option.bind (delete_if_byindex e i b) (\<lambda>(found, b'). if found then Some (b' # bs)
         else map_option (Cons b') (delete_elsewhere e skip i bs)))"
      by (rule res_bind [OF delete_if_byindex_ok [OF b, where i = i]])
        (auto simp: inv_fewer_def gone_def [of _ _ b] False intro!: res_Some res_map [OF IH] rest split: if_splits)
    then show ?thesis
      using False by (auto split: option.splits bool.splits simp: Option.bind_def)
  qed
qed

subsection \<open>Notifications and frames\<close>

lemma br_inv_Suc: "br_inv z n b \<Longrightarrow> br_inv z (n + 1) b"
  by (auto simp: br_inv_def br_ok_def)

lemma bridges_inv_Suc: "bridges_inv z n bs \<Longrightarrow> bridges_inv z (n + 1) bs"
  unfolding bridges_inv_def using br_inv_Suc by blast

text \<open>What is true after an interface has been attached: it has a port on this bridge and on no other.\<close>

definition only_on :: "int \<Rightarrow> tracked \<Rightarrow> track \<Rightarrow> bool" where
  "only_on i b d \<longleftrightarrow> (\<forall>c \<in> set (bridges d). i \<in> set (if_indices c) \<longrightarrow> br_index_of c = br_index_of b)"

lemma attach_ok:
  assumes inv: "track_inv z d" and b: "b \<in> set (bridges d)" and i: "i \<notin> set (if_indices b)"
  shows "outcome e z (\<lambda>(ok, p, b', d'). track_inv z d' \<and> b' \<in> set (bridges d') \<and> br_index_of b' = br_index_of b
      \<and> only_on i b' d' \<and> (ok \<longrightarrow> p \<in> set (ports (bridge b')) \<and> if_index_of b' p = i)) (attach_if e i b d)"
  unfolding attach_if_def Let_def
proof (rule res_bind [OF delete_elsewhere_ok [of z "next_ref d" "bridges d"]], goal_cases)
  case 1
  then show ?case using inv by (simp add: track_inv_def)
next
  case (2 bs)
  have bs: "bridges_inv z (next_ref d) bs" using all2_inv [of z "next_ref d" "bridges d" bs] 2 inv by (simp add: track_inv_def)
  have bi: "br_inv z (next_ref d) b" using inv b by (simp add: track_inv_def bridges_inv_def)
  have idx: "map br_index_of bs = map br_index_of (bridges d)"
    using 2 by (auto simp: inv_fewer_def fewer_ifs_def list_all2_conv_all_nth intro: nth_equalityI)
  have mem: "b \<in> set bs"
  proof -
    obtain k where k: "k < length (bridges d)" "b = bridges d ! k" using b by (auto simp: in_set_conv_nth)
    then have "gone (Some (br_index_of b)) i b (bs ! k)" using 2 by (auto simp: list_all2_conv_all_nth)
    then have "bs ! k = b" by (simp add: gone_def)
    with k idx show ?thesis by (metis length_map nth_mem)
  qed
  have other: "i \<notin> set (if_indices c)" if c: "c \<in> set bs" "br_index_of c \<noteq> br_index_of b" for c
  proof -
    obtain k where k: "k < length bs" "c = bs ! k" using c(1) by (auto simp: in_set_conv_nth)
    then have "gone (Some (br_index_of b)) i (bridges d ! k) c" "inv_fewer z (next_ref d) (bridges d ! k) c"
      using 2 by (auto simp: list_all2_conv_all_nth)
    then show ?thesis using c(2) by (auto simp: gone_def inv_fewer_def fewer_ifs_def split: if_splits)
  qed
  show ?case
  proof (rule res_bind [OF create_if_ok [OF bi i]], goal_cases)
    case (1 r)
    obtain ok b' where r: "r = (ok, b')" by fastforce
    with 1 have b': "br_inv z (next_ref d + 1) b'" "br_index_of b' = br_index_of b"
      "if_indices b' = if_indices b @ (if ok then [i] else [])"
      "ok \<longrightarrow> next_ref d \<in> set (ports (bridge b')) \<and> if_index_of b' (next_ref d) = i" by simp_all
    have "apart b' c" if "c \<in> set bs" for c
    proof -
      have "apart b c" using bs that mem by (simp add: bridges_inv_def)
      with other [OF that] show ?thesis by (auto simp: apart_def b')
    qed
    then have put: "track_inv z (put_br b' (d\<lparr>bridges := bs, next_ref := next_ref d + 1\<rparr>))"
      using replace_inv [OF bridges_inv_Suc [OF bs] b'(1)] by (simp add: track_inv_def put_br_def)
    have "b' \<in> set (bridges (put_br b' (d\<lparr>bridges := bs, next_ref := next_ref d + 1\<rparr>)))"
      using mem b'(2) by (auto simp: put_br_def intro: image_eqI [of _ _ b])
    moreover have "only_on i b' (put_br b' (d\<lparr>bridges := bs, next_ref := next_ref d + 1\<rparr>))"
      using other b'(2) by (auto simp: only_on_def put_br_def)
    ultimately show ?case unfolding r prod.case using put b' by (intro res_Some) simp
  qed
qed

lemma put_mem: "b \<in> set (bridges d) \<Longrightarrow> br_index_of b' = br_index_of b \<Longrightarrow> b' \<in> set (bridges (put_br b' d))"
  by (auto simp: put_br_def intro: image_eqI [of _ _ b])

lemma put_set: "c \<in> set (bridges (put_br b' d)) \<Longrightarrow> c = b' \<or> c \<in> set (bridges d) \<and> br_index_of c \<noteq> br_index_of b'"
  by (auto simp: put_br_def split: if_splits)

lemma put_next [simp]: "next_ref (put_br b d) = next_ref d"
  by (simp add: put_br_def)

text \<open>Where an interface is after a notification.\<close>

definition attached :: "int \<Rightarrow> bool \<Rightarrow> int \<Rightarrow> track \<Rightarrow> bool" where
  "attached i up k d \<longleftrightarrow> (\<exists>b \<in> set (bridges d). br_index_of b = k
       \<and> (\<exists>p \<in> set (ports (bridge b)). if_index_of b p = i \<and> sif_up (if_sysdeps b p) = up))
     \<and> (\<forall>c \<in> set (bridges d). br_index_of c \<noteq> k \<longrightarrow> i \<notin> set (if_indices c))"

definition detached :: "int \<Rightarrow> track \<Rightarrow> bool" where
  "detached i d \<longleftrightarrow> (\<forall>c \<in> set (bridges d). i \<notin> set (if_indices c))"

definition notified :: "bool \<Rightarrow> int \<Rightarrow> bool \<Rightarrow> bool \<Rightarrow> int \<Rightarrow> int \<times> track \<Rightarrow> bool" where
  "notified z i newlink up k = (\<lambda>(r, d). track_inv z d
     \<and> (r = 0 \<longrightarrow> (if newlink then attached i up k d else detached i d)))"

lemma br_of_track: "track_inv z d \<Longrightarrow> b \<in> set (bridges d) \<Longrightarrow> br_inv z (next_ref d) b"
  by (simp add: track_inv_def bridges_inv_def)

lemma port_up_ok:
  assumes "track_inv z d" "b \<in> set (bridges d)" "p \<in> set (ports (bridge b))" "if_index_of b p = i"
    and others: "\<And>c. c \<in> set (bridges d) \<Longrightarrow> br_index_of c \<noteq> br_index_of b \<Longrightarrow> i \<notin> set (if_indices c)"
  shows "outcome e z (notified z i True up (br_index_of b)) (map_option (\<lambda>b. (0, put_br b d)) (set_if_up e p up b))"
proof (rule res_map [OF set_if_up_ok [OF br_of_track [OF assms(1,2)] assms(3)]], elim conjE)
  fix b'
  assume b': "br_inv z (next_ref d) b'" "same_ifs b b'" "sif_up (if_sysdeps b' p) = up"
  then have k: "br_index_of b' = br_index_of b" "p \<in> set (ports (bridge b'))" "if_index_of b' p = i"
    using assms(3,4) by (simp_all add: same_ifs_def)
  have "track_inv z (put_br b' d)" by (rule put_inv [OF assms(1,2) b'(1) same_fewer [OF b'(2)]])
  moreover have "attached i up (br_index_of b) (put_br b' d)"
    using put_mem [OF assms(2) k(1)] put_set [of _ b' d] others k b'(3) by (fastforce simp: attached_def)
  ultimately show "notified z i True up (br_index_of b) (0, put_br b' d)" by (simp add: notified_def)
qed

lemma has_only:
  assumes "track_inv z d" "b \<in> set (bridges d)" "i \<in> set (if_indices b)" "c \<in> set (bridges d)" "br_index_of c \<noteq> br_index_of b"
  shows "i \<notin> set (if_indices c)"
  using assms by (auto simp: track_inv_def bridges_inv_def apart_def)

lemma notify_slave_ok:
  assumes inv: "track_inv z d" and b: "b \<in> set (bridges d)"
  shows "outcome e z (notified z i newlink up (br_index_of b)) (notify_slave e b i newlink up d)"
proof (cases "find_if b i")
  case None
  then have i: "i \<notin> set (if_indices b)" by (simp add: find_if_None)
  have "outcome e z (notified z i True up (br_index_of b)) (Option.bind (attach_if e i b d) (\<lambda>(ok, p, b, d).
      if \<not> ok then Some (-1, d) else map_option (\<lambda>b. (0, put_br b d)) (set_if_up e p up b)))"
  proof (rule res_bind [OF attach_ok [OF inv b i]], goal_cases)
    case (1 x)
    obtain ok p b' d' where x: "x = (ok, p, b', d')" by (metis prod_cases4)
    with 1 have d': "track_inv z d'" "b' \<in> set (bridges d')" "br_index_of b' = br_index_of b" "only_on i b' d'"
      "ok \<longrightarrow> p \<in> set (ports (bridge b')) \<and> if_index_of b' p = i" by simp_all
    show ?case
    proof (cases ok)
      case True
      then show ?thesis using port_up_ok [OF d'(1,2), of p i e up] d' by (auto simp: x only_on_def)
    next
      case False
      then show ?thesis by (simp add: x notified_def d' res_Some)
    qed
  qed
  then show ?thesis
    using None inv by (cases newlink) (simp_all add: notify_slave_def notified_def res_Some)
next
  case (Some p)
  have p: "p \<in> set (ports (bridge b))" "if_index_of b p = i" using find_if_mem [OF Some] by simp_all
  then have i: "i \<in> set (if_indices b)" by (auto simp: if_indices_def)
  note others = has_only [OF inv b i]
  note bi = br_of_track [OF inv b]
  have "outcome e z (notified z i False up (br_index_of b)) (map_option (\<lambda>b. (0, put_br b d)) (delete_if e p b))"
  proof (rule res_map [OF delete_if_ok [OF bi p(1)]], elim conjE)
    fix b'
    assume b': "br_inv z (next_ref d) b'" "br_index_of b' = br_index_of b" "if_sysdeps b' = if_sysdeps b"
      "ports (bridge b') = remove1 p (ports (bridge b))"
    note f = removed_index [OF bi Some b'(3,2,4)]
    have "track_inv z (put_br b' d)" using put_inv [OF inv b b'(1)] f by simp
    moreover have "detached i (put_br b' d)"
      using put_set [of _ b' d] f others b'(2) by (fastforce simp: detached_def)
    ultimately show "notified z i False up (br_index_of b) (0, put_br b' d)" by (simp add: notified_def)
  qed
  then show ?thesis
    using port_up_ok [OF inv b p others, of e up] Some by (cases newlink) (simp_all add: notify_slave_def)
qed

lemma delete_bridge_returns:
  assumes "br_ok z n b"
  shows "outcome e z (\<lambda>_. True) (MSTP_IN_delete_bridge (env_fuel e) (env_rounds e) (bridge b))"
proof -
  let ?I = "\<lambda>br. sys_inv br \<and> (z \<longrightarrow> trees br = [CIST])"
  have "weak_inv ((bridge b)\<lparr>bridgeEnabled := False\<rparr>)"
    using assms by (intro weak_enable sys_weak reachable_sys) (simp add: br_ok_def)
  then have "?I ((bridge b)\<lparr>bridgeEnabled := False\<rparr>)"
    using assms by (simp add: sys_inv_def pre_inv_def br_ok_def)
  then have "outcome e z ?I (ofold (MSTP_IN_delete_port (env_fuel e) (env_rounds e)) ps ((bridge b)\<lparr>bridgeEnabled := False\<rparr>))" for ps
    by (rule res_ofold [rotated]) (use delete_port_ok in \<open>fastforce simp: outcome_def ev_ok_def\<close>)
  then show ?thesis
    unfolding MSTP_IN_delete_bridge_def Let_def by (rule res_bind) (simp add: res_Some)
qed

lemma delete_br_ok:
  assumes "track_inv z d"
  shows "outcome e z (\<lambda>(found, d'). track_inv z d' \<and> (found \<longrightarrow> find_br i d \<noteq> None) \<and> (\<not> found \<longrightarrow> d' = d)) (delete_br_byindex e i d)"
proof (cases "find_br i d")
  case None
  with assms show ?thesis by (simp add: delete_br_byindex_def res_Some)
next
  case (Some b)
  have b: "br_inv z (next_ref d) b" using track_br [OF assms Some] by simp
  have "track_inv z (d\<lparr>bridges := remove1 b (bridges d)\<rparr>)"
    using assms distinct_map [of br_index_of "bridges d"]
    by (auto simp: track_inv_def bridges_inv_def distinct_map inj_on_def dest: notin_set_remove1)
  then show ?thesis
    unfolding delete_br_byindex_def Some option.case
    by (intro res_map [OF delete_bridge_returns [of z "next_ref d" b]]) (use b Some in \<open>simp_all add: br_inv_def\<close>)
qed

lemma elsewhere_track:
  assumes "track_inv z d"
  shows "outcome e z (\<lambda>bs. track_inv z (d\<lparr>bridges := bs\<rparr>)) (delete_elsewhere e skip i (bridges d))"
  using assms
  by (intro res_weaken [OF delete_elsewhere_ok [of z "next_ref d" "bridges d"]]) (auto simp: track_inv_def intro: all2_inv)

lemma br_up_track:
  assumes "track_inv z d" "b \<in> set (bridges d)"
  shows "outcome e z (\<lambda>b'. track_inv z (put_br b' d) \<and> b' \<in> set (bridges (put_br b' d)) \<and> br_index_of b' = br_index_of b)
    (set_br_up e up b)"
  by (rule res_weaken [OF set_br_up_ok [OF br_of_track [OF assms]]])
    (use put_inv [OF assms] put_mem [OF assms(2)] same_fewer in \<open>auto simp: same_ifs_def\<close>)

lemma notify_other_ok:
  assumes "track_inv z d"
  shows "outcome e z (\<lambda>(r, d'). track_inv z d') (notify_other e k i newlink up d)"
proof -
  have "outcome e z (\<lambda>(r, d'). track_inv z d') (Option.bind (delete_br_byindex e i d) (\<lambda>(found, d).
      if found then Some (0, d) else map_option (\<lambda>bs. (0, d\<lparr>bridges := bs\<rparr>)) (delete_elsewhere e None i (bridges d))))"
    by (rule res_bind [OF delete_br_ok [OF assms, where i = i]])
      (auto intro!: res_Some res_map [OF elsewhere_track] split: if_splits)
  moreover have "outcome e z (\<lambda>(r, d'). track_inv z d') (map_option (\<lambda>b. (0, put_br b d)) (set_br_up e up b))"
    if "find_br k d = Some b" for b
    using track_br [OF assms that] by (intro res_map [OF br_up_track [OF assms, of b]]) auto
  ultimately show ?thesis
    using assms by (auto simp: notify_other_def intro: res_Some split: option.split)
qed

text \<open>A notification about a port of a bridge that the daemon tracks.\<close>

lemma bridge_notify_slave_ok:
  assumes "track_inv z d" "0 \<le> k" "k \<noteq> i" "find_br k d = Some b"
  shows "outcome e z (notified z i newlink (bit fl 0 \<and> bit fl 6) k) (bridge_notify e k i newlink fl d)"
proof -
  let ?f = "get_flags e (sbr_name (sysdeps b))"
  have b: "b \<in> set (bridges d)" "br_index_of b = k" using find_br_mem [OF assms(4)] by simp_all
  have "put_br b d = d"
  proof -
    have "c = b" if "c \<in> set (bridges d)" "br_index_of c = br_index_of b" for c
      using that b(1) assms(1) by (auto simp: track_inv_def bridges_inv_def distinct_map inj_on_def)
    then have "map (\<lambda>c. if br_index_of c = br_index_of b then b else c) (bridges d) = bridges d"
      by (intro map_idI) auto
    then show ?thesis by (simp add: put_br_def)
  qed
  then have "outcome e z (\<lambda>b'. track_inv z (put_br b' d) \<and> b' \<in> set (bridges (put_br b' d)) \<and> br_index_of b' = k)
      (if ?f \<ge> 0 then set_br_up e (bit ?f 0) b else Some b)"
    using br_up_track [OF assms(1) b(1)] b assms(1) by (auto intro: res_Some)
  then have "outcome e z (notified z i newlink (bit fl 0 \<and> bit fl 6) k)
      (Option.bind (if ?f \<ge> 0 then set_br_up e (bit ?f 0) b else Some b)
        (\<lambda>b. notify_slave e b i newlink (bit fl 0 \<and> bit fl 6) (put_br b d)))"
    by (rule res_bind) (use notify_slave_ok in fastforce)
  then show ?thesis using assms by (simp add: bridge_notify_def Let_def)
qed

lemma bridge_notify_ok:
  assumes "track_inv z d"
  shows "outcome e z (\<lambda>(r, d'). track_inv z d') (bridge_notify e k i newlink fl d)"
proof (cases "0 \<le> k \<and> k \<noteq> i")
  case True
  show ?thesis
  proof (cases "find_br k d")
    case None
    with True assms show ?thesis by (simp add: bridge_notify_def res_Some)
  next
    case (Some b)
    show ?thesis
      by (rule res_weaken [OF bridge_notify_slave_ok [OF assms _ _ Some]]) (use True in \<open>auto simp: notified_def\<close>)
  qed
next
  case False
  then show ?thesis using notify_other_ok [OF assms] by (auto simp: bridge_notify_def Let_def)
qed

lemma one_bridge_ok:
  assumes "track_inv z d" "b \<in> set (bridges d)" "event_ok ev (bridge b)" "z \<Longrightarrow> \<not> creates_msti ev"
    "\<And>ps. ports_after ev ps = ps" "\<And>x. enabled_after ev x = x"
  shows "outcome e z (\<lambda>br. inv_fewer z (next_ref d) b (b\<lparr>bridge := br\<rparr>) \<and> track_inv z (put_br (b\<lparr>bridge := br\<rparr>) d))
    (handle (env_fuel e) (env_rounds e) ev (bridge b))"
proof -
  have bi: "br_inv z (next_ref d) b" by (rule br_of_track [OF assms(1,2)])
  then have ok: "br_ok z (next_ref d) b" by (simp add: br_inv_def)
  show ?thesis
  proof (rule res_weaken [OF res_call [OF ok assms(3)]], rule assms(4), assumption)
    fix br
    assume br: "reachable br \<and> (z \<longrightarrow> trees br = [CIST]) \<and> ports br = ports_after ev (ports (bridge b))
      \<and> bridgeEnabled br = enabled_after ev (bridgeEnabled (bridge b))"
    let ?b = "b\<lparr>bridge := br\<rparr>"
    have 1: "br_inv z (next_ref d) ?b" "fewer_ifs b ?b"
      using br bi assms(5,6) by (simp_all add: br_inv_def br_ok_def fewer_ifs_def if_indices_def)
    then show "inv_fewer z (next_ref d) b ?b \<and> track_inv z (put_br ?b d)"
      using put_inv [OF assms(1,2)] by (simp add: inv_fewer_def)
  qed
qed

lemma bpdu_rcv_ok:
  assumes "track_inv z d"
  shows "outcome e z (track_inv z) (bridge_bpdu_rcv e i data len d)"
proof (cases "List.find (\<lambda>b. find_if b i \<noteq> None) (bridges d)")
  case None
  with assms show ?thesis by (simp add: bridge_bpdu_rcv_def res_Some)
next
  case (Some b)
  then have b: "b \<in> set (bridges d)" "find_if b i \<noteq> None" by (auto simp: find_Some_iff)
  then have p: "the (find_if b i) \<in> set (ports (bridge b))" using find_if_mem [of b i] by auto
  have "outcome e z (track_inv z) (map_option (\<lambda>br. put_br (b\<lparr>bridge := br\<rparr>) d)
      (handle (env_fuel e) (env_rounds e) (RxBpdu (the (find_if b i)) bp sz) (bridge b)))" for bp sz
    by (rule res_map [OF one_bridge_ok [OF assms b(1)]]) (use p in \<open>simp_all add: event_ok_def after_defs\<close>)
  then show ?thesis
    using assms Some by (auto simp: bridge_bpdu_rcv_def Let_def call_events intro: res_Some split: option.split)
qed

lemma one_second_track:
  assumes "track_inv z d"
  shows "outcome e z (track_inv z) (bridge_one_second e d)"
proof -
  have "outcome e z (inv_fewer z (next_ref d) b) (map_option (\<lambda>br. b\<lparr>bridge := br\<rparr>)
      (MSTP_IN_one_second (env_fuel e) (env_rounds e) (bridge b)))" if "b \<in> set (bridges d)" for b
    unfolding call_events
    by (rule res_map [OF one_bridge_ok [OF assms that]]) (simp_all add: event_ok_def after_defs)
  then show ?thesis
    unfolding bridge_one_second_def
    by (intro res_map [OF res_those [where R = "inv_fewer z (next_ref d)"]])
      (use assms all2_inv in \<open>auto simp: track_inv_def\<close>)
qed

subsection \<open>Commands\<close>

text \<open>What the dispatch of a command relies on: on a bridge that passes the checks, the call of \<open>mstp.c\<close> answers
  without an effect, or it is an event that the protocol handles, and it leaves the ports alone.\<close>

locale control_call =
  fixes e :: env and f :: "bridge_t \<Rightarrow> (int \<times> bridge_t) option" and ev :: event and guard :: "bridge_t \<Rightarrow> bool"
  assumes call: "guard br \<Longrightarrow> (\<exists>r. f br = Some (r, br)) \<or>
      event_ok ev br \<and> map_option snd (f br) = handle (env_fuel e) (env_rounds e) ev br"
    and lists: "ports_after ev ps = ps" "enabled_after ev x = x"
begin

lemma dispatch:
  assumes "track_inv z d" "z \<Longrightarrow> \<not> creates_msti ev" "\<And>b. find_br i d = Some b \<Longrightarrow> guard (bridge b)"
  shows "outcome e z (\<lambda>(r, d'). track_inv z d') (ctl_bridge i f d)"
proof (cases "find_br i d")
  case None
  with assms(1) show ?thesis by (simp add: ctl_bridge_def res_Some)
next
  case (Some b)
  have b: "b \<in> set (bridges d)" using find_br_mem [OF Some] by simp
  have same: "track_inv z (put_br (b\<lparr>bridge := bridge b\<rparr>) d)"
    using put_inv [OF assms(1) b br_of_track [OF assms(1) b]] by (simp add: fewer_ifs_def)
  from call [OF assms(3) [OF Some]] show ?thesis
  proof
    assume "\<exists>r. f (bridge b) = Some (r, bridge b)"
    with same Some show ?thesis by (auto simp: ctl_bridge_def intro: res_Some)
  next
    assume h: "event_ok ev (bridge b) \<and> map_option snd (f (bridge b)) = handle (env_fuel e) (env_rounds e) ev (bridge b)"
    have "outcome e z (\<lambda>br. inv_fewer z (next_ref d) b (b\<lparr>bridge := br\<rparr>) \<and> track_inv z (put_br (b\<lparr>bridge := br\<rparr>) d))
      (map_option snd (f (bridge b)))"
      unfolding conjunct2 [OF h] by (rule one_bridge_ok [OF assms(1) b conjunct1 [OF h] assms(2) lists])
    then show ?thesis
      using Some by (cases "f (bridge b)") (auto simp: ctl_bridge_def outcome_def)
  qed
qed

end

lemma ok_or_error_snd: "map_option snd (ok_or_error r) = map_option snd r"
  by (cases r) (auto simp: ok_or_error_def)

interpretation cist_bridge: control_call e "MSTP_IN_set_cist_bridge_config (env_fuel e) (env_rounds e) cfg"
    "SetCistBridge cfg" "\<lambda>_. True" for e cfg
  by unfold_locales (simp_all add: handle_def event_ok_def after_defs)

interpretation msti_bridge: control_call e "in_tree t (\<lambda>br. Some (MSTP_IN_set_msti_bridge_config t pri br))"
    "SetMstiBridge t pri" "\<lambda>_. True" for e t pri
  by unfold_locales (simp_all add: handle_def event_ok_def after_defs in_tree_def prod_eq_iff)

interpretation cist_port: control_call e "MSTP_IN_set_cist_port_config (env_fuel e) (env_rounds e) p cfg"
    "SetCistPort p cfg" "\<lambda>br. p \<in> set (ports br)" for e p cfg
  by unfold_locales (simp_all add: handle_def event_ok_def after_defs)

interpretation msti_port: control_call e "in_tree t (MSTP_IN_set_msti_port_config (env_fuel e) (env_rounds e) p t cfg)"
    "SetMstiPort p t cfg" "\<lambda>br. p \<in> set (ports br)" for e t p cfg
  by unfold_locales (simp_all add: handle_def event_ok_def after_defs in_tree_def)

interpretation port_mcheck: control_call e "MSTP_IN_port_mcheck (env_fuel e) (env_rounds e) p"
    "Mcheck p" "\<lambda>br. p \<in> set (ports br)" for e p
  by unfold_locales (simp_all add: handle_def event_ok_def after_defs)

interpretation new_msti: control_call e "\<lambda>br. ok_or_error (MSTP_IN_create_msti (env_fuel e) (env_rounds e) t br)"
    "CreateMsti t" "\<lambda>_. True" for e t
  by unfold_locales (simp_all add: handle_def event_ok_def after_defs ok_or_error_snd)

interpretation old_msti: control_call e "\<lambda>br. ok_or_error (MSTP_IN_delete_msti (env_fuel e) (env_rounds e) t br)"
    "DeleteMsti t" "\<lambda>_. True" for e t
  by unfold_locales (simp_all add: handle_def event_ok_def after_defs ok_or_error_snd)

interpretation mstconfid: control_call e
    "\<lambda>br. map_option (Pair 0) (MSTP_IN_set_mst_config_id (env_fuel e) (env_rounds e) revision name br)"
    "SetMstConfigId revision name" "\<lambda>_. True" for e revision name
  by unfold_locales (simp_all add: handle_def event_ok_def after_defs option.map_comp comp_def option.map_ident)

interpretation vid2fid: control_call e "\<lambda>br. ok_or_error (MSTP_IN_set_vid2fid (env_fuel e) (env_rounds e) vid fid br)"
    "SetVid2Fid vid fid" "\<lambda>_. True" for e vid fid
  by unfold_locales (simp_all add: handle_def event_ok_def after_defs ok_or_error_snd)

interpretation fid2mstid: control_call e "\<lambda>br. ok_or_error (MSTP_IN_set_fid2mstid (env_fuel e) (env_rounds e) fid t br)"
    "SetFid2Mstid fid t" "\<lambda>_. True" for e fid t
  by unfold_locales (simp_all add: handle_def event_ok_def after_defs ok_or_error_snd)

interpretation vids2fids: control_call e "\<lambda>br. ok_or_error (MSTP_IN_set_all_vids2fids (env_fuel e) (env_rounds e) vf br)"
    "SetAllVids vf" "\<lambda>_. True" for e vf
  by unfold_locales (simp_all add: handle_def event_ok_def after_defs ok_or_error_snd)

interpretation fids2mstids: control_call e "\<lambda>br. ok_or_error (MSTP_IN_set_all_fids2mstids (env_fuel e) (env_rounds e) fm br)"
    "SetAllFids fm" "\<lambda>_. True" for e fm
  by unfold_locales (simp_all add: handle_def event_ok_def after_defs ok_or_error_snd)

lemma ctl_port_ok:
  assumes "track_inv z d" "\<And>p. control_call e (f p) (ev p) (\<lambda>br. p \<in> set (ports br))" "\<And>p. \<not> creates_msti (ev p)"
  shows "outcome e z (\<lambda>(r, d'). track_inv z d') (ctl_port i j f d)"
proof (cases "find_br i d")
  case None
  with assms(1) show ?thesis by (simp add: ctl_port_def res_Some)
next
  case (Some b)
  have "outcome e z (\<lambda>(r, d'). track_inv z d') (ctl_bridge i (f p) d)" if "find_if b j = Some p" for p
    by (rule control_call.dispatch [OF assms(2) assms(1) assms(3)]) (use find_if_mem [OF that] Some in auto)
  with Some assms(1) show ?thesis by (auto simp: ctl_port_def intro: res_Some split: option.split)
qed

lemma port_commands_ok:
  assumes "track_inv z d"
  shows "outcome e z (\<lambda>(r, d'). track_inv z d') (CTL_set_cist_port_config e i j cfg d)"
    and "outcome e z (\<lambda>(r, d'). track_inv z d') (CTL_set_msti_port_config e i j t mcfg d)"
    and "outcome e z (\<lambda>(r, d'). track_inv z d') (CTL_port_mcheck e i j d)"
  unfolding CTL_set_cist_port_config_def CTL_set_msti_port_config_def CTL_port_mcheck_def
  by (rule ctl_port_ok [OF assms cist_port.control_call_axioms], simp)
    (rule ctl_port_ok [OF assms msti_port.control_call_axioms], simp,
     rule ctl_port_ok [OF assms port_mcheck.control_call_axioms], simp)

lemma bridge_commands_ok:
  assumes "track_inv z d"
  shows "outcome e z (\<lambda>(r, d'). track_inv z d') (CTL_set_cist_bridge_config e i cfg d)"
    and "outcome e z (\<lambda>(r, d'). track_inv z d') (CTL_set_msti_bridge_config i t pri d)"
    and "outcome e z (\<lambda>(r, d'). track_inv z d') (CTL_delete_msti e i t d)"
    and "outcome e z (\<lambda>(r, d'). track_inv z d') (CTL_set_mstconfid e i revision name d)"
    and "outcome e z (\<lambda>(r, d'). track_inv z d') (CTL_set_vid2fid e i vid fid d)"
    and "outcome e z (\<lambda>(r, d'). track_inv z d') (CTL_set_fid2mstid e i fid t d)"
    and "outcome e z (\<lambda>(r, d'). track_inv z d') (CTL_set_vids2fids e i vf d)"
    and "outcome e z (\<lambda>(r, d'). track_inv z d') (CTL_set_fids2mstids e i fm d)"
    and "\<not> z \<Longrightarrow> outcome e z (\<lambda>(r, d'). track_inv z d') (CTL_create_msti e i t d)"
  unfolding CTL_set_cist_bridge_config_def CTL_set_msti_bridge_config_def CTL_delete_msti_def CTL_set_mstconfid_def
    CTL_set_vid2fid_def CTL_set_fid2mstid_def CTL_set_vids2fids_def CTL_set_fids2mstids_def CTL_create_msti_def
  using assms
  by (simp_all add: cist_bridge.dispatch msti_bridge.dispatch old_msti.dispatch mstconfid.dispatch vid2fid.dispatch
      fid2mstid.dispatch vids2fids.dispatch fids2mstids.dispatch new_msti.dispatch)

lemma drop_ifaces_ok:
  assumes "br_inv z n b"
  shows "outcome e z (inv_fewer z n b) (drop_ifaces e ifs b)"
proof -
  have "outcome e z (inv_fewer z n b) (ofold (\<lambda>p b. if if_index_of b p \<in> set ifs then Some b else delete_if e p b) ps c)"
    if "distinct ps" "set ps \<subseteq> set (ports (bridge c))" "inv_fewer z n b c" for ps c
    using that
  proof (induction ps arbitrary: c)
    case Nil
    then show ?case by (simp add: res_Some)
  next
    case (Cons p ps)
    show ?case
    proof (cases "if_index_of c p \<in> set ifs")
      case True
      then show ?thesis using Cons.IH [of c] Cons.prems by simp
    next
      case False
      have c: "br_inv z n c" and p: "p \<in> set (ports (bridge c))" using Cons.prems by (simp_all add: inv_fewer_def)
      have "outcome e z (\<lambda>c'. set ps \<subseteq> set (ports (bridge c')) \<and> inv_fewer z n b c') (delete_if e p c)"
      proof (rule res_weaken [OF delete_if_ok [OF c p]], elim conjE)
        fix c'
        assume c': "br_inv z n c'" "br_index_of c' = br_index_of c" "if_sysdeps c' = if_sysdeps c"
          "ports (bridge c') = remove1 p (ports (bridge c))"
        have "if_index_of c' = if_index_of c" by (simp add: if_index_of_def fun_eq_iff c'(3))
        then have "fewer_ifs c c'" using c'(2,4) set_remove1_subset [of p "ports (bridge c)"]
          by (auto simp: fewer_ifs_def if_indices_def)
        moreover have "x \<in> set (ports (bridge c'))" if "x \<in> set ps" for x
          using that Cons.prems(1,2) c'(4) in_set_remove1 [of x p "ports (bridge c)"] by (cases "x = p") auto
        ultimately show "set ps \<subseteq> set (ports (bridge c')) \<and> inv_fewer z n b c'"
          using c'(1) Cons.prems(3) fewer_ifs_trans [of b c c'] by (auto simp: inv_fewer_def)
      qed
      then show ?thesis using False Cons.IH Cons.prems(1) by (auto intro: res_bind)
    qed
  qed
  moreover have "distinct (ports (bridge b))"
    using assms by (simp add: br_inv_def br_ok_def if_indices_def distinct_map)
  ultimately show ?thesis using assms by (simp add: drop_ifaces_def inv_fewer_refl)
qed

lemma add_iface_ok:
  assumes "track_inv z d"
  shows "outcome e z (track_inv z) (add_iface e k i d)"
proof (cases "find_br k d")
  case None
  with assms show ?thesis by (simp add: add_iface_def res_Some)
next
  case (Some b)
  have b: "b \<in> set (bridges d)" using find_br_mem [OF Some] by simp
  show ?thesis
  proof (cases "find_if b i")
    case None
    then have i: "i \<notin> set (if_indices b)" by (simp add: find_if_None)
    let ?fl = "\<lambda>p b. get_flags e (if_name (port_at (bridge b) p))"
    have "outcome e z (track_inv z) (Option.bind (attach_if e i b d) (\<lambda>(ok, p, b, d). if ok \<and> ?fl p b \<ge> 0
        then map_option (\<lambda>b. put_br b d) (set_if_up e p (bit (?fl p b) 0 \<and> bit (?fl p b) 6) b) else Some d))"
    proof (rule res_bind [OF attach_ok [OF assms b i]], goal_cases)
      case (1 x)
      obtain ok p b' d' where x: "x = (ok, p, b', d')" by (metis prod_cases4)
      with 1 have d': "track_inv z d'" "b' \<in> set (bridges d')" "ok \<longrightarrow> p \<in> set (ports (bridge b'))" by simp_all
      show ?case
        unfolding x prod.case
        by (intro res_if res_map [OF set_if_up_ok [OF br_of_track [OF d'(1,2)]]] res_Some)
          (use d' put_inv [OF d'(1,2)] same_fewer in auto)
    qed
    with Some None show ?thesis by (simp add: add_iface_def Let_def)
  next
    case (Some p)
    with \<open>find_br k d = Some b\<close> assms show ?thesis by (simp add: add_iface_def res_Some)
  qed
qed

lemma find_br_None: "find_br i d = None \<longleftrightarrow> (\<forall>b \<in> set (bridges d). br_index_of b \<noteq> i)"
  by (auto simp: find_br_def find_None_iff)

lemma create_br_ok:
  assumes "track_inv z d" "create_br e i d = Some (b, d')" "find_br i d = None"
  shows "track_inv z d' \<and> b \<in> set (bridges d')"
proof -
  obtain name mac where b: "d' = d\<lparr>bridges := bridges d @ [b]\<rparr>" "br_index_of b = i"
    "bridge b = MSTP_IN_bridge_create mac memory" "\<not> sbr_up (sysdeps b)"
    using assms(2) by (auto simp: create_br_def Let_def bind_eq_Some_conv)
  have "reachable (bridge b)" unfolding b(3) by (rule reachable.created)
  moreover have "trees (bridge b) = [CIST]" "ports (bridge b) = []" "\<not> bridgeEnabled (bridge b)"
    unfolding b(3) using bridge_create_sys(2)
    by (simp_all add: MSTP_IN_bridge_create_def Let_def RecalcConfigDigest_def bridge_default_internal_vars_def)
  ultimately have "br_inv z (next_ref d) b" "if_indices b = []"
    using b(4) by (simp_all add: br_inv_def br_ok_def if_indices_def)
  then show ?thesis
    using assms(1,3) b(1,2) by (auto simp: track_inv_def bridges_inv_def apart_def find_br_None)
qed

lemma get_or_create_ok:
  assumes "track_inv z d"
  shows "outcome e z (\<lambda>r. case r of None \<Rightarrow> True | Some (b, d') \<Rightarrow> track_inv z d' \<and> b \<in> set (bridges d')) (get_or_create_br e i d)"
proof (cases "find_br i d")
  case (Some b)
  with assms find_br_mem [OF Some] show ?thesis by (simp add: get_or_create_br_def res_Some)
next
  case None
  show ?thesis
  proof (cases "create_br e i d")
    case (Some x)
    obtain b d' where x: "x = (b, d')" by fastforce
    have d': "track_inv z d'" "b \<in> set (bridges d')" using create_br_ok [OF assms _ None] Some x by auto
    show ?thesis
      using None Some x d' by (auto simp: get_or_create_br_def Let_def intro!: res_Some res_map [OF br_up_track [OF d']])
  qed (use None in \<open>simp add: get_or_create_br_def res_Some\<close>)
qed

lemma add_bridges_ok:
  "track_inv z d \<Longrightarrow> outcome e z (\<lambda>(r, d'). track_inv z d') (CTL_add_bridges e xs d)"
proof (induction xs arbitrary: d)
  case Nil
  then show ?case by (simp add: res_Some)
next
  case (Cons y rest)
  obtain i ifs where y: "y = (i, ifs)" by fastforce
  let ?rest = "\<lambda>(b, d). Option.bind (drop_ifaces e ifs b)
    (\<lambda>b. Option.bind (ofold (add_iface e i) ifs (put_br b d)) (CTL_add_bridges e rest))"
  have step: "outcome e z (\<lambda>(r, d'). track_inv z d') (?rest (b, d1))" if "track_inv z d1" "b \<in> set (bridges d1)" for b d1
    unfolding prod.case
    by (intro res_bind [OF drop_ifaces_ok [OF br_of_track [OF that]]] res_bind [OF res_ofold [OF add_iface_ok]] Cons.IH)
      (use put_inv [OF that] in \<open>auto simp: inv_fewer_def\<close>)
  have "outcome e z (\<lambda>(r, d'). track_inv z d')
      (Option.bind (get_or_create_br e i d) (\<lambda>r. case r of None \<Rightarrow> Some (-1, d) | Some x \<Rightarrow> ?rest x))"
    by (rule res_bind [OF get_or_create_ok [OF Cons.prems, where i = i]])
      (use step Cons.prems in \<open>auto intro: res_Some split: option.splits\<close>)
  moreover have "CTL_add_bridges e (y # rest) d =
      Option.bind (get_or_create_br e i d) (\<lambda>r. case r of None \<Rightarrow> Some (-1, d) | Some x \<Rightarrow> ?rest x)"
    by (cases "get_or_create_br e i d") (auto simp: y split: option.split)
  ultimately show ?case by simp
qed

lemma del_bridges_ok: "track_inv z d \<Longrightarrow> outcome e z (track_inv z) (CTL_del_bridges e is d)"
  unfolding CTL_del_bridges_def
  by (rule res_ofold) (auto intro!: res_map [OF delete_br_ok])

lemma fini_ok:
  assumes "track_inv z d"
  shows "outcome e z (track_inv z) (bridge_track_fini e d)"
proof -
  have "outcome e z (inv_fewer z (next_ref d) b) (set_br_up e False b)" if "b \<in> set (bridges d)" for b
    by (rule res_weaken [OF set_br_up_ok [OF br_of_track [OF assms that]]]) (auto simp: inv_fewer_def same_fewer)
  then show ?thesis
    unfolding bridge_track_fini_def
    by (intro res_map [OF res_those [where R = "inv_fewer z (next_ref d)"]])
      (use assms all2_inv in \<open>auto simp: track_inv_def\<close>)
qed

end
