(* ===== verification/Mstp_Status.thy ===== *)
theory Mstp_Status
  imports Bridge_Track_Inv
begin

section \<open>Reading the state\<close>

text \<open>
  The functions \<open>MSTP_IN_get_*\<close> of \<open>mstp.c\<close> that fill the replies for the control program (12.8.1.1 to
  12.8.2.2 of the standard), and the commands \<open>CTL_get_*\<close> of \<open>bridge_track.c\<close> around them. Names are copied
  with \<open>strncpy\<close> into arrays of \<open>IFNAMSIZ\<close> characters.
\<close>

subsection \<open>The replies\<close>

definition IFNAMSIZ :: nat where "IFNAMSIZ = 16"

record CIST_BridgeStatus =
  cbs_bridge_id :: bridge_identifier_t
  cbs_time_since_topology_change :: u32
  cbs_topology_change_count :: u32
  cbs_topology_change :: bool
  cbs_topology_change_port :: string
  cbs_last_topology_change_port :: string
  cbs_designated_root :: bridge_identifier_t
  cbs_root_path_cost :: u32
  cbs_root_port_id :: port_identifier_t
  cbs_root_max_age :: u8
  cbs_root_forward_delay :: u8
  cbs_bridge_max_age :: u8
  cbs_bridge_forward_delay :: u8
  cbs_tx_hold_count :: u32
  cbs_protocol_version :: protocol_version_t
  cbs_regional_root :: bridge_identifier_t
  cbs_internal_path_cost :: u32
  cbs_enabled :: bool
  cbs_Ageing_Time :: u32
  cbs_max_hops :: u8
  cbs_bridge_hello_time :: u8

record MSTI_BridgeStatus =
  mbs_bridge_id :: bridge_identifier_t
  mbs_time_since_topology_change :: u32
  mbs_topology_change_count :: u32
  mbs_topology_change :: bool
  mbs_topology_change_port :: string
  mbs_last_topology_change_port :: string
  mbs_regional_root :: bridge_identifier_t
  mbs_internal_path_cost :: u32
  mbs_root_port_id :: port_identifier_t

record CIST_PortStatus =
  cps_uptime :: u32
  cps_state :: br_state
  cps_port_id :: port_identifier_t
  cps_admin_external_port_path_cost :: u32
  cps_external_port_path_cost :: u32
  cps_designated_root :: bridge_identifier_t
  cps_designated_external_cost :: u32
  cps_designated_bridge :: bridge_identifier_t
  cps_designated_port :: port_identifier_t
  cps_tc_ack :: bool
  cps_port_hello_time :: u8
  cps_admin_edge_port :: bool
  cps_auto_edge_port :: bool
  cps_oper_edge_port :: bool
  cps_enabled :: bool
  cps_admin_p2p :: admin_p2p_t
  cps_oper_p2p :: bool
  cps_restricted_role :: bool
  cps_restricted_tcn :: bool
  cps_role :: port_role_t
  cps_disputed :: bool
  cps_designated_regional_root :: bridge_identifier_t
  cps_designated_internal_cost :: u32
  cps_admin_internal_port_path_cost :: u32
  cps_internal_port_path_cost :: u32
  cps_bpdu_guard_port :: bool
  cps_bpdu_guard_error :: bool
  cps_bpdu_filter_port :: bool
  cps_network_port :: bool
  cps_ba_inconsistent :: bool
  cps_num_rx_bpdu_filtered :: u32
  cps_num_rx_bpdu :: u32
  cps_num_rx_tcn :: u32
  cps_num_tx_bpdu :: u32
  cps_num_tx_tcn :: u32
  cps_num_trans_fwd :: u32
  cps_num_trans_blk :: u32
  cps_rcvdBpdu :: bool
  cps_rcvdRSTP :: bool
  cps_rcvdSTP :: bool
  cps_rcvdTcAck :: bool
  cps_rcvdTcn :: bool
  cps_sendRSTP :: bool

record MSTI_PortStatus =
  mps_uptime :: u32
  mps_state :: br_state
  mps_port_id :: port_identifier_t
  mps_admin_internal_port_path_cost :: u32
  mps_internal_port_path_cost :: u32
  mps_designated_regional_root :: bridge_identifier_t
  mps_designated_internal_cost :: u32
  mps_designated_bridge :: bridge_identifier_t
  mps_designated_port :: port_identifier_t
  mps_role :: port_role_t
  mps_disputed :: bool

subsection \<open>The functions of \<open>mstp.c\<close>\<close>

definition MSTP_IN_get_cist_bridge_status :: "bridge_t \<Rightarrow> CIST_BridgeStatus" where
  "MSTP_IN_get_cist_bridge_status br =
     (let cist = tree_at br CIST
      in \<lparr>cbs_bridge_id = BridgeIdentifier cist,
          cbs_time_since_topology_change = time_since_topology_change cist,
          cbs_topology_change_count = topology_change_count cist,
          cbs_topology_change = topology_change cist,
          cbs_topology_change_port = take IFNAMSIZ (topology_change_port cist),
          cbs_last_topology_change_port = take IFNAMSIZ (last_topology_change_port cist),
          cbs_designated_root = RootID (rootPriority cist),
          cbs_root_path_cost = ExtRootPathCost (rootPriority cist),
          cbs_root_port_id = rootPortId cist,
          cbs_root_max_age = Max_Age (rootTimes cist),
          cbs_root_forward_delay = Forward_Delay (rootTimes cist),
          cbs_bridge_max_age = br_Max_Age br,
          cbs_bridge_forward_delay = br_Forward_Delay br,
          cbs_tx_hold_count = Transmit_Hold_Count br,
          cbs_protocol_version = ForceProtocolVersion br,
          cbs_regional_root = RRootID (rootPriority cist),
          cbs_internal_path_cost = IntRootPathCost (rootPriority cist),
          cbs_enabled = bridgeEnabled br,
          cbs_Ageing_Time = Ageing_Time br,
          cbs_max_hops = br_MaxHops br,
          cbs_bridge_hello_time = br_Hello_Time br\<rparr>)"

definition MSTP_IN_get_msti_bridge_status :: "tree_t \<Rightarrow> MSTI_BridgeStatus" where
  "MSTP_IN_get_msti_bridge_status tree =
     \<lparr>mbs_bridge_id = BridgeIdentifier tree,
      mbs_time_since_topology_change = time_since_topology_change tree,
      mbs_topology_change_count = topology_change_count tree,
      mbs_topology_change = topology_change tree,
      mbs_topology_change_port = take IFNAMSIZ (topology_change_port tree),
      mbs_last_topology_change_port = take IFNAMSIZ (last_topology_change_port tree),
      mbs_regional_root = RRootID (rootPriority tree),
      mbs_internal_path_cost = IntRootPathCost (rootPriority tree),
      mbs_root_port_id = rootPortId tree\<rparr>"

definition MSTP_IN_get_cist_port_status :: "portref \<Rightarrow> bridge_t \<Rightarrow> CIST_PortStatus" where
  "MSTP_IN_get_cist_port_status p br =
     (let prt = port_at br p; cist = cist_of br p; pri = portPriority cist
      in \<lparr>cps_uptime = uptime br - start_time cist,
          cps_state = state cist,
          cps_port_id = portId cist,
          cps_admin_external_port_path_cost = AdminExternalPortPathCost prt,
          cps_external_port_path_cost = ExternalPortPathCost prt,
          cps_designated_root = RootID pri,
          cps_designated_external_cost = ExtRootPathCost pri,
          cps_designated_bridge = DesignatedBridgeID pri,
          cps_designated_port = DesignatedPortID pri,
          cps_tc_ack = tcAck prt,
          cps_port_hello_time = Hello_Time (portTimes cist),
          cps_admin_edge_port = AdminEdgePort prt,
          cps_auto_edge_port = AutoEdge prt,
          cps_oper_edge_port = operEdge prt,
          cps_enabled = portEnabled prt,
          cps_admin_p2p = AdminP2P prt,
          cps_oper_p2p = operPointToPointMAC prt,
          cps_restricted_role = restrictedRole prt,
          cps_restricted_tcn = restrictedTcn prt,
          cps_role = role cist,
          cps_disputed = disputed cist,
          cps_designated_regional_root = RRootID pri,
          cps_designated_internal_cost = IntRootPathCost pri,
          cps_admin_internal_port_path_cost = AdminInternalPortPathCost cist,
          cps_internal_port_path_cost = InternalPortPathCost cist,
          cps_bpdu_guard_port = BpduGuardPort prt,
          cps_bpdu_guard_error = BpduGuardError prt,
          cps_bpdu_filter_port = bpduFilterPort prt,
          cps_network_port = NetworkPort prt,
          cps_ba_inconsistent = BaInconsistent prt,
          cps_num_rx_bpdu_filtered = num_rx_bpdu_filtered prt,
          cps_num_rx_bpdu = num_rx_bpdu prt,
          cps_num_rx_tcn = num_rx_tcn prt,
          cps_num_tx_bpdu = num_tx_bpdu prt,
          cps_num_tx_tcn = num_tx_tcn prt,
          cps_num_trans_fwd = num_trans_fwd prt,
          cps_num_trans_blk = num_trans_blk prt,
          cps_rcvdBpdu = rcvdBpdu prt,
          cps_rcvdRSTP = rcvdRSTP prt,
          cps_rcvdSTP = rcvdSTP prt,
          cps_rcvdTcAck = rcvdTcAck prt,
          cps_rcvdTcn = rcvdTcn prt,
          cps_sendRSTP = sendRSTP prt\<rparr>)"

definition MSTP_IN_get_msti_port_status :: "portref \<Rightarrow> mstid \<Rightarrow> bridge_t \<Rightarrow> MSTI_PortStatus" where
  "MSTP_IN_get_msti_port_status p t br =
     (let ptp = ptp_at br p t; pri = portPriority ptp
      in \<lparr>mps_uptime = uptime br - start_time ptp,
          mps_state = state ptp,
          mps_port_id = portId ptp,
          mps_admin_internal_port_path_cost = AdminInternalPortPathCost ptp,
          mps_internal_port_path_cost = InternalPortPathCost ptp,
          mps_designated_regional_root = RRootID pri,
          mps_designated_internal_cost = IntRootPathCost pri,
          mps_designated_bridge = DesignatedBridgeID pri,
          mps_designated_port = DesignatedPortID pri,
          mps_role = role ptp,
          mps_disputed = disputed ptp\<rparr>)"

subsection \<open>The commands\<close>

text \<open>The name of the port of a tree that has the identifier of the root port; the tree's list of ports is in the
  order of the bridge's.\<close>

definition root_port_name :: "mstid \<Rightarrow> port_identifier_t \<Rightarrow> bridge_t \<Rightarrow> string" where
  "root_port_name t pid br =
     (case List.find (\<lambda>p. portId (ptp_at br p t) = pid) (ports br) of
        None \<Rightarrow> []
      | Some p \<Rightarrow> take IFNAMSIZ (if_name (port_at br p)))"

definition CTL_get_cist_bridge_status :: "int \<Rightarrow> track \<Rightarrow> (CIST_BridgeStatus \<times> string) option" where
  "CTL_get_cist_bridge_status i d =
     map_option (\<lambda>b. let st = MSTP_IN_get_cist_bridge_status (bridge b)
                     in (st, root_port_name CIST (cbs_root_port_id st) (bridge b))) (find_br i d)"

definition CTL_get_msti_bridge_status :: "int \<Rightarrow> mstid \<Rightarrow> track \<Rightarrow> (MSTI_BridgeStatus \<times> string) option" where
  "CTL_get_msti_bridge_status i t d = do {
     b \<leftarrow> find_br i d;
     if t \<in> set (trees (bridge b))
     then let st = MSTP_IN_get_msti_bridge_status (tree_at (bridge b) t)
          in Some (st, root_port_name t (mbs_root_port_id st) (bridge b))
     else None
   }"

definition CTL_get_cist_port_status :: "int \<Rightarrow> int \<Rightarrow> track \<Rightarrow> CIST_PortStatus option" where
  "CTL_get_cist_port_status i j d = do {
     b \<leftarrow> find_br i d;
     p \<leftarrow> find_if b j;
     Some (MSTP_IN_get_cist_port_status p (bridge b))
   }"

definition CTL_get_msti_port_status :: "int \<Rightarrow> int \<Rightarrow> mstid \<Rightarrow> track \<Rightarrow> MSTI_PortStatus option" where
  "CTL_get_msti_port_status i j t d = do {
     b \<leftarrow> find_br i d;
     p \<leftarrow> find_if b j;
     if t \<in> set (trees (bridge b)) then Some (MSTP_IN_get_msti_port_status p t (bridge b)) else None
   }"

end
