(* ===== verification/Ctl_Server.thy ===== *)
theory Ctl_Server
  imports Mstp_Status
begin

section \<open>The control socket\<close>

text \<open>
  \<open>ctl_socket_server.c\<close> and the messages of \<open>ctl_functions.h\<close>: what the daemon does with a datagram of the
  control program. Most commands are a struct that is copied from the message, one constructor of \<open>ctl_in\<close> per
  struct \<open>*_IN\<close>; how a struct lies in memory and how large it is depends on the compiler and is the record \<open>abi\<close>.
  The commands for adding and deleting bridges are arrays of \<open>int\<close>, read here octet by octet (the switch is
  big-endian, \<open>int\<close> and \<open>size_t\<close> have 32 bits and wrap). Reading outside the received octets is a failure, \<open>None\<close>.
\<close>

subsection \<open>Commands\<close>

datatype ctl_in =
    get_cist_bridge_status_IN int
  | get_msti_bridge_status_IN int mstid
  | set_cist_bridge_config_IN int CIST_BridgeConfig
  | set_msti_bridge_config_IN int mstid u8
  | get_cist_port_status_IN int int
  | get_msti_port_status_IN int int mstid
  | set_cist_port_config_IN int int CIST_PortConfig
  | set_msti_port_config_IN int int mstid MSTI_PortConfig
  | port_mcheck_IN int int
  | set_debug_level_IN int
  | get_mstilist_IN int
  | create_msti_IN int mstid
  | delete_msti_IN int mstid
  | get_mstconfid_IN int
  | set_mstconfid_IN int u16 "u8 list"
  | get_vids2fids_IN int
  | get_fids2mstids_IN int
  | set_vid2fid_IN int u16 u16
  | set_fid2mstid_IN int u16 mstid
  | set_vids2fids_IN int "nat \<Rightarrow> u16"
  | set_fids2mstids_IN int "nat \<Rightarrow> u16"
  | bridge_is_added_IN int
  | bridge_port_is_added_IN int int

datatype ctl_out =
    no_OUT
  | cist_bridge_status_OUT CIST_BridgeStatus string
  | msti_bridge_status_OUT MSTI_BridgeStatus string
  | cist_port_status_OUT CIST_PortStatus
  | msti_port_status_OUT MSTI_PortStatus
  | mstilist_OUT "mstid list"
  | mstconfid_OUT mst_configuration_identifier_t
  | table_OUT "nat \<Rightarrow> u16"
  | is_added_OUT bool

fun cmd_code :: "ctl_in \<Rightarrow> int" where
  "cmd_code (get_cist_bridge_status_IN _) = 101"
| "cmd_code (get_msti_bridge_status_IN _ _) = 102"
| "cmd_code (set_cist_bridge_config_IN _ _) = 103"
| "cmd_code (set_msti_bridge_config_IN _ _ _) = 104"
| "cmd_code (get_cist_port_status_IN _ _) = 105"
| "cmd_code (get_msti_port_status_IN _ _ _) = 106"
| "cmd_code (set_cist_port_config_IN _ _ _) = 107"
| "cmd_code (set_msti_port_config_IN _ _ _ _) = 108"
| "cmd_code (port_mcheck_IN _ _) = 109"
| "cmd_code (set_debug_level_IN _) = 110"
| "cmd_code (get_mstilist_IN _) = 111"
| "cmd_code (create_msti_IN _ _) = 112"
| "cmd_code (delete_msti_IN _ _) = 113"
| "cmd_code (get_mstconfid_IN _) = 114"
| "cmd_code (set_mstconfid_IN _ _ _) = 115"
| "cmd_code (get_vids2fids_IN _) = 116"
| "cmd_code (get_fids2mstids_IN _) = 117"
| "cmd_code (set_vid2fid_IN _ _ _) = 118"
| "cmd_code (set_fid2mstid_IN _ _ _) = 119"
| "cmd_code (set_vids2fids_IN _ _) = 120"
| "cmd_code (set_fids2mstids_IN _ _) = 121"
| "cmd_code (bridge_is_added_IN _) = 124"
| "cmd_code (bridge_port_is_added_IN _ _) = 125"

definition struct_codes :: "int list" where
  "struct_codes = [101 .. 121] @ [124, 125]"

definition RESPONSE_FIRST_HANDLE_LATER :: int where "RESPONSE_FIRST_HANDLE_LATER = 0x10000"
definition CMD_CODE_add_bridges :: int where "CMD_CODE_add_bridges = 122 OR RESPONSE_FIRST_HANDLE_LATER"
definition CMD_CODE_del_bridges :: int where "CMD_CODE_del_bridges = 123 OR RESPONSE_FIRST_HANDLE_LATER"
definition MSG_BUF_LEN :: nat where "MSG_BUF_LEN = 10000"

text \<open>The call of a command: the return value and what was written to the struct \<open>*_OUT\<close>.\<close>

definition answer :: "('a \<Rightarrow> ctl_out) \<Rightarrow> 'a option \<Rightarrow> int \<times> ctl_out" where
  "answer f r = (case r of None \<Rightarrow> (-1, no_OUT) | Some x \<Rightarrow> (0, f x))"

definition reading :: "int \<times> ctl_out \<Rightarrow> track \<Rightarrow> (int \<times> ctl_out \<times> track) option" where
  "reading r d = Some (fst r, snd r, d)"

definition changing :: "(int \<times> track) option \<Rightarrow> (int \<times> ctl_out \<times> track) option" where
  "changing r = map_option (\<lambda>(v, d). (v, no_OUT, d)) r"

fun ctl_call :: "env \<Rightarrow> ctl_in \<Rightarrow> track \<Rightarrow> (int \<times> ctl_out \<times> track) option" where
  "ctl_call e (get_cist_bridge_status_IN i) d = reading (answer (case_prod cist_bridge_status_OUT) (CTL_get_cist_bridge_status i d)) d"
| "ctl_call e (get_msti_bridge_status_IN i t) d = reading (answer (case_prod msti_bridge_status_OUT) (CTL_get_msti_bridge_status i t d)) d"
| "ctl_call e (set_cist_bridge_config_IN i cfg) d = changing (CTL_set_cist_bridge_config e i cfg d)"
| "ctl_call e (set_msti_bridge_config_IN i t pri) d = changing (CTL_set_msti_bridge_config i t pri d)"
| "ctl_call e (get_cist_port_status_IN i j) d = reading (answer cist_port_status_OUT (CTL_get_cist_port_status i j d)) d"
| "ctl_call e (get_msti_port_status_IN i j t) d = reading (answer msti_port_status_OUT (CTL_get_msti_port_status i j t d)) d"
| "ctl_call e (set_cist_port_config_IN i j cfg) d = changing (CTL_set_cist_port_config e i j cfg d)"
| "ctl_call e (set_msti_port_config_IN i j t cfg) d = changing (CTL_set_msti_port_config e i j t cfg d)"
| "ctl_call e (port_mcheck_IN i j) d = changing (CTL_port_mcheck e i j d)"
| "ctl_call e (set_debug_level_IN level) d = Some (0, no_OUT, d)"
| "ctl_call e (get_mstilist_IN i) d = reading (answer mstilist_OUT (CTL_get_mstilist i d)) d"
| "ctl_call e (create_msti_IN i t) d = changing (CTL_create_msti e i t d)"
| "ctl_call e (delete_msti_IN i t) d = changing (CTL_delete_msti e i t d)"
| "ctl_call e (get_mstconfid_IN i) d = reading (answer mstconfid_OUT (CTL_get_mstconfid i d)) d"
| "ctl_call e (set_mstconfid_IN i revision name) d = changing (CTL_set_mstconfid e i revision name d)"
| "ctl_call e (get_vids2fids_IN i) d = reading (answer table_OUT (CTL_get_vids2fids i d)) d"
| "ctl_call e (get_fids2mstids_IN i) d = reading (answer table_OUT (CTL_get_fids2mstids i d)) d"
| "ctl_call e (set_vid2fid_IN i vid fid) d = changing (CTL_set_vid2fid e i vid fid d)"
| "ctl_call e (set_fid2mstid_IN i fid t) d = changing (CTL_set_fid2mstid e i fid t d)"
| "ctl_call e (set_vids2fids_IN i vf) d = changing (CTL_set_vids2fids e i vf d)"
| "ctl_call e (set_fids2mstids_IN i fm) d = changing (CTL_set_fids2mstids e i fm d)"
| "ctl_call e (bridge_is_added_IN i) d = Some (0, is_added_OUT (CTL_bridge_is_added i d), d)"
| "ctl_call e (bridge_port_is_added_IN i j) d = Some (0, is_added_OUT (CTL_bridge_port_is_added i j d), d)"

subsection \<open>Arrays of \<open>int\<close> in a message\<close>

text \<open>The \<open>int\<close> at \<open>br_array + p\<close>.\<close>

definition int_at :: "u8 list \<Rightarrow> u32 \<Rightarrow> u32 option" where
  "int_at buf p = (let o4 = unat (p * 4) in if o4 + 4 \<le> length buf then Some (be_word (field o4 4 buf)) else None)"

definition ints_at :: "u8 list \<Rightarrow> u32 \<Rightarrow> nat \<Rightarrow> int list option" where
  "ints_at buf p n = map_option (map sint) (those (map (\<lambda>k. int_at buf (p + of_nat k)) [0 ..< n]))"

text \<open>The first loop over the lists of interfaces: \<open>n\<close> lists are still to come, \<open>ser\<close> is
  \<open>serialized_data_count\<close>, which is also the position of \<open>ptr\<close>. The sizes are compared as \<open>size_t\<close>.\<close>

fun check_chunks :: "u8 list \<Rightarrow> nat \<Rightarrow> u32 \<Rightarrow> bool option" where
  "check_chunks buf 0 ser = Some True"
| "check_chunks buf (Suc n) ser = do {
     c \<leftarrow> int_at buf ser;
     let ser = ser + (c + 1);
     if n = 0 then Some (of_nat (length buf) = ser * 4)
     else if of_nat (length buf) < (ser + 1) * 4 then Some False
     else check_chunks buf n ser
   }"

text \<open>The second loop, and the lists as \<open>CTL_add_bridges\<close> reads them: a list whose length is negative has no
  elements.\<close>

fun iface_lists :: "u8 list \<Rightarrow> nat \<Rightarrow> u32 \<Rightarrow> int list list option" where
  "iface_lists buf 0 p = Some []"
| "iface_lists buf (Suc n) p = do {
     c \<leftarrow> int_at buf p;
     xs \<leftarrow> ints_at buf (p + 1) (nat (sint c));
     map_option (Cons xs) (iface_lists buf n (p + (c + 1)))
   }"

text \<open>The message for \<open>add_bridges\<close>: \<open>Some None\<close> when it is rejected. \<open>malloc_ok\<close> says whether memory of that size
  can be had.\<close>

definition add_bridges_msg :: "(u32 \<Rightarrow> bool) \<Rightarrow> u8 list \<Rightarrow> (int \<times> int list) list option option" where
  "add_bridges_msg malloc_ok buf =
     (if length buf < 4 then Some None
      else do {
        brcount \<leftarrow> int_at buf 0;
        if of_nat (length buf) < (brcount + 1 + 1) * 4 then Some None
        else do {
          ok \<leftarrow> check_chunks buf (nat (sint brcount)) (brcount + 1);
          if \<not> ok \<or> \<not> malloc_ok (brcount * 4) then Some None
          else do {
            bs \<leftarrow> ints_at buf 1 (nat (sint brcount));
            xs \<leftarrow> iface_lists buf (nat (sint brcount)) (brcount + 1);
            Some (Some (zip bs xs))
          }
        }
      })"

definition del_bridges_msg :: "u8 list \<Rightarrow> int list option option" where
  "del_bridges_msg buf =
     (if length buf < 4 then Some None
      else do {
        brcount \<leftarrow> int_at buf 0;
        if (brcount + 1) * 4 \<noteq> of_nat (length buf) then Some None
        else map_option Some (ints_at buf 1 (nat (sint brcount)))
      })"

subsection \<open>The server\<close>

record abi =
  in_size :: "int \<Rightarrow> nat"
  out_size :: "int \<Rightarrow> nat"
  struct_of :: "int \<Rightarrow> u8 list \<Rightarrow> ctl_in"
  malloc_ok :: "u32 \<Rightarrow> bool"

definition handle_message ::
    "abi \<Rightarrow> env \<Rightarrow> int \<Rightarrow> u8 list \<Rightarrow> int \<Rightarrow> track \<Rightarrow> (int \<times> ctl_out \<times> track) option" where
  "handle_message a e cmd inbuf lout d =
     (if cmd \<in> set struct_codes then
        (if in_size a cmd \<noteq> length inbuf \<or> int (out_size a cmd) \<noteq> lout then Some (-1, no_OUT, d)
         else ctl_call e (struct_of a cmd inbuf) d)
      else if cmd = CMD_CODE_add_bridges then
        (if lout \<noteq> 0 then Some (-1, no_OUT, d)
         else do {
           m \<leftarrow> add_bridges_msg (malloc_ok a) inbuf;
           case m of None \<Rightarrow> Some (-1, no_OUT, d) | Some xs \<Rightarrow> changing (CTL_add_bridges e xs d)
         })
      else if cmd = CMD_CODE_del_bridges then
        (if lout \<noteq> 0 then Some (-1, no_OUT, d)
         else do {
           m \<leftarrow> del_bridges_msg inbuf;
           case m of None \<Rightarrow> Some (-1, no_OUT, d) | Some is \<Rightarrow> changing (map_option (Pair 0) (CTL_del_bridges e is d))
         })
      else Some (-1, no_OUT, d))"

record ctl_msg_hdr =
  hdr_cmd :: int
  hdr_lin :: int
  hdr_lout :: int
  hdr_llog :: int
  hdr_res :: int

text \<open>A datagram with its header and what follows; \<open>flagged\<close> says that \<open>recvmsg\<close> set a flag, as for a datagram that
  was too long. The result is the answer that is sent, if any. With a negative size of the answer the buffer is
  cleared without end, \<open>None\<close>.\<close>

definition ctl_rcv_handler ::
    "abi \<Rightarrow> env \<Rightarrow> bool \<Rightarrow> ctl_msg_hdr \<Rightarrow> u8 list \<Rightarrow> track \<Rightarrow> ((int \<times> ctl_out) option \<times> track) option" where
  "ctl_rcv_handler a e flagged h inbuf d =
     (if flagged \<or> int (length inbuf) \<noteq> hdr_lin h \<or> int MSG_BUF_LEN < hdr_lout h \<or> hdr_cmd h < 0 then Some (None, d)
      else if hdr_cmd h AND RESPONSE_FIRST_HANDLE_LATER = 0 then do {
        (r, out, d) \<leftarrow> handle_message a e (hdr_cmd h) inbuf (hdr_lout h) d;
        if r < 0 \<and> hdr_lout h < 0 then None
        else Some (Some (r, if r = 0 then out else no_OUT), d)
      }
      else map_option (\<lambda>(r, out, d). (Some (0, no_OUT), d)) (handle_message a e (hdr_cmd h) inbuf (hdr_lout h) d))"

subsection \<open>The client's side\<close>

text \<open>What \<open>CTL_add_bridges\<close> and \<open>CTL_del_bridges\<close> of \<open>ctl_main.c\<close> send.\<close>

definition ints_bytes :: "u32 list \<Rightarrow> u8 list" where
  "ints_bytes ws = concat (map (be_bytes 4) ws)"

definition chunk :: "int list \<Rightarrow> u32 list" where
  "chunk xs = of_nat (length xs) # map of_int xs"

definition add_bridges_data :: "(int \<times> int list) list \<Rightarrow> u8 list" where
  "add_bridges_data xs = ints_bytes (chunk (map fst xs) @ concat (map (chunk \<circ> snd) xs))"

definition del_bridges_data :: "int list \<Rightarrow> u8 list" where
  "del_bridges_data is = ints_bytes (chunk is)"

end
