(* ===== verification/Bridge_Track_Theorems.thy ===== *)
theory Bridge_Track_Theorems
  imports Bridge_Track_Inv
begin

section \<open>The daemon around the protocol\<close>

text \<open>
  Runs of the daemon, as sequences of notifications, frames, seconds and commands in any order, and what they show:
  the bridges of the list are those the theorems on \<open>reachable\<close> states are about.
\<close>

datatype track_step =
    Notify int int bool u32
  | Frame int "u8 list" nat
  | Second
  | AddBridges "(int \<times> int list) list"
  | DelBridges "int list"
  | CtlCistBridge int CIST_BridgeConfig
  | CtlMstiBridge int mstid u8
  | CtlCistPort int int CIST_PortConfig
  | CtlMstiPort int int mstid MSTI_PortConfig
  | CtlMcheck int int
  | CtlCreateMsti int mstid
  | CtlDeleteMsti int mstid
  | CtlMstConfId int u16 "u8 list"
  | CtlVid2Fid int u16 u16
  | CtlFid2Mstid int u16 mstid
  | CtlVids2Fids int "nat \<Rightarrow> u16"
  | CtlFids2Mstids int "nat \<Rightarrow> u16"
  | Fini

definition track_do :: "env \<times> track_step \<Rightarrow> track \<Rightarrow> track option" where
  "track_do = (\<lambda>(e, s) d.
     case s of
       Notify k i newlink fl \<Rightarrow> map_option snd (bridge_notify e k i newlink fl d)
     | Frame i data len \<Rightarrow> bridge_bpdu_rcv e i data len d
     | Second \<Rightarrow> bridge_one_second e d
     | AddBridges xs \<Rightarrow> map_option snd (CTL_add_bridges e xs d)
     | DelBridges is \<Rightarrow> CTL_del_bridges e is d
     | CtlCistBridge k cfg \<Rightarrow> map_option snd (CTL_set_cist_bridge_config e k cfg d)
     | CtlMstiBridge k t pri \<Rightarrow> map_option snd (CTL_set_msti_bridge_config k t pri d)
     | CtlCistPort k i cfg \<Rightarrow> map_option snd (CTL_set_cist_port_config e k i cfg d)
     | CtlMstiPort k i t cfg \<Rightarrow> map_option snd (CTL_set_msti_port_config e k i t cfg d)
     | CtlMcheck k i \<Rightarrow> map_option snd (CTL_port_mcheck e k i d)
     | CtlCreateMsti k t \<Rightarrow> map_option snd (CTL_create_msti e k t d)
     | CtlDeleteMsti k t \<Rightarrow> map_option snd (CTL_delete_msti e k t d)
     | CtlMstConfId k revision name \<Rightarrow> map_option snd (CTL_set_mstconfid e k revision name d)
     | CtlVid2Fid k vid fid \<Rightarrow> map_option snd (CTL_set_vid2fid e k vid fid d)
     | CtlFid2Mstid k fid t \<Rightarrow> map_option snd (CTL_set_fid2mstid e k fid t d)
     | CtlVids2Fids k vf \<Rightarrow> map_option snd (CTL_set_vids2fids e k vf d)
     | CtlFids2Mstids k fm \<Rightarrow> map_option snd (CTL_set_fids2mstids e k fm d)
     | Fini \<Rightarrow> bridge_track_fini e d)"

definition track0 :: track where
  "track0 = \<lparr>bridges = [], next_ref = 0\<rparr>"

fun makes_msti :: "env \<times> track_step \<Rightarrow> bool" where
  "makes_msti (_, CtlCreateMsti _ _) = True"
| "makes_msti _ = False"

lemma res_snd: "outcome e z (\<lambda>(r, d'). track_inv z d') r \<Longrightarrow> outcome e z (track_inv z) (map_option snd r)"
  by (erule res_map) auto

lemma track_do_ok:
  assumes "track_inv z d" "z \<Longrightarrow> \<not> makes_msti (e, s)"
  shows "outcome e z (track_inv z) (track_do (e, s) d)"
proof (cases s)
  case (CtlCreateMsti k t)
  with assms have "\<not> z" by auto
  with CtlCreateMsti assms(1) show ?thesis by (simp add: track_do_def res_snd bridge_commands_ok(9))
qed (use assms in \<open>simp_all add: track_do_def res_snd bridge_notify_ok bpdu_rcv_ok one_second_track add_bridges_ok
    del_bridges_ok bridge_commands_ok(1-8) port_commands_ok fini_ok\<close>)

lemma track0_inv: "track_inv z track0"
  by (simp add: track_inv_def bridges_inv_def track0_def)

lemma track_run_inv:
  assumes "ofold track_do steps track0 = Some d"
  shows "track_inv False d"
proof -
  have "track_inv False d" if "ofold track_do steps d0 = Some d" "track_inv False d0" for d0
    using that
  proof (induction steps arbitrary: d0)
    case (Cons s steps)
    obtain d1 where d1: "track_do s d0 = Some d1" "ofold track_do steps d1 = Some d"
      using Cons.prems(1) by (auto simp: bind_eq_Some_conv)
    then have "track_inv False d1" using track_do_ok [OF Cons.prems(2), of "fst s" "snd s"] by (simp add: outcome_def)
    with Cons.IH d1(2) show ?case by blast
  qed simp
  with assms track0_inv show ?thesis by blast
qed

text \<open>A kernel with one port per bridge, and the list with a bridge and its port that are down.\<close>

definition sample_env :: env where
  "sample_env = \<lparr>index_to_name = (\<lambda>i. Some (if i = 5 then ''br0'' else ''lan1'')), get_hwaddr = (\<lambda>_. Some 0x001122334455),
     get_bridge_portno = (\<lambda>_. 1), get_flags = (\<lambda>_. -1), ethtool_get_speed_duplex = (\<lambda>_. None),
     env_fuel = 51, env_rounds = 0\<rparr>"

definition sample_br :: tracked where
  "sample_br = \<lparr>sysdeps = \<lparr>sbr_index = 5, sbr_mac = 0x001122334455, sbr_name = ''br0'', sbr_up = False\<rparr>,
     if_sysdeps = (\<lambda>_. \<lparr>sif_index = 0, sif_mac = 0, sif_up = False\<rparr>)
       (0 := \<lparr>sif_index = 7, sif_mac = 0x001122334455, sif_up = False\<rparr>), bridge = one_port\<rparr>"

definition sample_track :: track where
  "sample_track = \<lparr>bridges = [sample_br], next_ref = 1\<rparr>"

lemmas sample_track_defs = sample_track_def sample_br_def sample_env_def track0_def

lemma fresh_ports: "ports fresh_bridge = []" "port_at fresh_bridge 0 = zero_port"
  by (simp_all add: fresh_defs)

lemma sample_run: "ofold track_do [(sample_env, AddBridges [(5, [7])])] track0 = Some sample_track"
proof -
  let ?b = "\<lparr>sysdeps = \<lparr>sbr_index = 5, sbr_mac = 0x001122334455, sbr_name = ''br0'', sbr_up = False\<rparr>,
     if_sysdeps = (\<lambda>_. \<lparr>sif_index = 0, sif_mac = 0, sif_up = False\<rparr>), bridge = fresh_bridge\<rparr>"
  have "zero_port\<lparr>if_name := ''lan1''\<rparr> = port_at fresh_bridge 0" by (simp add: fresh_ports) (simp add: zero_port_def)
  then have "upd_port 0 (\<lambda>_. zero_port\<lparr>if_name := ''lan1''\<rparr>) fresh_bridge = fresh_bridge"
    by (simp add: upd_port_def)
  then have "create_if sample_env 0 7 ?b = Some (True, sample_br)"
    using one_port_created
    by (simp add: create_if_def new_port_def sample_env_def sample_br_def MAX_PORT_NUMBER_def handle_def)
  then have "add_iface sample_env 5 7 \<lparr>bridges = [?b], next_ref = 0\<rparr> = Some sample_track"
    by (simp add: add_iface_def find_br_def find_if_def attach_if_def put_br_def sample_track_def Let_def fresh_ports)
      (simp add: sample_env_def sample_br_def)
  moreover have "get_or_create_br sample_env 5 track0 = Some (Some (?b, \<lparr>bridges = [?b], next_ref = 0\<rparr>))"
    by (simp add: get_or_create_br_def find_br_def create_br_def track0_def sample_env_def fresh_bridge_def Let_def)
  moreover have "drop_ifaces sample_env [7] ?b = Some ?b" by (simp add: drop_ifaces_def fresh_ports)
  ultimately show ?thesis by (simp add: track_do_def put_br_def)
qed

lemma tracked_consistent:
  assumes inv: "track_inv False d" and b: "b \<in> set (bridges d)"
  shows "reachable (bridge b) \<and> bridgeEnabled (bridge b) = sbr_up (sysdeps b)
    \<and> distinct (map (if_index_of b) (ports (bridge b)))
    \<and> (\<forall>c \<in> set (bridges d). c \<noteq> b \<longrightarrow> br_index_of c \<noteq> br_index_of b
         \<and> if_index_of c ` set (ports (bridge c)) \<inter> if_index_of b ` set (ports (bridge b)) = {})"
proof -
  have "br_inv False (next_ref d) b" by (rule br_of_track [OF inv b])
  moreover have "br_index_of c \<noteq> br_index_of b
      \<and> if_index_of c ` set (ports (bridge c)) \<inter> if_index_of b ` set (ports (bridge b)) = {}"
    if "c \<in> set (bridges d)" "c \<noteq> b" for c
  proof -
    have n: "br_index_of c \<noteq> br_index_of b"
      using inv that b by (auto simp: track_inv_def bridges_inv_def distinct_map inj_on_def)
    have "apart c b" using inv that(1) b by (simp add: track_inv_def bridges_inv_def)
    with n show ?thesis by (simp add: apart_def if_indices_def)
  qed
  ultimately show ?thesis by (simp add: br_inv_def br_ok_def if_indices_def)
qed

text \<open>The bridges of the daemon are in the states the protocol's theorems are about, in whatever order
  notifications, frames, seconds and commands arrive: each is reachable by events of \<open>mstp.c\<close>, it is enabled
  exactly when its interface is up, its ports have different interfaces, and no interface is a port of two
  bridges.\<close>

theorem tracked_bridges_consistent:
  assumes "ofold track_do steps track0 = Some d" "b \<in> set (bridges d)"
  shows "reachable (bridge b) \<and> bridgeEnabled (bridge b) = sbr_up (sysdeps b)
    \<and> distinct (map (if_index_of b) (ports (bridge b)))
    \<and> (\<forall>c \<in> set (bridges d). c \<noteq> b \<longrightarrow> br_index_of c \<noteq> br_index_of b
         \<and> if_index_of c ` set (ports (bridge c)) \<inter> if_index_of b ` set (ports (bridge b)) = {})"
  by (rule tracked_consistent [OF track_run_inv [OF assms(1)] assms(2)])

theorem tracked_bridges_consistent_witness:
  "ofold track_do [(sample_env, AddBridges [(5, [7])])] track0 = Some sample_track \<and> sample_br \<in> set (bridges sample_track)
    \<and> reachable (bridge sample_br) \<and> bridgeEnabled (bridge sample_br) = sbr_up (sysdeps sample_br)"
  using tracked_bridges_consistent [OF sample_run, of sample_br] sample_run by (simp add: sample_track_def)

text \<open>C4: Without MSTIs the daemon handles everything: when no command creates an MSTI, every sequence of
  notifications, frames, seconds and commands runs to its end, if the state machines may nest 51 calls.\<close>

theorem daemon_returns:
  assumes "list_all (\<lambda>s. \<not> makes_msti s \<and> 51 \<le> env_fuel (fst s)) steps"
  shows "\<exists>d. ofold track_do steps track0 = Some d"
proof -
  have "\<exists>d. ofold track_do steps d0 = Some d" if "track_inv True d0" for d0
    using that assms
  proof (induction steps arbitrary: d0)
    case (Cons s steps)
    have "outcome (fst s) True (track_inv True) (track_do s d0)"
      using track_do_ok [OF Cons.prems(1), of "fst s" "snd s"] Cons.prems(2) by simp
    then obtain d1 where "track_do s d0 = Some d1" "track_inv True d1"
      using Cons.prems(2) by (auto simp: outcome_def)
    with Cons show ?case by simp
  qed simp
  with track0_inv show ?thesis by blast
qed

theorem daemon_returns_witness:
  "\<exists>d. ofold track_do [(sample_env, AddBridges [(5, [7])]), (sample_env, Notify 5 5 True 1),
       (sample_env, Notify 5 7 True 65), (sample_env, Second), (sample_env, Fini)] track0 = Some d"
  by (rule daemon_returns) (simp add: sample_env_def)

text \<open>C5: What a notification about a port of a tracked bridge does: with a new link and the answer 0 the interface
  has a port on this bridge, marked up as the flags say, and on no other bridge; when the link is deleted and
  the answer is 0, it has no port on any bridge.\<close>

theorem notification_applied:
  assumes "ofold track_do steps track0 = Some d" "find_br k d = Some b" "0 \<le> k" "k \<noteq> i"
    and "bridge_notify e k i newlink fl d = Some (0, d')"
  shows "if newlink then attached i (bit fl 0 \<and> bit fl 6) k d' else detached i d'"
  using bridge_notify_slave_ok [OF track_run_inv [OF assms(1)] assms(3,4,2), of e newlink fl] assms(5)
  by (simp add: outcome_def notified_def)

theorem notification_applied_witness:
  "bridge_notify sample_env 5 7 True 0 sample_track = Some (0, sample_track) \<and> attached 7 False 5 sample_track"
proof -
  have "if_name (port_at one_port 0) = ''lan1''"
    by (simp add: one_port_def init_port_def port_default_internal_vars_def fresh_ports) (simp add: zero_port_def)
  then have n: "bridge_notify sample_env 5 7 True 0 sample_track = Some (0, sample_track)"
    by (simp add: bridge_notify_def notify_slave_def find_br_def find_if_def if_index_of_def set_if_up_def
        check_mac_address_def one_port_lists sample_track_defs put_br_def upd_port_def)
  then show ?thesis
    using notification_applied [OF sample_run _ _ _ n, of sample_br] by (simp add: find_br_def sample_track_defs)
qed

text \<open>C6: A frame that one bridge sends is received by another as it was meant: the port that is up gets a
  BPDU of the sent size that the validation judges as it would the sent one, whatever follows the frame in the
  buffer; when it is sent in full, the received BPDU has the fields and the MSTI messages of the sent one.\<close>

theorem frame_delivered:
  assumes "bpdu_ok bpdu" "0 < sz" "sz \<le> length (bpdu_bytes bpdu)" "17 + sz \<le> len"
    and "List.find (\<lambda>b. find_if b i \<noteq> None) (bridges d) = Some b" "find_if b i = Some p" "sif_up (if_sysdeps b p)"
  shows "\<exists>rcvd. bridge_bpdu_rcv e i (tx_frame mac bpdu sz @ junk) len d =
      map_option (\<lambda>br. put_br (b\<lparr>bridge := br\<rparr>) d)
        (MSTP_IN_rx_bpdu (env_fuel e) (env_rounds e) p rcvd (of_nat sz) (bridge b))
    \<and> rx_validate rcvd (of_nat sz) = rx_validate bpdu (of_nat sz)
    \<and> (sz = length (bpdu_bytes bpdu) \<longrightarrow>
         (\<exists>ms. rcvd = bpdu\<lparr>mstConfiguration := mstConfiguration bpdu @ ms\<rparr>))"
proof -
  let ?rcvd = "bpdu_of (take sz (bpdu_bytes bpdu) @ junk)"
  have "length (concat (map msti_bytes (mstConfiguration bpdu))) = 16 * length (mstConfiguration bpdu)"
    by (induction "mstConfiguration bpdu" rule: rev_induct) (simp_all add: length_concat comp_def sum_list_triv)
  then have len: "length (bpdu_bytes bpdu) \<le> 1126"
    using length_head [OF assms(1)] assms(1) by (simp add: bpdu_bytes_def bpdu_ok_def MAX_STANDARD_MSTIS_def)
  have "llc_check (tx_frame mac bpdu sz @ junk) len = Some sz"
    using llc_check_sent assms(2-4) len by simp
  moreover have "drop 17 (tx_frame mac bpdu sz @ junk) = take sz (bpdu_bytes bpdu) @ junk"
    by (simp add: tx_frame_def)
  ultimately have "bridge_bpdu_rcv e i (tx_frame mac bpdu sz @ junk) len d =
      map_option (\<lambda>br. put_br (b\<lparr>bridge := br\<rparr>) d)
        (MSTP_IN_rx_bpdu (env_fuel e) (env_rounds e) p ?rcvd (of_nat sz) (bridge b))"
    using assms(5-7) by (simp add: bridge_bpdu_rcv_def)
  moreover have "rx_validate ?rcvd (of_nat sz) = rx_validate bpdu (of_nat sz)"
    using rx_validate_sent [OF assms(1,3)] len assms(3) by simp
  moreover have "\<exists>ms. ?rcvd = bpdu\<lparr>mstConfiguration := mstConfiguration bpdu @ ms\<rparr>" if "sz = length (bpdu_bytes bpdu)"
    using bpdu_of_bytes [OF assms(1), of junk] that by simp
  ultimately show ?thesis by blast
qed

definition sample_bpdu :: bpdu_t where
  "sample_bpdu = blank_bpdu\<lparr>mstConfigurationIdentifier :=
     \<lparr>selector = 0, configuration_name = replicate 32 0, revision_level = 0, configuration_digest = replicate 16 0\<rparr>\<rparr>"

definition live_track :: track where
  "live_track = put_br (sample_br\<lparr>if_sysdeps := (\<lambda>p. (if_sysdeps sample_br p)\<lparr>sif_up := True\<rparr>)\<rparr>) sample_track"

theorem frame_delivered_witness:
  "\<exists>b rcvd. find_br 5 live_track = Some b
    \<and> bridge_bpdu_rcv sample_env 7 (tx_frame 0x001122334455 sample_bpdu 36 @ replicate 7 0) 60 live_track =
        map_option (\<lambda>br. put_br (b\<lparr>bridge := br\<rparr>) live_track) (MSTP_IN_rx_bpdu 51 0 0 rcvd 36 (bridge b))
    \<and> rx_validate rcvd 36 = rx_validate sample_bpdu 36"
proof -
  let ?b = "sample_br\<lparr>if_sysdeps := (\<lambda>p. (if_sysdeps sample_br p)\<lparr>sif_up := True\<rparr>)\<rparr>"
  have ok: "bpdu_ok sample_bpdu" by (simp add: bpdu_ok_def sample_bpdu_def blank_bpdu_def)
  have len: "length (bpdu_bytes sample_bpdu) = 102"
    using length_head [OF ok] by (simp add: bpdu_bytes_def sample_bpdu_def blank_bpdu_def)
  have b: "find_br 5 live_track = Some ?b" "bridges live_track = [?b]" "find_if ?b 7 = Some 0" "sif_up (if_sysdeps ?b 0)"
    by (simp_all add: find_br_def find_if_def if_index_of_def live_track_def put_br_def sample_track_def sample_br_def
        one_port_lists)
  have e: "env_fuel sample_env = 51" "env_rounds sample_env = 0" by (simp_all add: sample_env_def)
  from frame_delivered [OF ok, where sz = 36 and len = 60 and i = 7 and d = live_track and b = ?b and p = 0
      and e = sample_env and mac = "0x001122334455" and junk = "replicate 7 0"] len b e
  show ?thesis by auto
qed

end
