(* ===== verification/Ctl_Theorems.thy ===== *)
theory Ctl_Theorems
  imports Ctl_Server Bridge_Track_Theorems
begin

section \<open>Properties of the control socket\<close>

text \<open>
  What a datagram can and cannot do to the daemon: the bridges stay consistent, the messages of the control
  program arrive as they were meant, and which malformed messages are not caught.
\<close>

subsection \<open>The count of bridges in an accepted message\<close>

lemma int_at_cong: "p * 4 = q * 4 \<Longrightarrow> int_at buf p = int_at buf q"
  by (simp add: int_at_def)

lemma int_at_bound: "int_at buf p = Some c \<Longrightarrow> unat (p * 4) div 4 < length buf div 4"
  by (auto simp: int_at_def Let_def split: if_splits)

lemma check_Suc:
  "check_chunks buf (Suc n) p = Some True \<longleftrightarrow>
     (\<exists>c. int_at buf p = Some c \<and> (if n = 0 then of_nat (length buf) = (p + (c + 1)) * 4
        else \<not> of_nat (length buf) < (p + (c + 1) + 1) * 4 \<and> check_chunks buf n (p + (c + 1)) = Some True))"
  by (cases "int_at buf p") (auto simp: Let_def)

declare check_chunks.simps(2) [simp del]

lemma check_last:
  assumes "check_chunks buf (Suc 0) p = Some True"
  obtains c where "int_at buf p = Some c" "of_nat (length buf) = (p + (c + 1)) * 4"
proof -
  from iffD1 [OF check_Suc assms] show ?thesis using that by (auto simp only: if_True simp_thms)
qed

text \<open>The position in the message determines how many lists are still to come.\<close>

lemma check_unique:
  assumes "check_chunks buf (Suc n) p = Some True" "check_chunks buf (Suc m) q = Some True" "p * 4 = q * 4"
    and "length buf + 4 < 2 ^ 32"
  shows "n = m"
proof -
  have last: False if l: "check_chunks buf (Suc 0) p = Some True" "check_chunks buf (Suc (Suc m)) q = Some True" "p * 4 = q * 4"
    for p q m
  proof -
    obtain c where c: "int_at buf p = Some c" "of_nat (length buf) = (p + (c + 1)) * 4" by (rule check_last [OF l(1)])
    have "int_at buf q = Some c" using c(1) int_at_cong [OF that(3)] by simp
    then have "\<not> of_nat (length buf) < (q + (c + 1) + 1) * 4" using that(2) by (auto simp: check_Suc [of _ "Suc m"])
    moreover have "(q + (c + 1) + 1) * 4 = of_nat (length buf + 4)" using c(2) that(3) by (simp add: algebra_simps)
    ultimately show False using assms(4) by (simp add: word_less_nat_alt unat_of_nat take_bit_nat_eq_self del: of_nat_add)
  qed
  show ?thesis
    using assms(1-3)
  proof (induction n arbitrary: m p q)
    case 0
    with last [of p _ q] show ?case by (cases m) auto
  next
    case (Suc n)
    then obtain m' where m: "m = Suc m'" using last [of q n p] by (cases m) auto
    obtain c where c: "int_at buf p = Some c" "check_chunks buf (Suc n) (p + (c + 1)) = Some True"
      using Suc.prems(1) by (auto simp: check_Suc [of _ "Suc n"])
    have "int_at buf q = Some c" using c(1) int_at_cong [OF Suc.prems(3)] by simp
    then have "check_chunks buf (Suc m') (q + (c + 1)) = Some True"
      using Suc.prems(2) by (auto simp: m check_Suc [of _ "Suc m'"])
    moreover have "(p + (c + 1)) * 4 = (q + (c + 1)) * 4" using Suc.prems(3) by (simp add: distrib_right)
    ultimately show ?case using Suc.IH [OF c(2)] m by simp
  qed
qed

lemma check_prefixes:
  "check_chunks buf n p = Some True \<Longrightarrow> k < n \<Longrightarrow> \<exists>q. check_chunks buf (Suc k) q = Some True"
proof (induction n arbitrary: p)
  case (Suc n)
  show ?case
  proof (cases "k = n")
    case True
    with Suc.prems show ?thesis by blast
  next
    case False
    then obtain c where "check_chunks buf n (p + (c + 1)) = Some True" using Suc.prems unfolding check_Suc by auto
    with False Suc.prems Suc.IH show ?thesis by simp
  qed
qed simp

lemma check_count:
  assumes "check_chunks buf n p = Some True" "length buf + 4 < 2 ^ 32"
  shows "n \<le> length buf div 4"
proof -
  define g where "g k = (SOME q. check_chunks buf (Suc k) q = Some True)" for k
  have g: "check_chunks buf (Suc k) (g k) = Some True" if "k < n" for k
    unfolding g_def by (rule someI_ex) (rule check_prefixes [OF assms(1) that])
  let ?f = "\<lambda>k. unat (g k * 4) div 4"
  have four: "unat (x * 4 :: u32) mod 4 = 0" for x
  proof -
    have "unat (x * 4) = (unat x * 4) mod 2 ^ 32" by (simp add: unat_word_ariths)
    then show ?thesis by (simp add: mod_mod_cancel)
  qed
  have "inj_on ?f {..<n}"
  proof (rule inj_onI)
    fix k l
    assume kl: "k \<in> {..<n}" "l \<in> {..<n}" "?f k = ?f l"
    then have "unat (g k * 4) = unat (g l * 4)" using four [of "g k"] four [of "g l"] by (metis div_mod_decomp)
    then have "g k * 4 = g l * 4" by (simp only: word_unat_eq_iff)
    with check_unique [OF g g _ assms(2)] kl show "k = l" by simp
  qed
  moreover have "?f ` {..<n} \<subseteq> {..<length buf div 4}" using g int_at_bound by (fastforce simp: check_Suc)
  ultimately have "card {..<n} \<le> card {..<length buf div 4}" by (rule card_inj_on_le) simp
  then show ?thesis by simp
qed

lemma length_those: "those xs = Some ys \<Longrightarrow> length ys = length xs"
  by (induction xs arbitrary: ys) (auto split: option.splits)

lemma length_iface_lists: "iface_lists buf n p = Some ls \<Longrightarrow> length ls = n"
  by (induction n arbitrary: p ls) (auto simp: bind_eq_Some_conv)

subsection \<open>Messages of the control program\<close>

definition is_int :: "int \<Rightarrow> bool" where
  "is_int x \<longleftrightarrow> - (2 ^ 31) \<le> x \<and> x < 2 ^ 31"

lemma sint_of_int: "is_int x \<Longrightarrow> sint (of_int x :: u32) = x"
  by (simp add: is_int_def sint_sbintrunc' signed_take_bit_int_eq_self)

lemma sint_of_nat: "n < 2 ^ 31 \<Longrightarrow> sint (of_nat n :: u32) = int n"
  using sint_of_int [of "int n"] by (simp add: is_int_def)

lemma of_nat_less_u32: "a < 2 ^ 32 \<Longrightarrow> b < 2 ^ 32 \<Longrightarrow> (of_nat a :: u32) < of_nat b \<longleftrightarrow> a < b"
  by (simp add: word_less_nat_alt unat_of_nat take_bit_nat_eq_self)

lemma length_ints_bytes [simp]: "length (ints_bytes ws) = 4 * length ws"
  by (induction ws) (simp_all add: ints_bytes_def)

lemma length_chunk [simp]: "length (chunk xs) = Suc (length xs)"
  by (simp add: chunk_def)

lemma int_at_bytes:
  assumes "k < length ws" "length ws < 2 ^ 28"
  shows "int_at (ints_bytes ws) (of_nat k) = Some (ws ! k)"
proof -
  have "unat (of_nat k * 4 :: u32) = 4 * k"
    using assms by (simp add: unat_word_ariths unat_of_nat take_bit_nat_eq_self)
  moreover have "field (4 * k) 4 (ints_bytes ws) = be_bytes 4 (ws ! k)"
    using field_concat [of ws "be_bytes 4" 4 k "[]"] assms(1) by (simp add: ints_bytes_def)
  ultimately show ?thesis using assms(1) by (simp add: int_at_def be_word_bytes)
qed

lemma those_Some: "(\<And>x. x \<in> set xs \<Longrightarrow> f x = Some (g x)) \<Longrightarrow> those (map f xs) = Some (map g xs)"
  by (induction xs) simp_all

lemma ints_at_bytes:
  assumes "k + n \<le> length ws" "length ws < 2 ^ 28"
  shows "ints_at (ints_bytes ws) (of_nat k) n = Some (map sint (take n (drop k ws)))"
proof -
  have "those (map (\<lambda>j. int_at (ints_bytes ws) (of_nat k + of_nat j)) [0 ..< n]) = Some (map (\<lambda>j. ws ! (k + j)) [0 ..< n])"
    by (rule those_Some) (use assms int_at_bytes [of "k + _" ws] in simp)
  moreover have "map (\<lambda>j. ws ! (k + j)) [0 ..< n] = take n (drop k ws)"
    using assms(1) by (intro nth_equalityI) simp_all
  ultimately show ?thesis by (simp add: ints_at_def)
qed

lemma check_sent:
  assumes "ws = pre @ concat (map chunk xss)" "length ws < 2 ^ 28"
  shows "check_chunks (ints_bytes ws) (length xss) (of_nat (length pre)) = Some True"
  using assms
proof (induction xss arbitrary: pre)
  case (Cons xs xss)
  have c: "int_at (ints_bytes ws) (of_nat (length pre)) = Some (of_nat (length xs))"
    using int_at_bytes [of "length pre" ws] Cons.prems by (simp add: chunk_def nth_append)
  have len: "length ws = length (pre @ chunk xs) + length (concat (map chunk xss))" using Cons.prems(1) by simp
  have p: "of_nat (length pre) + (of_nat (length xs) + 1) = (of_nat (length (pre @ chunk xs)) :: u32)" by simp
  show ?case
  proof (cases xss)
    case Nil
    then show ?thesis using c len by (simp add: check_Suc algebra_simps)
  next
    case c2: (Cons ys yss)
    then have le: "4 * (length (pre @ chunk xs) + 1) \<le> 4 * length ws" using len by simp
    have e: "(of_nat (length (pre @ chunk xs)) + 1) * 4 = (of_nat (4 * (length (pre @ chunk xs) + 1)) :: u32)"
      by (simp add: algebra_simps)
    have "\<not> of_nat (length (ints_bytes ws)) < ((of_nat (length (pre @ chunk xs)) + 1) * 4 :: u32)"
      unfolding e using le Cons.prems(2) by (subst of_nat_less_u32) simp_all
    moreover have "check_chunks (ints_bytes ws) (length xss) (of_nat (length (pre @ chunk xs))) = Some True"
      using Cons.IH [of "pre @ chunk xs"] \<open>length ws < 2 ^ 28\<close> \<open>ws = pre @ concat (map chunk (xs # xss))\<close> by simp
    moreover have "length xss \<noteq> 0" using c2 by simp
    ultimately have "check_chunks (ints_bytes ws) (Suc (length xss)) (of_nat (length pre)) = Some True"
      unfolding check_Suc
      by (intro exI [of _ "of_nat (length xs)"] conjI [OF c]) (simp only: p if_False simp_thms)
    then show ?thesis by simp
  qed
qed simp

lemma map_sint: "list_all is_int xs \<Longrightarrow> map sint (map of_int xs :: u32 list) = xs"
  by (induction xs) (simp_all add: sint_of_int)

lemma iface_lists_sent:
  assumes "ws = pre @ concat (map chunk xss)" "length ws < 2 ^ 28" "list_all (list_all is_int) xss"
  shows "iface_lists (ints_bytes ws) (length xss) (of_nat (length pre)) = Some xss"
  using assms
proof (induction xss arbitrary: pre)
  case (Cons xs xss)
  have c: "int_at (ints_bytes ws) (of_nat (length pre)) = Some (of_nat (length xs))"
    using int_at_bytes [of "length pre" ws] Cons.prems by (simp add: chunk_def nth_append)
  have n: "nat (sint (of_nat (length xs) :: u32)) = length xs"
    using sint_of_nat [of "length xs"] Cons.prems(1,2) by simp
  have "ints_at (ints_bytes ws) (of_nat (length pre + 1)) (length xs) = Some xs"
    using ints_at_bytes [of "length pre + 1" "length xs" ws] Cons.prems map_sint [of xs] by (simp add: chunk_def)
  moreover have "iface_lists (ints_bytes ws) (length xss) (of_nat (length (pre @ chunk xs))) = Some xss"
    using Cons.IH [of "pre @ chunk xs"] Cons.prems by simp
  ultimately show ?case using c n by (simp add: ac_simps)
qed simp

text \<open>The arrays of the control program arrive as they were sent.\<close>

lemma add_bridges_sent:
  assumes "xs \<noteq> []" "list_all (\<lambda>(i, ifs). is_int i \<and> list_all is_int ifs) xs" "length (add_bridges_data xs) \<le> MSG_BUF_LEN"
    and "mem (of_nat (4 * length xs))"
  shows "add_bridges_msg mem (add_bridges_data xs) = Some (Some xs)"
proof -
  define ids where "ids = map fst xs"
  define ws where "ws = chunk ids @ concat (map chunk (map snd xs))"
  have d: "add_bridges_data xs = ints_bytes ws" by (simp add: add_bridges_data_def ws_def ids_def comp_def)
  have len: "length ws < 2 ^ 28" using assms(3) d by (simp add: MSG_BUF_LEN_def)
  have ints: "list_all is_int ids" "list_all (list_all is_int) (map snd xs)"
    using assms(2) by (auto simp: ids_def list_all_iff)
  have two: "length xs + 2 \<le> length ws" using assms(1) by (cases xs) (simp_all add: ws_def ids_def)
  have b: "int_at (ints_bytes ws) 0 = Some (of_nat (length xs))"
    using int_at_bytes [of 0 ws] len two by (simp add: ws_def chunk_def ids_def)
  have n: "nat (sint (of_nat (length xs) :: u32)) = length xs" using sint_of_nat [of "length xs"] len two by simp
  have "(of_nat (length xs) + 1 + 1) * 4 = (of_nat (4 * (length xs + 2)) :: u32)" by (simp add: algebra_simps)
  then have fits: "\<not> of_nat (length (ints_bytes ws)) < ((of_nat (length xs) + 1 + 1) * 4 :: u32)"
    using two len by (simp only:, subst of_nat_less_u32) simp_all
  have "check_chunks (ints_bytes ws) (length xs) (of_nat (length (chunk ids))) = Some True"
    using check_sent [OF ws_def len] by simp
  moreover have "iface_lists (ints_bytes ws) (length xs) (of_nat (length (chunk ids))) = Some (map snd xs)"
    using iface_lists_sent [OF ws_def len ints(2)] by simp
  moreover have "ints_at (ints_bytes ws) 1 (length xs) = Some ids"
    using ints_at_bytes [of 1 "length xs" ws] len two map_sint [OF ints(1)] by (simp add: ws_def chunk_def ids_def)
  moreover have "zip ids (map snd xs) = xs" by (simp add: ids_def zip_map_fst_snd)
  moreover have "ws \<noteq> []" "length ids = length xs" using two by (auto simp: ids_def)
  ultimately show ?thesis
    using b n fits assms(4) by (simp add: d add_bridges_msg_def ac_simps)
qed

lemma del_bridges_sent:
  assumes "list_all is_int is" "length (del_bridges_data is) \<le> MSG_BUF_LEN"
  shows "del_bridges_msg (del_bridges_data is) = Some (Some is)"
proof -
  have len: "length (chunk is) < 2 ^ 28" using assms(2) by (simp add: del_bridges_data_def MSG_BUF_LEN_def)
  have "int_at (ints_bytes (chunk is)) 0 = Some (of_nat (length is))"
    using int_at_bytes [of 0 "chunk is"] len by (simp add: chunk_def)
  moreover have "ints_at (ints_bytes (chunk is)) 1 (length is) = Some is"
    using ints_at_bytes [of 1 "length is" "chunk is"] len map_sint [OF assms(1)] by (simp add: chunk_def)
  moreover have "nat (sint (of_nat (length is) :: u32)) = length is" using sint_of_nat [of "length is"] len by simp
  ultimately show ?thesis by (simp add: del_bridges_msg_def del_bridges_data_def algebra_simps)
qed

subsection \<open>Datagrams and the daemon\<close>

datatype daemon_step = Internal track_step | Datagram bool ctl_msg_hdr "u8 list"

definition daemon_do :: "abi \<Rightarrow> env \<times> daemon_step \<Rightarrow> track \<Rightarrow> track option" where
  "daemon_do a = (\<lambda>(e, s) d.
     case s of
       Internal t \<Rightarrow> track_do (e, t) d
     | Datagram flagged h buf \<Rightarrow> map_option snd (ctl_rcv_handler a e flagged h buf d))"

lemma reading_ok: "track_inv z d \<Longrightarrow> outcome e z (\<lambda>(r, out, d'). track_inv z d') (reading x d)"
  by (simp add: reading_def res_Some)

lemma changing_ok:
  "outcome e z (\<lambda>(r, d'). track_inv z d') x \<Longrightarrow> outcome e z (\<lambda>(r, out, d'). track_inv z d') (changing x)"
  unfolding changing_def by (erule res_map) auto

lemma ctl_call_ok:
  "track_inv False d \<Longrightarrow> outcome e False (\<lambda>(r, out, d'). track_inv False d') (ctl_call e c d)"
  by (cases c) (simp_all add: reading_ok changing_ok bridge_commands_ok port_commands_ok res_Some)

lemma handle_message_inv:
  assumes inv: "track_inv False d" and r: "handle_message a e cmd buf lout d = Some (r, out, d')"
  shows "track_inv False d'"
proof -
  have call: "track_inv False d'" if "outcome e False (\<lambda>(r, out, d'). track_inv False d') x" "x = Some (r, out, d')" for x
    using that by (simp add: outcome_def)
  have del: "outcome e False (\<lambda>(r, d'). track_inv False d') (map_option (Pair 0) (CTL_del_bridges e is d))" for "is"
    by (rule res_map [OF del_bridges_ok [OF inv]]) simp
  show ?thesis
    using r inv call [OF ctl_call_ok [OF inv]] call [OF changing_ok [OF add_bridges_ok [OF inv]]] call [OF changing_ok [OF del]]
    by (auto simp: handle_message_def bind_eq_Some_conv split: if_splits option.splits)
qed

lemma ctl_rcv_inv:
  assumes "track_inv False d" "ctl_rcv_handler a e flagged h buf d = Some (reply, d')"
  shows "track_inv False d'"
  using assms
  by (auto simp: ctl_rcv_handler_def bind_eq_Some_conv split: if_splits prod.splits dest: handle_message_inv [OF assms(1)])

lemma daemon_run_inv:
  "track_inv False d0 \<Longrightarrow> ofold (daemon_do a) steps d0 = Some d \<Longrightarrow> track_inv False d"
proof (induction steps arbitrary: d0)
  case (Cons s steps)
  obtain d1 where d1: "daemon_do a s d0 = Some d1" "ofold (daemon_do a) steps d1 = Some d"
    using Cons.prems(2) by (auto simp: bind_eq_Some_conv)
  have "track_inv False d1"
    using d1(1) track_do_ok [OF Cons.prems(1)] ctl_rcv_inv [OF Cons.prems(1)]
    by (cases s) (auto simp: daemon_do_def outcome_def split: daemon_step.splits)
  with Cons.IH d1(2) show ?case by blast
qed simp


lemma add_datagram:
  assumes "xs \<noteq> []" "list_all (\<lambda>(i, ifs). is_int i \<and> list_all is_int ifs) xs"
    and "length (add_bridges_data xs) \<le> MSG_BUF_LEN" "malloc_ok a (of_nat (4 * length xs))"
    and "hdr_cmd h = CMD_CODE_add_bridges" "hdr_lin h = int (length (add_bridges_data xs))" "hdr_lout h = 0"
  shows "ctl_rcv_handler a e False h (add_bridges_data xs) d =
    map_option (\<lambda>(r, d'). (Some (0, no_OUT), d')) (CTL_add_bridges e xs d)"
proof -
  have c: "CMD_CODE_add_bridges \<notin> set struct_codes" "CMD_CODE_add_bridges AND RESPONSE_FIRST_HANDLE_LATER \<noteq> 0"
    "\<not> CMD_CODE_add_bridges < 0"
    by (simp_all add: CMD_CODE_add_bridges_def struct_codes_def RESPONSE_FIRST_HANDLE_LATER_def)
  show ?thesis
    using add_bridges_sent [where mem = "malloc_ok a", OF assms(1-4)] assms(5-7) c
    by (cases "CTL_add_bridges e xs d") (auto simp: ctl_rcv_handler_def handle_message_def changing_def)
qed

subsection \<open>Properties\<close>

text \<open>C3: Nothing that comes over the control socket breaks the bridges: after any mixture of notifications, frames,
  seconds and datagrams, well-formed or not, each bridge is in a reachable state of the protocol, is enabled
  exactly when its interface is up, and no interface is a port twice or of two bridges.\<close>

theorem daemon_bridges_consistent:
  assumes "ofold (daemon_do a) steps track0 = Some d" "b \<in> set (bridges d)"
  shows "reachable (bridge b) \<and> bridgeEnabled (bridge b) = sbr_up (sysdeps b)
    \<and> distinct (map (if_index_of b) (ports (bridge b)))
    \<and> (\<forall>c \<in> set (bridges d). c \<noteq> b \<longrightarrow> br_index_of c \<noteq> br_index_of b
         \<and> if_index_of c ` set (ports (bridge c)) \<inter> if_index_of b ` set (ports (bridge b)) = {})"
  by (rule tracked_consistent [OF daemon_run_inv [OF track0_inv assms(1)] assms(2)])

text \<open>A compiler's layout and a header, for concrete datagrams.\<close>

definition sample_abi :: abi where
  "sample_abi = \<lparr>in_size = (\<lambda>_. 4), out_size = (\<lambda>_. 0), struct_of = (\<lambda>_ bs. set_debug_level_IN (sint (be_word bs :: u32))),
     malloc_ok = (\<lambda>n. n < 0x10000)\<rparr>"

definition add_hdr :: ctl_msg_hdr where
  "add_hdr = \<lparr>hdr_cmd = CMD_CODE_add_bridges, hdr_lin = 16, hdr_lout = 0, hdr_llog = 255, hdr_res = 0\<rparr>"

lemma sample_sent: "length (add_bridges_data [(5, [7])]) = 16"
  by (simp add: add_bridges_data_def)

lemma sample_datagram:
  "ofold (daemon_do sample_abi) [(sample_env, Datagram False add_hdr (add_bridges_data [(5, [7])]))] track0 = Some sample_track"
proof -
  have "ctl_rcv_handler sample_abi sample_env False add_hdr (add_bridges_data [(5, [7])]) track0 =
      map_option (\<lambda>(r, d). (Some (0, no_OUT), d)) (CTL_add_bridges sample_env [(5, [7])] track0)"
    by (rule add_datagram) (simp_all add: is_int_def sample_sent MSG_BUF_LEN_def sample_abi_def add_hdr_def)
  with sample_run show ?thesis
    by (cases "CTL_add_bridges sample_env [(5, [7])] track0") (auto simp: daemon_do_def track_do_def simp del: CTL_add_bridges.simps)
qed

theorem daemon_bridges_consistent_witness:
  "ofold (daemon_do sample_abi) [(sample_env, Datagram False add_hdr (add_bridges_data [(5, [7])]))] track0 = Some sample_track
    \<and> reachable (bridge sample_br) \<and> bridgeEnabled (bridge sample_br) = sbr_up (sysdeps sample_br)"
  using daemon_bridges_consistent [OF sample_datagram, of sample_br] sample_datagram by (simp add: sample_track_def)

text \<open>C15: The table of lists that the server allocates for a message is in proportion to it: the number of bridges of an
  accepted message is at most the number of its words, so the size of the table, a product of \<open>size_t\<close>, does not
  wrap, although the server checks neither sign nor size of the count.\<close>

theorem accepted_count_bounded:
  assumes "add_bridges_msg mem buf = Some (Some xs)" "length buf \<le> MSG_BUF_LEN"
  shows "\<exists>brcount. int_at buf 0 = Some brcount \<and> nat (sint brcount) = length xs \<and> 4 * length xs \<le> length buf"
proof -
  obtain brcount bs ls where b: "int_at buf 0 = Some brcount" "check_chunks buf (nat (sint brcount)) (brcount + 1) = Some True"
    "ints_at buf 1 (nat (sint brcount)) = Some bs" "iface_lists buf (nat (sint brcount)) (brcount + 1) = Some ls" "xs = zip bs ls"
    using assms(1) by (auto simp: add_bridges_msg_def bind_eq_Some_conv split: if_splits)
  have "length bs = nat (sint brcount)" using b(3) length_those by (fastforce simp: ints_at_def)
  moreover have "length ls = nat (sint brcount)" using b(4) by (rule length_iface_lists)
  moreover have "nat (sint brcount) \<le> length buf div 4"
    by (rule check_count [OF b(2)]) (use assms(2) in \<open>simp add: MSG_BUF_LEN_def\<close>)
  ultimately show ?thesis using b(1,5) by auto
qed

theorem accepted_count_bounded_witness:
  "\<exists>brcount. int_at (add_bridges_data [(5, [7])]) 0 = Some brcount \<and> nat (sint brcount) = 1
     \<and> 4 * 1 \<le> length (add_bridges_data [(5, [7])])"
proof -
  have "add_bridges_msg (\<lambda>_. True) (add_bridges_data [(5, [7])]) = Some (Some [(5, [7])])"
    by (rule add_bridges_sent) (simp_all add: is_int_def sample_sent MSG_BUF_LEN_def)
  from accepted_count_bounded [OF this] sample_sent show ?thesis by (simp add: MSG_BUF_LEN_def)
qed

text \<open>C14: Adding bridges over the socket: what the control program was told is what the daemon does, for any bridges and
  interfaces that fit into a message.\<close>

theorem bridges_added_as_sent:
  assumes "xs \<noteq> []" "list_all (\<lambda>(i, ifs). is_int i \<and> list_all is_int ifs) xs"
    and "length (add_bridges_data xs) \<le> MSG_BUF_LEN" "malloc_ok a (of_nat (4 * length xs))"
    and "hdr_cmd h = CMD_CODE_add_bridges" "hdr_lin h = int (length (add_bridges_data xs))" "hdr_lout h = 0"
  shows "ctl_rcv_handler a e False h (add_bridges_data xs) d =
    map_option (\<lambda>(r, d'). (Some (0, no_OUT), d')) (CTL_add_bridges e xs d)"
  by (rule add_datagram [OF assms])

theorem bridges_added_as_sent_witness:
  "ctl_rcv_handler sample_abi sample_env False add_hdr (add_bridges_data [(5, [7])]) track0 =
     map_option (\<lambda>(r, d'). (Some (0, no_OUT), d')) (CTL_add_bridges sample_env [(5, [7])] track0)"
  by (rule bridges_added_as_sent) (simp_all add: is_int_def sample_sent MSG_BUF_LEN_def sample_abi_def add_hdr_def)

text \<open>C21: A datagram that announces a negative size for the answer ends the daemon, whatever its command, unless the
  command is one that is handled after the answer: the test of the header lets it pass and the buffer for the answer
  is then cleared with that size.\<close>

theorem negative_answer_crashes:
  assumes "hdr_lout h < 0" "0 \<le> hdr_cmd h" "hdr_lin h = int (length buf)"
    and "hdr_cmd h AND RESPONSE_FIRST_HANDLE_LATER = 0"
  shows "ctl_rcv_handler a e False h buf d = None"
proof -
  have "hdr_cmd h \<noteq> CMD_CODE_add_bridges" "hdr_cmd h \<noteq> CMD_CODE_del_bridges"
    using assms(4) by (auto simp: CMD_CODE_add_bridges_def CMD_CODE_del_bridges_def RESPONSE_FIRST_HANDLE_LATER_def)
  then have "handle_message a e (hdr_cmd h) buf (hdr_lout h) d = Some (-1, no_OUT, d)"
    using assms(1) by (auto simp: handle_message_def)
  then show ?thesis using assms by (simp add: ctl_rcv_handler_def MSG_BUF_LEN_def)
qed

theorem negative_answer_crashes_witness:
  "ctl_rcv_handler sample_abi sample_env False \<lparr>hdr_cmd = 110, hdr_lin = 4, hdr_lout = -1, hdr_llog = 0, hdr_res = 0\<rparr>
     [0, 0, 0, 2] track0 = None"
  by (rule negative_answer_crashes) (simp_all add: RESPONSE_FIRST_HANDLE_LATER_def)



text \<open>A message of three words whose second list has 0x40000000 elements passes the checks, because the size in
  octets wraps, and the list is then read beyond the message.\<close>

theorem wrapped_length_accepted:
  "check_chunks (ints_bytes [1, 5, 0x40000000]) 1 2 = Some True
    \<and> int_at (ints_bytes [1, 5, 0x40000000]) 3 = None"
  by (simp add: check_chunks.simps ints_bytes_def int_at_def be_bytes_def field_def be_word_def be_val_nat_bytes Let_def)

end
