(* ===== verification/Ctl_Main.thy ===== *)
theory Ctl_Main
  imports Ctl_Server C_Strings
begin

section \<open>The control program\<close>

text \<open>
  \<open>ctl_main.c\<close>: \<open>mstpctl\<close> turns its arguments, or the lines of a batch file, into commands for the daemon. Here a
  command line becomes a \<open>request\<close>, or an error: the process exits, or the command returns a code. The names of
  interfaces and the ports of a bridge, which the program asks the kernel for, are arguments. The commands that only
  show something are the request \<open>Show\<close>; the output of some of them is in \<open>Ctl_Show\<close>.
\<close>

datatype cli_error = Exit int | Return int

datatype request =
    Send ctl_in
  | SendAdd "(int \<times> int list) list"
  | SendDel "int list"
  | Show "string list"

type_synonym 'a cli = "cli_error + 'a"

definition sum_bind :: "'a cli \<Rightarrow> ('a \<Rightarrow> 'b cli) \<Rightarrow> 'b cli" where
  "sum_bind r f = (case r of Inl x \<Rightarrow> Inl x | Inr y \<Rightarrow> f y)"

record kernel =
  if_nametoindex :: "string \<Rightarrow> int"
  brif :: "string \<Rightarrow> string list option"

subsection \<open>Arguments\<close>

definition get_index :: "kernel \<Rightarrow> string \<Rightarrow> int cli" where
  "get_index k name = (if if_nametoindex k name = 0 then Inl (Exit 1) else Inr (if_nametoindex k name))"

definition get_id :: "string \<Rightarrow> nat \<Rightarrow> u16 cli" where
  "get_id s max_id =
     (let n = strtol10 s
      in if 0 > n \<or> int max_id < n \<or> n = 0 \<and> (s = [] \<or> hd s \<noteq> CHR ''0'') then Inl (Return (-1))
         else Inr (of_int n))"

definition getuint :: "string \<Rightarrow> u32 cli" where
  "getuint s =
     (let (l, rest, _) = strtoul s 0
      in if s = [] \<or> rest \<noteq> [] \<or> 2 ^ 31 - 1 < sint l then Inl (Exit 1) else Inr l)"

fun getenum :: "string \<Rightarrow> (string \<times> 'a) list \<Rightarrow> 'a cli" where
  "getenum s [] = Inl (Exit 1)"
| "getenum s ((o', v) # os) = (if s = o' then Inr v else getenum s os)"

definition getyesno :: "string \<Rightarrow> bool cli" where
  "getyesno s = getenum s [(''yes'', True), (''no'', False)]"

text \<open>A number cut to 255, for a field of eight bits.\<close>

definition upto255 :: "u32 \<Rightarrow> u8" where
  "upto255 n = (if n > 255 then 255 else ucast n)"

subsection \<open>Lists of VIDs\<close>

fun split_on :: "char \<Rightarrow> string \<Rightarrow> string list" where
  "split_on c [] = [[]]"
| "split_on c (x # xs) =
     (if x = c then [] # split_on c xs
      else case split_on c xs of [] \<Rightarrow> [[x]] | p # ps \<Rightarrow> (x # p) # ps)"

definition fill :: "nat \<Rightarrow> nat \<Rightarrow> u16 \<Rightarrow> (nat \<Rightarrow> u16) \<Rightarrow> nat \<Rightarrow> u16" where
  "fill a b v array = (\<lambda>i. if a \<le> i \<and> i \<le> b then v else array i)"

text \<open>One element of a list: \<open>*\<close>, a number, or two numbers with anything between them; \<open>None\<close> is an error.\<close>

definition parse_item ::
    "nat \<Rightarrow> nat \<Rightarrow> bool \<Rightarrow> u16 \<Rightarrow> string \<Rightarrow> (nat \<Rightarrow> u16) \<Rightarrow> (nat \<Rightarrow> u16) option" where
  "parse_item max_index max_value no_zero v item array =
     (let bad = (\<lambda>i. int max_index < i \<or> no_zero \<and> i = 0);
          star = (let s = dropWhile (\<lambda>c. c = CHR '' '' \<or> of_char c = (9 :: nat)) item
                  in if s \<noteq> [] \<and> hd s = CHR ''*''
                     then Some (\<lambda>i. if (if no_zero then 1 else 0) \<le> i \<and> i \<le> max_index \<and> unat (array i) > max_value
                                    then v else array i)
                     else None)
      in case scan_d item of
           None \<Rightarrow> star
         | Some (first_index, rest) \<Rightarrow>
             if first_index < 0 then star
             else if bad first_index then None
             else case scan_d (dropWhile (\<lambda>c. \<not> is_digit 10 c) rest) of
                    None \<Rightarrow> Some (fill (nat first_index) (nat first_index) v array)
                  | Some (last_index, _) \<Rightarrow>
                      if last_index < 0 \<or> bad last_index then None
                      else Some (fill (nat (min first_index last_index)) (nat (max first_index last_index)) v array))"

definition ParseList :: "string \<Rightarrow> nat \<Rightarrow> nat \<Rightarrow> bool \<Rightarrow> (nat \<Rightarrow> u16) \<Rightarrow> (nat \<Rightarrow> u16) cli" where
  "ParseList s max_index max_value no_zero array =
     (case strchr s CHR '':'' of
        None \<Rightarrow> Inl (Return (-1))
      | Some rest \<Rightarrow>
          sum_bind (get_id (takeWhile (\<lambda>c. c \<noteq> CHR '':'') s) max_value) (\<lambda>v.
            case ofold (parse_item max_index max_value no_zero v) (split_on CHR '','' (tl rest)) array of
              None \<Rightarrow> Inl (Return (-1))
            | Some array \<Rightarrow> Inr array))"

fun ParseLists :: "string list \<Rightarrow> nat \<Rightarrow> nat \<Rightarrow> bool \<Rightarrow> (nat \<Rightarrow> u16) \<Rightarrow> (nat \<Rightarrow> u16) cli" where
  "ParseLists [] max_index max_value no_zero array = Inr array"
| "ParseLists (s # ss) max_index max_value no_zero array =
     sum_bind (ParseList s max_index max_value no_zero array) (ParseLists ss max_index max_value no_zero)"

subsection \<open>Commands\<close>

text \<open>\<open>argv\<close> is the list of the arguments with the command's name first; its length has been checked.\<close>

definition no_bridge_cfg :: CIST_BridgeConfig where
  "no_bridge_cfg = \<lparr>cfg_bridge_max_age = None, cfg_bridge_forward_delay = None, cfg_protocol_version = None,
     cfg_tx_hold_count = None, cfg_max_hops = None, cfg_bridge_hello_time = None, cfg_bridge_ageing_time = None\<rparr>"

definition no_port_cfg :: CIST_PortConfig where
  "no_port_cfg = \<lparr>cfg_admin_external_port_path_cost = None, cfg_admin_edge_port = None, cfg_auto_edge_port = None,
     cfg_admin_p2p = None, cfg_restricted_role = None, cfg_restricted_tcn = None, cfg_bpdu_guard_port = None,
     cfg_network_port = None, cfg_dont_txmt = None, cfg_bpdu_filter_port = None\<rparr>"

definition no_tree_port_cfg :: MSTI_PortConfig where
  "no_tree_port_cfg = \<lparr>cfg_admin_internal_port_path_cost = None, cfg_port_priority = None\<rparr>"

text \<open>The macros \<open>set_bridge_cfg\<close>, \<open>set_port_cfg\<close> and \<open>set_tree_port_cfg\<close> with the arguments before the value.\<close>

definition set_bridge_cfg ::
    "kernel \<Rightarrow> string list \<Rightarrow> (string \<Rightarrow> 'a cli) \<Rightarrow> ('a \<Rightarrow> CIST_BridgeConfig \<Rightarrow> CIST_BridgeConfig) \<Rightarrow> request cli" where
  "set_bridge_cfg k argv get put =
     sum_bind (get_index k (argv ! 1)) (\<lambda>i. sum_bind (get (argv ! 2)) (\<lambda>v.
       Inr (Send (set_cist_bridge_config_IN i (put v no_bridge_cfg)))))"

definition set_port_cfg ::
    "kernel \<Rightarrow> string list \<Rightarrow> (string \<Rightarrow> 'a cli) \<Rightarrow> ('a \<Rightarrow> CIST_PortConfig \<Rightarrow> CIST_PortConfig) \<Rightarrow> request cli" where
  "set_port_cfg k argv get put =
     sum_bind (get_index k (argv ! 1)) (\<lambda>i. sum_bind (get_index k (argv ! 2)) (\<lambda>j. sum_bind (get (argv ! 3)) (\<lambda>v.
       Inr (Send (set_cist_port_config_IN i j (put v no_port_cfg))))))"

definition set_tree_port_cfg ::
    "kernel \<Rightarrow> string list \<Rightarrow> (u32 \<Rightarrow> MSTI_PortConfig \<Rightarrow> MSTI_PortConfig) \<Rightarrow> request cli" where
  "set_tree_port_cfg k argv put =
     sum_bind (get_index k (argv ! 1)) (\<lambda>i. sum_bind (get_index k (argv ! 2)) (\<lambda>j.
       sum_bind (get_id (argv ! 3) MAX_MSTID) (\<lambda>t. sum_bind (getuint (argv ! 4)) (\<lambda>v.
         Inr (Send (set_msti_port_config_IN i j t (put v no_tree_port_cfg)))))))"

fun get_indices :: "kernel \<Rightarrow> string list \<Rightarrow> int list cli" where
  "get_indices k [] = Inr []"
| "get_indices k (n # ns) = sum_bind (get_index k n) (\<lambda>i. sum_bind (get_indices k ns) (\<lambda>is. Inr (i # is)))"

fun bridge_lists :: "kernel \<Rightarrow> string list \<Rightarrow> (int \<times> int list) list cli" where
  "bridge_lists k [] = Inr []"
| "bridge_lists k (n # ns) =
     sum_bind (get_index k n) (\<lambda>i.
       case brif k n of
         None \<Rightarrow> Inl (Return (-1))
       | Some ps \<Rightarrow> sum_bind (get_indices k ps) (\<lambda>is. sum_bind (bridge_lists k ns) (\<lambda>xs. Inr ((i, is) # xs))))"

definition cmd_addbridge :: "kernel \<Rightarrow> string list \<Rightarrow> request cli" where
  "cmd_addbridge k argv = sum_bind (bridge_lists k (tl argv)) (\<lambda>xs. Inr (SendAdd xs))"

definition cmd_delbridge :: "kernel \<Rightarrow> string list \<Rightarrow> request cli" where
  "cmd_delbridge k argv = sum_bind (get_indices k (tl argv)) (\<lambda>is. Inr (SendDel is))"

definition cmd_setmstconfid :: "kernel \<Rightarrow> string list \<Rightarrow> request cli" where
  "cmd_setmstconfid k argv =
     sum_bind (get_index k (argv ! 1)) (\<lambda>i. sum_bind (getuint (argv ! 2)) (\<lambda>rev.
       if rev > 0xFFFF then Inl (Return (-1))
       else Inr (Send (set_mstconfid_IN i (ucast rev)
              (let nm = take 32 (map of_char (argv ! 3)) in nm @ replicate (32 - length nm) 0)))))"

definition cmd_setbridgemaxage :: "kernel \<Rightarrow> string list \<Rightarrow> request cli" where
  "cmd_setbridgemaxage k argv = set_bridge_cfg k argv getuint (\<lambda>v c. c\<lparr>cfg_bridge_max_age := Some (upto255 v)\<rparr>)"

definition cmd_setbridgehello :: "kernel \<Rightarrow> string list \<Rightarrow> request cli" where
  "cmd_setbridgehello k argv = set_bridge_cfg k argv getuint (\<lambda>v c. c\<lparr>cfg_bridge_hello_time := Some (upto255 v)\<rparr>)"

definition cmd_setbridgefdelay :: "kernel \<Rightarrow> string list \<Rightarrow> request cli" where
  "cmd_setbridgefdelay k argv = set_bridge_cfg k argv getuint (\<lambda>v c. c\<lparr>cfg_bridge_forward_delay := Some (upto255 v)\<rparr>)"

definition cmd_setbridgemaxhops :: "kernel \<Rightarrow> string list \<Rightarrow> request cli" where
  "cmd_setbridgemaxhops k argv = set_bridge_cfg k argv getuint (\<lambda>v c. c\<lparr>cfg_max_hops := Some (upto255 v)\<rparr>)"

definition cmd_setbridgeforcevers :: "kernel \<Rightarrow> string list \<Rightarrow> request cli" where
  "cmd_setbridgeforcevers k argv =
     set_bridge_cfg k argv (\<lambda>s. getenum s [(''stp'', protoSTP), (''rstp'', protoRSTP), (''mstp'', protoMSTP)])
       (\<lambda>v c. c\<lparr>cfg_protocol_version := Some (uint (proto_num v))\<rparr>)"

definition cmd_setbridgetxholdcount :: "kernel \<Rightarrow> string list \<Rightarrow> request cli" where
  "cmd_setbridgetxholdcount k argv = set_bridge_cfg k argv getuint (\<lambda>v c. c\<lparr>cfg_tx_hold_count := Some v\<rparr>)"

definition cmd_setbridgeageing :: "kernel \<Rightarrow> string list \<Rightarrow> request cli" where
  "cmd_setbridgeageing k argv = set_bridge_cfg k argv getuint (\<lambda>v c. c\<lparr>cfg_bridge_ageing_time := Some v\<rparr>)"

definition cmd_settreeprio :: "kernel \<Rightarrow> string list \<Rightarrow> request cli" where
  "cmd_settreeprio k argv =
     sum_bind (get_index k (argv ! 1)) (\<lambda>i. sum_bind (get_id (argv ! 2) MAX_MSTID) (\<lambda>t.
       sum_bind (getuint (argv ! 3)) (\<lambda>prio. Inr (Send (set_msti_bridge_config_IN i t (upto255 prio))))))"

definition cmd_setportpathcost :: "kernel \<Rightarrow> string list \<Rightarrow> request cli" where
  "cmd_setportpathcost k argv = set_port_cfg k argv getuint (\<lambda>v c. c\<lparr>cfg_admin_external_port_path_cost := Some v\<rparr>)"

definition cmd_setportadminedge :: "kernel \<Rightarrow> string list \<Rightarrow> request cli" where
  "cmd_setportadminedge k argv = set_port_cfg k argv getyesno (\<lambda>v c. c\<lparr>cfg_admin_edge_port := Some v\<rparr>)"

definition cmd_setportautoedge :: "kernel \<Rightarrow> string list \<Rightarrow> request cli" where
  "cmd_setportautoedge k argv = set_port_cfg k argv getyesno (\<lambda>v c. c\<lparr>cfg_auto_edge_port := Some v\<rparr>)"

definition cmd_setportp2p :: "kernel \<Rightarrow> string list \<Rightarrow> request cli" where
  "cmd_setportp2p k argv =
     set_port_cfg k argv (\<lambda>s. getenum s [(''no'', p2pForceFalse), (''yes'', p2pForceTrue), (''auto'', p2pAuto)])
       (\<lambda>v c. c\<lparr>cfg_admin_p2p := Some v\<rparr>)"

definition cmd_setportrestrrole :: "kernel \<Rightarrow> string list \<Rightarrow> request cli" where
  "cmd_setportrestrrole k argv = set_port_cfg k argv getyesno (\<lambda>v c. c\<lparr>cfg_restricted_role := Some v\<rparr>)"

definition cmd_setportrestrtcn :: "kernel \<Rightarrow> string list \<Rightarrow> request cli" where
  "cmd_setportrestrtcn k argv = set_port_cfg k argv getyesno (\<lambda>v c. c\<lparr>cfg_restricted_tcn := Some v\<rparr>)"

definition cmd_setportbpduguard :: "kernel \<Rightarrow> string list \<Rightarrow> request cli" where
  "cmd_setportbpduguard k argv = set_port_cfg k argv getyesno (\<lambda>v c. c\<lparr>cfg_bpdu_guard_port := Some v\<rparr>)"

definition cmd_setportbpdufilter :: "kernel \<Rightarrow> string list \<Rightarrow> request cli" where
  "cmd_setportbpdufilter k argv = set_port_cfg k argv getyesno (\<lambda>v c. c\<lparr>cfg_bpdu_filter_port := Some v\<rparr>)"

definition cmd_setportnetwork :: "kernel \<Rightarrow> string list \<Rightarrow> request cli" where
  "cmd_setportnetwork k argv = set_port_cfg k argv getyesno (\<lambda>v c. c\<lparr>cfg_network_port := Some v\<rparr>)"

definition cmd_setportdonttxmt :: "kernel \<Rightarrow> string list \<Rightarrow> request cli" where
  "cmd_setportdonttxmt k argv = set_port_cfg k argv getyesno (\<lambda>v c. c\<lparr>cfg_dont_txmt := Some v\<rparr>)"

definition cmd_settreeportprio :: "kernel \<Rightarrow> string list \<Rightarrow> request cli" where
  "cmd_settreeportprio k argv = set_tree_port_cfg k argv (\<lambda>v c. c\<lparr>cfg_port_priority := Some (upto255 v)\<rparr>)"

definition cmd_settreeportcost :: "kernel \<Rightarrow> string list \<Rightarrow> request cli" where
  "cmd_settreeportcost k argv = set_tree_port_cfg k argv (\<lambda>v c. c\<lparr>cfg_admin_internal_port_path_cost := Some v\<rparr>)"

definition cmd_portmcheck :: "kernel \<Rightarrow> string list \<Rightarrow> request cli" where
  "cmd_portmcheck k argv =
     sum_bind (get_index k (argv ! 1)) (\<lambda>i. sum_bind (get_index k (argv ! 2)) (\<lambda>j. Inr (Send (port_mcheck_IN i j))))"

definition cmd_debuglevel :: "kernel \<Rightarrow> string list \<Rightarrow> request cli" where
  "cmd_debuglevel k argv = sum_bind (getuint (argv ! 1)) (\<lambda>l. Inr (Send (set_debug_level_IN (sint l))))"

definition cmd_createtree :: "kernel \<Rightarrow> string list \<Rightarrow> request cli" where
  "cmd_createtree k argv =
     sum_bind (get_index k (argv ! 1)) (\<lambda>i. sum_bind (get_id (argv ! 2) MAX_MSTID) (\<lambda>t. Inr (Send (create_msti_IN i t))))"

definition cmd_deletetree :: "kernel \<Rightarrow> string list \<Rightarrow> request cli" where
  "cmd_deletetree k argv =
     sum_bind (get_index k (argv ! 1)) (\<lambda>i. sum_bind (get_id (argv ! 2) MAX_MSTID) (\<lambda>t. Inr (Send (delete_msti_IN i t))))"

definition cmd_setvid2fid :: "kernel \<Rightarrow> string list \<Rightarrow> request cli" where
  "cmd_setvid2fid k argv =
     sum_bind (get_index k (argv ! 1)) (\<lambda>i. sum_bind (ParseLists (drop 2 argv) MAX_VID MAX_FID True (\<lambda>_. 0xFFFF)) (\<lambda>a.
       Inr (Send (set_vids2fids_IN i a))))"

definition cmd_setfid2mstid :: "kernel \<Rightarrow> string list \<Rightarrow> request cli" where
  "cmd_setfid2mstid k argv =
     sum_bind (get_index k (argv ! 1)) (\<lambda>i. sum_bind (ParseLists (drop 2 argv) MAX_FID MAX_MSTID False (\<lambda>_. 0xFFFF)) (\<lambda>a.
       Inr (Send (set_fids2mstids_IN i a))))"

definition cmd_show :: "kernel \<Rightarrow> string list \<Rightarrow> request cli" where
  "cmd_show k argv = Inr (Show argv)"

subsection \<open>The table of commands\<close>

record command =
  nargs :: nat
  optargs :: nat
  cmd_name :: string
  cmd_func :: "kernel \<Rightarrow> string list \<Rightarrow> request cli"

definition commands :: "command list" where
  "commands = map (\<lambda>(n, o', s, f). \<lparr>nargs = n, optargs = o', cmd_name = s, cmd_func = f\<rparr>)
    [(1, 32, ''addbridge'', cmd_addbridge), (1, 32, ''delbridge'', cmd_delbridge),
     (0, 0, ''showbridgelist'', cmd_show), (0, 32, ''showbridge'', cmd_show), (1, 0, ''showmstilist'', cmd_show),
     (1, 0, ''showmstconfid'', cmd_show), (1, 0, ''showvid2fid'', cmd_show), (1, 0, ''showfid2mstid'', cmd_show),
     (1, 32, ''showport'', cmd_show), (3, 32, ''showportparams'', cmd_show), (1, 32, ''showportdetail'', cmd_show),
     (2, 0, ''showtree'', cmd_show), (3, 0, ''showtreeport'', cmd_show),
     (3, 0, ''setmstconfid'', cmd_setmstconfid), (2, 32, ''setvid2fid'', cmd_setvid2fid),
     (2, 32, ''setfid2mstid'', cmd_setfid2mstid), (2, 0, ''setmaxage'', cmd_setbridgemaxage),
     (2, 0, ''setfdelay'', cmd_setbridgefdelay), (2, 0, ''setmaxhops'', cmd_setbridgemaxhops),
     (2, 0, ''sethello'', cmd_setbridgehello), (2, 0, ''setageing'', cmd_setbridgeageing),
     (2, 0, ''setforcevers'', cmd_setbridgeforcevers), (2, 0, ''settxholdcount'', cmd_setbridgetxholdcount),
     (2, 0, ''createtree'', cmd_createtree), (2, 0, ''deletetree'', cmd_deletetree),
     (3, 0, ''settreeprio'', cmd_settreeprio), (3, 0, ''setportpathcost'', cmd_setportpathcost),
     (3, 0, ''setportadminedge'', cmd_setportadminedge), (3, 0, ''setportautoedge'', cmd_setportautoedge),
     (3, 0, ''setportp2p'', cmd_setportp2p), (3, 0, ''setportrestrrole'', cmd_setportrestrrole),
     (3, 0, ''setportrestrtcn'', cmd_setportrestrtcn), (2, 0, ''portmcheck'', cmd_portmcheck),
     (3, 0, ''setbpduguard'', cmd_setportbpduguard), (4, 0, ''settreeportprio'', cmd_settreeportprio),
     (4, 0, ''settreeportcost'', cmd_settreeportcost), (3, 0, ''setportnetwork'', cmd_setportnetwork),
     (3, 0, ''setportdonttxmt'', cmd_setportdonttxmt), (3, 0, ''setportbpdufilter'', cmd_setportbpdufilter),
     (1, 0, ''debuglevel'', cmd_debuglevel)]"

definition command_lookup :: "string \<Rightarrow> command option" where
  "command_lookup cmd = List.find (\<lambda>c. cmd_name c = cmd) commands"

definition command_lookup_and_validate :: "string list \<Rightarrow> command option" where
  "command_lookup_and_validate argv = do {
     c \<leftarrow> command_lookup (argv ! 0);
     if length argv < nargs c + 1 \<or> length argv > nargs c + optargs c + 1 then None else Some c
   }"

subsection \<open>Batch files\<close>

text \<open>\<open>strtok\<close> with the delimiters blank and newline, into an array of \<open>argv_size\<close>; \<open>None\<close> is the answer -1.\<close>

definition split_line_into_parts :: "string \<Rightarrow> nat \<Rightarrow> string list option" where
  "split_line_into_parts line argv_size =
     (let ts = tokens (\<lambda>c. c = CHR '' '' \<or> of_char c = (10 :: nat)) line []
      in if length ts \<ge> argv_size then None else Some ts)"

definition skip_line :: "string \<Rightarrow> bool" where
  "skip_line line \<longleftrightarrow> line = [] \<or> of_char (hd line) = (10 :: nat) \<or> hd line = CHR ''#''"

text \<open>One pass over the file: \<open>lines\<close> are the strings that \<open>fgets\<close> gives, \<open>send\<close> what a request does to the daemon and
  its return code. The result is the count of commands or -1; \<open>None\<close> is the end of the process.\<close>

fun process_batch_lines ::
    "kernel \<Rightarrow> (request \<Rightarrow> 's \<Rightarrow> int \<times> 's) \<Rightarrow> bool \<Rightarrow> bool \<Rightarrow> string list \<Rightarrow> int \<Rightarrow> 's \<Rightarrow> int option \<times> 's" where
  "process_batch_lines k send run ignore [] cmds s = (Some cmds, s)"
| "process_batch_lines k send run ignore (line # lines) cmds s =
     (if skip_line line then process_batch_lines k send run ignore lines cmds s
      else case split_line_into_parts line 8 of
             None \<Rightarrow> (Some (-1), s)
           | Some [] \<Rightarrow> process_batch_lines k send run ignore lines cmds s
           | Some argv \<Rightarrow>
               (case command_lookup_and_validate argv of
                  None \<Rightarrow> if ignore then process_batch_lines k send run ignore lines cmds s else (Some (-1), s)
                | Some c \<Rightarrow>
                    if \<not> run then process_batch_lines k send run ignore lines (cmds + 1) s
                    else (case cmd_func c k argv of
                            Inl (Exit _) \<Rightarrow> (None, s)
                          | Inl (Return r) \<Rightarrow>
                              if r = 0 then process_batch_lines k send run ignore lines (cmds + 1) s
                              else if ignore then process_batch_lines k send run ignore lines cmds s
                              else (Some (-1), s)
                          | Inr q \<Rightarrow>
                              (let (r, s) = send q s
                               in if r = 0 then process_batch_lines k send run ignore lines (cmds + 1) s
                                  else if ignore then process_batch_lines k send run ignore lines cmds s
                                  else (Some (-1), s)))))"

definition process_batch_cmds ::
    "kernel \<Rightarrow> (request \<Rightarrow> 's \<Rightarrow> int \<times> 's) \<Rightarrow> bool \<Rightarrow> bool \<Rightarrow> string list \<Rightarrow> 's \<Rightarrow> int \<times> 's" where
  "process_batch_cmds k send ignore is_stdin lines s =
     (let run = (\<lambda>s. case process_batch_lines k send True ignore lines 0 s of
                       (None, s) \<Rightarrow> (1, s)
                     | (Some rc, s) \<Rightarrow> (if rc < 0 then 1 else 0, s))
      in if is_stdin then run s
         else case process_batch_lines k send False ignore lines 0 s of
                (Some rc, _) \<Rightarrow> if rc < 0 then (1, s) else if rc = 0 then (0, s) else run s
              | (None, _) \<Rightarrow> (1, s))"

end
