(* ===== verification/Ctl_Main_Theorems.thy ===== *)
theory Ctl_Main_Theorems
  imports Ctl_Main
begin

section \<open>Properties of the control program\<close>

text \<open>Reading numbers and lists of VIDs, and batch files.\<close>

subsection \<open>Numbers\<close>

lemma digit_not: "is_digit 10 c \<Longrightarrow> \<not> c_isspace c \<and> c \<noteq> CHR ''-'' \<and> c \<noteq> CHR ''+'' \<and> c \<noteq> CHR '','' \<and> c \<noteq> CHR '':''"
  by (auto simp: is_digit_def digit_val_def c_isspace_def Let_def split: if_splits)

lemma dec_hd: "\<exists>c cs. decimal n = c # cs \<and> is_digit 10 c"
  by (metis dec_nonempty dec_digits list.set_intros(1) neq_Nil_conv)

lemma take_dec: "rest = [] \<or> \<not> is_digit 10 (hd rest) \<Longrightarrow> takeWhile (is_digit 10) (decimal n @ rest) = decimal n
    \<and> dropWhile (is_digit 10) (decimal n @ rest) = rest"
  using dec_digits [of _ n] by (cases rest) (auto simp: takeWhile_append2 dropWhile_append2)

lemma scan_dec:
  assumes "rest = [] \<or> \<not> is_digit 10 (hd rest)"
  shows "scan_d (decimal n @ rest) = Some (int n, rest)"
proof -
  obtain c cs where c: "decimal n = c # cs" "is_digit 10 c" using dec_hd by blast
  have "dropWhile c_isspace (decimal n @ rest) = decimal n @ rest" "strip_sign (decimal n @ rest) = (False, decimal n @ rest)"
    using c(1) digit_not [OF c(2)] by (simp_all add: strip_sign_def)
  then show ?thesis using take_dec [OF assms] by (simp add: scan_d_def dec_value dec_nonempty)
qed

lemma strtol_dec: "n < 2 ^ 31 \<Longrightarrow> strtol10 (decimal n) = int n"
proof -
  assume n: "n < 2 ^ 31"
  obtain c cs where c: "decimal n = c # cs" "is_digit 10 c" using dec_hd by blast
  have "dropWhile c_isspace (decimal n) = decimal n" "strip_sign (decimal n) = (False, decimal n)"
    using c(1) digit_not [OF c(2)] by (simp_all add: strip_sign_def)
  moreover have "takeWhile (is_digit 10) (decimal n) = decimal n" by (simp add: dec_digits)
  then have "digits_val 10 (takeWhile (is_digit 10) (decimal n)) = n" using dec_value by metis
  ultimately show ?thesis using n by (simp add: strtol10_def)
qed

lemma get_id_dec: "n \<le> m \<Longrightarrow> m < 2 ^ 31 \<Longrightarrow> get_id (decimal n) m = Inr (of_nat n)"
  by (auto simp: get_id_def strtol_dec Let_def hd_dec_zero dec_nonempty)

subsection \<open>Lists\<close>

definition range_str :: "nat \<times> nat \<Rightarrow> string" where
  "range_str r = decimal (fst r) @ ''-'' @ decimal (snd r)"

fun commas :: "string list \<Rightarrow> string" where
  "commas [] = []"
| "commas [s] = s"
| "commas (s # ss) = s @ CHR '','' # commas ss"

lemma split_on_append: "c \<notin> set s \<Longrightarrow> split_on c (s @ c # rest) = s # split_on c rest"
  by (induction s) auto

lemma split_on_single: "c \<notin> set s \<Longrightarrow> split_on c s = [s]"
  by (induction s) auto

lemma split_commas: "(\<And>s. s \<in> set ss \<Longrightarrow> CHR '','' \<notin> set s) \<Longrightarrow> ss \<noteq> [] \<Longrightarrow> split_on CHR '','' (commas ss) = ss"
  by (induction ss rule: commas.induct) (simp_all add: split_on_append split_on_single)

lemma range_no_comma: "CHR '','' \<notin> set (range_str r)"
  using digit_not dec_digits by (fastforce simp: range_str_def)

lemma parse_range:
  assumes "a \<le> b" "b \<le> mx" "no_zero \<Longrightarrow> 0 < a"
  shows "parse_item mx mv no_zero v (range_str (a, b)) array = Some (fill a b v array)"
proof -
  have m: "\<not> is_digit 10 CHR ''-''" by (simp add: is_digit_def digit_val_def)
  obtain c cs where c: "decimal b = c # cs" "is_digit 10 c" using dec_hd by blast
  have "dropWhile (\<lambda>c. \<not> is_digit 10 c) (''-'' @ decimal b) = decimal b" using m c by simp
  moreover have "scan_d (decimal b) = Some (int b, [])" using scan_dec [of "[]" b] by simp
  ultimately show ?thesis
    using scan_dec [of "''-'' @ decimal b" a] m assms by (auto simp: parse_item_def range_str_def Let_def)
qed

lemma parse_ranges:
  assumes "list_all (\<lambda>(a, b). a \<le> b \<and> b \<le> mx \<and> (no_zero \<longrightarrow> 0 < a)) rs"
  shows "ofold (parse_item mx mv no_zero v) (map range_str rs) array =
    Some (\<lambda>i. if \<exists>(a, b) \<in> set rs. a \<le> i \<and> i \<le> b then v else array i)"
  using assms
proof (induction rs arbitrary: array)
  case (Cons r rs)
  obtain a b where r: "r = (a, b)" by fastforce
  with Cons.prems have "parse_item mx mv no_zero v (range_str r) array = Some (fill a b v array)"
    by (simp add: parse_range)
  then show ?case using Cons r by (auto simp: fill_def fun_eq_iff)
qed simp

lemma strchr_colon: "CHR '':'' \<notin> set s \<Longrightarrow> strchr (s @ CHR '':'' # rest) CHR '':'' = Some (CHR '':'' # rest)
    \<and> takeWhile (\<lambda>c. c \<noteq> CHR '':'') (s @ CHR '':'' # rest) = s"
  by (induction s) auto

subsection \<open>Batch files\<close>

definition bad_line :: "string \<Rightarrow> bool" where
  "bad_line line \<longleftrightarrow> \<not> skip_line line \<and>
     (case split_line_into_parts line 8 of
        None \<Rightarrow> True
      | Some argv \<Rightarrow> argv \<noteq> [] \<and> command_lookup_and_validate argv = None)"

text \<open>The first pass sends nothing and stops at a bad line.\<close>

lemma validating_pass:
  "process_batch_lines k send False False lines n s =
     (Some (if list_ex bad_line lines then -1
            else n + int (length (filter (\<lambda>l. \<not> skip_line l \<and> split_line_into_parts l 8 \<noteq> Some []) lines))), s)"
  by (induction lines arbitrary: n) (auto simp: bad_line_def split: option.splits list.splits)

subsection \<open>Properties\<close>

text \<open>A list of ranges of VIDs or FIDs, written as the help of \<open>setvid2fid\<close> and \<open>setfid2mstid\<close> says, is read as it was
  meant: the entries of these ranges get the value and all others keep theirs. All writes are inside the array.\<close>

theorem vlan_list_parsed:
  assumes "rs \<noteq> []" "list_all (\<lambda>(a, b). a \<le> b \<and> b \<le> mx \<and> (no_zero \<longrightarrow> 0 < a)) rs" "v \<le> mv" "mv < 2 ^ 31"
  shows "ParseList (decimal v @ '':'' @ commas (map range_str rs)) mx mv no_zero array =
    Inr (\<lambda>i. if \<exists>(a, b) \<in> set rs. a \<le> i \<and> i \<le> b then of_nat v else array i)"
proof -
  have "CHR '':'' \<notin> set (decimal v)" using digit_not dec_digits by fastforce
  moreover have "split_on CHR '','' (commas (map range_str rs)) = map range_str rs"
    by (rule split_commas) (use range_no_comma assms(1) in auto)
  ultimately show ?thesis
    using strchr_colon [of "decimal v"] get_id_dec [OF assms(3,4)] parse_ranges [OF assms(2)]
    by (simp add: ParseList_def sum_bind_def)
qed

theorem vlan_list_parsed_witness:
  "ParseList (decimal 3 @ '':'' @ commas (map range_str [(10, 12), (20, 20)])) MAX_VID MAX_FID True (\<lambda>_. 0xFFFF) =
     Inr (\<lambda>i. if \<exists>(a, b) \<in> set [(10, 12), (20, 20)]. a \<le> i \<and> i \<le> b then of_nat 3 else 0xFFFF)"
  by (rule vlan_list_parsed) (simp_all add: MAX_VID_def MAX_FID_def)

text \<open>C18: A batch file is checked before anything of it is carried out: if one of its lines has an unknown command, a
  wrong number of arguments or too many words, and errors are not to be ignored, the program fails and the daemon
  has got nothing, wherever in the file the line is.\<close>

theorem batch_all_or_nothing:
  assumes "line \<in> set lines" "bad_line line"
  shows "process_batch_cmds k send False False lines s = (1, s)"
proof -
  have "list_ex bad_line lines" using assms by (auto simp: list_ex_iff)
  then show ?thesis by (simp add: process_batch_cmds_def validating_pass)
qed

theorem batch_all_or_nothing_witness:
  "process_batch_cmds \<lparr>if_nametoindex = (\<lambda>_. 5), brif = (\<lambda>_. None)\<rparr> (\<lambda>q n. (0, n + 1)) False False
     [''sethello br0 2'', ''sethallo br0 2''] (0 :: nat) = (1, 0)"
  by (rule batch_all_or_nothing [of "''sethallo br0 2''"])
    (simp_all add: bad_line_def skip_line_def split_line_into_parts_def command_lookup_and_validate_def
      command_lookup_def commands_def Let_def)

text \<open>The check of \<open>getuint\<close> against numbers that are too large never applies where \<open>long\<close> has 32 bits: every number that
  \<open>strtoul\<close> reads in full is accepted, a negative one as its complement.\<close>

theorem getuint_accepts:
  "getuint s = (if s \<noteq> [] \<and> fst (snd (strtoul s 0)) = [] then Inr (fst (strtoul s 0)) else Inl (Exit 1))"
proof -
  have "\<not> 2 ^ 31 - 1 < sint (l :: u32)" for l
    using sint_lt [of l] by simp
  then show ?thesis by (cases "strtoul s 0") (auto simp: getuint_def)
qed

end
