(* ===== verification/Ctl_Show.thy ===== *)
theory Ctl_Show
  imports Ctl_Main_Theorems
begin

section \<open>The output of the control program\<close>

text \<open>
  The tables that \<open>showvid2fid\<close> and \<open>showfid2mstid\<close> print, and the lists of \<open>showmstilist\<close> and \<open>showmstconfid\<close>, as
  text or as JSON. \<open>decimal\<close> is the conversion \<open>%u\<close>. What is printed as text can be given to \<open>setvid2fid\<close> and
  \<open>setfid2mstid\<close> again.
\<close>

datatype format_id_t = FORMAT_PLAIN | FORMAT_JSON

definition quote2 :: string where "quote2 = [CHR 0x22]"
definition newline2 :: string where "newline2 = [CHR 0x0A]"

definition quoted2 :: "string \<Rightarrow> string" where
  "quoted2 s = quote2 @ s @ quote2"

subsection \<open>Tables\<close>

text \<open>The smallest value of the table.\<close>

definition lowest :: "nat \<Rightarrow> nat \<Rightarrow> (nat \<Rightarrow> u16) \<Rightarrow> u16" where
  "lowest lo hi t = fold (\<lambda>i cur. if cur > t i then t i else cur) [lo + 1 ..< hi + 1] (t lo)"

text \<open>
  The loop over one value: the intervals of entries that have it, and the table without them. \<open>k\<close> is the length of the
  interval being read. The entry behind the table ends the last interval.
\<close>

fun intervals :: "u16 \<Rightarrow> nat list \<Rightarrow> nat \<Rightarrow> (nat \<Rightarrow> u16) \<Rightarrow> (nat \<times> nat) list \<times> (nat \<Rightarrow> u16)" where
  "intervals cur [] k t = ([], t)"
| "intervals cur (i # is) k t =
     (if cur \<noteq> t i
      then (let (r, t') = intervals cur is 0 t in (if k \<noteq> 0 then (i - k, i - 1) # r else r, t'))
      else intervals cur is (k + 1) (t(i := 0xFFFF)))"

text \<open>The outer loop: the values in turn, each with its intervals; \<open>None\<close> when it does not end.\<close>

partial_function (option) table_rows ::
    "nat \<Rightarrow> nat \<Rightarrow> nat \<Rightarrow> (nat \<Rightarrow> u16) \<Rightarrow> (u16 \<times> (nat \<times> nat) list) list option" where
  "table_rows lo hi mx t =
     (let cur = lowest lo hi t
      in if unat cur > mx then Some []
         else (let (iv, t') = intervals cur [lo ..< hi + 2] 0 t
               in Option.bind (table_rows lo hi mx t') (\<lambda>rows. Some ((cur, iv) # rows))))"

definition interval_text :: "nat \<times> nat \<Rightarrow> string" where
  "interval_text r = decimal (fst r) @ (if snd r > fst r then ''-'' @ decimal (snd r) else [])"

fun print_intervals :: "format_id_t \<Rightarrow> char \<Rightarrow> (nat \<times> nat) list \<Rightarrow> string" where
  "print_intervals fmt first_char [] = []"
| "print_intervals fmt first_char (r # rs) =
     first_char # (if fmt = FORMAT_JSON then quoted2 (interval_text r) else interval_text r)
       @ print_intervals fmt CHR '','' rs"

text \<open>A row of the text without the name of its value.\<close>

definition row_text :: "u16 \<times> (nat \<times> nat) list \<Rightarrow> string" where
  "row_text r = decimal (unat (fst r)) @ '':'' @ print_intervals FORMAT_PLAIN CHR '' '' (snd r)"

definition row_json :: "string \<Rightarrow> string \<Rightarrow> u16 \<times> (nat \<times> nat) list \<Rightarrow> string" where
  "row_json v i r = ''{'' @ quoted2 v @ '':'' @ quoted2 (decimal (unat (fst r))) @ '','' @ quoted2 i @ '':[''
     @ print_intervals FORMAT_JSON CHR '' '' (snd r) @ '']}''"

fun separated :: "string list \<Rightarrow> string" where
  "separated [] = []"
| "separated (s # ss) = s @ concat (map (\<lambda>s. '','' @ s) ss)"

definition do_showvid2fid_fmt :: "format_id_t \<Rightarrow> (nat \<Rightarrow> u16) \<Rightarrow> string \<Rightarrow> string option" where
  "do_showvid2fid_fmt fmt tab br_name =
     map_option (\<lambda>rows. case fmt of
         FORMAT_PLAIN \<Rightarrow> br_name @ '' VID-to-FID allocation table:'' @ newline2
           @ concat (map (\<lambda>r. ''  FID '' @ row_text r @ newline2) rows)
       | FORMAT_JSON \<Rightarrow> ''{'' @ quoted2 ''bridge'' @ '':'' @ quoted2 br_name @ '','' @ quoted2 ''vid2fid'' @ '':[''
           @ separated (map (row_json ''fid'' ''vid'') rows) @ ''}'')
       (table_rows 1 MAX_VID MAX_FID (tab(MAX_VID + 1 := 0xFFFF)))"

definition do_showfid2mstid_fmt :: "format_id_t \<Rightarrow> (nat \<Rightarrow> u16) \<Rightarrow> string \<Rightarrow> string option" where
  "do_showfid2mstid_fmt fmt tab br_name =
     map_option (\<lambda>rows. case fmt of
         FORMAT_PLAIN \<Rightarrow> br_name @ '' FID-to-MSTID allocation table:'' @ newline2
           @ concat (map (\<lambda>r. ''  MSTID '' @ row_text r @ newline2) rows)
       | FORMAT_JSON \<Rightarrow> ''{'' @ quoted2 ''bridge'' @ '':'' @ quoted2 br_name @ '','' @ quoted2 ''fid2mstid'' @ '':[''
           @ separated (map (row_json ''mstid'' ''fid'') rows) @ ''}'')
       (table_rows 0 MAX_FID MAX_MSTID (tab(MAX_FID + 1 := 0xFFFF)))"

subsection \<open>Lists\<close>

definition do_showmstilist_fmt_plain :: "string \<Rightarrow> u16 list \<Rightarrow> string" where
  "do_showmstilist_fmt_plain br_name mstids = br_name @ '' list of known MSTIs:'' @ newline2
     @ concat (map (\<lambda>t. '' '' @ decimal (unat t)) mstids) @ newline2"

definition do_showmstilist_fmt_json :: "string \<Rightarrow> u16 list \<Rightarrow> string" where
  "do_showmstilist_fmt_json br_name mstids = ''{'' @ quoted2 ''bridge'' @ '':'' @ quoted2 br_name @ '','' @ quoted2 ''mstids''
     @ '':['' @ separated (map (\<lambda>t. quoted2 (decimal (unat t))) mstids) @ '']}''"

definition hex_digit :: "u8 \<Rightarrow> char" where
  "hex_digit n = ''0123456789ABCDEF'' ! unat n"

definition hex2 :: "u8 \<Rightarrow> string" where
  "hex2 b = [hex_digit (drop_bit 4 b), hex_digit (b mod 16)]"

definition name_text :: "u8 list \<Rightarrow> string" where
  "name_text bs = map (\<lambda>b. char_of (unat b)) (takeWhile (\<lambda>b. b \<noteq> 0) (take 32 bs))"

definition do_showmstconfid_fmt_plain :: "mst_configuration_identifier_t \<Rightarrow> string \<Rightarrow> string" where
  "do_showmstconfid_fmt_plain cfgid br_name =
     br_name @ '' MST Configuration Identifier:'' @ newline2
     @ ''  Format Selector:      '' @ decimal (unat (selector cfgid)) @ newline2
     @ ''  Configuration Name:   '' @ name_text (configuration_name cfgid) @ newline2
     @ ''  Revision Level:       '' @ decimal (unat (revision_level cfgid)) @ newline2
     @ ''  Configuration Digest: '' @ concat (map hex2 (configuration_digest cfgid)) @ newline2"

definition do_showmstconfid_fmt_json :: "mst_configuration_identifier_t \<Rightarrow> string \<Rightarrow> string" where
  "do_showmstconfid_fmt_json cfgid br_name =
     ''{'' @ quoted2 ''bridge'' @ '':'' @ quoted2 br_name
     @ '','' @ quoted2 ''format-selector'' @ '':'' @ quoted2 (decimal (unat (selector cfgid)))
     @ '','' @ quoted2 ''configuration-name'' @ '':'' @ quoted2 (name_text (configuration_name cfgid))
     @ '','' @ quoted2 ''revision-level'' @ '':'' @ quoted2 (decimal (unat (revision_level cfgid)))
     @ '','' @ quoted2 ''configuration-digest'' @ '':'' @ quoted2 (concat (map hex2 (configuration_digest cfgid))) @ ''}''"

subsection \<open>What the loops compute\<close>

lemma lowest_spec: "lo \<le> hi \<Longrightarrow> (\<exists>i\<in>{lo..hi}. lowest lo hi t = t i) \<and> (\<forall>i\<in>{lo..hi}. lowest lo hi t \<le> t i)"
proof (induction hi)
  case (Suc hi)
  show ?case
  proof (cases "lo \<le> hi")
    case True
    have "lowest lo (Suc hi) t = (if lowest lo hi t > t (Suc hi) then t (Suc hi) else lowest lo hi t)"
      using True by (simp add: lowest_def)
    moreover have "{lo..Suc hi} = insert (Suc hi) {lo..hi}" using True by auto
    ultimately show ?thesis using Suc.IH [OF True] by auto
  next
    case False
    then have "lo = Suc hi" using Suc.prems by simp
    then show ?thesis by (simp add: lowest_def)
  qed
qed (simp add: lowest_def)

definition covers :: "(nat \<times> nat) list \<Rightarrow> nat \<Rightarrow> bool" where
  "covers iv j \<longleftrightarrow> (\<exists>(a, b) \<in> set iv. a \<le> j \<and> j \<le> b)"

lemma intervals_spec:
  assumes "i \<le> n" "i < n \<Longrightarrow> t (n - 1) \<noteq> cur" "i = n \<Longrightarrow> k = 0" "k \<le> i" "intervals cur [i ..< n] k t = (iv, t')"
  shows "(\<forall>j. covers iv j \<longleftrightarrow> i - k \<le> j \<and> j < i \<or> i \<le> j \<and> j < n \<and> t j = cur)
    \<and> (\<forall>(a, b) \<in> set iv. i - k \<le> a \<and> a \<le> b \<and> b < n - 1)
    \<and> t' = (\<lambda>j. if i \<le> j \<and> j < n \<and> t j = cur then 0xFFFF else t j)"
  using assms
proof (induction "n - i" arbitrary: i k t iv t')
  case 0
  then show ?case by (auto simp: covers_def fun_eq_iff)
next
  case (Suc m)
  have upt: "[i ..< n] = i # [Suc i ..< n]" using Suc.hyps(2) by (simp add: upt_conv_Cons)
  have le: "m = n - Suc i" "Suc i \<le> n" using Suc.hyps(2) by simp_all
  show ?case
  proof (cases "t i = cur")
    case True
    then have more: "Suc i < n" using Suc.prems(2) le by (cases "Suc i = n") auto
    have last: "(t(i := 0xFFFF)) (n - 1) \<noteq> cur" and rest: "intervals cur [Suc i ..< n] (k + 1) (t(i := 0xFFFF)) = (iv, t')"
      using Suc.prems more True by (auto simp: upt)
    have k: "k + 1 \<le> Suc i" "Suc i - (k + 1) = i - k" "Suc i = n \<Longrightarrow> k + 1 = 0" using Suc.prems(4) more by simp_all
    note Suc.hyps(1) [OF le last k(3) k(1) rest, unfolded k(2)]
    then have IH: "\<forall>j. covers iv j \<longleftrightarrow> i - k \<le> j \<and> j < Suc i \<or> Suc i \<le> j \<and> j < n \<and> (t(i := 0xFFFF)) j = cur"
      "\<forall>(a, b) \<in> set iv. i - k \<le> a \<and> a \<le> b \<and> b < n - 1"
      "t' = (\<lambda>j. if Suc i \<le> j \<and> j < n \<and> (t(i := 0xFFFF)) j = cur then 0xFFFF else (t(i := 0xFFFF)) j)"
      by blast+
    have "covers iv j \<longleftrightarrow> i - k \<le> j \<and> j < i \<or> i \<le> j \<and> j < n \<and> t j = cur" for j
      using spec [OF IH(1), of j] True more by (cases "j = i") auto
    moreover have "t' = (\<lambda>j. if i \<le> j \<and> j < n \<and> t j = cur then 0xFFFF else t j)"
      unfolding IH(3) using True more by (auto simp: fun_eq_iff)
    ultimately show ?thesis using IH(2) by blast
  next
    case False
    obtain r where r: "intervals cur [Suc i ..< n] 0 t = (r, t')" "iv = (if k \<noteq> 0 then (i - k, i - 1) # r else r)"
      using Suc.prems(5) False by (auto simp: upt split: prod.splits)
    from Suc.hyps(1) [OF le _ _ _ r(1)] Suc.prems(2)
    have IH: "\<forall>j. covers r j \<longleftrightarrow> Suc i \<le> j \<and> j < n \<and> t j = cur" "\<forall>(a, b) \<in> set r. Suc i \<le> a \<and> a \<le> b \<and> b < n - 1"
      "t' = (\<lambda>j. if Suc i \<le> j \<and> j < n \<and> t j = cur then 0xFFFF else t j)"
      by auto
    have here: "Suc i \<le> j \<and> j < n \<and> t j = cur \<longleftrightarrow> i \<le> j \<and> j < n \<and> t j = cur" for j
      using False by (cases "j = i") auto
    have "covers iv j \<longleftrightarrow> k \<noteq> 0 \<and> i - k \<le> j \<and> j \<le> i - 1 \<or> covers r j" for j
      by (auto simp: r(2) covers_def)
    moreover have "k \<noteq> 0 \<and> i - k \<le> j \<and> j \<le> i - 1 \<longleftrightarrow> i - k \<le> j \<and> j < i" for j using Suc.prems(4) by auto
    ultimately have "\<forall>j. covers iv j \<longleftrightarrow> i - k \<le> j \<and> j < i \<or> i \<le> j \<and> j < n \<and> t j = cur"
      using IH(1) here by simp
    moreover have "\<forall>(a, b) \<in> set iv. i - k \<le> a \<and> a \<le> b \<and> b < n - 1"
      using IH(2) Suc.prems(4) le by (auto simp: r(2))
    moreover have "t' = (\<lambda>j. if i \<le> j \<and> j < n \<and> t j = cur then 0xFFFF else t j)"
      unfolding IH(3) by (simp add: fun_eq_iff here)
    ultimately show ?thesis by blast
  qed
qed

subsection \<open>A printed row is a list that can be read\<close>

lemma print_plain: "iv \<noteq> [] \<Longrightarrow> print_intervals FORMAT_PLAIN c iv = c # commas (map interval_text iv)"
proof (induction iv arbitrary: c)
  case (Cons r iv)
  then show ?case by (cases iv) simp_all
qed simp

lemma interval_no_comma: "CHR '','' \<notin> set (interval_text r)"
  using digit_not dec_digits by (fastforce simp: interval_text_def)

lemma parse_blank: "parse_item mx mv no_zero v (CHR '' '' # s) array = parse_item mx mv no_zero v s array"
  by (simp add: parse_item_def scan_d_def c_isspace_def)

lemma parse_interval:
  assumes "a \<le> b" "b \<le> mx" "no_zero \<Longrightarrow> 0 < a"
  shows "parse_item mx mv no_zero v (interval_text (a, b)) array = Some (fill a b v array)"
proof (cases "a < b")
  case True
  then show ?thesis using parse_range [OF assms] by (simp add: interval_text_def range_str_def)
next
  case False
  then have "a = b" using assms(1) by simp
  moreover have "scan_d (decimal b) = Some (int b, [])" "scan_d [] = None"
    using scan_dec [of "[]" b] by (simp_all add: scan_d_def strip_sign_def)
  ultimately show ?thesis using assms by (auto simp: interval_text_def parse_item_def Let_def)
qed

lemma parse_intervals:
  assumes "\<forall>(a, b) \<in> set iv. a \<le> b \<and> b \<le> mx \<and> (no_zero \<longrightarrow> 0 < a)"
  shows "ofold (parse_item mx mv no_zero v) (map interval_text iv) array = Some (\<lambda>i. if covers iv i then v else array i)"
  using assms
proof (induction iv arbitrary: array)
  case (Cons r iv)
  obtain a b where r: "r = (a, b)" by fastforce
  with Cons.prems have "parse_item mx mv no_zero v (interval_text r) array = Some (fill a b v array)"
    by (simp add: parse_interval)
  then show ?case using Cons r by (auto simp: fill_def fun_eq_iff covers_def)
qed (simp add: covers_def)

lemma row_parsed:
  assumes iv: "iv \<noteq> []" "\<forall>(a, b) \<in> set iv. a \<le> b \<and> b \<le> mx \<and> (no_zero \<longrightarrow> 0 < a)" and v: "unat v \<le> mv" "mv < 2 ^ 31"
  shows "ParseList (row_text (v, iv)) mx mv no_zero array = Inr (\<lambda>i. if covers iv i then v else array i)"
proof -
  obtain r rs where rs: "iv = r # rs" using iv(1) by (cases iv) auto
  have "split_on CHR '','' (commas (map interval_text iv)) = map interval_text iv"
    by (rule split_commas) (use interval_no_comma iv(1) in auto)
  then have "split_on CHR '','' (CHR '' '' # commas (map interval_text iv))
      = (CHR '' '' # interval_text r) # map interval_text rs"
    by (simp add: rs)
  moreover have "ofold (parse_item mx mv no_zero v) ((CHR '' '' # interval_text r) # map interval_text rs) array
      = Some (\<lambda>i. if covers iv i then v else array i)"
    using parse_intervals [OF iv(2), of mv v array] by (simp add: parse_blank rs)
  moreover have "CHR '':'' \<notin> set (decimal (unat v))" using digit_not dec_digits by fastforce
  ultimately show ?thesis
    using strchr_colon [of "decimal (unat v)"] get_id_dec [OF v]
    by (simp add: ParseList_def row_text_def print_plain [OF iv(1)] sum_bind_def)
qed

lemma table_rows_read:
  assumes "lo \<le> hi" "mx < 0xFFFF" "t (Suc hi) = 0xFFFF" "no_zero \<Longrightarrow> 0 < lo"
  shows "\<exists>rows. table_rows lo hi mx t = Some rows \<and> (\<forall>array. \<exists>array'. ParseLists (map row_text rows) hi mx no_zero array = Inr array'
    \<and> (\<forall>i. lo \<le> i \<and> i \<le> hi \<longrightarrow> array' i = (if unat (t i) \<le> mx then t i else array i)))"
  using assms(3)
proof (induction "card {i\<in>{lo..hi}. unat (t i) \<le> mx}" arbitrary: t rule: less_induct)
  case less
  let ?cur = "lowest lo hi t"
  obtain k where k: "k \<in> {lo..hi}" "t k = ?cur" and least: "\<forall>i\<in>{lo..hi}. ?cur \<le> t i"
    using lowest_spec [OF assms(1), of t] by auto
  show ?case
  proof (cases "unat ?cur > mx")
    case True
    then have "\<forall>i. lo \<le> i \<and> i \<le> hi \<longrightarrow> \<not> unat (t i) \<le> mx"
      using least by (auto simp: word_le_nat_alt dest!: bspec)
    moreover have "table_rows lo hi mx t = Some []" using True by (subst table_rows.simps) (simp add: Let_def)
    ultimately show ?thesis by (intro exI [of _ "[]"]) auto
  next
    case False
    obtain iv t' where iv: "intervals ?cur [lo ..< hi + 2] 0 t = (iv, t')" by fastforce
    have "?cur \<noteq> 0xFFFF" using False assms(2) by auto
    then have spec: "\<And>j. covers iv j \<longleftrightarrow> lo \<le> j \<and> j < hi + 2 \<and> t j = ?cur" "\<forall>(a, b) \<in> set iv. lo \<le> a \<and> a \<le> b \<and> b < hi + 1"
      "t' = (\<lambda>j. if lo \<le> j \<and> j < hi + 2 \<and> t j = ?cur then 0xFFFF else t j)"
      using intervals_spec [of lo "hi + 2" t ?cur 0 iv t'] iv less.prems assms(1) by auto
    have fewer: "{i\<in>{lo..hi}. unat (t' i) \<le> mx} \<subset> {i\<in>{lo..hi}. unat (t i) \<le> mx}"
      using k False assms(2) unfolding spec(3) by (intro psubsetI) (auto split: if_splits)
    then have "card {i\<in>{lo..hi}. unat (t' i) \<le> mx} < card {i\<in>{lo..hi}. unat (t i) \<le> mx}"
      by (rule psubset_card_mono [rotated]) simp
    moreover have "t' (Suc hi) = 0xFFFF" using less.prems by (simp add: spec(3))
    ultimately obtain rows where rows: "table_rows lo hi mx t' = Some rows"
      and read: "\<And>array. \<exists>array'. ParseLists (map row_text rows) hi mx no_zero array = Inr array'
        \<and> (\<forall>i. lo \<le> i \<and> i \<le> hi \<longrightarrow> array' i = (if unat (t' i) \<le> mx then t' i else array i))"
      using less.hyps [of t'] by blast
    have all: "table_rows lo hi mx t = Some ((?cur, iv) # rows)"
      using False rows by (subst table_rows.simps) (simp only: iv Let_def prod.case if_False bind.bind_lunit)
    have "covers iv k" using spec(1) k by auto
    then have "iv \<noteq> []" by (auto simp: covers_def)
    moreover have "\<forall>(a, b) \<in> set iv. a \<le> b \<and> b \<le> hi \<and> (no_zero \<longrightarrow> 0 < a)"
      using spec(2) assms(4) by fastforce
    ultimately have one: "ParseList (row_text (?cur, iv)) hi mx no_zero array = Inr (\<lambda>i. if covers iv i then ?cur else array i)" for array
      using False assms(2) by (intro row_parsed) auto
    show ?thesis
    proof (intro exI [of _ "(?cur, iv) # rows"] conjI allI all)
      fix array
      obtain array' where "ParseLists (map row_text rows) hi mx no_zero (\<lambda>i. if covers iv i then ?cur else array i) = Inr array'"
        "\<forall>i. lo \<le> i \<and> i \<le> hi \<longrightarrow> array' i = (if unat (t' i) \<le> mx then t' i else if covers iv i then ?cur else array i)"
        using read by blast
      then show "\<exists>array'. ParseLists (map row_text ((?cur, iv) # rows)) hi mx no_zero array = Inr array'
          \<and> (\<forall>i. lo \<le> i \<and> i \<le> hi \<longrightarrow> array' i = (if unat (t i) \<le> mx then t i else array i))"
        using one assms(2) False by (auto simp: sum_bind_def spec(1,3))
    qed
  qed
qed

lemma table_read_back:
  assumes "lo \<le> hi" "mx < 0xFFFF" "no_zero \<Longrightarrow> 0 < lo"
  obtains rows tab' where "table_rows lo hi mx (tab(hi + 1 := 0xFFFF)) = Some rows"
    and "ParseLists (map row_text rows) hi mx no_zero array = Inr tab'"
    and "\<And>i. lo \<le> i \<Longrightarrow> i \<le> hi \<Longrightarrow> unat (tab i) \<le> mx \<Longrightarrow> tab' i = tab i"
proof -
  let ?t = "tab(hi + 1 := 0xFFFF)"
  have last: "?t (Suc hi) = 0xFFFF" by simp
  obtain rows tab' where r: "table_rows lo hi mx ?t = Some rows" "ParseLists (map row_text rows) hi mx no_zero array = Inr tab'"
    and t: "\<forall>i. lo \<le> i \<and> i \<le> hi \<longrightarrow> tab' i = (if unat (?t i) \<le> mx then ?t i else array i)"
    using table_rows_read [OF assms(1,2) _ assms(3), of ?t] last by blast
  have "tab' i = tab i" if "lo \<le> i" "i \<le> hi" "unat (tab i) \<le> mx" for i using spec [OF t, of i] that by simp
  with r show thesis by (rule that)
qed

subsection \<open>Properties\<close>



text \<open>The same for FIDs and MSTIDs.\<close>

theorem fid_table_shown_and_set:
  assumes "\<forall>i. i \<le> MAX_FID \<longrightarrow> unat (tab i) \<le> MAX_MSTID" "get_index k br = Inr ix"
  shows "\<exists>rows tab'. do_showfid2mstid_fmt FORMAT_PLAIN tab br = Some (br @ '' FID-to-MSTID allocation table:'' @ newline2
      @ concat (map (\<lambda>r. ''  MSTID '' @ row_text r @ newline2) rows))
    \<and> cmd_setfid2mstid k (''setfid2mstid'' # br # map row_text rows) = Inr (Send (set_fids2mstids_IN ix tab'))
    \<and> (\<forall>i. i \<le> MAX_FID \<longrightarrow> tab' i = tab i)"
proof -
  obtain rows tab' where "table_rows 0 MAX_FID MAX_MSTID (tab(MAX_FID + 1 := 0xFFFF)) = Some rows"
    "ParseLists (map row_text rows) MAX_FID MAX_MSTID False (\<lambda>_. 0xFFFF) = Inr tab'"
    "\<And>i. 0 \<le> i \<Longrightarrow> i \<le> MAX_FID \<Longrightarrow> unat (tab i) \<le> MAX_MSTID \<Longrightarrow> tab' i = tab i"
    using table_read_back [of 0 MAX_FID MAX_MSTID False tab "\<lambda>_. 0xFFFF"] by (auto simp: MAX_VID_def MAX_FID_def MAX_MSTID_def)
  with assms show ?thesis
    by (intro exI [of _ rows] exI [of _ tab'])
      (simp add: do_showfid2mstid_fmt_def cmd_setfid2mstid_def sum_bind_def numeral_2_eq_2)
qed

theorem fid_table_shown_and_set_witness:
  "\<exists>rows tab'. do_showfid2mstid_fmt FORMAT_PLAIN (\<lambda>_. 0) ''br0'' =
      Some (''br0'' @ '' FID-to-MSTID allocation table:'' @ newline2 @ concat (map (\<lambda>r. ''  MSTID '' @ row_text r @ newline2) rows))
    \<and> cmd_setfid2mstid \<lparr>if_nametoindex = (\<lambda>_. 5), brif = (\<lambda>_. None)\<rparr> (''setfid2mstid'' # ''br0'' # map row_text rows)
        = Inr (Send (set_fids2mstids_IN 5 tab'))
    \<and> (\<forall>i. i \<le> MAX_FID \<longrightarrow> tab' i = 0)"
  by (rule fid_table_shown_and_set) (simp_all add: get_index_def)

text \<open>As JSON both tables lack the bracket that closes the array: of a name without brackets, whatever the table, one more
  is opened than closed.\<close>

definition brackets :: "string \<Rightarrow> int" where
  "brackets s = (\<Sum>c\<leftarrow>s. if c = CHR ''['' then 1 else if c = CHR '']'' then -1 else 0)"

lemma brackets_simps [simp]:
  "brackets [] = 0" "brackets (c # s) = (if c = CHR ''['' then 1 else if c = CHR '']'' then -1 else 0) + brackets s"
  "brackets (s @ t) = brackets s + brackets t"
  by (simp_all add: brackets_def)

lemma brackets_none: "CHR ''['' \<notin> set s \<Longrightarrow> CHR '']'' \<notin> set s \<Longrightarrow> brackets s = 0"
  by (induction s) auto

lemma brackets_decimal [simp]: "brackets (decimal n) = 0"
  by (rule brackets_none; use dec_digits [of _ n] in \<open>fastforce simp: is_digit_def digit_val_def\<close>)

lemma brackets_intervals [simp]: "c \<noteq> CHR ''['' \<Longrightarrow> c \<noteq> CHR '']'' \<Longrightarrow> brackets (print_intervals fmt c iv) = 0"
  by (induction fmt c iv rule: print_intervals.induct) (simp_all add: quoted2_def quote2_def interval_text_def)

lemma brackets_separated: "(\<And>s. s \<in> set ss \<Longrightarrow> brackets s = 0) \<Longrightarrow> brackets (separated ss) = 0"
proof (cases ss)
  case (Cons s ss')
  assume "\<And>s. s \<in> set ss \<Longrightarrow> brackets s = 0"
  moreover have "(\<And>s. s \<in> set xs \<Longrightarrow> brackets s = 0) \<Longrightarrow> brackets (concat (map ((@) '','') xs)) = 0" for xs
    by (induction xs) simp_all
  ultimately show ?thesis using Cons by auto
qed simp

theorem json_table_not_closed:
  assumes "do_showvid2fid_fmt FORMAT_JSON tab br = Some out" "CHR ''['' \<notin> set br" "CHR '']'' \<notin> set br"
  shows "brackets out = 1"
  using assms brackets_none [OF assms(2,3)]
  by (auto simp: do_showvid2fid_fmt_def quoted2_def quote2_def row_json_def intro!: brackets_separated)

end
