(* ===== verification/Spec2Isabelle.thy ===== *)
theory Spec2Isabelle
  imports Hw_Theorems Dm_Theorems Mstp_Theorems Restart_Power Ctl_Theorems Ctl_Show
begin

text \<open>
  A verification library for the programs of this repository, the packages of the firmware of a managed
  switch. Five daemons are modelled: the spanning tree daemon \<open>mstpd\<close> with its control program
  (\<open>src/mstpd\<close>), an implementation of RSTP and MSTP (802.1Q-2005, clause 13) and the largest part; the PoE
  daemon (\<open>src/realtek-poe-tfortis\<close>); the restart daemon (\<open>src/tf_ar_poe\<close>), which switches the power of
  ports off and on through the PoE daemon; the device monitor (\<open>src/tf_device_monitor\<close>), which answers
  searches and settings from the network; and the hardware daemon (\<open>src/tf_hwsys\<close>), which logs what the
  sensors report.

  \<^bold>\<open>Spanning tree.\<close> The daemon keeps one \<open>bridge_t\<close> per bridge, with lists of ports and
  of trees (the CIST and up to 64 MSTIs) and one \<open>per_tree_port_t\<close> for each pair. The rest of the
  daemon calls the functions \<open>MSTP_IN_*\<close> of \<open>mstp.c\<close>: ports come and go, links change, BPDUs
  arrive, a second passes, management sets parameters. Each changes the state and then runs the ten
  state machines of the standard until a pass over all of them, first made as a dry run, finds nothing
  to do. The machines act on the outside by the functions \<open>MSTP_OUT_*\<close>: they set the state of a
  port in the kernel, flush its addresses, set the ageing time and send BPDUs. Around this \<open>bridge_track.c\<close>
  keeps the list of bridges in step with the kernel's notifications, and \<open>ctl_socket_server.c\<close> takes
  the commands of \<open>mstpctl\<close> as datagrams.

  Pointers between the objects become references into three stores of the
  record \<open>bridge_t\<close> (\<open>port_at\<close>, \<open>tree_at\<close>, \<open>ptp_at\<close>); the lists \<open>ports\<close> and \<open>trees\<close> keep the
  order of the code's lists. External actions are appended to \<open>outs\<close>. Integers have the width of the
  code's (\<open>u8\<close>, \<open>u16\<close>, \<open>u32\<close>), so timers and counters wrap as there; fields in network order are
  kept as numbers and compared through their big-endian octets, as \<open>memcmp\<close> does.

  \<^item> \<open>Pack_Prelude\<close>: integer types, \<open>memcmp\<close> and octet images, loops that may have no result.
    \<open>C_Strings\<close>: strings of C, decimal numbers, words separated by blanks.
  \<^item> \<open>Machine\<close>: the shape of a state machine function of \<open>mstp.c\<close>, as a step that says what the
    function does next (\<open>Stop\<close>, \<open>Move\<close> with or without the recursive call, \<open>Fault\<close>), and the function
    itself, \<open>sm_run\<close>, with a bound on the depth of nested calls. The locale \<open>state_machine\<close> is the contract
    of the dry run (it changes nothing and says whether the actual run would do something) and
    \<open>settling_machine\<close> extends it by a rank that falls with each call: the machine returns, and is settled
    when it does. Both are interpreted for the machines of the code in their theories.
  \<^item> \<open>Mstp_Types\<close> (\<open>mstp.h\<close>): the structs and enumerations. \<open>Bpdu_Frame\<close>: the packed structs as octets,
    and the check of a received frame.
  \<^item> \<open>Mstp_Priority\<close>: \<open>betterorsamePriority\<close>, \<open>samePriorityAndTimers\<close>, identifiers, path costs; the locale
    \<open>priority_order\<close> is what role selection needs of the comparison.
  \<^item> \<open>Mstp_Procedures\<close>: the procedures of 13.26 and the \<open>MSTP_OUT_*\<close> functions of
    \<open>bridge_track.c\<close>.
  \<^item> \<open>Mstp_Port_Machines\<close> (timers, receive, protocol migration, bridge detection, transmit),
    \<open>Mstp_PISM\<close> (port information), \<open>Mstp_Roles\<close> (role selection), \<open>Mstp_PRTSM\<close> (role transitions),
    \<open>Mstp_State_TC\<close> (port state, topology change): the machines, each with its \<open>_begin\<close>, \<open>_run\<close> and
    the functions \<open>_to_\<close>, and their termination and effect.
  \<^item> \<open>Mstp_Run\<close>: one pass (\<open>__br_state_machines_run\<close>), the loop \<open>br_state_machines_run\<close>, and the
    functions that restart the machines.
  \<^item> \<open>Mstp_Events\<close>, \<open>Mstp_Management\<close>, \<open>Mstp_Status\<close>: the functions \<open>MSTP_IN_*\<close> that change something and
    those that read.
  \<^item> \<open>Hmac_Md5\<close> (\<open>hmac_md5.c\<close>): MD5 and HMAC, used for the configuration digest.
  \<^item> \<open>Mstp_Safety\<close>, \<open>Mstp_Invariant\<close>, \<open>Mstp_Rstp\<close>, \<open>Mstp_System\<close>, \<open>Mstp_Reach\<close>,
    \<open>Mstp_Reachable\<close>: the invariants that every machine and every event keep, up to the inductive set
    \<open>reachable\<close> of the states any sequence of events leads to.
  \<^item> \<open>Bridge_Track\<close> (\<open>bridge_track.c\<close>), \<open>Bridge_Track_Inv\<close>, \<open>Bridge_Track_Theorems\<close>: the list of bridges; the
    locale \<open>control_call\<close> is what a command of the control program may do to a bridge, interpreted for each of
    the eleven that change one.
  \<^item> \<open>Ctl_Server\<close>, \<open>Ctl_Theorems\<close> (\<open>ctl_socket_server.c\<close>, \<open>ctl_functions.h\<close>): the datagrams, down to the words of
    the lists they carry. \<open>Ctl_Main\<close>, \<open>Ctl_Main_Theorems\<close>, \<open>Ctl_Show\<close> (\<open>ctl_main.c\<close>): command lines, batch files,
    lists of VLANs and the tables that are printed.
  \<^item> \<open>Mstp_Example\<close>: a small bridge for the witnesses. \<open>Mstp_Theorems\<close>: the properties of single
    components. This theory: the properties of the protocol as a whole.

  \<^bold>\<open>Power over Ethernet.\<close> \<open>Poe_Daemon\<close> and \<open>Poe_Setup\<close> (\<open>realtek-poe-tfortis/src/main.c\<close>): packets, the
  queue of commands with its retries, replies in any pieces, the configuration and the requests over ubus.
  In \<open>Poe_Protocol\<close> the locale \<open>command\<close> is what every command keeps and \<open>handler\<close> what every handler of a
  reply keeps, interpreted for each; \<open>Poe_Theorems\<close> has the properties. \<open>Autorestart\<close> and \<open>Autorestart_Init\<close>
  (\<open>tf_ar_poe/src/autorestartd\<close>): the tests of a port, the state machine of a restart, the alarm, requests of a
  client, the configuration. In \<open>Autorestart_Safety\<close> the locale \<open>kept\<close> is an invariant of a port under any
  sequence of steps; \<open>Autorestart_Theorems\<close> has the properties. \<open>Restart_Power\<close> composes the two daemons.

  \<^bold>\<open>Device monitor.\<close> \<open>Dm_Settings\<close> (\<open>settings_module.c\<close>, \<open>parsing.c\<close>): the text of a settings message and the
  shell commands it leads to. \<open>Dm_Query\<close> (\<open>run_CLIcmd.c\<close>): the answer to a search, filled from what scripts
  print. \<open>Dm_State\<close> (\<open>state_handler.c\<close>, \<open>net_utils.c\<close>): the state machine with its buffer, checks and
  answers. \<open>Dm_Inv\<close> has the invariant of the buffers, \<open>Dm_Theorems\<close> the properties. \<open>None\<close> stands for a write
  outside an array.

  \<^bold>\<open>Hardware daemon.\<close> \<open>Hw_Regs\<close> (\<open>i2c_module.c\<close>, \<open>events_handlers.c\<close>): the table of registers, the dump of
  the microcontroller, the handlers with their static variables; \<open>Hw_Theorems\<close>.

  \<^bold>\<open>What is shown.\<close> For all reachable states of a bridge: a redundant port neither learns nor
  forwards, the kernel's state of a port is that of the flags, configured values are in range, the VLAN
  tables point to existing trees and the digest is that of the tables. The same holds for every
  bridge of the daemon after any mixture of notifications, frames and datagrams. For role
  selection: the root vector is the best of all candidates and the roles are those of an abstract
  specification. For the machines: they return (see below), the dry run is sound, the transmit machine
  keeps the hold count. For frames: which are accepted, and that a sent one is received as meant. For
  management: each call is accepted as a whole and reads back, or has no effect; the messages and the
  printed tables are read as they were meant; a batch file is carried out only if all of it is valid. For
  the PoE daemon: one answer outstanding, packets well formed, retries bounded, a restart that a failed test
  asks for reaches the MCU as off and on; and restarts are limited. For the device monitor: without the hash
  nothing is changed, with it the settings are applied, a search is answered. For the hardware daemon: a dump
  is stored as it was sent, jumps of a voltage are logged.
  Some theorems record where the code does not do what it means to: two endless recursions in \<open>mstp.c\<close>, a
  topology change that is lost, lengths that are not checked in BPDUs, in control datagrams, in replies of the
  MCU and in settings messages, a restart that hangs after a second request, an authentication that depends on
  the order of evaluation, alarms that never fire.

  \<^bold>\<open>Parameters.\<close> What is not in the repository is an argument: \<open>env\<close> the answers of the kernel about
  interfaces, \<open>abi\<close> the sizes of the structs and what \<open>malloc\<close> gives, \<open>kernel\<close> the names of interfaces for
  \<open>mstpctl\<close>, \<open>dm_env\<close> and \<open>client_env\<close> the output of scripts, the datagrams, the JSON library and what C leaves
  to the compiler, \<open>uninit\<close> the octets of a variable that was never written. Theorems hold for all of
  them, or name what they need.

  \<^bold>\<open>Bounds.\<close> The functions of \<open>mstp.c\<close> call themselves again after each transition. The argument
  \<open>fuel\<close> bounds the depth, \<open>None\<close> stands for a deeper recursion, and theorems say which depth is
  enough: 15 for the port information machine, 23 for topology change, 51 for role transitions outside
  the master role, twice the hold count and 3 for transmission; 51 for every event of a bridge without
  MSTIs. The loop \<open>br_state_machines_run\<close> ends in the code when one second of real time has passed;
  here it ends after \<open>rounds\<close> passes, and the theorems hold for every number of them. The loop that prints
  a VLAN table is a partial function, proved to end. The dump of the hardware daemon has 1000 octets and each
  entry at least two, so 1001 steps are enough. A search is answered in 14 steps of the device monitor,
  settings in 4.

  \<^bold>\<open>Not modelled.\<close> Logging; allocation failure where the code asserts or only reports it; sockets, netlink,
  epoll, threads, signals, the serial line and the i2c bus, whose data are arguments or outputs here; the drivers
  of \<open>mstpd\<close>, which accept every request; what \<open>mstpctl\<close> prints of the status of bridges, ports and trees; the
  client programs of the restart and the hardware daemon (command line and printing). The other packages are
  vendored (web interface, switch SDK), third-party tools, test programs, or scripts without C.
\<close>

section \<open>The bridge as a whole\<close>





text \<open>C2: As long as there is no MSTI every event is handled: 51 nested calls of the state
  machines are enough for any event other than the creation of an MSTI, from any reachable state,
  whatever BPDUs were received and however often the machines are run.\<close>

theorem rstp_events_return:
  assumes "reachable br" "trees br = [CIST]" "event_ok ev br" "\<not> creates_msti ev" "51 \<le> fuel"
  shows "\<exists>br'. handle fuel rounds ev br = Some br' \<and> reachable br' \<and> trees br' = [CIST]"
proof -
  obtain br' where "handle fuel rounds ev br = Some br'" "trees br' = [CIST]"
    by (rule rstp_handle [OF reachable_sys [OF assms(1)] assms(2-5)])
  with assms(1,3) show ?thesis by (auto intro: reachable.handled)
qed

theorem rstp_events_return_witness:
  "\<exists>br'. handle 51 3 (PortEnable 0 True 1000 1) one_port = Some br'
     \<and> reachable br' \<and> trees br' = [CIST]"
  by (rule rstp_events_return [OF one_port_reachable one_port_lists(2)])
    (simp_all add: event_ok_def one_port_lists)

text \<open>Role and port state belong together in every reachable state: a port is told to learn or to
  forward only where its role is Root, Designated or Master, and the CIST never has a Master port.\<close>

theorem reachable_roles:
  assumes "reachable br" "bridgeEnabled br" "p \<in> set (ports br)" "t \<in> set (trees br)"
  shows "(learn (ptp_at br p t) \<or> forward (ptp_at br p t) \<longrightarrow>
      role (ptp_at br p t) \<in> {roleRoot, roleDesignated, roleMaster})
    \<and> role (ptp_at br p CIST) \<noteq> roleMaster \<and> selectedRole (ptp_at br p CIST) \<noteq> roleMaster"
proof -
  have "PRTSM_inv (ptp_at br p t)" "cist_port_ok br p"
    using reachable_sys [OF assms(1)] assms(2-4)
    by (simp_all add: sys_inv_def pre_inv_def weak_inv_def safe_inv_def ptp_inv_def)
  then show ?thesis
    by (cases "role (ptp_at br p t)") (auto simp: PRTSM_inv_defs cist_port_ok_def)
qed

theorem reachable_roles_witness:
  "\<exists>br. reachable br \<and> bridgeEnabled br \<and> ports br = [0]
     \<and> role (ptp_at br 0 CIST) \<noteq> roleMaster
     \<and> (learn (ptp_at br 0 CIST) \<longrightarrow> role (ptp_at br 0 CIST) \<in> {roleRoot, roleDesignated, roleMaster})"
proof -
  obtain br where br: "reachable br" "bridgeEnabled br" "ports br = [0]" "trees br = [CIST]"
    "\<not> deleted (port_at br 0)" by (rule enabled_sample)
  with reachable_roles [OF br(1,2), of 0 CIST] show ?thesis by auto
qed

section \<open>Configuration\<close>

text \<open>The configured times and counts stay in the ranges of 802.1Q, and so does the relation
  between Forward Delay and Max Age, whatever management asks for; every tree has these times.\<close>

theorem reachable_ranges:
  assumes "reachable br"
  shows "6 \<le> unat (br_Max_Age br) \<and> unat (br_Max_Age br) \<le> 40
    \<and> 4 \<le> unat (br_Forward_Delay br) \<and> unat (br_Forward_Delay br) \<le> 30
    \<and> int (unat (br_Max_Age br)) \<le> 2 * (int (unat (br_Forward_Delay br)) - 1)
    \<and> 1 \<le> unat (br_Hello_Time br) \<and> unat (br_Hello_Time br) \<le> 10
    \<and> 1 \<le> unat (Transmit_Hold_Count br) \<and> unat (Transmit_Hold_Count br) \<le> 10
    \<and> (\<forall>t \<in> set (trees br). BridgeTimes (tree_at br t) =
          \<lparr>remainingHops = br_MaxHops br, Forward_Delay = br_Forward_Delay br,
           Max_Age = br_Max_Age br, Message_Age = 0, Hello_Time = br_Hello_Time br\<rparr>)"
  using reachable_sys [OF assms]
  by (auto simp: sys_inv_def pre_inv_def weak_inv_def config_ok_def ranges_ok_def times_of_def
      word_le_nat_alt)

theorem reachable_ranges_witness:
  "reachable one_port \<and> unat (br_Hello_Time one_port) \<le> 10
     \<and> int (unat (br_Max_Age one_port)) \<le> 2 * (int (unat (br_Forward_Delay one_port)) - 1)"
  using reachable_ranges [OF one_port_reachable] one_port_reachable by simp

text \<open>C32: The VLAN tables are consistent in every reachable state: every VID has a FID in range,
  every FID an MSTID of an existing tree; there are at most 64 trees, sorted by MSTID, the CIST
  first, and the list management reads is complete.\<close>

theorem reachable_vlan_tables:
  assumes "reachable br"
  shows "(\<forall>v. 1 \<le> v \<and> v \<le> MAX_VID \<longrightarrow>
        unat (vid2fid br v) \<le> MAX_FID \<and> vid2mstid br v \<in> set (trees br))
    \<and> sorted_wrt (<) (trees br) \<and> hd (trees br) = CIST
    \<and> length (trees br) \<le> MAX_IMPLEMENTATION_MSTIS + 1
    \<and> MSTP_IN_get_mstilist br = trees br"
proof -
  have "table_inv br" "wf_trees (trees br)"
    using reachable_sys [OF assms]
    by (simp_all add: sys_inv_def pre_inv_def weak_inv_def config_ok_def wf_bridge_def)
  then show ?thesis
    by (auto simp: table_inv_def wf_trees_def vid2mstid_def MSTP_IN_get_mstilist_def)
qed

theorem reachable_vlan_tables_witness:
  "reachable one_port \<and> vid2mstid one_port 1 \<in> set (trees one_port)
     \<and> MSTP_IN_get_mstilist one_port = [CIST]"
  using reachable_vlan_tables [OF one_port_reachable] one_port_reachable one_port_lists(2)
  by (auto simp: MAX_VID_def)

text \<open>C8: The digest of the MST configuration identifier is current in every reachable state: it is
  the HMAC-MD5 (RFC 2104) of the present VID to MSTID table of 4096 entries, although most of the
  functions that change the tables compute it only where they see a change.\<close>

theorem digest_is_current:
  assumes "reachable br"
  shows "configuration_digest (MstConfigId br) = hmac_spec (vid2mstid_image br) HMAC_KEY"
  using reachable_inv [OF assms] hmac_md5_spec [of "vid2mstid_image br" HMAC_KEY]
  by (simp add: digest_ok_def vid2mstid_image_length HMAC_KEY_def)

theorem digest_is_current_witness:
  "configuration_digest (MstConfigId one_port) = hmac_spec (vid2mstid_image one_port) HMAC_KEY"
  by (rule digest_is_current [OF one_port_reachable])



text \<open>Setting the FID of a VID: the answer says whether both are in range; if so the table has
  the new entry and no other change and the VLAN is in the tree of its new FID, if not the table is as it was.\<close>

theorem vid2fid_roundtrip:
  assumes "reachable br" "MSTP_IN_set_vid2fid fuel rounds vid fid br = Some (ok, br')"
  shows "(ok \<longleftrightarrow> 1 \<le> unat vid \<and> unat vid \<le> MAX_VID \<and> unat fid \<le> MAX_FID)
    \<and> vid2fid br' = (if ok then (vid2fid br)(unat vid := fid) else vid2fid br)
    \<and> (ok \<longrightarrow> vid2mstid br' (unat vid) = fid2mstid br (unat fid))"
proof (cases "vid < 1 \<or> unat vid > MAX_VID \<or> unat fid > MAX_FID")
  case True
  with assms(2) show ?thesis by (auto simp: MSTP_IN_set_vid2fid_def word_less_nat_alt)
next
  case False
  note inv = reachable_sys [OF assms(1)]
  let ?c = "fid2mstid br (unat fid) \<noteq> vid2mstid br (unat vid)"
  let ?v = "(vid2fid br)(unat vid := fid)"
  have r: "set_tables fuel rounds ?c ?v (fid2mstid br) br = Some br'" "ok"
    using assms(2) False by (auto simp: MSTP_IN_set_vid2fid_def set_tables_def tables_eqs Let_def split: if_splits)
  have "table_inv (tables ?v (fid2mstid br) br)"
    using sys_table [OF inv] False by (auto simp: table_inv_def tables_def not_less)
  from set_tables_ok(2) [OF inv this r(1)] r(2) False show ?thesis
    by (auto simp: vid2mstid_def word_less_nat_alt not_less)
qed

theorem vid2fid_roundtrip_witness:
  "\<exists>br'. MSTP_IN_set_vid2fid 51 0 7 9 one_port = Some (True, br') \<and> vid2fid br' 7 = 9"
proof -
  obtain b where "handle 51 0 (SetVid2Fid 7 9) one_port = Some b"
    using one_port_handle [of "SetVid2Fid 7 9"] by (auto simp: event_ok_def one_port_lists)
  then obtain ok where r: "MSTP_IN_set_vid2fid 51 0 7 9 one_port = Some (ok, b)"
    by (auto simp: handle_def)
  with vid2fid_roundtrip [OF one_port_reachable r] show ?thesis
    by (auto simp: MAX_VID_def MAX_FID_def)
qed

lemma take_c_string: "c_string (take n (c_string bs) @ replicate k 0) = take n (c_string bs)"
proof -
  have "b \<noteq> 0" if "b \<in> set (take n (c_string bs))" for b
    using set_takeWhileD [of b "\<lambda>b. b \<noteq> 0" bs] in_set_takeD [OF that] by (simp add: c_string_def)
  then have "takeWhile (\<lambda>b. b \<noteq> 0) (take n (c_string bs) @ replicate k 0) =
      take n (c_string bs) @ takeWhile (\<lambda>b. b \<noteq> 0) (replicate k 0)"
    by (rule takeWhile_append2)
  then show ?thesis by (simp add: c_string_def [of "_ @ _"])
qed

text \<open>Setting the MST configuration name: a name of up to 31 octets is stored so that it reads back,
  a longer one is cut; the digest is untouched.\<close>

theorem mst_name_stored:
  assumes "reachable br" "MSTP_IN_set_mst_config_id fuel rounds rvn name br = Some br'"
  shows "take 31 (c_string (configuration_name (MstConfigId br'))) = take 31 (c_string name)
    \<and> revision_level (MstConfigId br') = rvn
    \<and> configuration_digest (MstConfigId br') = configuration_digest (MstConfigId br)"
proof (cases "strncmp_differs 32 name (configuration_name (MstConfigId br)) \<or> rvn \<noteq> revision_level (MstConfigId br)")
  case False
  then have "take 31 (take 32 (c_string name)) = take 31 (take 32 (c_string (configuration_name (MstConfigId br))))"
    by (simp add: strncmp_differs_def)
  with False assms(2) show ?thesis by (simp add: MSTP_IN_set_mst_config_id_def Let_def)
next
  case True
  let ?st = "take 31 (c_string name)"
  let ?b = "br\<lparr>MstConfigId := (MstConfigId br)\<lparr>revision_level := rvn,
                configuration_name := ?st @ replicate (32 - length ?st) 0\<rparr>\<rparr>"
  have "br_state_machines_begin fuel rounds ?b = Some br'"
    using assms(2) True by (simp add: MSTP_IN_set_mst_config_id_def Let_def)
  moreover have "weak_inv ?b"
    by (rule same_weak_inv [OF _ sys_weak [OF reachable_sys [OF assms(1)]]])
      (simp add: same_weak_def config_defs cist_port_ok_def)
  ultimately have "bridge_core br' = bridge_core ?b" by (rule begin_sys(2) [rotated])
  then have "MstConfigId br' = MstConfigId ?b" by (simp add: bridge_core_def bridge_config_def)
  then show ?thesis using take_c_string [of 31 name "32 - length ?st"] by simp
qed

theorem mst_name_stored_witness:
  "\<exists>br'. MSTP_IN_set_mst_config_id 51 0 4 [97, 98, 0] one_port = Some br'
     \<and> revision_level (MstConfigId br') = 4
     \<and> take 31 (c_string (configuration_name (MstConfigId br'))) = [97, 98]"
proof -
  obtain b where r: "handle 51 0 (SetMstConfigId 4 [97, 98, 0]) one_port = Some b"
    using one_port_handle [of "SetMstConfigId 4 [97, 98, 0]"] by (auto simp: event_ok_def one_port_lists)
  then have r: "MSTP_IN_set_mst_config_id 51 0 4 [97, 98, 0] one_port = Some b" by (simp add: handle_def)
  with mst_name_stored [OF one_port_reachable r] show ?thesis by (simp add: c_string_def)
qed

text \<open>Deleting a port removes it and keeps the other ports and their order.\<close>

theorem delete_port_removes:
  assumes "reachable br" "MSTP_IN_delete_port fuel rounds p br = Some br'"
  shows "ports br' = remove1 p (ports br) \<and> p \<notin> set (ports br')"
proof -
  note pre = sys_pre [OF reachable_sys [OF assms(1)]]
  let ?d = "upd_port p (\<lambda>x. x\<lparr>deleted := True\<rparr>) br"
  have 1: "pre_inv ?d"
    using mark_deleted_pre [OF pre, of p portEnabled] by (rule back_subst [of pre_inv]) (simp add: upd_port_def)
  have 2: "pre_inv (upd_port p (\<lambda>x. x\<lparr>portEnabled := False\<rparr>) ?d)"
    by (rule keeps_pre [OF _ 1]) (intro keeps_intros, simp)
  obtain b where b: "pre_inv b" "ports b = ports br"
    "br_state_machines_run fuel rounds (b\<lparr>ports := remove1 p (ports b)\<rparr>) = Some br'"
  proof (cases "portEnabled (port_at ?d p)")
    case True
    with assms(2) obtain b where b: "br_state_machines_run fuel rounds (upd_port p (\<lambda>x. x\<lparr>portEnabled := False\<rparr>) ?d) = Some b"
      "br_state_machines_run fuel rounds (b\<lparr>ports := remove1 p (ports b)\<rparr>) = Some br'"
      by (auto simp: MSTP_IN_delete_port_def Let_def bind_eq_Some_conv)
    with run_sys [OF 2 b(1)] that [of b] show ?thesis by (auto simp: sys_inv_def bridge_core_def)
  next
    case False
    with assms(2) that [of ?d] 1 show ?thesis by (simp add: MSTP_IN_delete_port_def Let_def)
  qed
  have "bridge_core br' = bridge_core (b\<lparr>ports := remove1 p (ports b)\<rparr>)"
    by (rule run_sys(2) [OF remove_port_pre [OF b(1)] b(3)])
  moreover have "distinct (ports br)" using pre by (simp add: pre_inv_def weak_inv_def wf_bridge_def)
  ultimately show ?thesis using b(2) by (simp add: bridge_core_def)
qed

theorem delete_port_removes_witness:
  "\<exists>br'. MSTP_IN_delete_port 51 0 0 one_port = Some br' \<and> ports br' = []"
proof -
  obtain b where "handle 51 0 (PortDelete 0) one_port = Some b"
    using one_port_handle [of "PortDelete 0"] by (auto simp: event_ok_def one_port_lists)
  then have r: "MSTP_IN_delete_port 51 0 0 one_port = Some b" by (simp add: handle_def)
  with delete_port_removes [OF one_port_reachable r] one_port_lists show ?thesis by auto
qed

text \<open>Running the state machines changes no configuration: the lists of ports and trees, the
  parameters and VLAN tables of the bridge, and the identifiers, priorities and times of the trees
  are what they were.\<close>

theorem run_keeps_configuration:
  assumes "reachable br" "br_state_machines_run fuel rounds br = Some br'"
  shows "ports br' = ports br \<and> trees br' = trees br \<and> bridge_config br' = bridge_config br
    \<and> (\<forall>t. tree_config (tree_at br' t) = tree_config (tree_at br t))
    \<and> (\<forall>p. deleted (port_at br' p) = deleted (port_at br p))"
  using run_sys(2) [OF sys_pre [OF reachable_sys [OF assms(1)]] assms(2)]
  by (simp add: bridge_core_def fun_eq_iff)

theorem run_keeps_configuration_witness:
  "\<exists>br br'. reachable br \<and> br_state_machines_run 51 3 br = Some br'
     \<and> bridge_config br' = bridge_config br \<and> ports br' = [0]"
proof -
  obtain br where br: "reachable br" "bridgeEnabled br" "ports br = [0]" "trees br = [CIST]"
    "\<not> deleted (port_at br 0)" by (rule enabled_sample)
  obtain br' where r: "br_state_machines_run 51 3 br = Some br'"
    using run_returns [OF sys_pre [OF reachable_sys [OF br(1)]] br(4), of 51 3] by auto
  with run_keeps_configuration [OF br(1) r] br show ?thesis by auto
qed

end
